(* ===== verification/Prelude.thy ===== *)
theory Prelude
  imports Complex_Main "HOL-Library.AList"
begin

text \<open>
  Shared vocabulary of the development: the exceptions a Python operation of src/app can raise,
  results as sums, dictionaries as insertion ordered association lists, and the generic lemmas the
  components use.  An operation that returns nothing and may raise has type \<open>exn option \<times> state\<close>:
  the state is the one the Python object is left in, also when an exception escapes.
\<close>

named_theorems guard_simps "unfolding rules for guards and permission checks"
named_theorems step_simps "unfolding rules for state transformers"

section \<open>Exceptions\<close>

text \<open>
  One constructor per exception class.  The first group are the Python built-ins, then FastAPI's
  HTTPException with its status code and the text of its detail, then the classes of
  errors/service_error.py (the build errors carry their optional first argument).
\<close>

datatype exn =
    TypeError
  | KeyError string
  | ValueError
  | AttributeError string
  | IndexError
  | NameError string
  | UnboundLocalError string
  | ZeroDivisionError
  | OtherException string
  | SystemExit int
  | HTTPException nat string
  | BuildFailureError "string option"
  | BuildAbortError "string option"
  | BuildWarningError "string option"
  | BuildOkError "string option"
  | BuildSkipError "string option"
  | BuildFallbackError
  | BuildNotImplementedError
  | ServiceNotAvailableError
  | ServiceMajorSystemFailureError
  | ServiceTemporaryNotAvailableError
  | MethodServiceNotAvailableError
  | ServiceChangingStateError
  | MiniServiceAlreadyExistsError
  | MiniServiceDoesNotExistsError
  | MiniServiceCannotBeIdentifiedError

text \<open>
  The classes caught by \<open>except Exception\<close>.  BuildError derives from BaseException, so its
  subclasses are not, while ServiceMajorSystemFailureError derives from BufferError and is.
\<close>

fun is_Exception :: "exn \<Rightarrow> bool" where
  "is_Exception (SystemExit _) = False"
| "is_Exception (BuildFailureError _) = False"
| "is_Exception (BuildAbortError _) = False"
| "is_Exception (BuildWarningError _) = False"
| "is_Exception (BuildOkError _) = False"
| "is_Exception (BuildSkipError _) = False"
| "is_Exception BuildFallbackError = False"
| "is_Exception BuildNotImplementedError = False"
| "is_Exception ServiceNotAvailableError = False"
| "is_Exception ServiceTemporaryNotAvailableError = False"
| "is_Exception MethodServiceNotAvailableError = False"
| "is_Exception ServiceChangingStateError = False"
| "is_Exception MiniServiceAlreadyExistsError = False"
| "is_Exception MiniServiceDoesNotExistsError = False"
| "is_Exception MiniServiceCannotBeIdentifiedError = False"
| "is_Exception _ = True"

section \<open>Results\<close>

type_synonym 'a result = "exn + 'a"

definition rbind :: "'a result \<Rightarrow> ('a \<Rightarrow> 'b result) \<Rightarrow> 'b result" where
  "rbind r f = (case r of Inl e \<Rightarrow> Inl e | Inr x \<Rightarrow> f x)"

lemma rbind_simps [simp]:
  "rbind (Inl e) f = Inl e"
  "rbind (Inr x) f = f x"
  by (simp_all add: rbind_def)

lemma rbind_Inr_iff: "rbind r f = Inr y \<longleftrightarrow> (\<exists>x. r = Inr x \<and> f x = Inr y)"
  by (cases r) simp_all

lemma rbind_assoc: "rbind (rbind r f) g = rbind r (\<lambda>x. rbind (f x) g)"
  by (cases r) simp_all

text \<open>A Python \<open>for\<close> loop whose body may raise: the first exception stops it.\<close>

fun rfold :: "('x \<Rightarrow> 's \<Rightarrow> 's result) \<Rightarrow> 'x list \<Rightarrow> 's \<Rightarrow> 's result" where
  "rfold f [] s = Inr s"
| "rfold f (x # xs) s = rbind (f x s) (rfold f xs)"

lemma rfold_append: "rfold f (xs @ ys) s = rbind (rfold f xs s) (rfold f ys)"
  by (induction xs arbitrary: s) (simp_all add: rbind_def split: sum.splits)

lemma rfold_invariant:
  assumes "rfold f xs s = Inr s'" "P s"
    and "\<And>x s s'. x \<in> set xs \<Longrightarrow> P s \<Longrightarrow> f x s = Inr s' \<Longrightarrow> P s'"
  shows "P s'"
  using assms
proof (induction xs arbitrary: s)
  case (Cons x xs)
  then obtain s1 where "f x s = Inr s1" "rfold f xs s1 = Inr s'"
    by (auto simp: rbind_Inr_iff)
  with Cons show ?case
    by (meson list.set_intros)
qed simp

text \<open>A list comprehension whose element expression may raise.\<close>

fun rmap :: "('x \<Rightarrow> 'y result) \<Rightarrow> 'x list \<Rightarrow> 'y list result" where
  "rmap f [] = Inr []"
| "rmap f (x # xs) = rbind (f x) (\<lambda>y. rbind (rmap f xs) (\<lambda>ys. Inr (y # ys)))"

lemma rmap_Inr_all2:
  "rmap f xs = Inr ys \<Longrightarrow> list_all2 (\<lambda>x y. f x = Inr y) xs ys"
  by (induction xs arbitrary: ys) (auto simp: rbind_Inr_iff)

section \<open>Dictionaries\<close>

text \<open>
  A Python dict keeps the order of first insertion and an assignment to a present key keeps its
  place, which is what \<open>AList.update\<close> does on a list of pairs.
\<close>

type_synonym ('k, 'v) dict = "('k \<times> 'v) list"

abbreviation dict_get :: "('k, 'v) dict \<Rightarrow> 'k \<Rightarrow> 'v option" where
  "dict_get d k \<equiv> map_of d k"

abbreviation dict_has :: "('k, 'v) dict \<Rightarrow> 'k \<Rightarrow> bool" where
  "dict_has d k \<equiv> k \<in> fst ` set d"

lemma dict_get_update [simp]:
  "map_of (AList.update k v d) k' = (if k' = k then Some v else map_of d k')"
  by (simp add: update_conv')

lemma dict_get_delete [simp]:
  "map_of (AList.delete k d) k' = (if k' = k then None else map_of d k')"
  by (simp add: delete_conv')

lemma dict_keys_update [simp]:
  "fst ` set (AList.update k v d) = insert k (fst ` set d)"
  by (simp add: dom_update)

lemma dict_has_iff: "dict_has d k \<longleftrightarrow> (\<exists>v. map_of d k = Some v)"
  by (metis not_None_eq map_of_eq_None_iff)

section \<open>Key value stores\<close>

text \<open>
  The interface of everything in the program that is looked up by a key: the mini service store,
  the in-memory and Redis caches, the reactive subscriptions.  A provider promises the usual laws
  of lookup after an insertion and after a removal.
\<close>

locale kv_store =
  fixes init :: 'c
    and look :: "'c \<Rightarrow> 'k \<Rightarrow> 'v option"
    and put :: "'k \<Rightarrow> 'v \<Rightarrow> 'c \<Rightarrow> 'c"
    and del :: "'k \<Rightarrow> 'c \<Rightarrow> 'c"
  assumes look_init: "look init k = None"
    and look_put: "look (put k v c) k' = (if k' = k then Some v else look c k')"
    and look_del: "look (del k c) k' = (if k' = k then None else look c k')"
begin

lemma look_put_same: "look (put k v c) k = Some v"
  by (simp add: look_put)

lemma look_put_all:
  "look (fold (\<lambda>(k, v). put k v) kvs c) k =
    (case map_of (rev kvs) k of Some v \<Rightarrow> Some v | None \<Rightarrow> look c k)"
  by (induction kvs arbitrary: c)
    (auto simp: look_put map_add_def split: option.splits)

text \<open>A read-through client: a miss computes the entry from its source and stores it.\<close>

definition read_through :: "('k \<Rightarrow> 'v) \<Rightarrow> 'k \<Rightarrow> 'c \<Rightarrow> 'v \<times> 'c" where
  "read_through src k c = (case look c k of Some v \<Rightarrow> (v, c) | None \<Rightarrow> (src k, put k (src k) c))"

definition coherent :: "('k \<Rightarrow> 'v) \<Rightarrow> 'c \<Rightarrow> bool" where
  "coherent src c \<longleftrightarrow> (\<forall>k v. look c k = Some v \<longrightarrow> v = src k)"

lemma coherent_init: "coherent src init"
  by (simp add: coherent_def look_init)

lemma coherent_del: "coherent src c \<Longrightarrow> coherent src (del k c)"
  by (simp add: coherent_def look_del)

lemma read_through_value: "coherent src c \<Longrightarrow> fst (read_through src k c) = src k"
  by (auto simp: read_through_def coherent_def split: option.splits)

lemma read_through_coherent: "coherent src c \<Longrightarrow> coherent src (snd (read_through src k c))"
  by (auto simp: read_through_def coherent_def look_put split: option.splits)

lemma read_through_hit: "look (snd (read_through src k c)) k \<noteq> None"
  by (auto simp: read_through_def look_put split: option.splits)

text \<open>The source changes at one key: the cache is coherent again once that key is dropped.\<close>

lemma coherent_write_invalidate:
  "coherent src c \<Longrightarrow> coherent (src(k := v)) (del k c)"
  by (auto simp: coherent_def look_del)

lemma coherent_write_stale:
  assumes "look c k = Some w" "v \<noteq> w"
  shows "\<not> coherent (src(k := v)) c"
  using assms by (auto simp: coherent_def)

end

interpretation alist_store: kv_store "[] :: ('k, 'v) dict" map_of AList.update AList.delete
  by unfold_locales simp_all

section \<open>Lists\<close>

lemma length_filter_eq_iff: "length (filter P xs) = length xs \<longleftrightarrow> (\<forall>x\<in>set xs. P x)"
  by (metis filter_id_conv length_filter_less less_irrefl)

lemma length_filter_zero_iff: "length (filter P xs) = 0 \<longleftrightarrow> (\<forall>x\<in>set xs. \<not> P x)"
  by (simp add: filter_empty_conv)

lemma set_filter_nth: "set (filter P xs) = (\<lambda>i. xs ! i) ` {i. i < length xs \<and> P (xs ! i)}"
  by (auto simp: in_set_conv_nth)

text \<open>Python's \<open>min\<close> and \<open>max\<close> clamp used by several limits.\<close>

definition clamp :: "'a::linorder \<Rightarrow> 'a \<Rightarrow> 'a \<Rightarrow> 'a" where
  "clamp lo hi x = max lo (min hi x)"

lemma le_div_iff: "k > 0 \<Longrightarrow> n \<le> a div k \<longleftrightarrow> n * k \<le> a" for n a k :: int
proof
  assume "k > 0" "n \<le> a div k"
  then have "n * k \<le> a div k * k" by simp
  also have "\<dots> \<le> a" using \<open>k > 0\<close> by (simp add: minus_mod_eq_div_mult [symmetric])
  finally show "n * k \<le> a" .
next
  assume "k > 0" "n * k \<le> a"
  then show "n \<le> a div k" using zdiv_mono1 [of "n * k" a k] by simp
qed

section \<open>Numbers as Python prints and truncates them\<close>

definition digit_char :: "nat \<Rightarrow> char" where
  "digit_char n = ''0123456789'' ! (n mod 10)"

fun nat_str :: "nat \<Rightarrow> string" where
  "nat_str n = (if n < 10 then [digit_char n] else nat_str (n div 10) @ [digit_char n])"

declare nat_str.simps [simp del]

definition int_str :: "int \<Rightarrow> string" where
  "int_str i = (if i < 0 then ''-'' @ nat_str (nat (- i)) else nat_str (nat i))"

end
