(* ===== verification/Handlers.thy ===== *)
theory Handlers
  imports Prelude
begin

text \<open>
  decorators/handlers.py: the handlers that translate exceptions into HTTP errors.  A handler is
  the list of its \<open>except\<close> clauses in source order; a clause has the classes it names and what its
  body does.  An exception is given by its class, its arguments and its attributes, all as the
  texts the source formats; the class hierarchy is the parameter \<open>mro\<close>, the list of a class and
  its bases as Python computes it.
\<close>

section \<open>Exceptions, texts and clauses\<close>

record exc =
  exc_class :: string
  exc_args :: "string list"
  exc_attrs :: "(string \<times> string) list"

text \<open>Expressions of the clause bodies: literals, \<open>str(e)\<close>, \<open>e.args[n]\<close>, \<open>e.attr\<close>, the guarded forms
  of the last two, a choice on the truth of an attribute, and f-strings.\<close>

datatype tx =
    L string
  | Str_e
  | Arg nat
  | Arg_or nat tx
  | Attr string
  | Attr_or string tx
  | If_attr string tx tx
  | Cat "tx list"

definition quote :: tx where
  "quote = L [CHR 0x27]"

definition dquote :: tx where
  "dquote = L [CHR 0x22]"

definition truthy :: "string \<Rightarrow> bool" where
  "truthy s \<longleftrightarrow> s \<notin> {'''', ''False'', ''None'', ''0''}"

definition str_of :: "exc \<Rightarrow> string" where
  "str_of e = concat (exc_args e)"

fun tx_val :: "exc \<Rightarrow> tx \<Rightarrow> string result" where
  "tx_val e (L s) = Inr s"
| "tx_val e Str_e = Inr (str_of e)"
| "tx_val e (Arg n) = (if n < length (exc_args e) then Inr (exc_args e ! n) else Inl IndexError)"
| "tx_val e (Arg_or n t) = (if n < length (exc_args e) then Inr (exc_args e ! n) else tx_val e t)"
| "tx_val e (Attr a) = (case map_of (exc_attrs e) a of Some s \<Rightarrow> Inr s | None \<Rightarrow> Inl (AttributeError a))"
| "tx_val e (Attr_or a t) = (case map_of (exc_attrs e) a of Some s \<Rightarrow> Inr s | None \<Rightarrow> tx_val e t)"
| "tx_val e (If_attr a t u) = (case map_of (exc_attrs e) a of
      None \<Rightarrow> Inl (AttributeError a)
    | Some s \<Rightarrow> if truthy s then tx_val e t else tx_val e u)"
| "tx_val e (Cat []) = Inr []"
| "tx_val e (Cat (t # ts)) = rbind (tx_val e t) (\<lambda>s. rbind (tx_val e (Cat ts)) (\<lambda>r. Inr (s @ r)))"

datatype detail = No_detail | Text tx | Fields "(string \<times> tx) list"

text \<open>What the body of a clause does: raise an HTTPException (with a fixed status, a status looked
  up in a table by an attribute, or one read from the exception), nothing, raise TypeError because
  of a wrong keyword argument, or choose on an attribute between raising another exception and an
  HTTPException.\<close>

datatype body =
    Http nat detail
  | Http_by string "(string \<times> nat) list" nat detail
  | Http_attr string nat detail
  | Http_arg nat detail
  | Pass
  | Bad_keyword
  | Raise_if string string tx nat

type_synonym clause = "string list \<times> body"
type_synonym handler = "clause list"

datatype detail_val = No_detail_val | Text_val string | Fields_val "(string \<times> string) list"

datatype raised = Exc exc | HTTPExc string detail_val | Py exn

datatype 'a outcome = Returns 'a | Returns_None | Raises raised

fun detail_of :: "exc \<Rightarrow> detail \<Rightarrow> detail_val result" where
  "detail_of e No_detail = Inr No_detail_val"
| "detail_of e (Text t) = rbind (tx_val e t) (\<lambda>s. Inr (Text_val s))"
| "detail_of e (Fields fs) =
    rbind (rmap (\<lambda>(k, t). rbind (tx_val e t) (\<lambda>s. Inr (k, s))) fs) (\<lambda>kvs. Inr (Fields_val kvs))"

definition http :: "exc \<Rightarrow> string \<Rightarrow> detail \<Rightarrow> 'a outcome" where
  "http e st d = (case detail_of e d of Inl x \<Rightarrow> Raises (Py x) | Inr v \<Rightarrow> Raises (HTTPExc st v))"

fun run_body :: "exc \<Rightarrow> body \<Rightarrow> 'a outcome" where
  "run_body e (Http st d) = http e (nat_str st) d"
| "run_body e (Http_by a tab dflt d) = (case map_of (exc_attrs e) a of
      None \<Rightarrow> Raises (Py (AttributeError a))
    | Some s \<Rightarrow> http e (nat_str (case map_of tab s of Some st \<Rightarrow> st | None \<Rightarrow> dflt)) d)"
| "run_body e (Http_attr a dflt d) =
    http e (case map_of (exc_attrs e) a of Some s \<Rightarrow> s | None \<Rightarrow> nat_str dflt) d"
| "run_body e (Http_arg n d) =
    (if n < length (exc_args e) then http e (exc_args e ! n) d else Raises (Py IndexError))"
| "run_body e Pass = Returns_None"
| "run_body e Bad_keyword = Raises (Py TypeError)"
| "run_body e (Raise_if a cls t st) = (case map_of (exc_attrs e) a of
      None \<Rightarrow> Raises (Py (AttributeError a))
    | Some s \<Rightarrow>
        if truthy s
        then (case tx_val e t of
                Inl x \<Rightarrow> Raises (Py x)
              | Inr v \<Rightarrow> Raises (Exc \<lparr>exc_class = cls, exc_args = [v], exc_attrs = [(''id'', v)]\<rparr>))
        else http e (nat_str st) No_detail)"

definition catches :: "(string \<Rightarrow> string list) \<Rightarrow> string \<Rightarrow> clause \<Rightarrow> bool" where
  "catches mro cls c \<longleftrightarrow> list_ex (\<lambda>k. k \<in> set (mro cls)) (fst c)"

definition first_clause :: "(string \<Rightarrow> string list) \<Rightarrow> handler \<Rightarrow> string \<Rightarrow> clause option" where
  "first_clause mro h cls = find (catches mro cls) h"

text \<open>The class of what is raised, an HTTPException and a built-in error included.\<close>

fun py_class :: "exn \<Rightarrow> string" where
  "py_class TypeError = ''TypeError''"
| "py_class IndexError = ''IndexError''"
| "py_class (AttributeError _) = ''AttributeError''"
| "py_class (KeyError _) = ''KeyError''"
| "py_class ValueError = ''ValueError''"
| "py_class _ = ''Exception''"

fun raised_class :: "raised \<Rightarrow> string" where
  "raised_class (Exc e) = exc_class e"
| "raised_class (HTTPExc st d) = ''HTTPException''"
| "raised_class (Py x) = py_class x"

fun raised_exc :: "raised \<Rightarrow> exc" where
  "raised_exc (Exc e) = e"
| "raised_exc (HTTPExc st d) = \<lparr>exc_class = ''HTTPException'', exc_args = [], exc_attrs = [(''status_code'', st)]\<rparr>"
| "raised_exc (Py x) = \<lparr>exc_class = py_class x, exc_args = [], exc_attrs = []\<rparr>"

text \<open>\<open>handle\<close>: a normal return and an exception no clause names go through unchanged.\<close>

definition handle :: "(string \<Rightarrow> string list) \<Rightarrow> handler \<Rightarrow> 'a outcome \<Rightarrow> 'a outcome" where
  "handle mro h r = (case r of
       Raises x \<Rightarrow> (case first_clause mro h (raised_class x) of
           None \<Rightarrow> Raises x
         | Some c \<Rightarrow> run_body (raised_exc x) (snd c))
     | _ \<Rightarrow> r)"

abbreviation message :: "string \<Rightarrow> detail" where
  "message m \<equiv> Fields [(''message'', L m)]"

abbreviation on :: "string \<Rightarrow> body \<Rightarrow> clause" where
  "on c b \<equiv> ([c], b)"

section \<open>The handlers\<close>

definition service_availability_handler :: handler where
  "service_availability_handler = [
    on ''ServiceNotAvailableError'' (Http 500 (Text (L ''Service not available''))),
    on ''MethodServiceNotAvailableError'' (Http 500 (Text (L ''Method service not available''))),
    on ''MethodServiceNotExistsError'' (Http 500 (Text (L ''Method service does not exists''))),
    on ''ServiceTemporaryNotAvailableError'' (Http 503 (Fields [(''service'', Attr ''service''),
      (''message'', L ''Service temporary not available'')])),
    on ''ServiceNotImplementedError'' (Http 501 (Text (L ''Service not implemented''))),
    on ''MethodServiceNotImplementedError'' (Http 501 (Text (L ''Method Service not implemented''))),
    on ''StateProtocolMalFormattedError'' (Http 500 (Text (L ''State Protocol MalFormatted''))),
    on ''ServiceDoesNotExistError'' (Http 500 (Text (L ''Service does not exists'')))]"

definition template_handler :: handler where
  "template_handler = [
    on ''AssetNotFoundError'' (Http 404 (Text (L ''Asset not found''))),
    on ''TemplateNotFoundError'' (Http 404 (Text (L ''Template not found''))),
    on ''TemplateInjectError'' (Http 500 (Text (L ''Error in the template''))),
    on ''TemplateBuildError'' (Http 400 (Fields [
      (''detail'', Arg_or 0 (L ''Cannot build template with data specified'')), (''message'', L ''Template build error'')])),
    on ''TemplateValidationError'' (Http 422 (Fields [(''error'', Arg 0), (''message'', L ''Validation Error'')])),
    on ''TemplateFormatError'' (Http 422 (Fields [(''message'', L ''Template format is invalid''), (''error'', Arg 0)])),
    on ''TemplateCreationError'' (Http 500 (Fields [(''message'', L ''Failed to create template''), (''error'', Arg 0)])),
    on ''ValueError'' (Http 400 (Fields [(''message'', L ''Could not be able to properly display the value''), (''error'', Str_e)])),
    on ''SchemaValidationError'' (Http 500 (Fields [(''error'', Arg 0), (''message'', L ''Validation Error'')])),
    on ''SkipTemplateCreationError'' (Http 400 (Text (L ''Couldnt create a template'')))]"

definition websocket_handler :: handler where
  "websocket_handler = [on ''WSPathNotFoundError'' (Http 404 (message ''WS Path Not Found''))]"

definition celery_task_handler :: handler where
  "celery_task_handler = [
    on ''CeleryTaskNotFoundError'' (Http 404 (Fields [])),
    on ''CeleryTaskNameNotExistsError'' (Http 404 (Fields [])),
    on ''CelerySchedulerOptionError'' (Http 400 (Fields [])),
    on ''CeleryRedisVisibilityTimeoutError'' (Http 406 No_detail),
    on ''CeleryNotAvailableError'' (Http 501 No_detail),
    on ''QueueNotFound'' (Http 404 (Fields [])),
    on ''AlreadyRegistered'' (Http 409 (Fields [])),
    on ''NotRegistered'' (Http 400 (Fields [])),
    on ''MaxRetriesExceededError'' (Http 500 (Fields [])),
    on ''AccessRefused'' Bad_keyword]"

definition twilio_handler :: handler where
  "twilio_handler = [
    on ''TwilioPhoneNumberParseError'' (Http 400 (Fields [(''message'', L ''Twilio phone number parse error''), (''detail'', Str_e)])),
    on ''TwilioCallBusyError'' Pass,
    on ''TwilioCallNoAnswerError'' Pass,
    on ''TwilioCallFailedError'' Pass,
    on ''TwilioRestException'' (Http 400 (message ''Twilio REST API error'')),
    on ''SSLError'' (Http 500 (message ''SSL error'')),
    on ''Timeout'' (Http 504 (message ''Request timed out''))]"

definition contacts_handler :: handler where
  "contacts_handler = [
    on ''ContactNotExistsError'' (Http 404 (Fields [
      (''message'', Cat [L ''The user: '', Attr ''id'', L '' specified does not exists'']), (''ids'', Attr ''id'')])),
    on ''ContactAlreadyExistsError'' (Http 400 (Fields [
      (''message'', L ''Error could not create the user because info are already used''), (''detail'', Attr ''message'')])),
    on ''ContactDoubleOptInAlreadySetError'' (Http 400 (message ''Contact Double opt in is already set'')),
    on ''ContactOptInCodeNotMatchError'' (Http 400 (message ''Contact Opt in code does not match'')),
    on ''ContactMissingInfoKeyError'' (Http 400 (Fields [
      (''message'', Cat [L ''Contact missing '', Attr ''info_key'', L '' info key''])]))]"

abbreviation orm :: "nat \<Rightarrow> string \<Rightarrow> body" where
  "orm st m \<equiv> Http st (Fields [(''message'', L m), (''detail'', Arg 0)])"

definition tortoise_handler :: handler where
  "tortoise_handler = [
    on ''OperationalError'' (orm 500 ''Database execution error''),
    on ''ValidationError'' (orm 400 ''Validation error''),
    on ''DBConnectionError'' (orm 500 ''Database connection error''),
    on ''IntegrityError'' (orm 409 ''Integrity error''),
    on ''DoesNotExist'' (orm 404 ''Record not found''),
    on ''MultipleObjectsReturned'' (orm 500 ''Multiple objects returned''),
    on ''TransactionManagementError'' (orm 500 ''Transaction management error''),
    on ''UnSupportedError'' (orm 400 ''Unsupported operation''),
    on ''ConfigurationError'' (orm 500 ''Configuration error''),
    on ''ParamsError'' (orm 400 ''Parameters error''),
    on ''BaseORMException'' (orm 500 ''ORM error'')]"

definition security_client_handler :: handler where
  "security_client_handler = [
    on ''GroupAlreadyBlacklistedError'' (Http 400 (Fields [
      (''message'', Cat [L ''Group '', Attr ''group_id'', L '' is already blacklisted'']),
      (''group_id'', Attr ''group_id''), (''group_name'', Attr ''group_name'')])),
    on ''CouldNotCreateRefreshTokenError'' (Http 500 (message ''Could not create refresh token'')),
    on ''CouldNotCreateAuthTokenError'' (Http 500 (message ''Could not create auth token'')),
    on ''SecurityIdentityNotResolvedError'' (Http 400 (Fields [
      (''message'', Cat [L ''Both group and client can'', quote, L ''t be None''])])),
    on ''GroupIdNotMatchError'' (Http 400 (Fields [(''message'', L ''Group ID does not match''),
      (''client_group_id'', Attr ''client_group_id''), (''group_id'', Attr ''group_id'')])),
    on ''ClientDoesNotExistError'' (Http 404 (message ''Client does not exist'')),
    on ''AlreadyBlacklistedClientError'' (Http 403 (Fields [(''message'',
      If_attr ''reversed_'' (L ''Client is not blacklisted yet'') (L ''Client is already blacklisted''))])),
    on ''ClientTokenHeaderNotProvidedError'' (Http 400 (message ''Client token header not provided'')),
    on ''AuthzIdMisMatchError'' (Http 403 (message ''Authorization ID mismatch''))]"

definition value_error_handler :: handler where
  "value_error_handler = [on ''ValueError'' (Http 422 (Text (Arg 0)))]"

definition motor_error_handler :: handler where
  "motor_error_handler = [
    on ''DocumentDoesNotExistsError'' (Http 404 (Text (Cat [L ''Document with id '', dquote, Attr ''id'', dquote, L '' does not exists'']))),
    on ''DocumentPrimaryKeyConflictError'' (Http 409 (Fields [
      (''message'', Cat [L ''Document with '', dquote, Attr ''pk_field'', L '': '', Attr ''pk_value'', dquote, L '' already exists'']),
      (''model'', Attr ''model'')])),
    on ''DocumentExistsUniqueConstraintError'' (Http 400 (Fields [(''message'', Cat [L ''The document with the values entered '',
      If_attr ''exists'' (L ''already exists'') (L ''does not exists'')])])),
    on ''DocumentAddConditionError'' (Http 400 (Fields [(''message'', Attr ''message''), (''detail'', Attr ''detail'')])),
    on ''DocumentConditionWrongMethodError'' (Http 500 (Text (L ''Document condition method is wrong''))),
    on ''DocumentDoesNotExistsError'' (Http 404 (Text (Cat [L ''Document with id '', quote, Attr ''id'', quote, L '' does not exists''])))]"

definition asyncio_handler :: handler where
  "asyncio_handler = [
    on ''asyncio.CancelledError'' (Http 500 (message ''A Task was Cancelled'')),
    on ''LockNotFoundError'' (Http 500 (message ''Could not wait for the data input'')),
    on ''TimeoutError'' (Http 408 (Fields [(''message'', L ''Timeout error''), (''result'', Arg_or 0 (L ''None''))])),
    on ''asyncio.TimeoutError'' (Http 408 (Fields [(''message'', L ''Request timed out''), (''result'', Arg_or 0 (L ''None''))])),
    on ''KeepAliveTimeoutError'' (Http 408 (Fields [(''message'', L ''Request timed out''), (''result'', Arg 0)]))]"

definition reactive_handler :: handler where
  "reactive_handler = [on ''ReactiveSubjectNotFoundError'' (Http 404 (message ''subject id not found''))]"

definition stream_data_parser_handler :: handler where
  "stream_data_parser_handler = [
    on ''SequentialStateError'' (Http 409 (Text (Cat [L ''Sequential state error during data stream: '', Str_e]))),
    on ''ContinuousStateError'' (Http 422 (Text (Cat [L ''Continuous state error during data stream: '', Str_e]))),
    on ''DataParsingError'' (Http 400 (Text (Cat [L ''Error parsing stream data: '', Str_e]))),
    on ''ValidationDataError'' (Http 422 (Text (Cat [L ''Validation error in stream data: '', Str_e])))]"

definition orm_cache_handler :: handler where
  "orm_cache_handler = []"

definition fastapi_handler :: handler where
  "fastapi_handler = [on ''ResponseValidationError'' (Http 500 (Fields [
    (''message'', L ''Error while sending the response''), (''error'', Attr ''errors'')]))]"

definition global_var_handler :: handler where
  "global_var_handler = [
    on ''GlobalKeyAlreadyExistsError'' (Http 406 (Text (Cat [L ''Key '', quote, Attr ''key'', quote, L '' already exists'']))),
    on ''GlobalKeyDoesNotExistsError'' (Http 404 (Text (Cat [L ''Key '', quote, Attr ''key'', quote,
      L '' does not exists or it is not a JSON''])))]"

definition profile_handler :: handler where
  "profile_handler = [
    on ''ProfileModelTypeDoesNotExistsError'' (Http 404 No_detail),
    on ''ProfileNotAvailableError'' (Http 406 No_detail),
    on ''ProfileHasNotCapabilitiesError'' (Http 400 No_detail),
    on ''ProfileDoesNotExistsError'' (Http 404 No_detail),
    on ''ProfileNotSpecifiedError'' (Http 400 No_detail),
    on ''ProfileModelRequestBodyError'' (Http 422 (Text (Attr ''message''))),
    on ''ProfileTypeNotMatchRequest'' (Raise_if ''motor_fallback'' ''DocumentDoesNotExistsError'' (Attr ''profile'') 404)]"

definition pydantic_handler :: handler where
  "pydantic_handler = [on ''PydanticValidationError'' (Http 422 (Text (Attr ''errors'')))]"

definition vault_handler :: handler where
  "vault_handler = [
    on ''hvac.exceptions.InvalidRequest'' (Http 500 No_detail),
    on ''hvac.exceptions.Forbidden'' (Http 403 No_detail),
    on ''hvac.exceptions.Unauthorized'' (Http 401 No_detail),
    on ''requests.exceptions.ReadTimeout'' (Http 504 (Text (L ''Vault server did not respond in time'')))]"

definition mini_service_handler :: handler where
  "mini_service_handler = [
    on ''MiniServiceAlreadyExistsError'' (Http 409 (Text (L ''MiniService already exists''))),
    on ''MiniServiceDoesNotExistsError'' (Http 404 (Text (L ''MiniService does not exist''))),
    on ''MiniServiceCannotBeIdentifiedError'' (Http 400 (Text (L ''MiniService cannot be identified'')))]"

definition s3_handler :: handler where
  "s3_handler = [
    on ''S3Error'' (Http_by ''code'' [(''NoSuchKey'', 404)] 500 (Fields [(''message'', L ''S3 Service error occurred''),
      (''error_code'', Attr ''code''), (''error_message'', Attr ''message''), (''request_id'', Attr ''request_id''),
      (''resource'', Attr ''resource''), (''object_name'', Attr ''object_name'')])),
    on ''ServerError'' (Http 500 (Text (Cat [L ''Failed to build S3 Service due to server error: '', Str_e])))]"

definition file_naming_handler :: handler where
  "file_naming_handler = [
    on ''AssetTypeNotAllowedError'' (Http 400 (Text (L ''Asset type not allowed for upload.''))),
    on ''AssetTypeNotFoundError'' (Http 404 (Text (L ''Asset type not found.''))),
    on ''MultipleExtensionError'' (Http 400 (Text (L ''Multiple file extensions detected; only one is allowed.''))),
    on ''ExtensionNotAllowedError'' (Http 400 (Text (Arg_or 0 (L ''The file extension is not allowed for this asset type.'')))),
    on ''AssetConfusionError'' (Http 400 (Text (Cat [L ''XML asset filenames must start with either of those values '', quote,
      Attr ''asset_confusion'', quote, L ''. Received: '', quote, Attr ''filename'', quote])))]"

definition redis_handler :: handler where
  "redis_handler = [
    on ''redis.exceptions.AuthenticationError'' (Http 401 (Text (L ''Redis authentication failed''))),
    on ''redis.exceptions.AuthorizationError'' (Http 403 (Text (L ''Redis authorization failed''))),
    on ''redis.exceptions.ConnectionError'' (Http 503 (Text (L ''Redis service unavailable''))),
    on ''redis.exceptions.TimeoutError'' (Http 504 (Text (L ''Redis request timed out''))),
    on ''redis.exceptions.BusyLoadingError'' (Http 503 (Text (L ''Redis is loading data''))),
    on ''redis.exceptions.ReadOnlyError'' (Http 503 (Text (L ''Redis is in read-only mode''))),
    on ''redis.exceptions.OutOfMemoryError'' (Http 507 (Text (L ''Redis out of memory''))),
    on ''redis.exceptions.ClusterDownError'' (Http 503 (Text (L ''Redis cluster is down''))),
    ([''redis.exceptions.AskError'', ''redis.exceptions.MovedError''], Http 503 (Text (L ''Redis cluster redirection error''))),
    on ''redis.exceptions.NoScriptError'' (Http 500 (Text (L ''Redis Lua script not found''))),
    on ''redis.exceptions.WatchError'' (Http 503 (Text (L ''Could not commit change to a key''))),
    on ''redis.exceptions.DataError'' (Http 400 (Text (L ''Invalid data sent to Redis''))),
    on ''redis.exceptions.ResponseError'' (Http 400 (Text Str_e)),
    on ''redis.exceptions.LockError'' (Http 409 (Text (L ''Redis lock error'')))]"

definition memcached_handler :: handler where
  "memcached_handler = [on ''MemCachedTypeValueError'' Pass, on ''MemCacheNoValidKeysDefinedError'' Pass,
    on ''MemcacheClientError'' Pass, on ''MemcacheServerError'' Pass, on ''MemcacheUnexpectedCloseError'' Pass,
    on ''ValidationException'' Pass, on ''ClientException'' Pass]"

abbreviation message_error :: "nat \<Rightarrow> string \<Rightarrow> body" where
  "message_error st m \<equiv> Http st (Fields [(''message'', L m), (''error'', Str_e)])"

definition cost_handler :: handler where
  "cost_handler = [
    on ''PaymentFailedError'' (message_error 502 ''Payment gateway failure''),
    on ''InsufficientCreditsError'' (Http 402 (Fields [(''message'', L ''Insufficient credits to complete the purchase''),
      (''credit'', Attr ''credit''), (''current_balance'', Attr ''current_balance''), (''purchase_cost'', Attr ''purchase_cost'')])),
    on ''InvalidPurchaseRequestError'' (message_error 400 ''Invalid purchase request''),
    on ''CreditDeductionFailedError'' (message_error 409 ''Credit deduction failed''),
    on ''CurrencyNotSupportedError'' (message_error 400 ''Currency not supported''),
    on ''CostDefinitionNotFoundError'' (Http 404 (Fields [
      (''message'', L ''Cost definition not found could not compute the request cost''), (''plan'', Attr ''plan''),
      (''version'', Attr ''version''), (''definition'', Attr ''version'')])),
    on ''CostPlanNotFoundError'' (message_error 404 ''Product not found''),
    on ''CostLessThanZeroError'' (Http 500 (Text (Cat [L ''Trying to deduct credit but losing money instead '', Attr ''total'']))),
    on ''CostMoreThanZeroError'' (Http 500 (Text (Cat [L ''Trying to give credit but taking money instead: '', Attr ''total'']))),
    on ''CreditNotInPlanError'' (message_error 404 ''Credit does not appear in the plan''),
    on ''CostException'' (message_error 500 ''Cost processing error'')]"

definition celery_control_handler :: handler where
  "celery_control_handler = []"

abbreviation job :: "nat \<Rightarrow> body" where
  "job st \<equiv> Http st (Fields [(''job_id'', Attr ''job_id''), (''reason'', Attr ''reason'')])"

definition arq_handler :: handler where
  "arq_handler = [
    on ''ResultNotFound'' (Http 404 (Fields [(''message'', L ''Result not found''), (''reason'', Str_e)])),
    on ''JobDoesNotExistsError'' (job 404),
    on ''DataTaskNotFoundError'' (job 400),
    on ''JobAlreadyExistsError'' (job 400),
    on ''JobStatusNotValidError'' (Http 400 (Fields [(''job_id'', Attr ''job_id''), (''status'', Attr ''status'')])),
    on ''JobDequeueError'' (Http 409 (Fields [(''job_id'', Attr ''job_id'')])),
    on ''UnexpectedJobStatusError'' (Http 500 (Fields [(''job_id'', Attr ''job_id''), (''status'', Attr ''job_status'')])),
    on ''JobInProgressError'' (Http 400 (Fields [
      (''message'', Cat [L ''Cannot abort job '', Attr ''job_id'', L '' in progress'']),
      (''hint'', L ''send request with query force=True'')]))]"

definition aps_scheduler_handler :: handler where
  "aps_scheduler_handler = [on ''APSJobDoesNotExists'' (Http 404 (Text (L '''')))]"

definition upload_file_handler :: handler where
  "upload_file_handler = [
    on ''MaxFileLimitError'' (Http 400 (Text Str_e)),
    on ''DuplicateFileNameError'' (Http 400 (Text Str_e)),
    on ''InvalidExtensionError'' (Http 400 (Text Str_e)),
    on ''FileTooLargeError'' (Http 413 (Text Str_e)),
    on ''TotalFilesSizeExceededError'' (Http 413 (Text Str_e))]"

definition file_handler :: handler where
  "file_handler = [
    on ''PermissionError'' (Http 403 (Text (Cat [L ''Permission denied: You do not have access to this file. '', Str_e]))),
    on ''IsADirectoryError'' (Http 400 (Text (Cat [L ''Invalid path: The specified path is a directory, not a file. '', Str_e]))),
    on ''FileNotFoundError'' (Http 404 (Text (Cat [L ''Resource not found: '', Str_e]))),
    on ''OSError'' (Http 500 (Text (L ''An internal server error occurred while processing the file.'')))]"

abbreviation agentic :: "string \<Rightarrow> detail" where
  "agentic m \<equiv> Fields [(''message'', L m), (''body'', Attr_or ''body'' (L ''None''))]"

definition gateway_handler :: handler where
  "gateway_handler = [
    on ''aiohttp.ClientPayloadError'' (Http_arg 1 (Fields [(''message'', L ''Agentic gateway payload error''), (''body'', Arg 0)])),
    on ''AgenticUnauthorizedError'' (Http 401 (agentic ''Unauthorized to access agentic'')),
    on ''AgenticNotFoundError'' (Http 404 (agentic ''Agentic resource not found'')),
    on ''AgenticClientError'' (Http_attr ''status'' 400 (agentic ''Agentic client error'')),
    on ''AgenticGatewayError'' (Http_attr ''status'' 502 (agentic ''Agentic gateway error'')),
    on ''AgenticTimeoutError'' (Http 504 (Fields [(''message'', L ''Timeout contacting agentic''), (''detail_raw'', Str_e)])),
    on ''AgenticConnectionError'' (Http 503 (Fields [(''message'', L ''Cannot connect to agentic''), (''detail_raw'', Str_e)])),
    on ''AgenticResponseValidationError'' (Http 502 (agentic ''Invalid response from agentic''))]"

definition llm_handler :: handler where
  "llm_handler = [
    on ''LLMProviderDoesNotExistError'' (Http 404 (Fields [
      (''message'', Cat [L ''LLM provider '', quote, Attr ''provider'', quote, L '' does not exist'']), (''provider'', Attr ''provider'')])),
    on ''LLMModelNotPermittedError'' (Http 400 (Fields [
      (''message'', Cat [L ''Model '', quote, Attr ''model'', quote, L '' not permitted for provider '', quote, Attr ''provider'', quote]),
      (''provider'', Attr ''provider''), (''model'', Attr ''model''), (''available_models'', Attr ''models'')])),
    on ''LLMModelMaxTokenExceededError'' (Http 400 (Fields [
      (''message'', Cat [L ''Agent max tokens ('', Attr ''agentMaxToken'', L '') exceeds LLM limit ('', Attr ''llm_max_token'', L '')'']),
      (''provider'', Attr ''provider''), (''agent_max_tokens'', Attr ''agentMaxToken''), (''llm_max_tokens'', Attr ''llm_max_token'')])),
    on ''LLMRateLimiterError'' (Http 429 (message ''LLM provider rate limit exceeded. Please retry after some time.'')),
    on ''LLMConfigNotConfiguredError'' (Http 503 (Fields [
      (''message'', Cat [L ''LLM '', quote, Attr ''config'', quote, L '' configuration is not available'']), (''config'', Attr ''config'')]))]"

abbreviation agentic_error :: "nat \<Rightarrow> string \<Rightarrow> body" where
  "agentic_error st m \<equiv> Http st (Fields [(''message'', Str_e), (''error'', L m)])"

definition agentic_handler :: handler where
  "agentic_handler = [
    on ''AgenticServerDisconnectedError'' (agentic_error 503 ''agentic_server_disconnected''),
    on ''AgenticStreamDoneError'' (agentic_error 503 ''agentic_stream_done''),
    on ''AgenticBadResponseError'' (agentic_error 502 ''agentic_bad_response''),
    on ''AgenticGrpcIdleError'' (agentic_error 503 ''agentic_grpc_idle''),
    on ''AgenticGrpcShutdownError'' (agentic_error 503 ''agentic_grpc_shutdown'')]"

definition grpc_handler :: handler where
  "grpc_handler = []"

definition graphiti_handler :: handler where
  "graphiti_handler = []"

definition data_ingest_handler :: handler where
  "data_ingest_handler = [
    on ''AgenticDatabaseNotAllowedError'' (Http 400 (Fields [(''message'', Cat [L ''Database '', quote, Attr ''database'', quote,
      L '' is not allowed for this operation.'']), (''database'', Attr ''database'')])),
    on ''IngestConfigNotPresentError'' (Http 400 (Fields [(''message'', Cat [quote, Attr ''config_name'', quote,
      L '' Ingest configuration is not present for this operation.'']), (''database'', Attr ''database'')])),
    on ''TaskIngestNameNotValidError'' (Http 500 (Fields [(''message'', Cat [L ''Task name '', quote, Attr ''task'', quote,
      L '' is not valid for database '', quote, Attr ''database'', quote, L ''.'']),
      (''task'', Attr ''task''), (''database'', Attr ''database'')]))]"

definition custom_schema_handler :: handler where
  "custom_schema_handler = [
    on ''NoEntitiesCustomSchemaError'' (message_error 400 ''No valid entity definitions found in custom schema''),
    on ''NoEdgesCustomSchemaError'' (message_error 400 ''No valid edge definitions found in custom schema'')]"

definition embedding_handler :: handler where
  "embedding_handler = [
    on ''EmptyVectorError'' (Http 400 (Text Str_e)),
    on ''VectorDimensionMismatchError'' (Http 400 (Text Str_e)),
    on ''ZeroMagnitudeError'' (Http 400 (Text Str_e)),
    on ''InvalidExportModeError'' (Http 400 (Text Str_e)),
    on ''EmbeddingException'' (Http 500 (Text (L ''An embedding operation failed'')))]"

definition all_handlers :: "handler list" where
  "all_handlers = [service_availability_handler, template_handler, websocket_handler, celery_task_handler,
    twilio_handler, contacts_handler, tortoise_handler, security_client_handler, value_error_handler,
    motor_error_handler, asyncio_handler, reactive_handler, stream_data_parser_handler, orm_cache_handler,
    fastapi_handler, global_var_handler, profile_handler, pydantic_handler, vault_handler,
    mini_service_handler, s3_handler, file_naming_handler, redis_handler, memcached_handler, cost_handler,
    celery_control_handler, arq_handler, aps_scheduler_handler, upload_file_handler, file_handler,
    gateway_handler, llm_handler, agentic_handler, grpc_handler, graphiti_handler, data_ingest_handler,
    custom_schema_handler, embedding_handler]"

text \<open>\<open>handle_http_exception\<close> turns an HTTP error into the static page of its range.\<close>

definition handle_http_exception :: "nat \<Rightarrow> string \<times> nat" where
  "handle_http_exception code =
    (if code = 404 then (''app/static/error-404-page/index.html'', code)
     else if 400 \<le> code \<and> code < 500 then (''app/static/error-400-page/index.html'', code)
     else (''app/static/error-500-page/index.html'', code))"

text \<open>Stacked handlers: the head is the innermost one.\<close>

definition handle_all :: "(string \<Rightarrow> string list) \<Rightarrow> handler list \<Rightarrow> 'a outcome \<Rightarrow> 'a outcome" where
  "handle_all mro hs r = fold (handle mro) hs r"

section \<open>Lemmas and properties\<close>

definition caught_classes :: "handler list \<Rightarrow> string list" where
  "caught_classes hs = concat (map (\<lambda>h. concat (map fst h)) hs)"

lemma first_clause_None:
  "set (mro cls) \<inter> set (concat (map fst h)) = {} \<Longrightarrow> first_clause mro h cls = None"
  by (induction h) (auto simp: first_clause_def catches_def list_ex_iff)

lemma handle_uncaught:
  "set (mro (raised_class x)) \<inter> set (concat (map fst h)) = {} \<Longrightarrow> handle mro h (Raises x) = Raises x"
  by (simp add: handle_def first_clause_None)

lemma handle_all_uncaught:
  "set (mro (raised_class x)) \<inter> set (caught_classes hs) = {} \<Longrightarrow>
    handle_all mro hs (Raises x :: 'a outcome) = Raises x"
proof (induction hs)
  case (Cons h hs)
  then have "handle mro h (Raises x :: 'a outcome) = Raises x"
    by (intro handle_uncaught) (auto simp: caught_classes_def)
  with Cons show ?case
    by (simp add: handle_all_def caught_classes_def Int_Un_distrib)
qed (simp add: handle_all_def)

lemma handle_all_normal [simp]:
  "handle_all mro hs (Returns v) = Returns v" "handle_all mro hs Returns_None = Returns_None"
  by (induction hs) (simp_all add: handle_all_def handle_def)

lemma find_append: "find P (xs @ ys) = (case find P xs of None \<Rightarrow> find P ys | Some z \<Rightarrow> Some z)"
  by (induction xs) simp_all

text \<open>A clause is dead when whatever it catches is caught by an earlier clause.\<close>

lemma shadowed_clause:
  assumes "\<And>cls. catches mro cls c \<Longrightarrow> \<exists>d\<in>set pre. catches mro cls d"
  shows "first_clause mro (pre @ c # post) cls = first_clause mro (pre @ post) cls"
  using assms [of cls] unfolding first_clause_def find_append
  by (cases "find (catches mro cls) pre") (simp, auto simp: find_None_iff)

lemmas handler_tables =
    service_availability_handler_def template_handler_def websocket_handler_def celery_task_handler_def
    twilio_handler_def contacts_handler_def tortoise_handler_def security_client_handler_def
    value_error_handler_def motor_error_handler_def asyncio_handler_def reactive_handler_def
    stream_data_parser_handler_def orm_cache_handler_def fastapi_handler_def global_var_handler_def
    profile_handler_def pydantic_handler_def vault_handler_def mini_service_handler_def s3_handler_def
    file_naming_handler_def redis_handler_def memcached_handler_def cost_handler_def
    celery_control_handler_def arq_handler_def aps_scheduler_handler_def upload_file_handler_def
    file_handler_def gateway_handler_def llm_handler_def agentic_handler_def grpc_handler_def
    graphiti_handler_def data_ingest_handler_def custom_schema_handler_def embedding_handler_def

definition escaping :: "string list" where
  "escaping = [''HTTPException'', ''StarletteHTTPException'', ''Exception'', ''BaseException'', ''object'',
     ''BuildError'', ''BufferError'', ''ServiceMajorSystemFailureError'', ''ServiceChangingStateError'',
     ''MiniServiceStrictValueNotValidError'']"

definition free_of_escaping :: "handler \<Rightarrow> bool" where
  "free_of_escaping h \<longleftrightarrow> list_all (\<lambda>k. k \<notin> set escaping) (concat (map fst h))"

lemma handlers_free:
  "free_of_escaping service_availability_handler"
  "free_of_escaping template_handler"
  "free_of_escaping websocket_handler"
  "free_of_escaping celery_task_handler"
  "free_of_escaping twilio_handler"
  "free_of_escaping contacts_handler"
  "free_of_escaping tortoise_handler"
  "free_of_escaping security_client_handler"
  "free_of_escaping value_error_handler"
  "free_of_escaping motor_error_handler"
  "free_of_escaping asyncio_handler"
  "free_of_escaping reactive_handler"
  "free_of_escaping stream_data_parser_handler"
  "free_of_escaping orm_cache_handler"
  "free_of_escaping fastapi_handler"
  "free_of_escaping global_var_handler"
  "free_of_escaping profile_handler"
  "free_of_escaping pydantic_handler"
  "free_of_escaping vault_handler"
  "free_of_escaping mini_service_handler"
  "free_of_escaping s3_handler"
  "free_of_escaping file_naming_handler"
  "free_of_escaping redis_handler"
  "free_of_escaping memcached_handler"
  "free_of_escaping cost_handler"
  "free_of_escaping celery_control_handler"
  "free_of_escaping arq_handler"
  "free_of_escaping aps_scheduler_handler"
  "free_of_escaping upload_file_handler"
  "free_of_escaping file_handler"
  "free_of_escaping gateway_handler"
  "free_of_escaping llm_handler"
  "free_of_escaping agentic_handler"
  "free_of_escaping grpc_handler"
  "free_of_escaping graphiti_handler"
  "free_of_escaping data_ingest_handler"
  "free_of_escaping custom_schema_handler"
  "free_of_escaping embedding_handler"
  by (simp_all add: free_of_escaping_def handler_tables escaping_def)

lemma escaping_uncaught: "set escaping \<inter> set (caught_classes all_handlers) = {}"
proof -
  have "list_all free_of_escaping all_handlers"
    by (simp add: all_handlers_def handlers_free)
  then show ?thesis
    by (auto simp: caught_classes_def list_all_iff free_of_escaping_def)
qed

lemma caught_classes_mono: "set hs \<subseteq> set hs' \<Longrightarrow> set (caught_classes hs) \<subseteq> set (caught_classes hs')"
  by (auto simp: caught_classes_def)

lemma escapes_all:
  assumes "set (mro (raised_class x)) \<subseteq> set escaping" "set hs \<subseteq> set all_handlers"
  shows "handle_all mro hs (Raises x :: 'a outcome) = Raises x"
  using handle_all_uncaught [of mro x hs] assms caught_classes_mono [OF assms(2)] escaping_uncaught by blast

text \<open>Once an exception has been translated into an HTTP error, no stack of handlers around it, in
  any order and number, changes its status or its detail, given that the bases of HTTPException are
  those of the library and of Python.\<close>

theorem http_error_passes:
  assumes "set hs \<subseteq> set all_handlers"
    and "set (mro ''HTTPException'') \<subseteq> {''HTTPException'', ''StarletteHTTPException'', ''Exception'', ''BaseException'', ''object''}"
  shows "handle_all mro hs (Raises (HTTPExc st d)) = (Raises (HTTPExc st d) :: 'a outcome)"
proof (rule escapes_all [OF _ assms(1)])
  show "set (mro (raised_class (HTTPExc st d))) \<subseteq> set escaping"
    unfolding raised_class.simps by (rule subset_trans [OF assms(2)]) (simp add: escaping_def)
qed

definition example_mro :: "string \<Rightarrow> string list" where
  "example_mro c =
    (if c = ''HTTPException'' then [c, ''StarletteHTTPException'', ''Exception'', ''BaseException'', ''object'']
     else if c = ''ServiceMajorSystemFailureError'' then [c, ''BufferError'', ''Exception'', ''BaseException'', ''object'']
     else if c = ''ServiceChangingStateError'' then [c, ''BuildError'', ''BaseException'', ''object'']
     else [c, ''Exception'', ''BaseException'', ''object''])"

theorem http_error_passes_witness:
  "handle_all example_mro [cost_handler, redis_handler, value_error_handler]
      (Raises (HTTPExc ''402'' No_detail_val)) = (Raises (HTTPExc ''402'' No_detail_val) :: nat outcome)"
  by (rule http_error_passes) (simp_all add: all_handlers_def example_mro_def)

text \<open>Two of the errors of the service guard, the one of a major failure and the one of a service
  that is changing its state, are named by no handler: with the bases errors/service_error.py gives
  them they leave every stack of handlers as they are.\<close>

theorem guard_errors_escape:
  assumes "set hs \<subseteq> set all_handlers"
    and "mro ''ServiceMajorSystemFailureError'' =
      [''ServiceMajorSystemFailureError'', ''BufferError'', ''Exception'', ''BaseException'', ''object'']"
    and "mro ''ServiceChangingStateError'' = [''ServiceChangingStateError'', ''BuildError'', ''BaseException'', ''object'']"
    and "exc_class e = ''ServiceMajorSystemFailureError'' \<or> exc_class e = ''ServiceChangingStateError''"
  shows "handle_all mro hs (Raises (Exc e)) = (Raises (Exc e) :: 'a outcome)"
  by (rule escapes_all [OF _ assms(1)]) (use assms(4) in \<open>elim disjE; simp add: assms(2,3) escaping_def\<close>)

theorem guard_errors_escape_witness:
  "handle_all example_mro [service_availability_handler, mini_service_handler]
      (Raises (Exc \<lparr>exc_class = ''ServiceMajorSystemFailureError'', exc_args = [], exc_attrs = []\<rparr>))
    = (Raises (Exc \<lparr>exc_class = ''ServiceMajorSystemFailureError'', exc_args = [], exc_attrs = []\<rparr>) :: nat outcome)"
  by (rule guard_errors_escape) (simp_all add: all_handlers_def example_mro_def)

text \<open>Whatever the class hierarchy, every exception the memcached handler names, and the busy, no
  answer and failed call errors under the Twilio handler, turn into a normal return of None, and a
  refused broker connection under the Celery handler raises TypeError instead of a 503.\<close>

theorem swallowed_errors:
  assumes "first_clause mro memcached_handler cls \<noteq> None"
    and "''TwilioCallBusyError'' \<in> set (mro ''TwilioCallBusyError'')"
    and "''TwilioPhoneNumberParseError'' \<notin> set (mro ''TwilioCallBusyError'')"
    and "''AccessRefused'' \<in> set (mro ''AccessRefused'')"
    and "set (mro ''AccessRefused'') \<inter> set (caught_classes [butlast celery_task_handler]) = {}"
  shows "handle mro memcached_handler (Raises (Exc \<lparr>exc_class = cls, exc_args = xs, exc_attrs = ys\<rparr>))
        = (Returns_None :: 'a outcome)
    \<and> handle mro twilio_handler (Raises (Exc \<lparr>exc_class = ''TwilioCallBusyError'', exc_args = xs, exc_attrs = ys\<rparr>))
        = (Returns_None :: 'a outcome)
    \<and> handle mro celery_task_handler (Raises (Exc \<lparr>exc_class = ''AccessRefused'', exc_args = xs, exc_attrs = ys\<rparr>))
        = (Raises (Py TypeError) :: 'a outcome)"
proof (intro conjI)
  show "handle mro memcached_handler (Raises (Exc \<lparr>exc_class = cls, exc_args = xs, exc_attrs = ys\<rparr>))
      = (Returns_None :: 'a outcome)"
    using assms(1)
    by (auto simp: handle_def first_clause_def memcached_handler_def split: if_splits)
  show "handle mro twilio_handler (Raises (Exc \<lparr>exc_class = ''TwilioCallBusyError'', exc_args = xs, exc_attrs = ys\<rparr>))
      = (Returns_None :: 'a outcome)"
    by (simp add: handle_def first_clause_def catches_def assms(2,3) twilio_handler_def)
  have "first_clause mro (butlast celery_task_handler) ''AccessRefused'' = None"
    using assms(5) by (intro first_clause_None) (simp add: caught_classes_def)
  then have "first_clause mro celery_task_handler ''AccessRefused'' = Some ([''AccessRefused''], Bad_keyword)"
    using assms(4) unfolding first_clause_def celery_task_handler_def
    by (simp add: catches_def split: if_splits)
  then show "handle mro celery_task_handler (Raises (Exc \<lparr>exc_class = ''AccessRefused'', exc_args = xs, exc_attrs = ys\<rparr>))
      = (Raises (Py TypeError) :: 'a outcome)"
    by (simp add: handle_def)
qed

theorem swallowed_errors_witness:
  "handle example_mro memcached_handler (Raises (Exc \<lparr>exc_class = ''MemcacheServerError'', exc_args = [], exc_attrs = []\<rparr>))
    = (Returns_None :: nat outcome)"
proof -
  have "first_clause example_mro memcached_handler ''MemcacheServerError'' \<noteq> None"
    by (simp add: first_clause_def catches_def memcached_handler_def example_mro_def)
  moreover have "set (example_mro ''AccessRefused'') \<inter> set (caught_classes [butlast celery_task_handler]) = {}"
    by (simp add: caught_classes_def celery_task_handler_def example_mro_def)
  ultimately show ?thesis
    using swallowed_errors [where ?'a = nat and mro = example_mro and cls = "''MemcacheServerError''"
        and xs = "[]" and ys = "[]"]
    by (simp add: example_mro_def)
qed

end
