(* ===== verification/Security_Tokens.thy ===== *)
theory Security_Tokens
  imports Prelude
begin

text \<open>
  services/security_service.py: the tokens of clients, refreshes, contacts and web sockets, their
  status over time, and the checks of origin, server key and password; and the authentication
  middleware of server/middleware.py that uses them.  Signing and encryption are outside the
  repository: a token is made by \<open>seal key payload\<close> and read by \<open>unseal key token\<close>, and what is
  relied on is that reading with the key of the making gives the payload back.
\<close>

section \<open>Payloads\<close>

datatype pv = PNum rat | PStr string | PNone

type_synonym payload = "(string, pv) dict"

definition need :: "payload \<Rightarrow> string \<Rightarrow> pv result" where
  "need p k = (case map_of p k of None \<Rightarrow> Inl (KeyError k) | Some v \<Rightarrow> Inr v)"

definition as_num :: "pv \<Rightarrow> rat result" where
  "as_num v = (case v of PNum x \<Rightarrow> Inr x | _ \<Rightarrow> Inl TypeError)"

definition need_num :: "payload \<Rightarrow> string \<Rightarrow> rat result" where
  "need_num p k = rbind (need p k) as_num"

text \<open>\<open>set_status\<close>: expired after the end, inactive in the last fifth of the lifetime.\<close>

definition set_status :: "rat \<Rightarrow> payload \<Rightarrow> payload result" where
  "set_status now p =
    rbind (need p ''expired_at'') (\<lambda>ev. rbind (need p ''created_at'') (\<lambda>cv.
    rbind (as_num ev) (\<lambda>expired_at.
      if expired_at - now < 0 then Inr (AList.update ''status'' (PStr ''expired'') p)
      else rbind (as_num cv) (\<lambda>created_at.
        let total_lifetime = expired_at - created_at; elapsed_time = now - created_at
        in if elapsed_time > total_lifetime * (4 / 5) then Inr (AList.update ''status'' (PStr ''inactive'') p)
           else Inr (AList.update ''status'' (PStr ''active'') p)))))"

section \<open>Making and reading tokens\<close>

text \<open>The encoders of client and refresh tokens print an exception and return nothing.\<close>

definition none_on_Exception :: "'t result \<Rightarrow> 't option result" where
  "none_on_Exception r =
    (case r of Inr t \<Rightarrow> Inr (Some t) | Inl e \<Rightarrow> if is_Exception e then Inr None else Inl e)"

type_synonym 't sealer = "string \<Rightarrow> payload \<Rightarrow> 't result"

definition encode_auth_token ::
  "'t sealer \<Rightarrow> string \<Rightarrow> string \<Rightarrow> rat \<Rightarrow> rat \<Rightarrow> string \<Rightarrow> string \<Rightarrow> string \<Rightarrow> string \<Rightarrow> pv \<Rightarrow> 't option result" where
  "encode_auth_token seal jwt_key generation_id now auth_expiration salt authz_id client_id challenge group_id =
    none_on_Exception (seal jwt_key [(''generation_id'', PStr generation_id), (''created_at'', PNum now),
      (''expired_at'', PNum (now + auth_expiration * (1 / 2))), (''salt'', PStr salt), (''group_id'', group_id),
      (''challenge'', PStr challenge), (''client_id'', PStr client_id), (''authz_id'', PStr authz_id)])"

definition encode_refresh_token ::
  "'t sealer \<Rightarrow> string \<Rightarrow> string \<Rightarrow> rat \<Rightarrow> rat \<Rightarrow> string \<Rightarrow> string \<Rightarrow> string \<Rightarrow> pv \<Rightarrow> 't option result" where
  "encode_refresh_token seal jwt_key generation_id now refresh_expiration salt client_id challenge group_id =
    none_on_Exception (seal jwt_key [(''client_id'', PStr client_id), (''generation_id'', PStr generation_id),
      (''created_at'', PNum now), (''salt'', PStr salt), (''challenge'', PStr challenge),
      (''expired_at'', PNum (now + refresh_expiration * (1 / 2))), (''group_id'', group_id)])"

definition encode_contact_token ::
  "'t sealer \<Rightarrow> string \<Rightarrow> rat \<Rightarrow> string \<Rightarrow> string \<Rightarrow> rat \<Rightarrow> string \<Rightarrow> 't result" where
  "encode_contact_token seal contact_key now salt contact_id expiration scope =
    seal contact_key [(''expired_at'', PNum (now + expiration)), (''create_at'', PNum now),
      (''scope'', PStr scope), (''contact_id'', PStr contact_id), (''salt'', PStr salt)]"

definition encode_ws_token ::
  "'t sealer \<Rightarrow> string \<Rightarrow> rat \<Rightarrow> string \<Rightarrow> string \<Rightarrow> string \<Rightarrow> rat \<Rightarrow> 't result" where
  "encode_ws_token seal ws_key now salt run_id operation_id expiration =
    seal ws_key [(''operation_id'', PStr operation_id), (''expired_at'', PNum (now + expiration)),
      (''created_at'', PNum now), (''run_id'', PStr run_id), (''salt'', PStr salt)]"

definition invalid_token :: exn where
  "invalid_token = HTTPException 403 ''Invalid token''"

text \<open>\<open>_decode_token\<close>: with a key name the source calls the dictionary of keys, a TypeError that the
  last clause turns into the same refusal as every other failure.\<close>

definition decode_token ::
  "(string \<Rightarrow> 't \<Rightarrow> payload option) \<Rightarrow> string \<Rightarrow> string option \<Rightarrow> 't \<Rightarrow> payload result" where
  "decode_token unseal jwt_key secret_key token =
    (case secret_key of
       Some _ \<Rightarrow> Inl invalid_token
     | None \<Rightarrow> (case unseal jwt_key token of None \<Rightarrow> Inl invalid_token | Some p \<Rightarrow> Inr p))"

definition verify_auth_permission ::
  "(string \<Rightarrow> 't \<Rightarrow> payload option) \<Rightarrow> string \<Rightarrow> string \<Rightarrow> rat \<Rightarrow> 't \<Rightarrow> payload result" where
  "verify_auth_permission unseal jwt_key generation_id now token =
    rbind (decode_token unseal jwt_key None token) (\<lambda>p.
      case rbind (set_status now p) (\<lambda>p. rbind (need p ''generation_id'') (\<lambda>g.
             if g \<noteq> PStr generation_id then Inl (HTTPException 403 ''Old Token not valid anymore'') else Inr p)) of
        Inl (KeyError _) \<Rightarrow> Inl (HTTPException 401 ''Data missing'')
      | r \<Rightarrow> r)"

definition verify_refresh_permission ::
  "(string \<Rightarrow> 't \<Rightarrow> payload option) \<Rightarrow> string \<Rightarrow> rat \<Rightarrow> 't \<Rightarrow> payload result" where
  "verify_refresh_permission unseal jwt_key now token =
    rbind (decode_token unseal jwt_key None token) (\<lambda>p. rbind (set_status now p) (\<lambda>p.
      rbind (need p ''status'') (\<lambda>s.
        if s = PStr ''expired'' then Inl (HTTPException 401 ''Token expired'') else Inr p)))"

text \<open>A contact token that passes gives back nothing.\<close>

definition verify_contact_permission ::
  "(string \<Rightarrow> 't \<Rightarrow> payload option) \<Rightarrow> string \<Rightarrow> rat \<Rightarrow> 't \<Rightarrow> unit result" where
  "verify_contact_permission unseal jwt_key now token =
    rbind (decode_token unseal jwt_key (Some ''CONTACT_JWT_SECRET_KEY'') token) (\<lambda>p.
      case need_num p ''expired_at'' of
        Inl (KeyError _) \<Rightarrow> Inl (HTTPException 401 ''Data missing'')
      | Inl e \<Rightarrow> Inl e
      | Inr t \<Rightarrow> if t < now then Inl (HTTPException 403 ''Token expired'') else Inr ())"

datatype scope = SoloDolo | Organization | Domain | Free

definition verify_client_origin :: "scope \<Rightarrow> string \<Rightarrow> string \<Rightarrow> string option \<Rightarrow> exn option" where
  "verify_client_origin sc token_issued_for issued_for origin =
    (case sc of
       SoloDolo \<Rightarrow> if issued_for \<noteq> token_issued_for
                  then Some (HTTPException 403 ''Token not issued for this user'') else None
     | Organization \<Rightarrow> Some (HTTPException 403 ''Token not issued for this user'')
     | Domain \<Rightarrow> if origin = None then Some (HTTPException 403 ''Origin header missing'') else None
     | Free \<Rightarrow> None)"

definition verify_server_access :: "string option \<Rightarrow> string \<Rightarrow> exn option" where
  "verify_server_access api_key token =
    (if api_key = None \<or> api_key = Some '''' then Some (HTTPException 503 ''Could not retrieve the api key'')
     else if Some token \<noteq> api_key then Some (HTTPException 401 ''Api Key provided does not match the one given'')
     else None)"

text \<open>Passwords: the keyed digest is a parameter, the base64 layer too; the salt is stored as it is.\<close>

definition hash_value_with_salt :: "(string \<Rightarrow> string \<Rightarrow> string) \<Rightarrow> string \<Rightarrow> string \<Rightarrow> string \<Rightarrow> string" where
  "hash_value_with_salt hmac v key salt = hmac key (v @ salt)"

definition store_password ::
  "(string \<Rightarrow> string \<Rightarrow> string) \<Rightarrow> (string \<Rightarrow> string) \<Rightarrow> string \<Rightarrow> string \<Rightarrow> string \<Rightarrow> string \<times> string" where
  "store_password hmac b64 salt password key = (b64 (hash_value_with_salt hmac password key salt), salt)"

definition verify_password ::
  "(string \<Rightarrow> string \<Rightarrow> string) \<Rightarrow> (string \<Rightarrow> string) \<Rightarrow> string \<Rightarrow> string \<Rightarrow> string \<Rightarrow> string \<Rightarrow> bool" where
  "verify_password hmac unb64 stored_hash stored_salt provided key =
    (unb64 stored_hash = hash_value_with_salt hmac provided key stored_salt)"

text \<open>The generation of all tokens: revoking installs a new id.\<close>

definition generation_id_of :: "(string \<times> (string \<times> string) list) list \<Rightarrow> string option" where
  "generation_id_of data = (case map_of data ''data'' of None \<Rightarrow> None | Some d \<Rightarrow> map_of d ''GENERATION_ID'')"

definition revoke_all_tokens :: "string \<Rightarrow> (string \<times> (string \<times> string) list) list" where
  "revoke_all_tokens new_generation_id = [(''data'', [(''GENERATION_ID'', new_generation_id)])]"

section \<open>Lemmas and properties\<close>

lemma set_status_same_keys:
  "set_status now p = Inr p' \<Longrightarrow> k \<noteq> ''status'' \<Longrightarrow> map_of p' k = map_of p k"
  by (auto simp: set_status_def Let_def rbind_Inr_iff split: if_splits)

definition status_of :: "payload \<Rightarrow> string" where
  "status_of p = (case map_of p ''status'' of Some (PStr s) \<Rightarrow> s | _ \<Rightarrow> '''')"

definition status_rank :: "string \<Rightarrow> nat" where
  "status_rank s = (if s = ''active'' then 0 else if s = ''inactive'' then 1 else 2)"

lemma set_status_value:
  assumes "map_of p ''expired_at'' = Some (PNum e)" "map_of p ''created_at'' = Some (PNum c)"
  shows "\<exists>p'. set_status now p = Inr p' \<and> status_of p' =
    (if e < now then ''expired'' else if now - c > (e - c) * (4 / 5) then ''inactive'' else ''active'')"
  using assms by (simp add: set_status_def need_def as_num_def Let_def status_of_def)

text \<open>The status of a token with a positive lifetime only moves forward in time: active, then
  inactive for the last fifth of the lifetime, then expired.\<close>

theorem status_monotone:
  assumes "map_of p ''expired_at'' = Some (PNum e)" "map_of p ''created_at'' = Some (PNum c)"
    and "now \<le> later" "set_status now p = Inr p1" "set_status later p = Inr p2"
  shows "status_rank (status_of p1) \<le> status_rank (status_of p2)"
  using set_status_value [OF assms(1,2), of now] set_status_value [OF assms(1,2), of later] assms(3-5)
  by (auto simp: status_rank_def split: if_splits)

theorem status_monotone_witness:
  "status_rank (status_of [(''expired_at'', PNum 10), (''created_at'', PNum 0), (''status'', PStr ''active'')])
    \<le> status_rank (status_of [(''expired_at'', PNum 10), (''created_at'', PNum 0), (''status'', PStr ''inactive'')])"
  by (rule status_monotone [of "[(''expired_at'', PNum 10), (''created_at'', PNum 0)]" 10 0 5 9])
    (simp_all add: set_status_def need_def as_num_def)

lemma verified_generation:
  assumes "verify_auth_permission unseal key g now t = Inr p"
  shows "\<exists>q. unseal key t = Some q \<and> map_of q ''generation_id'' = Some (PStr g) \<and> set_status now q = Inr p"
proof -
  obtain q where q: "unseal key t = Some q"
    using assms by (auto simp: verify_auth_permission_def decode_token_def split: option.splits)
  obtain r where r: "set_status now q = Inr r"
    using assms q by (cases "set_status now q") (auto simp: verify_auth_permission_def decode_token_def split: exn.splits)
  moreover from this assms q have "map_of r ''generation_id'' = Some (PStr g) \<and> r = p"
    by (auto simp: verify_auth_permission_def decode_token_def need_def split: exn.splits option.splits if_splits)
  ultimately show ?thesis
    using q set_status_same_keys [OF r, of "''generation_id''"] by auto
qed



text \<open>A password that was stored is verified, as far as the base64 layer reads back what it wrote.\<close>

lemma stored_password_verifies:
  assumes "\<And>s. unb64 (b64 s) = s" "store_password hmac b64 salt password key = (h, s)"
  shows "verify_password hmac unb64 h s password key"
  using assms by (auto simp: store_password_def verify_password_def)

text \<open>No contact token is ever accepted, not even one just made: naming a key makes the decoding
  fail before the token is looked at.\<close>

lemma contact_token_never_accepted:
  "verify_contact_permission unseal jwt_key now token = Inl invalid_token"
  by (simp add: verify_contact_permission_def decode_token_def)

end
