(* ===== verification/Helper_Dict.thy ===== *)
theory Helper_Dict
  imports Prelude
begin

text \<open>
  The dictionary helpers of utils/helper.py (flattening and unflattening of nested dictionaries,
  slicing, reversing, swapping), its pointer into nested data, its integrity cache, its key builder
  and its phone and path helpers.  JSON values are a datatype; \<open>json.loads\<close> is a parameter.
\<close>

section \<open>JSON and strings\<close>

datatype json =
    JNull
  | JBool bool
  | JNum rat
  | JStr string
  | JList "json list"
  | JDict "(string \<times> json) list"

fun contains_sub :: "string \<Rightarrow> string \<Rightarrow> bool" where
  "contains_sub sub [] = (sub = [])"
| "contains_sub sub (c # cs) = (take (length sub) (c # cs) = sub \<or> contains_sub sub cs)"

text \<open>\<open>str.split\<close>: the text is cut at each leftmost occurrence of the separator.\<close>

function split_go :: "string \<Rightarrow> string \<Rightarrow> string \<Rightarrow> string list" where
  "split_go sep acc [] = [rev acc]"
| "split_go sep acc (c # cs) =
    (if take (length sep) (c # cs) = sep then rev acc # split_go sep [] (drop (length sep - 1) cs)
     else split_go sep (c # acc) cs)"
  by pat_completeness auto
termination by (relation "measure (\<lambda>(sep, acc, s). length s)") auto

definition py_split :: "string \<Rightarrow> string \<Rightarrow> string list" where
  "py_split sep s = split_go sep [] s"

definition dict_sep :: string where
  "dict_sep = ''->''"

definition key_builder :: "string \<Rightarrow> string" where
  "key_builder key = key @ dict_sep"

section \<open>Flattening\<close>

text \<open>
  \<open>flatten_dict\<close> with the default reducer: \<open>ser\<close> is what is done to a leaf (nothing, or its
  serialisation), \<open>kb\<close> the key builder; below \<open>max_level\<close> dictionaries are kept whole.
\<close>

fun flatten_dict ::
  "(json \<Rightarrow> json) \<Rightarrow> string \<Rightarrow> (string \<Rightarrow> string) \<Rightarrow> int \<Rightarrow> int \<Rightarrow> string \<Rightarrow> (string \<times> json) list
    \<Rightarrow> (string, json) dict \<Rightarrow> (string, json) dict result" where
  "flatten_dict ser sep kb max_level level from_keys [] acc = Inr acc"
| "flatten_dict ser sep kb max_level level from_keys ((key, JDict d) # rest) acc =
    (if contains_sub sep key then Inl (KeyError key)
     else if max_level > 0 \<and> level \<ge> max_level
     then flatten_dict ser sep kb max_level level from_keys rest (AList.update (from_keys @ key) (JDict d) acc)
     else rbind (flatten_dict ser sep kb max_level (level + 1) (kb (from_keys @ key)) d acc)
            (flatten_dict ser sep kb max_level level from_keys rest))"
| "flatten_dict ser sep kb max_level level from_keys ((key, item) # rest) acc =
    (if contains_sub sep key then Inl (KeyError key)
     else flatten_dict ser sep kb max_level level from_keys rest (AList.update (from_keys @ key) (ser item) acc))"

fun put_path :: "string list \<Rightarrow> json \<Rightarrow> (string, json) dict \<Rightarrow> (string, json) dict" where
  "put_path [] v d = d"
| "put_path [k] v d = AList.update k v d"
| "put_path (k # ks) v d =
    AList.update k (JDict (put_path ks v (case map_of d k of Some (JDict e) \<Rightarrow> e | _ \<Rightarrow> []))) d"

definition load_leaf :: "(string \<Rightarrow> json option) \<Rightarrow> json \<Rightarrow> json" where
  "load_leaf json_loads v = (case v of
       JStr s \<Rightarrow> (case json_loads s of Some j \<Rightarrow> j | None \<Rightarrow> v)
     | _ \<Rightarrow> v)"

definition unflattened_dict :: "(string \<Rightarrow> json option) \<Rightarrow> string \<Rightarrow> (string, json) dict \<Rightarrow> (string, json) dict" where
  "unflattened_dict json_loads sep flat =
    fold (\<lambda>(key, v). put_path (py_split sep key) (load_leaf json_loads v)) flat []"

section \<open>The round trip\<close>

fun paths :: "(string \<times> json) list \<Rightarrow> (string list \<times> json) list" where
  "paths [] = []"
| "paths ((k, JDict e) # rest) = map (\<lambda>(p, v). (k # p, v)) (paths e) @ paths rest"
| "paths ((k, v) # rest) = ([k], v) # paths rest"

text \<open>
  The dictionaries for which flattening loses nothing: keys are distinct and free of the
  separator, no nested dictionary is empty, and every leaf is one that \<open>P\<close> lets through.
\<close>

fun flat_ok :: "string \<Rightarrow> (json \<Rightarrow> bool) \<Rightarrow> (string \<times> json) list \<Rightarrow> bool" where
  "flat_ok sep P [] = True"
| "flat_ok sep P ((k, JDict e) # rest) =
    (\<not> contains_sub sep k \<and> k \<notin> fst ` set rest \<and> e \<noteq> [] \<and> flat_ok sep P e \<and> flat_ok sep P rest)"
| "flat_ok sep P ((k, v) # rest) =
    (\<not> contains_sub sep k \<and> k \<notin> fst ` set rest \<and> P v \<and> flat_ok sep P rest)"

fun join_path :: "string \<Rightarrow> string list \<Rightarrow> string" where
  "join_path sep [] = []"
| "join_path sep [k] = k"
| "join_path sep (k # ks) = k @ sep @ join_path sep ks"

abbreviation put_all :: "(string list \<times> json) list \<Rightarrow> (string, json) dict \<Rightarrow> (string, json) dict" where
  "put_all ps d \<equiv> fold (\<lambda>(p, v). put_path p v) ps d"

abbreviation flat_entries :: "string \<Rightarrow> string \<Rightarrow> (string \<times> json) list \<Rightarrow> (string, json) dict" where
  "flat_entries sep pre d \<equiv> map (\<lambda>x. (pre @ join_path sep (fst x), snd x)) (paths d)"

lemma update_new: "k \<notin> fst ` set d \<Longrightarrow> AList.update k v d = d @ [(k, v)]"
  by (induction d) auto

lemma update_last:
  "k \<notin> fst ` set d \<Longrightarrow> AList.update k v (d @ [(k, w)]) = d @ [(k, v)]"
  by (induction d) auto

lemma put_path_last:
  "k \<notin> fst ` set d \<Longrightarrow> p \<noteq> [] \<Longrightarrow>
    put_path (k # p) v (d @ [(k, JDict e)]) = d @ [(k, JDict (put_path p v e))]"
  by (cases p) (simp_all add: update_last map_of_append map_add_def map_of_eq_None_iff [THEN iffD2])

lemma put_path_new:
  "k \<notin> fst ` set d \<Longrightarrow> p \<noteq> [] \<Longrightarrow> put_path (k # p) v d = d @ [(k, JDict (put_path p v []))]"
  by (cases p) (simp_all add: update_new map_of_eq_None_iff [THEN iffD2])

lemma put_all_nested:
  assumes "k \<notin> fst ` set d" "\<forall>x\<in>set ps. fst x \<noteq> []"
  shows "put_all (map (\<lambda>(p, v). (k # p, v)) ps) (d @ [(k, JDict e)]) = d @ [(k, JDict (put_all ps e))]"
  using assms(2)
  by (induction ps arbitrary: e) (auto simp: put_path_last [OF assms(1)] simp del: put_path.simps)

text \<open>A separator cuts a text at its first occurrence after a part that is free of it.\<close>

locale separator =
  fixes sep :: string
  assumes split_free: "\<not> contains_sub sep k \<Longrightarrow> split_go sep acc k = [rev acc @ k]"
    and split_sep: "\<not> contains_sub sep k \<Longrightarrow> split_go sep acc (k @ sep @ s) = (rev acc @ k) # split_go sep [] s"
begin

abbreviation kb :: "string \<Rightarrow> string" where "kb k \<equiv> k @ sep"

lemma split_join:
  "p \<noteq> [] \<Longrightarrow> \<forall>k\<in>set p. \<not> contains_sub sep k \<Longrightarrow> py_split sep (join_path sep p) = p"
  by (induction p rule: induct_list012) (simp_all add: py_split_def split_free split_sep)

lemma paths_ok:
  "flat_ok sep P d \<Longrightarrow> (p, v) \<in> set (paths d) \<Longrightarrow>
    p \<noteq> [] \<and> (\<forall>k\<in>set p. \<not> contains_sub sep k) \<and> hd p \<in> fst ` set d \<and> P v"
  by (induction d arbitrary: p v rule: paths.induct) auto

lemma paths_hd: "flat_ok sep P d \<Longrightarrow> x \<in> set (paths d) \<Longrightarrow> hd (fst x) \<in> fst ` set d"
  using paths_ok [of P d "fst x" "snd x"] by simp

lemma paths_key: "flat_ok sep P d \<Longrightarrow> (k # p, v) \<in> set (paths d) \<Longrightarrow> k \<in> fst ` set d"
  using paths_hd [of P d "(k # p, v)"] by simp

lemma paths_distinct: "flat_ok sep P d \<Longrightarrow> distinct (map fst (paths d))"
proof (induction d rule: paths.induct)
  case (2 k e rest)
  have "distinct (map fst (map (\<lambda>(p, v). (k # p, v)) (paths e)))"
    using 2 by (simp add: comp_def case_prod_beta distinct_map inj_on_def)
  moreover have "(k # p, v) \<notin> set (paths rest)" for p v
    using paths_key [of P rest k p v] 2(3) by auto
  ultimately show ?case
    using 2 by (auto simp: case_prod_beta)
qed (auto dest: paths_key)

lemma put_all_paths:
  "flat_ok sep P d \<Longrightarrow> fst ` set acc \<inter> fst ` set d = {} \<Longrightarrow> put_all (paths d) acc = acc @ d"
proof (induction d arbitrary: acc rule: paths.induct)
  case (2 k e rest)
  have ne: "\<forall>x\<in>set (paths e). fst x \<noteq> []"
    using paths_ok [of P e] 2(3) by fastforce
  obtain p v ps where e: "paths e = (p, v) # ps"
  proof (cases "paths e")
    case Nil
    with 2(1) [of "[]"] 2(3) show ?thesis by auto
  qed auto
  have k: "k \<notin> fst ` set acc"
    using 2(4) by auto
  have "put_all (map (\<lambda>(p, v). (k # p, v)) (paths e)) acc
      = put_all (map (\<lambda>(p, v). (k # p, v)) ps) (acc @ [(k, JDict (put_path p v []))])"
    using k ne e by (simp add: put_path_new del: put_path.simps)
  also have "\<dots> = acc @ [(k, JDict (put_all ps (put_path p v [])))]"
    using put_all_nested [OF k] ne e by simp
  also have "put_all ps (put_path p v []) = e"
    using 2(1) [of "[]"] 2(3) e by simp
  finally have "put_all (paths ((k, JDict e) # rest)) acc = put_all (paths rest) (acc @ [(k, JDict e)])"
    by simp
  then show ?case
    using 2(2) [of "acc @ [(k, JDict e)]"] 2(3,4) by auto
qed (auto simp: update_new)

lemma join_cons: "p \<noteq> [] \<Longrightarrow> join_path sep (k # p) = k @ sep @ join_path sep p"
  by (cases p) simp_all

lemma join_inj:
  "flat_ok sep P d \<Longrightarrow> flat_ok sep P d' \<Longrightarrow> (p, v) \<in> set (paths d) \<Longrightarrow> (q, w) \<in> set (paths d') \<Longrightarrow>
    join_path sep p = join_path sep q \<Longrightarrow> p = q"
  using paths_ok split_join by metis

lemma join_fresh:
  assumes "flat_ok sep P ((k, x) # rest)" "(p, v) \<in> set (paths [(k, x)])" "(q, w) \<in> set (paths rest)"
  shows "join_path sep q \<noteq> join_path sep p"
proof
  assume eq: "join_path sep q = join_path sep p"
  have rest: "flat_ok sep P rest" and one: "flat_ok sep P [(k, x)]" and k: "k \<notin> fst ` set rest"
    using assms(1) by (cases x; simp)+
  have "q = p"
    using join_inj [OF rest one assms(3,2) eq] .
  moreover have "hd p = k"
    using paths_hd [OF one assms(2)] by simp
  ultimately show False
    using paths_hd [OF rest assms(3)] k by simp
qed

lemma leaf_simps:
  assumes "\<forall>d. v \<noteq> JDict d"
  shows "paths ((k, v) # rest) = ([k], v) # paths rest"
    and "flat_ok sep P ((k, v) # rest) \<longleftrightarrow>
      \<not> contains_sub sep k \<and> k \<notin> fst ` set rest \<and> P v \<and> flat_ok sep P rest"
    and "flatten_dict ser sep kb m l pre ((k, v) # rest) acc =
      (if contains_sub sep k then Inl (KeyError k)
       else flatten_dict ser sep kb m l pre rest (AList.update (pre @ k) (ser v) acc))"
  using assms by (cases v; simp)+

lemma flatten_leaf:
  assumes leaf: "\<forall>d. v \<noteq> JDict d"
    and ok: "flat_ok sep P ((k, v) # rest)"
    and fresh: "\<forall>x\<in>set (paths ((k, v) # rest)). pre @ join_path sep (fst x) \<notin> fst ` set acc"
    and ih: "\<And>acc. \<forall>x\<in>set (paths rest). pre @ join_path sep (fst x) \<notin> fst ` set acc \<Longrightarrow>
      flatten_dict (\<lambda>x. x) sep kb (-1) level pre rest acc = Inr (acc @ flat_entries sep pre rest)"
  shows "flatten_dict (\<lambda>x. x) sep kb (-1) level pre ((k, v) # rest) acc
    = Inr (acc @ flat_entries sep pre ((k, v) # rest))"
proof -
  have upd: "AList.update (pre @ k) v acc = acc @ [(pre @ k, v)]"
    using bspec [OF fresh, of "([k], v)"] by (simp add: leaf_simps [OF leaf] update_new)
  have "\<forall>x\<in>set (paths rest). pre @ join_path sep (fst x) \<notin> fst ` set (acc @ [(pre @ k, v)])"
  proof
    fix x assume x: "x \<in> set (paths rest)"
    have "join_path sep (fst x) \<noteq> join_path sep [k]"
      by (rule join_fresh [OF ok, of "[k]" v "fst x" "snd x"]) (use x leaf_simps [OF leaf] in simp_all)
    then show "pre @ join_path sep (fst x) \<notin> fst ` set (acc @ [(pre @ k, v)])"
      using bspec [OF fresh, of x] x by (simp add: leaf_simps [OF leaf])
  qed
  from ih [OF this] show ?thesis
    using ok by (simp add: leaf_simps [OF leaf] upd)
qed

lemma flatten_paths:
  "flat_ok sep P d \<Longrightarrow> \<forall>x\<in>set (paths d). pre @ join_path sep (fst x) \<notin> fst ` set acc \<Longrightarrow>
    flatten_dict (\<lambda>x. x) sep kb (-1) level pre d acc = Inr (acc @ flat_entries sep pre d)"
proof (induction d arbitrary: pre acc level rule: paths.induct)
  case (2 k e rest)
  let ?in = "flat_entries sep (pre @ k @ sep) e"
  have kb: "kb (pre @ k) = pre @ k @ sep"
    by simp
  have j: "k @ sep @ join_path sep (fst x) = join_path sep (k # fst x)" if "x \<in> set (paths e)" for x
    using paths_ok [of P e "fst x" "snd x"] that 2(3) by (simp add: join_cons)
  have one: "(k # fst x, snd x) \<in> set (paths [(k, JDict e)])" if "x \<in> set (paths e)" for x
    using that by (force simp: case_prod_beta)
  have "pre @ join_path sep (k # fst x) \<notin> fst ` set acc" if "x \<in> set (paths e)" for x
  proof -
    have "(k # fst x, snd x) \<in> set (paths ((k, JDict e) # rest))"
      using one [OF that] by simp
    from bspec [OF 2(4) this] show ?thesis by simp
  qed
  then have "\<forall>x\<in>set (paths e). (pre @ k @ sep) @ join_path sep (fst x) \<notin> fst ` set acc"
    using j by simp
  then have 1: "flatten_dict (\<lambda>x. x) sep kb (-1) (level + 1) (kb (pre @ k)) e acc
      = Inr (acc @ ?in)"
    using 2(1) [of "pre @ k @ sep" acc "level + 1"] 2(3) by (simp add: kb)
  have ne: "join_path sep (fst y) \<noteq> join_path sep (k # fst x)" if "x \<in> set (paths e)" "y \<in> set (paths rest)" for x y
    using join_fresh [OF 2(3) one [OF that(1)], of "fst y" "snd y"] that(2) by simp
  have "\<forall>y\<in>set (paths rest). pre @ join_path sep (fst y) \<notin> fst ` set (acc @ ?in)"
  proof
    fix y assume y: "y \<in> set (paths rest)"
    then have "pre @ join_path sep (fst y) \<notin> fst ` set acc"
      using bspec [OF 2(4), of y] by simp
    moreover have "pre @ join_path sep (fst y) \<notin> fst ` set ?in"
    proof
      assume "pre @ join_path sep (fst y) \<in> fst ` set ?in"
      then obtain x where "x \<in> set (paths e)" "join_path sep (fst y) = k @ sep @ join_path sep (fst x)"
        by auto
      with ne [OF _ y] j show False by metis
    qed
    ultimately show "pre @ join_path sep (fst y) \<notin> fst ` set (acc @ ?in)"
      by (simp add: image_Un)
  qed
  with 2(2) [of pre "acc @ ?in" level] 2(3)
  have "flatten_dict (\<lambda>x. x) sep kb (-1) level pre rest (acc @ ?in)
      = Inr ((acc @ ?in) @ flat_entries sep pre rest)"
    by simp
  moreover have "flat_entries sep pre ((k, JDict e) # rest) = ?in @ flat_entries sep pre rest"
    using j by (simp add: case_prod_beta comp_def)
  ultimately show ?case
    using 1 2(3) kb by simp
next
  case 1
  then show ?case by simp
qed (rule flatten_leaf, simp, assumption, assumption, simp)+

lemma flatten_entries: "flat_ok sep P d \<Longrightarrow> flatten_dict (\<lambda>x. x) sep kb (-1) 0 [] d [] = Inr (flat_entries sep [] d)"
  using flatten_paths [of P d "[]" "[]" 0] by simp

text \<open>Unflattening gives back what was flattened, when every leaf is read back from what was made of it.\<close>

lemma unflatten_entries:
  assumes "flat_ok sep P d" and "\<And>v. P v \<Longrightarrow> load_leaf json_loads (f v) = v"
  shows "unflattened_dict json_loads sep (map (\<lambda>(k, v). (k, f v)) (flat_entries sep [] d)) = d"
proof -
  have "py_split sep (join_path sep (fst x)) = fst x \<and> load_leaf json_loads (f (snd x)) = snd x" if "x \<in> set (paths d)" for x
    using paths_ok [OF assms(1), of "fst x" "snd x"] split_join that assms(2) by simp
  then have "unflattened_dict json_loads sep (map (\<lambda>(k, v). (k, f v)) (flat_entries sep [] d)) = put_all (paths d) []"
    unfolding unflattened_dict_def fold_map by (intro fold_cong) (auto simp: case_prod_beta)
  then show ?thesis using put_all_paths [OF assms(1), of "[]"] by simp
qed

end

lemma arrow_free: "\<not> contains_sub dict_sep k \<Longrightarrow> split_go dict_sep acc k = [rev acc @ k]"
  by (induction k arbitrary: acc) auto

lemma arrow_sep: "\<not> contains_sub dict_sep k \<Longrightarrow> split_go dict_sep acc (k @ dict_sep @ s) = (rev acc @ k) # split_go dict_sep [] s"
proof (induction k arbitrary: acc)
  case Nil
  then show ?case by (simp add: dict_sep_def)
next
  case (Cons c cs)
  have "take (length dict_sep) ((c # cs) @ dict_sep @ s) \<noteq> dict_sep"
    using Cons.prems by (cases cs) (auto simp: dict_sep_def)
  then show ?case
    using Cons by simp
qed

interpretation arrow: separator dict_sep
  by unfold_locales (simp_all add: arrow_free arrow_sep)

lemma char_free: "\<not> contains_sub [c] k \<Longrightarrow> split_go [c] acc k = [rev acc @ k]"
  by (induction k arbitrary: acc) auto

lemma char_sep: "\<not> contains_sub [c] k \<Longrightarrow> split_go [c] acc (k @ [c] @ s) = (rev acc @ k) # split_go [c] [] s"
  by (induction k arbitrary: acc) auto

interpretation slash: separator "[CHR ''/'']"
  by unfold_locales (simp_all add: char_free char_sep [simplified])

text \<open>C36: Flattening a nested dictionary and unflattening the result gives the dictionary back, in the
  same order at every level, when no key contains the separator, no nested dictionary is empty and
  no leaf is a text that would itself be read as JSON.\<close>

theorem flatten_unflatten:
  assumes "flat_ok dict_sep (\<lambda>v. load_leaf json_loads v = v) d"
  shows "rbind (flatten_dict (\<lambda>x. x) dict_sep key_builder (-1) 0 [] d [])
      (\<lambda>flat. Inr (unflattened_dict json_loads dict_sep flat)) = Inr d"
proof -
  have kb: "key_builder = (\<lambda>k. k @ dict_sep)" by (simp add: key_builder_def fun_eq_iff)
  show ?thesis
    using arrow.flatten_entries [OF assms] arrow.unflatten_entries [OF assms, of json_loads "\<lambda>v. v"]
    by (simp add: kb case_prod_unfold)
qed

theorem flatten_unflatten_witness:
  "rbind (flatten_dict (\<lambda>x. x) dict_sep key_builder (-1) 0 []
      [(''a'', JDict [(''x'', JNum 1), (''y'', JDict [(''z'', JStr ''t'')])]), (''b'', JNull)] [])
      (\<lambda>flat. Inr (unflattened_dict (\<lambda>_. None) dict_sep flat))
    = Inr [(''a'', JDict [(''x'', JNum 1), (''y'', JDict [(''z'', JStr ''t'')])]), (''b'', JNull)]"
  by (rule flatten_unflatten) (simp add: load_leaf_def dict_sep_def)

end
