(* ===== verification/Helper_Util.thy ===== *)
theory Helper_Util
  imports Helper_Dict
begin

text \<open>
  The remaining helpers of utils/helper.py: slicing, reversing and swapping of dictionaries, the
  pointer into nested data, the integrity cache, the key builder, the phone parser, the path filter
  and the merging of responses.
\<close>

section \<open>Dictionaries\<close>

text \<open>\<open>slice_dict\<close> with its two tests, which store the same entry.\<close>

definition slice_dict :: "'k list \<Rightarrow> bool \<Rightarrow> ('k, 'v) dict \<Rightarrow> ('k, 'v) dict" where
  "slice_dict keys incl data =
    fold (\<lambda>(k, v) temp.
      let temp = (if (k \<notin> set keys) = (\<not> incl) then AList.update k v temp else temp)
      in if (k \<in> set keys) = incl then AList.update k v temp else temp) data []"

text \<open>\<open>reverseDict\<close> pairs the values in order with the keys in reverse order.\<close>

definition reverse_dict :: "('k, 'v) dict \<Rightarrow> ('k, 'v) dict" where
  "reverse_dict d = fold (\<lambda>(v, k). AList.update k v) (zip (map snd d) (rev (map fst d))) []"

definition swap_dict :: "('k, 'v) dict \<Rightarrow> ('v, 'k) dict" where
  "swap_dict d = fold (\<lambda>(k, v). AList.update v k) d []"

definition get_value_in_list :: "'a list \<Rightarrow> int \<Rightarrow> 'a option" where
  "get_value_in_list xs i =
    (if 0 \<le> i \<and> i < int (length xs) then Some (xs ! nat i)
     else if i < 0 \<and> - i \<le> int (length xs) then Some (xs ! nat (int (length xs) + i))
     else None)"

definition lower_char :: "char \<Rightarrow> char" where
  "lower_char c = (let n = (of_char c :: nat) in if 65 \<le> n \<and> n \<le> 90 then char_of (n + 32) else c)"

definition upper_char :: "char \<Rightarrow> char" where
  "upper_char c = (let n = (of_char c :: nat) in if 97 \<le> n \<and> n \<le> 122 then char_of (n - 32) else c)"

definition strict_parseToBool :: "string \<Rightarrow> bool option" where
  "strict_parseToBool s =
    (if map lower_char s \<in> {''true'', ''false''} then Some (map lower_char s = ''true'') else None)"

lemma slice_dict_fold:
  "fst ` set acc \<inter> fst ` set data = {} \<Longrightarrow> distinct (map fst data) \<Longrightarrow>
    fold (\<lambda>(k, v) temp.
      let temp = (if (k \<notin> set keys) = (\<not> incl) then AList.update k v temp else temp)
      in if (k \<in> set keys) = incl then AList.update k v temp else temp) data acc
    = acc @ filter (\<lambda>(k, v). (k \<in> set keys) = incl) data"
proof (induction data arbitrary: acc)
  case (Cons kv data)
  obtain k v where kv: "kv = (k, v)" by (rule prod.exhaust)
  have k: "k \<notin> fst ` set acc"
    using Cons.prems kv by auto
  show ?case
    using Cons.IH [of acc] Cons.IH [of "acc @ [(k, v)]"] Cons.prems k kv
    by (auto simp: Let_def update_new update_last)
qed simp

lemma slice_dict_filter:
  "distinct (map fst data) \<Longrightarrow> slice_dict keys incl data = filter (\<lambda>(k, v). (k \<in> set keys) = incl) data"
  unfolding slice_dict_def by (subst slice_dict_fold) simp_all

section \<open>The pointer into nested data\<close>

text \<open>
  \<open>PointerIterator.ptr\<close> over dictionaries stops at the first missing step and keeps the level it
  had reached; \<open>get_val\<close> then looks the last key up there.
\<close>

fun pointer_walk :: "string list \<Rightarrow> (string \<times> json) list \<Rightarrow> (string \<times> json) list" where
  "pointer_walk [] d = d"
| "pointer_walk (k # ks) d = (case map_of d k of Some (JDict e) \<Rightarrow> pointer_walk ks e | _ \<Rightarrow> d)"

definition pointer_get :: "string \<Rightarrow> string \<Rightarrow> (string \<times> json) list \<Rightarrow> bool \<times> json option" where
  "pointer_get sep var d = (let ks = py_split sep var; e = pointer_walk (butlast ks) d in
     case map_of e (last ks) of None \<Rightarrow> (False, None) | Some v \<Rightarrow> (True, Some v))"

section \<open>The integrity cache\<close>

definition integrity_cache :: "bool \<Rightarrow> 'k \<Rightarrow> 'v option \<Rightarrow> ('k, 'v option) dict \<Rightarrow> bool \<times> ('k, 'v option) dict" where
  "integrity_cache presence_only k v c =
    (let v = (if presence_only then None else v) in
     case map_of c k of
       None \<Rightarrow> (False, AList.update k v c)
     | Some w \<Rightarrow> if presence_only then (True, c)
                 else if w = v then (True, c) else (False, AList.update k v c))"

definition integrity_clear :: "('k, 'v option) dict \<Rightarrow> ('k, 'v option) dict" where
  "integrity_clear c = []"

definition integrity_invalid :: "'k \<Rightarrow> 'v option \<Rightarrow> ('k, 'v option) dict \<Rightarrow> 'v option \<times> ('k, 'v option) dict" where
  "integrity_invalid k dflt c = (case map_of c k of None \<Rightarrow> dflt | Some w \<Rightarrow> w, AList.delete k c)"

interpretation integrity: kv_store "[] :: ('k, 'v option) dict" map_of
    "\<lambda>k v c. snd (integrity_cache False k v c)" "\<lambda>k c. snd (integrity_invalid k None c)"
  by unfold_locales
    (auto simp: integrity_cache_def integrity_invalid_def Let_def split: option.splits)

lemma integrity_hit:
  "fst (integrity_cache False k v c) \<longleftrightarrow> map_of c k = Some v"
  by (auto simp: integrity_cache_def Let_def split: option.splits)

section \<open>The key builder\<close>

datatype spec = One string | Many "string list"

text \<open>
  The arguments of \<open>KeyBuilder\<close> after its normalisation: a text where a list of separators is
  given is iterated character by character.  With fewer prefixes than separators the source
  indexes an integer.
\<close>

fun key_builder_init :: "spec option \<Rightarrow> spec option \<Rightarrow> (string list \<times> string list) result" where
  "key_builder_init None _ = Inl ValueError"
| "key_builder_init (Some _) None = Inl ValueError"
| "key_builder_init (Some (Many ps)) (Some (Many ss)) =
    (if ps = [] \<or> ss = [] then Inl ValueError
     else if length ps < length ss then Inl TypeError
     else Inr (ps, take (length ps) ss))"
| "key_builder_init (Some (Many ps)) (Some (One s)) = Inr (ps, replicate (length ps) s)"
| "key_builder_init (Some (One p)) (Some (One s)) = Inr ([p], [s])"
| "key_builder_init (Some (One p)) (Some (Many ss)) = Inr (map (\<lambda>c. [c]) p, ss)"

definition key_text_of :: "string list \<Rightarrow> string list \<Rightarrow> string list \<Rightarrow> string" where
  "key_text_of ps ks ss = concat (map (\<lambda>(p, k, s). p @ s @ k @ s) (zip ps (zip ks ss)))"

definition build_key :: "string list \<times> string list \<Rightarrow> string list \<Rightarrow> string result" where
  "build_key cfg ks = (case cfg of (ps, ss) \<Rightarrow>
     if length ks \<noteq> length ps then Inl ValueError else Inr (butlast (key_text_of ps ks ss)))"

text \<open>Keys free of a one character separator can be read back from the text.\<close>

lemma free_append_inj:
  "c \<notin> set k \<Longrightarrow> c \<notin> set k' \<Longrightarrow> k @ c # r = k' @ c # r' \<Longrightarrow> k = k' \<and> r = r'"
proof (induction k arbitrary: k')
  case Nil
  then show ?case by (cases k') auto
next
  case (Cons x k)
  then show ?case by (cases k') auto
qed

lemma key_text_inj:
  "length ks = length ps \<Longrightarrow> length ks' = length ps \<Longrightarrow> \<forall>k\<in>set ks \<union> set ks'. c \<notin> set k \<Longrightarrow>
    key_text_of ps ks (replicate (length ps) [c]) = key_text_of ps ks' (replicate (length ps) [c]) \<Longrightarrow> ks = ks'"
proof (induction ps arbitrary: ks ks')
  case (Cons p ps)
  obtain k r where ks1: "ks = k # r" using Cons.prems(1) by (cases ks) auto
  obtain k' r' where ks2: "ks' = k' # r'" using Cons.prems(2) by (cases ks') auto
  note ks = ks1 ks2
  have eq: "k @ c # key_text_of ps r (replicate (length ps) [c]) = k' @ c # key_text_of ps r' (replicate (length ps) [c])"
    using Cons.prems(4) ks by (simp add: key_text_of_def)
  have free: "c \<notin> set k" "c \<notin> set k'" "\<forall>k\<in>set r \<union> set r'. c \<notin> set k"
    using Cons.prems(3) ks by simp_all
  have "r = r'"
    by (rule Cons.IH) (use Cons.prems(1,2) ks free(3) free_append_inj [OF free(1,2) eq] in simp_all)
  with free_append_inj [OF free(1,2) eq] ks show ?case by simp
qed simp

lemma key_text_last: "ps \<noteq> [] \<Longrightarrow> length ks = length ps \<Longrightarrow>
    \<exists>t. key_text_of ps ks (replicate (length ps) [c]) = t @ [c]"
proof (induction ps arbitrary: ks)
  case (Cons p ps)
  then obtain k r where ks: "ks = k # r" by (cases ks) auto
  show ?case
  proof (cases ps)
    case Nil
    then show ?thesis using ks by (simp add: key_text_of_def)
  next
    case (Cons q qs)
    then obtain t where "key_text_of ps r (replicate (length ps) [c]) = t @ [c]"
      using Cons.IH [of r] Cons.prems ks by auto
    then show ?thesis using ks by (simp add: key_text_of_def)
  qed
qed simp

text \<open>With a single character separator given once, the key builder accepts exactly the lists
  with one part per prefix, and two different lists of parts free of the separator never give the
  same cache key.\<close>

theorem key_builder_injective:
  assumes "key_builder_init (Some (Many ps)) (Some (One [c])) = Inr cfg"
    and "\<forall>k\<in>set ks \<union> set ks'. c \<notin> set k"
    and "length ks = length ps" "length ks' = length ps" "ks \<noteq> ks'"
  shows "\<exists>t t'. build_key cfg ks = Inr t \<and> build_key cfg ks' = Inr t' \<and> t \<noteq> t'"
proof -
  have ne: "ps \<noteq> []"
    using assms(3-5) by auto
  have cfg: "cfg = (ps, replicate (length ps) [c])"
    using assms(1) by simp
  have "butlast (key_text_of ps ks (replicate (length ps) [c]))
      \<noteq> butlast (key_text_of ps ks' (replicate (length ps) [c]))"
    using key_text_last [OF ne assms(3), of c] key_text_last [OF ne assms(4), of c]
      key_text_inj [OF assms(3,4,2)] assms(5)
    by (metis butlast_snoc)
  then show ?thesis
    using cfg assms(3,4) by (simp add: build_key_def)
qed

theorem key_builder_injective_witness:
  "\<exists>t t'. build_key ([''orm'', ''id''], [''-'', ''-'']) [''7'', ''x''] = Inr t
    \<and> build_key ([''orm'', ''id''], [''-'', ''-'']) [''7x'', ''''] = Inr t' \<and> t \<noteq> t'"
  by (rule key_builder_injective [where ps = "[''orm'', ''id'']" and c = "CHR ''-''"])
    (simp_all add: eval_nat_numeral)

section \<open>Phone numbers and paths\<close>

text \<open>\<open>phone_parser\<close>: the converted and cleaned texts are computed but the upper-cased input is
  what is returned.\<close>

definition phone_parser :: "string \<Rightarrow> string option \<Rightarrow> string result" where
  "phone_parser phone_number country_code =
    (let n = map upper_char phone_number in
     if take 1 n \<noteq> ''+''
     then (case country_code of None \<Rightarrow> Inl ValueError | Some cc \<Rightarrow> Inr (''+'' @ cc @ n))
     else Inr (''+'' @ n))"

lemma phone_parser_double_plus: "phone_parser (CHR ''+'' # ds) cc = Inr (''++'' @ map upper_char ds)"
  by (simp add: phone_parser_def upper_char_def Let_def)

definition starts_with :: "string \<Rightarrow> string \<Rightarrow> bool" where
  "starts_with s p \<longleftrightarrow> take (length p) s = p"

definition sep_count :: "char \<Rightarrow> string \<Rightarrow> nat" where
  "sep_count sep p = length (filter (\<lambda>c. c = sep) p)"

definition filter_step :: "char \<Rightarrow> string \<Rightarrow> string list \<Rightarrow> string list" where
  "filter_step sep p results =
    (if \<not> list_ex (\<lambda>d. starts_with p (d @ [sep])) results then results @ [p] else results)"

definition filter_paths :: "char \<Rightarrow> string list \<Rightarrow> string list" where
  "filter_paths sep ps =
    (let ps = sort_key (sep_count sep) ps in
     if [sep] \<in> set ps then [[sep]] else fold (filter_step sep) ps [])"

lemma starts_with_iff: "starts_with s p \<longleftrightarrow> (\<exists>r. s = p @ r)"
  unfolding starts_with_def by (metis append_eq_conv_conj append_take_drop_id)

lemma starts_with_count: "starts_with s (d @ [sep]) \<Longrightarrow> sep_count sep d < sep_count sep s"
  by (auto simp: starts_with_iff sep_count_def)

definition covered :: "char \<Rightarrow> string list \<Rightarrow> string \<Rightarrow> bool" where
  "covered sep rs p \<longleftrightarrow> p \<in> set rs \<or> (\<exists>d\<in>set rs. starts_with p (d @ [sep]))"

lemma covered_trans:
  assumes "covered sep rs p" "\<forall>d\<in>set rs. covered sep rs' d"
  shows "covered sep rs' p"
  using assms by (fastforce simp: covered_def starts_with_iff)

lemma filter_fold:
  assumes "sorted (map (sep_count sep) ps)"
    and "\<forall>r\<in>set rs. \<forall>p\<in>set ps. sep_count sep r \<le> sep_count sep p"
    and "\<forall>r\<in>set rs. \<forall>d\<in>set rs. \<not> starts_with r (d @ [sep])"
  shows "set (fold (filter_step sep) ps rs) \<subseteq> set rs \<union> set ps
    \<and> (\<forall>r\<in>set (fold (filter_step sep) ps rs). \<forall>d\<in>set (fold (filter_step sep) ps rs). \<not> starts_with r (d @ [sep]))
    \<and> (\<forall>p\<in>set rs \<union> set ps. covered sep (fold (filter_step sep) ps rs) p)"
  using assms
proof (induction ps arbitrary: rs)
  case Nil
  then show ?case by (simp add: covered_def)
next
  case (Cons p ps)
  let ?rs = "filter_step sep p rs"
  have step: "set rs \<subseteq> set ?rs" "set ?rs \<subseteq> insert p (set rs)" "covered sep ?rs p"
    by (auto simp: filter_step_def covered_def list_ex_iff)
  have 1: "\<forall>r\<in>set ?rs. \<forall>q\<in>set ps. sep_count sep r \<le> sep_count sep q"
    using Cons.prems step by auto
  have "\<not> starts_with r (p @ [sep])" if "r \<in> set rs \<or> r = p" for r
    using starts_with_count [of r p sep] Cons.prems(2) that by fastforce
  then have 2: "\<forall>r\<in>set ?rs. \<forall>d\<in>set ?rs. \<not> starts_with r (d @ [sep])"
    using Cons.prems(3) by (auto simp: filter_step_def list_ex_iff)
  have "sorted (map (sep_count sep) ps)"
    using Cons.prems(1) by simp
  note ih = Cons.IH [OF this 1 2]
  then have "covered sep (fold (filter_step sep) ps ?rs) p"
    using covered_trans [OF step(3)] by blast
  with ih step show ?case by auto
qed

text \<open>Filtering paths keeps only given paths, covers every given path by itself or by a kept
  directory above it, and keeps no path that lies below another kept one; the root alone is kept
  when it is given.\<close>

theorem filter_paths_antichain:
  assumes "[sep] \<notin> set ps"
  shows "set (filter_paths sep ps) \<subseteq> set ps
    \<and> (\<forall>p\<in>set ps. covered sep (filter_paths sep ps) p)
    \<and> (\<forall>r\<in>set (filter_paths sep ps). \<forall>d\<in>set (filter_paths sep ps). \<not> starts_with r (d @ [sep]))"
  using filter_fold [of sep "sort_key (sep_count sep) ps" "[]"] assms
  by (simp add: filter_paths_def)

theorem filter_paths_antichain_witness:
  "covered CHR ''/'' (filter_paths CHR ''/'' [''a/b'', ''a'', ''c'']) ''a/b''"
  using filter_paths_antichain [of "CHR ''/''" "[''a/b'', ''a'', ''c'']"] by simp

section \<open>Responses\<close>

record response =
  raw_headers :: "(string \<times> string) list"
  status_code :: "nat option"

definition copy_response :: "response \<Rightarrow> response option \<Rightarrow> response" where
  "copy_response result rsp = (case rsp of
       None \<Rightarrow> result
     | Some r \<Rightarrow> result\<lparr>raw_headers := raw_headers result @ raw_headers r,
         status_code := (case status_code r of
             None \<Rightarrow> status_code result
           | Some c \<Rightarrow> if c = 0 then status_code result else Some c)\<rparr>)"

end
