(* ===== verification/File_Utils.thy ===== *)
theory File_Utils
  imports Helper_Util
begin

text \<open>
  utils/fileIO.py \<open>is_file\<close> and the path functions of services/file/file_service.py, over POSIX
  paths.  \<open>pure_name\<close> and \<open>pure_suffixes\<close> are the parts of \<open>pathlib.PurePath\<close> they use.
\<close>

section \<open>Names and suffixes\<close>

definition pure_name :: "string \<Rightarrow> string" where
  "pure_name path = (case filter (\<lambda>c. c \<notin> {'''', ''.''}) (py_split ''/'' path) of
     [] \<Rightarrow> '''' | cs \<Rightarrow> last cs)"

definition pure_suffixes :: "string \<Rightarrow> string list" where
  "pure_suffixes path = (let name = pure_name path in
     if name \<noteq> [] \<and> last name = CHR ''.'' then []
     else map (\<lambda>s. CHR ''.'' # s) (tl (py_split ''.'' (dropWhile (\<lambda>c. c = CHR ''.'') name))))"

definition get_extension :: "string \<Rightarrow> string" where
  "get_extension path = (case pure_suffixes path of [] \<Rightarrow> '''' | ss \<Rightarrow> last ss)"

definition soft_is_file :: "string \<Rightarrow> bool" where
  "soft_is_file path \<longleftrightarrow> get_extension path \<noteq> ''''"

definition soft_get_filename :: "string \<Rightarrow> string result" where
  "soft_get_filename path = (if \<not> soft_is_file path then Inl ValueError else Inr (pure_name path))"

definition multiple_extension :: exn where
  "multiple_extension = OtherException ''MultipleExtensionError''"

definition extension_not_allowed :: exn where
  "extension_not_allowed = OtherException ''ExtensionNotAllowedError''"

text \<open>\<open>is_file\<close>: an empty or missing set of allowed extensions allows them all.\<close>

definition is_file :: "bool \<Rightarrow> string list option \<Rightarrow> string \<Rightarrow> bool result" where
  "is_file multiples allowed path =
    (let suffixes = pure_suffixes path;
         restricted = (allowed \<noteq> None \<and> allowed \<noteq> Some []);
         ok = (\<lambda>s. case allowed of None \<Rightarrow> True | Some xs \<Rightarrow> s \<in> set xs)
     in if length suffixes = 0 then Inr False
        else if length suffixes = 1 then
          (if restricted \<and> \<not> ok (hd suffixes) then Inl extension_not_allowed else Inr True)
        else if \<not> multiples then Inl multiple_extension
        else if restricted \<and> \<not> list_all ok suffixes then Inl extension_not_allowed
        else Inr True)"

definition ends_with :: "string \<Rightarrow> string \<Rightarrow> bool" where
  "ends_with s p \<longleftrightarrow> starts_with (rev s) (rev p)"

text \<open>\<open>simple_file_matching\<close>: with a root and no extension the source calls \<open>startswith(None)\<close>.\<close>

definition simple_file_matching :: "string \<Rightarrow> string option \<Rightarrow> string option \<Rightarrow> bool result" where
  "simple_file_matching path rt ext =
    (case (rt, ext) of
       (None, None) \<Rightarrow> Inl ValueError
     | (Some r, None) \<Rightarrow> Inl TypeError
     | (None, Some e) \<Rightarrow> Inr (ends_with path e)
     | (Some r, Some e) \<Rightarrow> Inr (starts_with path r \<and> ends_with path e))"

datatype dir_method = Os | Pure | Custom | Other_method

text \<open>\<open>os.path.dirname\<close> and \<open>PurePath.parent\<close> are parameters; the custom one cuts at the last separator.\<close>

definition rsplit_head :: "char \<Rightarrow> string \<Rightarrow> string" where
  "rsplit_head sep path =
    (if sep \<in> set path then rev (tl (dropWhile (\<lambda>c. c \<noteq> sep) (rev path))) else path)"

definition get_file_dir ::
  "(string \<Rightarrow> string) \<Rightarrow> (string \<Rightarrow> string) \<Rightarrow> char \<Rightarrow> dir_method \<Rightarrow> string \<Rightarrow> string result" where
  "get_file_dir os_dir pure_parent sep meth path =
    (case meth of
       Os \<Rightarrow> Inr (os_dir path)
     | Custom \<Rightarrow> Inr (if CHR ''/'' \<in> set path then rsplit_head sep path else '''')
     | Pure \<Rightarrow> Inr (pure_parent path)
     | Other_method \<Rightarrow> Inl ValueError)"

text \<open>\<open>root_to_path_matching\<close>: the files matched at each directory along a path, each once; the
  glob match is a parameter.  The set of candidates is kept as a list without repetitions.\<close>

fun match_levels ::
  "(string \<Rightarrow> string \<Rightarrow> bool) \<Rightarrow> string \<Rightarrow> string \<Rightarrow> string list \<Rightarrow> string \<Rightarrow> string list \<Rightarrow> string list" where
  "match_levels glob sep ext [] cursor candidates = []"
| "match_levels glob sep ext (p # ps) cursor candidates =
    (let cursor = cursor @ p @ sep;
         hits = filter (\<lambda>f. glob f (cursor @ ''*'' @ ext)) candidates
     in hits @ match_levels glob sep ext ps cursor (filter (\<lambda>f. f \<notin> set hits) candidates))"

definition root_to_path_matching ::
  "(string \<Rightarrow> string \<Rightarrow> bool) \<Rightarrow> string list \<Rightarrow> string \<Rightarrow> string \<Rightarrow> string \<Rightarrow> string list" where
  "root_to_path_matching glob path_list path ext sep =
    match_levels glob sep ext (py_split sep path) '''' (remdups path_list)"

lemma match_levels_distinct:
  "distinct cs \<Longrightarrow> distinct (match_levels glob sep ext ps cur cs) \<and> set (match_levels glob sep ext ps cur cs) \<subseteq> set cs"
proof (induction ps arbitrary: cur cs)
  case (Cons p ps)
  let ?hits = "filter (\<lambda>f. glob f ((cur @ p @ sep) @ ''*'' @ ext)) cs"
  have "distinct (filter (\<lambda>f. f \<notin> set ?hits) cs)"
    using Cons.prems by simp
  from Cons.IH [OF this, of "cur @ p @ sep"] Cons.prems show ?case
    by (auto simp: Let_def)
qed simp

text \<open>Every prefix directory of the path, with its trailing separator.\<close>

fun cursors :: "string \<Rightarrow> string \<Rightarrow> string list \<Rightarrow> string list" where
  "cursors sep cur [] = []"
| "cursors sep cur (p # ps) = (cur @ p @ sep) # cursors sep (cur @ p @ sep) ps"

lemma match_levels_set:
  "set (match_levels glob sep ext ps cur cs) = {f \<in> set cs. \<exists>c\<in>set (cursors sep cur ps). glob f (c @ ''*'' @ ext)}"
  by (induction ps arbitrary: cur cs) (auto simp: Let_def)

text \<open>Matching files from the root down to a path returns each candidate at most once, and returns
  exactly those that match the pattern at one of the directories on the way.\<close>

theorem root_to_path_matching_spec:
  "distinct (root_to_path_matching glob fs path ext sep)
    \<and> set (root_to_path_matching glob fs path ext sep)
      = {f \<in> set fs. list_ex (\<lambda>c. glob f (c @ ''*'' @ ext)) (cursors sep '''' (py_split sep path))}"
  using match_levels_distinct [of "remdups fs" glob sep ext "py_split sep path" "''''"]
  by (simp add: root_to_path_matching_def match_levels_set list_ex_iff)

end
