(* ===== verification/Cost_Model.thy ===== *)
theory Cost_Model
  imports Prelude
begin

text \<open>
  definition/_cost.py and classes/cost_definition.py: bill items, the running cost of a request
  with its purchases and refunds, the bill made from it, and the costs of tasks, e-mails, SMS and
  calls.  Python's floating point numbers are rationals here; every subtotal is rounded up to an
  integer by the source itself.
\<close>

section \<open>Items, costs and bills\<close>

record bill_item =
  description :: string
  amount :: rat
  quantity :: rat
  subtotal :: int

definition bill_item_of :: "string \<Rightarrow> rat \<Rightarrow> rat \<Rightarrow> bill_item" where
  "bill_item_of d a q = \<lparr>description = d, amount = a, quantity = q, subtotal = \<lceil>a * q\<rceil>\<rparr>"

record cost =
  purchase_cost :: int
  refund_cost :: int
  last_total :: int
  purchase_items :: "bill_item list"
  refund_items :: "bill_item list"
  credit_key :: "string option"
  definition_name :: "string option"
  default_price :: rat
  bypass :: bool

definition new_cost :: cost where
  "new_cost = \<lparr>purchase_cost = 0, refund_cost = 0, last_total = 0, purchase_items = [],
     refund_items = [], credit_key = None, definition_name = None, default_price = 0,
     bypass = False\<rparr>"

definition purchase :: "string \<Rightarrow> rat \<Rightarrow> rat \<Rightarrow> cost \<Rightarrow> cost" where
  "purchase d a q c = (let item = bill_item_of d a q in
     c\<lparr>purchase_items := purchase_items c @ [item],
       purchase_cost := purchase_cost c + subtotal item\<rparr>)"

definition refund :: "string \<Rightarrow> rat \<Rightarrow> rat \<Rightarrow> cost \<Rightarrow> cost" where
  "refund d a q c = (let item = bill_item_of d a q in
     c\<lparr>refund_items := refund_items c @ [item],
       refund_cost := refund_cost c + subtotal item\<rparr>)"

definition reset_bill :: "bool \<Rightarrow> cost \<Rightarrow> cost" where
  "reset_bill force c =
    (let c = c\<lparr>purchase_items := [], refund_items := [], purchase_cost := 0, refund_cost := 0\<rparr>
     in if force then c\<lparr>last_total := 0\<rparr> else c)"

record bill =
  bill_definition :: "string option"
  p_items :: "bill_item list"
  r_items :: "bill_item list"
  purchase_total :: int
  refund_total :: int
  bill_total :: int
  balance_before :: int
  balance_after :: int

definition generate_bill :: "cost \<Rightarrow> bill" where
  "generate_bill c = \<lparr>bill_definition = definition_name c, p_items = purchase_items c,
     r_items = refund_items c, purchase_total = purchase_cost c, refund_total = refund_cost c,
     bill_total = purchase_cost c - refund_cost c, balance_before = 0, balance_after = 0\<rparr>"

text \<open>
  \<open>Cost.__add__\<close>: the purchases of the other cost are appended, the refund list of the first one
  is extended with itself.
\<close>

definition cost_add :: "cost \<Rightarrow> cost \<Rightarrow> cost" where
  "cost_add c other =
     c\<lparr>purchase_items := purchase_items c @ purchase_items other,
       refund_items := refund_items c @ refund_items c,
       purchase_cost := purchase_cost c + purchase_cost other,
       refund_cost := refund_cost c + refund_cost other\<rparr>"

definition inject_cost_info :: "bill \<Rightarrow> string \<Rightarrow> int \<Rightarrow> string \<Rightarrow> (string \<times> string) list" where
  "inject_cost_info b credit extra plan =
     (case bill_definition b of
        Some d \<Rightarrow> if d = '''' then [] else [(''X-Cost-Definition'', d)]
      | None \<Rightarrow> [])
     @ [(''X-Credit-Name'', credit), (''X-Current-Balance'', int_str (balance_after b)),
        (''X-Total-Cost'', int_str (bill_total b + extra)), (''X-Cost-Plan'', plan)]"

section \<open>The ledger contract\<close>

text \<open>
  What every cost class relies on: an entry moves the total by its worth and keeps the books
  balanced, that is, the running sums are the sums of the listed items.
\<close>

locale ledger =
  fixes charge :: "'i \<Rightarrow> 's \<Rightarrow> 's"
    and credit :: "'i \<Rightarrow> 's \<Rightarrow> 's"
    and worth :: "'i \<Rightarrow> int"
    and total :: "'s \<Rightarrow> int"
    and balanced :: "'s \<Rightarrow> bool"
  assumes charge_total: "total (charge i s) = total s + worth i"
    and credit_total: "total (credit i s) = total s - worth i"
    and charge_balanced: "balanced s \<Longrightarrow> balanced (charge i s)"
    and credit_balanced: "balanced s \<Longrightarrow> balanced (credit i s)"
begin

lemma charges_total: "total (fold charge is s) = total s + sum_list (map worth is)"
  by (induction "is" arbitrary: s) (simp_all add: charge_total)

lemma credits_total: "total (fold credit is s) = total s - sum_list (map worth is)"
  by (induction "is" arbitrary: s) (simp_all add: credit_total)

lemma charges_balanced: "balanced s \<Longrightarrow> balanced (fold charge is s)"
  by (induction "is" arbitrary: s) (simp_all add: charge_balanced)

lemma credits_balanced: "balanced s \<Longrightarrow> balanced (fold credit is s)"
  by (induction "is" arbitrary: s) (simp_all add: credit_balanced)

text \<open>Refunding what was charged, in any order of entries, restores the total.\<close>

lemma charge_then_credit:
  "sum_list (map worth js) = sum_list (map worth is) \<Longrightarrow>
    total (fold credit js (fold charge is s)) = total s"
  by (simp add: charges_total credits_total)

end

definition balanced :: "cost \<Rightarrow> bool" where
  "balanced c \<longleftrightarrow> purchase_cost c = sum_list (map subtotal (purchase_items c))
     \<and> refund_cost c = sum_list (map subtotal (refund_items c))"

definition net :: "cost \<Rightarrow> int" where
  "net c = purchase_cost c - refund_cost c"

type_synonym price = "string \<times> rat \<times> rat"

fun buy :: "price \<Rightarrow> cost \<Rightarrow> cost" where
  "buy (d, a, q) c = purchase d a q c"

fun give_back :: "price \<Rightarrow> cost \<Rightarrow> cost" where
  "give_back (d, a, q) c = refund d a q c"

fun price_worth :: "price \<Rightarrow> int" where
  "price_worth (d, a, q) = \<lceil>a * q\<rceil>"

interpretation books: ledger buy give_back price_worth net balanced
  by unfold_locales
    (auto simp: net_def balanced_def purchase_def refund_def bill_item_of_def Let_def)

lemma purchase_buy: "purchase d a q = buy (d, a, q)"
  by (rule ext) simp

lemma refund_give_back: "refund d a q = give_back (d, a, q)"
  by (rule ext) simp

lemma purchase_net [simp]: "net (purchase d a q c) = net c + \<lceil>a * q\<rceil>"
  using books.charge_total [of "(d, a, q)" c] by simp

lemma refund_net [simp]: "net (refund d a q c) = net c - \<lceil>a * q\<rceil>"
  using books.credit_total [of "(d, a, q)" c] by simp

lemma purchase_balanced [intro]: "balanced c \<Longrightarrow> balanced (purchase d a q c)"
  using books.charge_balanced [of c "(d, a, q)"] by simp

lemma refund_balanced [intro]: "balanced c \<Longrightarrow> balanced (refund d a q c)"
  using books.credit_balanced [of c "(d, a, q)"] by simp

lemma new_cost_simps [simp]:
  "last_total new_cost = 0" "bypass new_cost = False" "refund_items new_cost = []" "refund_cost new_cost = 0"
  by (simp_all add: new_cost_def)

lemma give_back_simps [simp]:
  "last_total (give_back p c) = last_total c" "bypass (give_back p c) = bypass c"
  by (cases p; simp add: refund_def Let_def)+

lemma net_new [simp]: "net new_cost = 0"
  by (simp add: net_def new_cost_def)

lemma balanced_new [simp]: "balanced new_cost"
  by (simp add: balanced_def new_cost_def)

lemma net_reset [simp]: "net (reset_bill force c) = 0"
  by (simp add: net_def reset_bill_def Let_def)

lemma balanced_reset [simp]: "balanced (reset_bill force c)"
  by (simp add: balanced_def reset_bill_def Let_def)

lemma bill_total_net [simp]: "bill_total (generate_bill c) = net c"
  by (simp add: generate_bill_def net_def)

lemma net_cost_add [simp]: "net (cost_add c d) = net c + net d"
  by (simp add: net_def cost_add_def)

text \<open>A bill is consistent when its total is the sum of the items it lists.\<close>

definition bill_consistent :: "bill \<Rightarrow> bool" where
  "bill_consistent b \<longleftrightarrow>
    bill_total b = sum_list (map subtotal (p_items b)) - sum_list (map subtotal (r_items b))"

lemma balanced_bill: "balanced c \<Longrightarrow> bill_consistent (generate_bill c)"
  by (simp add: balanced_def bill_consistent_def generate_bill_def)

section \<open>Data costs\<close>

definition data_init :: "rat \<Rightarrow> string \<Rightarrow> cost \<Rightarrow> cost" where
  "data_init price key c = c\<lparr>default_price := price, credit_key := Some key\<rparr>"

definition key_text :: "cost \<Rightarrow> string" where
  "key_text c = (case credit_key c of Some k \<Rightarrow> k | None \<Rightarrow> ''Ellipsis'')"

definition data_pre_purchase :: "cost \<Rightarrow> cost" where
  "data_pre_purchase c = purchase (key_text c) (default_price c) 1 c"

definition data_post_purchase :: "cost \<Rightarrow> cost" where
  "data_post_purchase c = purchase (key_text c) (default_price c) 1 c"

definition data_post_refund :: "cost \<Rightarrow> cost" where
  "data_post_refund c = refund (key_text c) (default_price c) 1 c"

definition data_post_payment :: "cost \<Rightarrow> cost" where
  "data_post_payment c = refund (key_text c) (default_price c) 1 c"

section \<open>Task costs\<close>

record task_cost_def =
  api_usage_cost :: int
  def_credit_key :: string
  max_free_content :: int
  max_free_recipient :: int
  content_extra_cost :: int
  recipient_extra_cost :: int
  priority_cost :: int
  tracking_cost :: int
  retry_cost :: int
  task_type_cost :: "(string, int) dict"

definition register_meta_key :: "task_cost_def \<Rightarrow> string \<Rightarrow> cost \<Rightarrow> cost" where
  "register_meta_key df name c = c\<lparr>credit_key := Some (def_credit_key df), definition_name := Some name\<rparr>"

definition simple_compute_cost :: "task_cost_def \<Rightarrow> cost \<Rightarrow> cost" where
  "simple_compute_cost df c = purchase ''api_usage'' (of_int (api_usage_cost df)) 1 c"

text \<open>Python's \<open>int\<close> on a float drops the fraction.\<close>

definition py_int :: "rat \<Rightarrow> int" where
  "py_int x = (if x \<ge> 0 then \<lfloor>x\<rfloor> else \<lceil>x\<rceil>)"

text \<open>
  \<open>TaskCost.compute_cost\<close>.  A scheduler is given by the number of recipients of each of its
  contents, its priority and its task type; the tracker and the task manager by their flags; the
  definition by a record, all its keys present.  The recipients are counted through the class's pointer:
  where it is not set, the first content raises.  The division by a priority of 0 leaves the purchases
  made before it in the object.
\<close>

definition extras :: "task_cost_def \<Rightarrow> nat list \<Rightarrow> bool \<Rightarrow> bool \<Rightarrow> cost \<Rightarrow> cost" where
  "extras df recipients will_track retry c =
    (let total_recipient = int (sum_list recipients);
         content_diff = int (length recipients) - max_free_content df;
         recipient_diff = total_recipient - max_free_recipient df;
         c = (if content_diff > 0
              then purchase ''content_extra'' (of_int (content_extra_cost df)) (of_int content_diff) c
              else c);
         c = (if recipient_diff > 0
              then purchase ''recipient_extra'' (of_int (recipient_extra_cost df)) (of_int recipient_diff) c
              else c);
         c = (if will_track
              then purchase ''tracking'' (of_int (tracking_cost df)) (of_int total_recipient) c else c)
     in if retry then purchase ''retry'' (of_int (retry_cost df)) (of_int total_recipient) c else c)"

definition task_compute_cost ::
  "bool \<Rightarrow> task_cost_def \<Rightarrow> nat list \<Rightarrow> bool \<Rightarrow> bool \<Rightarrow> int \<Rightarrow> string \<Rightarrow> cost \<Rightarrow> (nat \<times> nat) result \<times> cost" where
  "task_compute_cost has_pointer df recipients will_track retry priority task_type c =
    (if \<not> has_pointer \<and> recipients \<noteq> [] then (Inl (AttributeError ''ptr''), c)
     else
       let c = extras df recipients will_track retry c
       in if priority = 0 then (Inl ZeroDivisionError, c)
          else
            let c = purchase ''priority'' (of_int (py_int (of_int (priority_cost df) / of_int priority))) 1 c;
                c = purchase (''task_type:'' @ task_type)
                      (of_int (case map_of (task_type_cost df) task_type of Some x \<Rightarrow> x | None \<Rightarrow> 1)) 1 c;
                c = purchase ''api_usage'' (of_int (api_usage_cost df)) 1 c
            in (Inr (length recipients, sum_list recipients), c))"

text \<open>\<open>EmailCost\<close> sets the pointer; it reads the price of attachments, and for a template adds the price
  of the MIME kind of each content.  Both entries of the definition may be missing.\<close>

definition mime_price :: "(string, int) dict \<Rightarrow> string \<Rightarrow> int" where
  "mime_price mime mt = (case map_of mime mt of Some x \<Rightarrow> x | None \<Rightarrow> 0)"

definition email_compute_cost ::
  "task_cost_def \<Rightarrow> bool \<Rightarrow> (string, int) dict option \<Rightarrow> string list option \<Rightarrow> nat list \<Rightarrow> bool \<Rightarrow> bool \<Rightarrow> int \<Rightarrow> string
    \<Rightarrow> cost \<Rightarrow> unit result \<times> cost" where
  "email_compute_cost df attachement_cost mime template_mimes recipients will_track retry priority task_type c =
    (if \<not> attachement_cost then (Inl (KeyError ''attachement_cost''), c)
     else case task_compute_cost True df recipients will_track retry priority task_type c of
       (Inl e, c) \<Rightarrow> (Inl e, c)
     | (Inr _, c) \<Rightarrow>
         (case template_mimes of
            None \<Rightarrow> (Inr (), c)
          | Some ms \<Rightarrow>
              if mime = None \<and> ms \<noteq> [] then (Inl (KeyError ''mime''), c)
              else (Inr (), purchase ''mime''
                 (of_int (foldl (\<lambda>acc mt. acc + mime_price (case mime of Some d \<Rightarrow> d | None \<Rightarrow> []) mt) 0 ms)) 1 c)))"

text \<open>The costs of SMS and calls set no pointer.\<close>

definition sms_compute_cost ::
  "task_cost_def \<Rightarrow> nat list \<Rightarrow> bool \<Rightarrow> bool \<Rightarrow> int \<Rightarrow> string \<Rightarrow> cost \<Rightarrow> unit result \<times> cost" where
  "sms_compute_cost df recipients will_track retry priority task_type c =
    (case task_compute_cost False df recipients will_track retry priority task_type c of
       (Inl e, c) \<Rightarrow> (Inl e, c) | (Inr _, c) \<Rightarrow> (Inr (), c))"

definition call_compute_cost ::
  "task_cost_def \<Rightarrow> nat list \<Rightarrow> bool \<Rightarrow> bool \<Rightarrow> int \<Rightarrow> string \<Rightarrow> cost \<Rightarrow> (nat \<times> nat) result \<times> cost" where
  "call_compute_cost = task_compute_cost False"

section \<open>Token costs\<close>

definition token_purchase ::
  "(string, rat) dict \<Rightarrow> (string, rat) dict \<Rightarrow> string \<Rightarrow> string \<Rightarrow> string \<Rightarrow> string \<Rightarrow> string \<Rightarrow> rat \<Rightarrow> cost \<Rightarrow> cost" where
  "token_purchase provider_cost model_cost model provider provider_id token_type descr qty c =
    (let factor = (case map_of provider_cost provider of Some f \<Rightarrow> f | None \<Rightarrow> 1)
                * (case map_of model_cost model of Some f \<Rightarrow> f | None \<Rightarrow> 1)
     in purchase (provider @ ''/'' @ model @ ''@'' @ provider_id @ '':'' @ token_type @ '' - '' @ descr)
          factor qty c)"

section \<open>Lemmas and properties of task costs\<close>

text \<open>The price list of a task, written as the contract states it.\<close>

definition task_price :: "task_cost_def \<Rightarrow> nat list \<Rightarrow> bool \<Rightarrow> bool \<Rightarrow> int \<Rightarrow> string \<Rightarrow> int" where
  "task_price df recipients will_track retry priority task_type =
    (let n = int (sum_list recipients) in
     content_extra_cost df * max 0 (int (length recipients) - max_free_content df)
     + recipient_extra_cost df * max 0 (n - max_free_recipient df)
     + (if will_track then tracking_cost df * n else 0)
     + (if retry then retry_cost df * n else 0)
     + py_int (of_int (priority_cost df) / of_int priority)
     + (case map_of (task_type_cost df) task_type of Some x \<Rightarrow> x | None \<Rightarrow> 1)
     + api_usage_cost df)"

lemma ceiling_mult_of_int [simp]: "\<lceil>(of_int a :: rat) * of_int b\<rceil> = a * b"
  by (metis ceiling_of_int of_int_mult)

lemma extras_net:
  "net (extras df rs tr re c) = net c
     + content_extra_cost df * max 0 (int (length rs) - max_free_content df)
     + recipient_extra_cost df * max 0 (int (sum_list rs) - max_free_recipient df)
     + (if tr then tracking_cost df * int (sum_list rs) else 0)
     + (if re then retry_cost df * int (sum_list rs) else 0)"
  by (simp add: extras_def Let_def max_def del: of_int_diff of_int_of_nat_eq)

lemma extras_balanced: "balanced c \<Longrightarrow> balanced (extras df rs tr re c)"
  by (auto simp: extras_def Let_def)

lemma task_bill:
  assumes "priority \<noteq> 0"
  shows "\<exists>c'. task_compute_cost True df rs tr re priority tt c = (Inr (length rs, sum_list rs), c')
    \<and> net c' = net c + task_price df rs tr re priority tt \<and> (balanced c \<longrightarrow> balanced c')"
  using assms by (auto simp: task_compute_cost_def Let_def extras_net task_price_def intro!: extras_balanced)

lemma mime_sum: "foldl (\<lambda>acc mt. acc + f mt) a ms = a + (\<Sum>mt\<leftarrow>ms. f mt)" for a :: int
  by (induction ms arbitrary: a) simp_all

text \<open>C8: Only e-mails are billed by the price list. For a priority that is not 0, a definition with its
  attachment and MIME entries, and books that are balanced before, the bill of an e-mail grows by exactly
  the price list: the extra contents and recipients above the free ones, tracking and retry per
  recipient, the priority share, the task type, the API usage, and for a template the price of each
  content's MIME kind; and the bill's total is the sum of its items. The cost of an SMS or of a call with
  at least one content is never made: both raise AttributeError, with the bill as it was.\<close>

theorem task_bills:
  assumes "priority \<noteq> 0" "balanced c"
  shows "(case email_compute_cost df True (Some mime) templates rs tr re priority tt c of (r, c') \<Rightarrow>
      r = Inr ()
      \<and> bill_total (generate_bill c') = bill_total (generate_bill c) + task_price df rs tr re priority tt
          + (case templates of None \<Rightarrow> 0 | Some ms \<Rightarrow> \<Sum>m\<leftarrow>ms. mime_price mime m)
      \<and> bill_consistent (generate_bill c'))
    \<and> (rs \<noteq> [] \<longrightarrow> sms_compute_cost df rs tr re priority tt c = (Inl (AttributeError ''ptr''), c)
        \<and> call_compute_cost df rs tr re priority tt c = (Inl (AttributeError ''ptr''), c))"
proof -
  obtain c' where "task_compute_cost True df rs tr re priority tt c = (Inr (length rs, sum_list rs), c')"
    "net c' = net c + task_price df rs tr re priority tt" "balanced c'"
    using task_bill [OF assms(1)] assms(2) by blast
  then show ?thesis
    by (auto simp: email_compute_cost_def mime_sum sms_compute_cost_def call_compute_cost_def
        task_compute_cost_def intro!: balanced_bill split: option.split)
qed

definition sample_cost_def :: task_cost_def where
  "sample_cost_def = \<lparr>api_usage_cost = 3, def_credit_key = ''email'', max_free_content = 1, max_free_recipient = 2,
      content_extra_cost = 5, recipient_extra_cost = 7, priority_cost = 10, tracking_cost = 2,
      retry_cost = 4, task_type_cost = [(''now'', 6)]\<rparr>"

theorem task_bills_witness:
  "bill_total (generate_bill (snd (email_compute_cost sample_cost_def True (Some [(''html'', - 5)])
     (Some [''html'', ''text'']) [2, 3] True False 3 ''now'' new_cost))) = 43
   \<and> fst (sms_compute_cost sample_cost_def [2, 3] True False 3 ''now'' new_cost) = Inl (AttributeError ''ptr'')"
  using task_bills [where priority = 3 and c = new_cost and rs = "[2, 3]" and tr = True and re = False
      and tt = "''now''" and df = sample_cost_def and mime = "[(''html'', - 5)]" and templates = "Some [''html'', ''text'']"]
  by (simp add: sample_cost_def_def task_price_def py_int_def floor_eq_iff mime_price_def split: prod.splits)

text \<open>Adding the books of one cost to another moves the total by the other's total, but the
  list of refunds is extended with itself instead of the other's: from balanced books the bill of
  the sum agrees with the items it lists exactly when both had the same amount of refunds.\<close>

theorem cost_add_bill:
  assumes "balanced c" "balanced d"
  shows "bill_total (generate_bill (cost_add c d))
           = bill_total (generate_bill c) + bill_total (generate_bill d)
    \<and> (bill_consistent (generate_bill (cost_add c d)) \<longleftrightarrow> refund_cost c = refund_cost d)"
  using assms
  by (auto simp: bill_consistent_def generate_bill_def cost_add_def balanced_def)

theorem cost_add_bill_witness:
  "\<not> bill_consistent (generate_bill (cost_add new_cost (refund ''crawl'' 5 1 new_cost)))"
  using cost_add_bill [OF balanced_new refund_balanced [OF balanced_new, of "''crawl''" 5 1]]
  by (simp add: refund_def bill_item_of_def new_cost_def)

end
