(* ===== verification/Cost_File.thy ===== *)
theory Cost_File
  imports Cost_Model
begin

text \<open>
  cost/file_cost.py, cost/ingest_cost.py, cost/object_cost.py and the unit conversion of
  services/file/file_service.py: what uploading, ingesting, crawling, copying and deleting data is
  charged and refunded.  Sizes are in bytes, limits in kilobytes.
\<close>

section \<open>Unit conversion\<close>

definition bytes_units :: "(string, nat) dict" where
  "bytes_units = [(''b'', 1), (''kb'', 1024), (''mb'', 1024 * 1024)]"

text \<open>The units are given in lower case, as every caller does; \<open>float(nbytes)\<close> is exact below \<open>2^53\<close>.\<close>

definition bytes_conversion :: "rat option \<Rightarrow> string \<Rightarrow> string \<Rightarrow> int result" where
  "bytes_conversion nbytes ufrom uto =
    (case nbytes of
       None \<Rightarrow> Inr 0
     | Some sz \<Rightarrow>
       (case (map_of bytes_units ufrom, map_of bytes_units uto) of
          (Some uf, Some ut) \<Rightarrow>
            if ufrom = uto then Inr \<lceil>sz\<rceil>
            else let target = sz * of_nat uf / of_nat ut
                 in if uto = ''b'' then Inr (py_int target) else Inr \<lceil>target\<rceil>
        | _ \<Rightarrow> Inl ValueError))"

definition kb_of_bytes :: "rat option \<Rightarrow> int" where
  "kb_of_bytes nbytes = (case nbytes of None \<Rightarrow> 0 | Some sz \<Rightarrow> \<lceil>sz / 1024\<rceil>)"

lemma bytes_conversion_b_kb: "bytes_conversion nbytes ''b'' ''kb'' = Inr (kb_of_bytes nbytes)"
  by (simp add: bytes_conversion_def bytes_units_def kb_of_bytes_def split: option.splits)

lemma bytes_conversion_mb_kb: "bytes_conversion (Some (of_int n)) ''mb'' ''kb'' = Inr (n * 1024)"
proof -
  have "\<lceil>1024 * (of_int n :: rat)\<rceil> = 1024 * n"
    using ceiling_mult_of_int [of 1024 n] by simp
  then show ?thesis
    by (simp add: bytes_conversion_def bytes_units_def)
qed

lemma kb_of_bytes_nonneg: "0 \<le> sz \<Longrightarrow> 0 \<le> kb_of_bytes (Some sz)"
  by (simp add: kb_of_bytes_def)

section \<open>Files\<close>

record file_def =
  max_file_size :: int
  cost_per_extra_mb :: int

text \<open>\<open>FileCost.init\<close>: the limit of the definition is in megabytes.\<close>

definition file_init :: "int \<Rightarrow> int \<Rightarrow> file_def result" where
  "file_init limit_mb extra =
    rbind (bytes_conversion (Some (of_int limit_mb)) ''mb'' ''kb'')
      (\<lambda>kb. Inr \<lparr>max_file_size = kb, cost_per_extra_mb = extra\<rparr>)"

definition compute_prices :: "file_def \<Rightarrow> string \<Rightarrow> string option \<Rightarrow> rat option \<Rightarrow> price list result" where
  "compute_prices fd name filename nbytes =
    rbind (bytes_conversion nbytes ''b'' ''kb'')
      (\<lambda>kb. let f = (case filename of None \<Rightarrow> ''unknown'' | Some x \<Rightarrow> if x = '''' then ''unknown'' else x);
                delta = max_file_size fd - kb;
                txt = name @ '' '' @ f @ '' ('' @ int_str kb @ ''.00 KB''
            in Inr ((if delta < 0
                     then [(txt @ '', exceeds limit of '' @ int_str (max_file_size fd) @ '' KB)'',
                            of_int (cost_per_extra_mb fd), of_int (delta * -1))] else [])
                    @ [(txt @ '')'', 1, of_int kb)]))"

text \<open>The cost of a file as the two items of the price list add up to.\<close>

definition file_worth :: "file_def \<Rightarrow> rat option \<Rightarrow> int" where
  "file_worth fd nbytes = (let kb = kb_of_bytes nbytes in
     kb + cost_per_extra_mb fd * max 0 (kb - max_file_size fd))"

lemma compute_prices_worth:
  "\<exists>ps. compute_prices fd name fn nbytes = Inr ps \<and> sum_list (map price_worth ps) = file_worth fd nbytes"
proof -
  have "\<lceil>(of_int a :: rat) * of_int (- (max_file_size fd - b))\<rceil> = a * (b - max_file_size fd)" for a b
    by (simp only: ceiling_mult_of_int) simp
  then show ?thesis
    by (simp add: compute_prices_def bytes_conversion_b_kb file_worth_def Let_def max_def)
qed

type_synonym upload = "string option \<times> rat option"

text \<open>
  The names of the three price lists are lambdas of one argument stored in the class.  Looked up on
  the class (\<open>FileCost.PRE_NAME('document')\<close>) they get that argument; looked up on an object they
  are bound, and the object comes first.  \<open>name_call\<close> is the call with its list of arguments.
\<close>

definition name_call :: "string \<Rightarrow> string list \<Rightarrow> string result" where
  "name_call what args = (case args of
       [x] \<Rightarrow> Inr ((if x = ''object'' then ''File'' else ''Document'') @ '' '' @ what @ '':'')
     | _ \<Rightarrow> Inl TypeError)"

definition file_loop :: "(price list \<Rightarrow> cost \<Rightarrow> cost) \<Rightarrow> file_def \<Rightarrow> string result \<Rightarrow> upload list \<Rightarrow> cost \<Rightarrow> cost result" where
  "file_loop post fd name = rfold (\<lambda>f c. rbind name (\<lambda>n.
     rbind (compute_prices fd n (fst f) (snd f)) (\<lambda>ps. Inr (post ps c))))"

definition file_pre_purchase :: "file_def \<Rightarrow> string \<Rightarrow> string \<Rightarrow> upload list \<Rightarrow> cost \<Rightarrow> cost result" where
  "file_pre_purchase fd self key = file_loop (fold buy) fd (name_call ''upload'' [self, key])"

definition file_post_purchase :: "file_def \<Rightarrow> string \<Rightarrow> string \<Rightarrow> upload list \<Rightarrow> cost \<Rightarrow> cost result" where
  "file_post_purchase fd self key = file_loop (fold buy) fd (name_call ''processing'' [self, key])"

definition file_post_refund :: "file_def \<Rightarrow> string \<Rightarrow> string \<Rightarrow> upload list \<Rightarrow> cost \<Rightarrow> cost result" where
  "file_post_refund fd self key = file_loop (fold give_back) fd (name_call ''refund'' [self, key])"

section \<open>Ingested files\<close>

text \<open>The prices of one file: one list for each of the two databases it goes to.\<close>

definition ingest_prices :: "file_def \<Rightarrow> string \<Rightarrow> bool \<times> bool \<Rightarrow> upload \<Rightarrow> price list result" where
  "ingest_prices fd name dbs f =
    rbind (if fst dbs then compute_prices fd (''[Vector] - '' @ name) (fst f) (snd f) else Inr [])
      (\<lambda>v. rbind (if snd dbs then compute_prices fd (''[K-Graph] - '' @ name) (fst f) (snd f) else Inr [])
        (\<lambda>g. Inr (v @ g)))"

definition ingest_pre_purchase :: "file_def \<Rightarrow> bool \<times> bool \<Rightarrow> upload list \<Rightarrow> cost \<Rightarrow> cost result" where
  "ingest_pre_purchase fd dbs files =
    rfold (\<lambda>f c. rbind (ingest_prices fd ''Document upload:'' dbs f) (\<lambda>ps. Inr (fold buy ps c))) files"

definition ingest_post_purchase :: "file_def \<Rightarrow> bool \<times> bool \<Rightarrow> upload list \<Rightarrow> cost \<Rightarrow> cost result" where
  "ingest_post_purchase fd dbs files =
    rfold (\<lambda>f c. rbind (ingest_prices fd ''Document processing:'' dbs f) (\<lambda>ps. Inr (fold buy ps c))) files"

definition ingest_post_refund :: "file_def \<Rightarrow> bool \<times> bool \<Rightarrow> upload list \<Rightarrow> cost \<Rightarrow> cost result" where
  "ingest_post_refund fd dbs files =
    rfold (\<lambda>f c. rbind (ingest_prices fd ''Document refund:'' dbs f) (\<lambda>ps. Inr (fold give_back ps c))) files"

definition ingest_worth :: "file_def \<Rightarrow> bool \<times> bool \<Rightarrow> upload list \<Rightarrow> int" where
  "ingest_worth fd dbs files =
    (of_bool (fst dbs) + of_bool (snd dbs)) * sum_list (map (\<lambda>f. file_worth fd (snd f)) files)"

lemma ingest_prices_worth:
  "\<exists>ps. ingest_prices fd name dbs f = Inr ps
    \<and> sum_list (map price_worth ps) = (of_bool (fst dbs) + of_bool (snd dbs)) * file_worth fd (snd f)"
proof -
  obtain v g where
    "compute_prices fd (''[Vector] - '' @ name) (fst f) (snd f) = Inr v"
    "sum_list (map price_worth v) = file_worth fd (snd f)"
    "compute_prices fd (''[K-Graph] - '' @ name) (fst f) (snd f) = Inr g"
    "sum_list (map price_worth g) = file_worth fd (snd f)"
    using compute_prices_worth by metis
  then show ?thesis
    by (simp add: ingest_prices_def)
qed

text \<open>One lemma for the three loops: they differ in the name and in buying or giving back.\<close>

lemma ingest_loop:
  assumes "\<And>ps c. net (post ps c) = net c + s * sum_list (map price_worth ps)"
    and "\<And>ps c. balanced c \<Longrightarrow> balanced (post ps c)"
  shows "\<exists>c'. rfold (\<lambda>f c. rbind (ingest_prices fd name dbs f) (\<lambda>ps. Inr (post ps c))) files c = Inr c'
    \<and> net c' = net c + s * ingest_worth fd dbs files \<and> (balanced c \<longrightarrow> balanced c')"
proof (induction files arbitrary: c)
  case Nil
  then show ?case by (simp add: ingest_worth_def)
next
  case (Cons f files)
  obtain ps where ps: "ingest_prices fd name dbs f = Inr ps"
    "sum_list (map price_worth ps) = (of_bool (fst dbs) + of_bool (snd dbs)) * file_worth fd (snd f)"
    using ingest_prices_worth by blast
  have w: "ingest_worth fd dbs (f # files)
      = (of_bool (fst dbs) + of_bool (snd dbs)) * file_worth fd (snd f) + ingest_worth fd dbs files"
    by (simp add: ingest_worth_def distrib_left)
  from Cons.IH [of "post ps c"] assms [where ps = ps and c = c] ps w show ?case
    by (auto simp: distrib_left)
qed

lemma fold_buy_net: "net (fold buy ps c) = net c + 1 * sum_list (map price_worth ps)"
  by (simp add: books.charges_total)

lemma fold_give_back_net: "net (fold give_back ps c) = net c + (- 1) * sum_list (map price_worth ps)"
  by (simp add: books.credits_total)

lemmas buy_loop = ingest_loop [where post = "fold buy" and s = 1,
    OF fold_buy_net books.charges_balanced, folded ingest_pre_purchase_def]
lemmas give_back_loop = ingest_loop [where post = "fold give_back" and s = "- 1",
    OF fold_give_back_net books.credits_balanced]

section \<open>Stored objects\<close>

datatype object_meta = Object_meta string string rat | Other_meta

definition object_text :: "string \<Rightarrow> string \<Rightarrow> string" where
  "object_text name version = name @ '' @ '' @ version"

definition object_save_meta ::
  "(string \<times> string \<times> rat) list \<Rightarrow> (string \<times> string, rat) dict \<Rightarrow> (string \<times> string, rat) dict" where
  "object_save_meta ms meta = fold (\<lambda>(name, version, sz). AList.update (name, version) sz) ms meta"

text \<open>The bound method \<open>POST_NAME\<close> is only printed here, its text is a parameter.\<close>

definition object_post_refund :: "string \<Rightarrow> file_def \<Rightarrow> object_meta list \<Rightarrow> cost \<Rightarrow> cost result" where
  "object_post_refund post_name fd =
    rfold (\<lambda>m c. case m of
        Other_meta \<Rightarrow> Inr c
      | Object_meta name version sz \<Rightarrow>
          rbind (compute_prices fd post_name (Some (object_text name version)) (Some sz))
            (\<lambda>ps. Inr (fold give_back ps c)))"

definition object_pre_purchase :: "file_def \<Rightarrow> string \<times> string \<times> rat \<Rightarrow> cost \<Rightarrow> cost result" where
  "object_pre_purchase fd m c = (case m of (name, version, sz) \<Rightarrow>
     rbind (compute_prices fd ''File Copying: '' (Some (object_text name version)) (Some sz))
       (\<lambda>ps. Inr (fold give_back ps c)))"

definition object_post_purchase :: "file_def \<Rightarrow> string \<times> string \<times> rat \<Rightarrow> cost \<Rightarrow> cost result" where
  "object_post_purchase = object_pre_purchase"

definition object_post_payment ::
  "file_def \<Rightarrow> (string \<times> string, rat) dict \<Rightarrow> (string \<times> string) list \<Rightarrow> cost \<Rightarrow> cost result" where
  "object_post_payment fd meta =
    rfold (\<lambda>(name, version) c. case map_of meta (name, version) of
        None \<Rightarrow> Inr c
      | Some sz \<Rightarrow>
          rbind (compute_prices fd ''File deletion cancelled:'' (Some (object_text name version)) (Some sz))
            (\<lambda>ps. Inr (fold give_back ps c)))"

section \<open>Crawled and researched documents\<close>

record markdown =
  crawl_type :: string
  full_refund :: bool
  max_html_kb :: int
  max_pdf_kb :: int

record document =
  doc_size :: rat
  doc_pdf :: bool
  doc_description :: string

definition refund_dbs :: "bool \<times> bool \<Rightarrow> string \<Rightarrow> string \<Rightarrow> rat \<Rightarrow> rat \<Rightarrow> cost \<Rightarrow> cost" where
  "refund_dbs dbs vtext gtext a q c =
    (let c = (if fst dbs then refund vtext a q c else c)
     in if snd dbs then refund gtext a q c else c)"

text \<open>
  The loop of \<open>MarkdownResultIngestCost.post_refund\<close>: its state is the two counters, the sum kept
  for a full refund, and the cost.  A PDF is compared with the HTML limit, as in the source.
\<close>

definition markdown_doc ::
  "markdown \<Rightarrow> bool \<times> bool \<Rightarrow> document \<Rightarrow> int \<times> int \<times> int \<times> cost \<Rightarrow> int \<times> int \<times> int \<times> cost" where
  "markdown_doc md dbs d st = (case st of (urls, pdfs, acc, c) \<Rightarrow>
     let kb = kb_of_bytes (Some (doc_size d));
         cost_size = (if doc_pdf d then max_html_kb md - kb else max_html_kb md - kb);
         urls = (if doc_pdf d then urls else urls + 1);
         pdfs = (if doc_pdf d then pdfs + 1 else pdfs)
     in if full_refund md then (urls, pdfs, acc + cost_size, c)
        else (urls, pdfs, acc,
              refund_dbs dbs (crawl_type md @ '' [Vector] Credit Refund: '' @ doc_description d)
                (crawl_type md @ '' [Graph] Credit Refund: '' @ doc_description d) 1 (of_int cost_size) c))"

definition markdown_post_refund ::
  "markdown \<Rightarrow> document list \<Rightarrow> bool \<times> bool \<Rightarrow> int \<Rightarrow> int \<Rightarrow> cost \<Rightarrow> cost" where
  "markdown_post_refund md results dbs url_size pdf_size c =
    (case fold (markdown_doc md dbs) results (0, 0, 0, c) of (urls, pdfs, acc, c) \<Rightarrow>
      let c = (if full_refund md
               then refund_dbs dbs (crawl_type md @ '' [Vector] Credit Refund'')
                      (crawl_type md @ '' [Graph] Credit Refund'') (of_int acc) 1 c else c);
          c = (if url_size - urls > 0
               then refund_dbs dbs (crawl_type md @ '' [Vector] HTML Top Up Refund'')
                      (crawl_type md @ '' [Graph] HTML Top Up Refund'')
                      (of_int (max_html_kb md)) (of_int (url_size - urls)) c else c)
      in if pdf_size - pdfs > 0
         then refund_dbs dbs (crawl_type md @ '' [Vector] PDF Top Up Refund'')
                (crawl_type md @ '' [Graph] PDF Top Up Refund'')
                (of_int (max_pdf_kb md)) (of_int (pdf_size - pdfs)) c else c)"

definition crawl_compute :: "markdown \<Rightarrow> bool \<times> bool \<Rightarrow> string \<Rightarrow> int \<Rightarrow> int \<Rightarrow> cost \<Rightarrow> cost" where
  "crawl_compute md dbs descr url_size pdf_size c =
    (let c = (if fst dbs then purchase (''[Vector] - '' @ descr) (of_int (max_html_kb md)) (of_int url_size) c else c);
         c = (if snd dbs then purchase (''[K-Graph] - '' @ descr) (of_int (max_html_kb md)) (of_int url_size) c else c);
         c = (if fst dbs then purchase ''[Vector] - pdf'' (of_int (max_pdf_kb md)) (of_int pdf_size) c else c)
     in if snd dbs then purchase ''[K-Graph] - pdf'' (of_int (max_pdf_kb md)) (of_int pdf_size) c else c)"

definition crawl_pre_purchase :: "markdown \<Rightarrow> bool \<times> bool \<Rightarrow> string \<Rightarrow> int \<Rightarrow> int \<Rightarrow> cost \<Rightarrow> cost" where
  "crawl_pre_purchase = crawl_compute"

definition crawl_post_purchase :: "markdown \<Rightarrow> bool \<times> bool \<Rightarrow> string \<Rightarrow> int \<Rightarrow> int \<Rightarrow> cost \<Rightarrow> cost" where
  "crawl_post_purchase = crawl_compute"

definition crawl_post_refund :: "markdown \<Rightarrow> rat \<Rightarrow> int \<Rightarrow> int \<Rightarrow> bool \<times> bool \<Rightarrow> cost \<Rightarrow> cost" where
  "crawl_post_refund md meta_size url_size pdf_size dbs c =
    (if full_refund md then refund_dbs dbs ''[Crawl Refund Vector]'' ''[Crawl Refund Vector]'' meta_size 1 c
     else
       let c = (if fst dbs
                then refund ''[Crawl Refund Vector] - pdf url'' (of_int (max_pdf_kb md)) (of_int pdf_size)
                       (refund ''[Crawl Refund Vector] - website url'' (of_int (max_html_kb md)) (of_int url_size) c)
                else c)
       in if snd dbs
          then refund ''[Crawl Refund K-Graph] - pdf url'' (of_int (max_pdf_kb md)) (of_int pdf_size)
                 (refund ''[Crawl Refund K-Graph] - website url'' (of_int (max_html_kb md)) (of_int url_size) c)
          else c)"

definition total_size :: "markdown \<Rightarrow> int \<Rightarrow> int \<Rightarrow> int" where
  "total_size md url pdf = url * max_html_kb md + pdf * max_pdf_kb md"

definition research_pre_purchase :: "markdown \<Rightarrow> string \<Rightarrow> int \<Rightarrow> cost \<Rightarrow> cost" where
  "research_pre_purchase md name top_k c =
     purchase (''Ingest of the '' @ name) (of_int top_k) (of_int (max_html_kb md)) c"

definition research_post_refund :: "string \<Rightarrow> rat \<Rightarrow> cost \<Rightarrow> cost" where
  "research_post_refund uri sz c = refund (''Refund of the research: '' @ uri) sz 1 c"

section \<open>Deleting ingested documents\<close>

datatype ingest_task = Crawl_task | File_task | Research_task | Other_task

record delete_meta =
  del_task :: ingest_task
  del_uri :: string
  del_size :: rat

text \<open>Each result is refunded on a fresh cost of its own kind, added to the running cost.\<close>

definition delete_cost_of :: "file_def \<Rightarrow> bool \<times> bool \<Rightarrow> delete_meta \<Rightarrow> cost option result" where
  "delete_cost_of fd dbs r = (case del_task r of
       Crawl_task \<Rightarrow> Inr (Some (refund_dbs dbs ''[Crawl Refund Vector]'' ''[Crawl Refund Vector]'' (del_size r) 1 new_cost))
     | File_task \<Rightarrow> rbind (ingest_post_refund fd dbs [(Some (del_uri r), Some (del_size r))] new_cost) (\<lambda>c. Inr (Some c))
     | Research_task \<Rightarrow> Inr (Some (research_post_refund (del_uri r) (del_size r) new_cost))
     | Other_task \<Rightarrow> Inr None)"

definition delete_step :: "file_def \<Rightarrow> bool \<times> bool \<Rightarrow> delete_meta \<Rightarrow> cost \<Rightarrow> cost result" where
  "delete_step fd dbs r c = rbind (delete_cost_of fd dbs r)
     (\<lambda>x. case x of None \<Rightarrow> Inr c | Some d \<Rightarrow> Inr (cost_add c d))"

definition delete_post_refund :: "file_def \<Rightarrow> bool \<times> bool \<Rightarrow> delete_meta list \<Rightarrow> cost \<Rightarrow> cost result" where
  "delete_post_refund fd dbs = rfold (delete_step fd dbs)"

section \<open>Lemmas and properties\<close>

text \<open>Pricing the upload, the processing or the refund of at least one plain file raises
  TypeError: the lambda that names the price list is bound to the cost object.\<close>

lemma file_prices_raise:
  "file_pre_purchase fd self key (f # fs) c = Inl TypeError
    \<and> file_post_purchase fd self key (f # fs) c = Inl TypeError
    \<and> file_post_refund fd self key (f # fs) c = Inl TypeError"
  by (simp add: file_pre_purchase_def file_post_purchase_def file_post_refund_def file_loop_def name_call_def)

lemma refund_dbs_net [simp]:
  "net (refund_dbs dbs v g a q c) = net c - (of_bool (fst dbs) + of_bool (snd dbs)) * \<lceil>a * q\<rceil>"
  by (simp add: refund_dbs_def Let_def)

lemma ingest_pre_purchase_net:
  "\<exists>c'. ingest_pre_purchase fd dbs files c = Inr c' \<and> net c' = net c + ingest_worth fd dbs files
    \<and> (balanced c \<longrightarrow> balanced c')"
  using buy_loop [of fd "''Document upload:''" dbs files c] by (simp add: ingest_pre_purchase_def)

lemma ingest_post_refund_net:
  "\<exists>c'. ingest_post_refund fd dbs files c = Inr c' \<and> net c' = net c - ingest_worth fd dbs files
    \<and> (balanced c \<longrightarrow> balanced c')"
  using give_back_loop [of fd "''Document refund:''" dbs files c] by (simp add: ingest_post_refund_def)

lemma ingest_post_purchase_net:
  "\<exists>c'. ingest_post_purchase fd dbs files c = Inr c' \<and> net c' = net c + ingest_worth fd dbs files
    \<and> (balanced c \<longrightarrow> balanced c')"
  using buy_loop [of fd "''Document processing:''" dbs files c] by (simp add: ingest_post_purchase_def)

lemma buy_simps [simp]:
  "last_total (buy p c) = last_total c" "bypass (buy p c) = bypass c"
  by (cases p; simp add: purchase_def Let_def)+

lemma buy_all_simps [simp]:
  "last_total (fold buy ps c) = last_total c" "bypass (fold buy ps c) = bypass c"
  by (induction ps arbitrary: c) simp_all

lemma ingest_pre_purchase_keeps:
  "ingest_pre_purchase fd dbs files c = Inr c' \<Longrightarrow> last_total c' = last_total c \<and> bypass c' = bypass c"
  unfolding ingest_pre_purchase_def by (induction files arbitrary: c) (fastforce simp: rbind_Inr_iff)+

lemma ingest_worth_nonneg:
  assumes "0 \<le> cost_per_extra_mb fd" "\<forall>f\<in>set files. \<forall>sz. snd f = Some sz \<longrightarrow> 0 \<le> sz"
  shows "0 \<le> ingest_worth fd dbs files"
proof -
  have "0 \<le> file_worth fd (snd f)" if "f \<in> set files" for f
    using assms that kb_of_bytes_nonneg
    by (cases "snd f") (auto simp: file_worth_def Let_def kb_of_bytes_def)
  then show ?thesis by (auto simp: ingest_worth_def intro!: mult_nonneg_nonneg sum_list_nonneg)
qed

lemma give_back_last_total [simp]: "last_total (fold give_back ps c) = last_total c"
  by (induction ps arbitrary: c) simp_all

lemma give_back_bypass [simp]: "bypass (fold give_back ps c) = bypass c"
  by (induction ps arbitrary: c) simp_all

text \<open>Copying a stored object books its price as a refund.\<close>

lemma object_copy_net:
  "\<exists>c'. object_pre_purchase fd (name, version, sz) c = Inr c' \<and> net c' = net c - file_worth fd (Some sz)
    \<and> last_total c' = last_total c \<and> bypass c' = bypass c"
proof -
  obtain ps where "compute_prices fd ''File Copying: '' (Some (object_text name version)) (Some sz) = Inr ps"
    "sum_list (map price_worth ps) = file_worth fd (Some sz)"
    using compute_prices_worth by blast
  then show ?thesis
    by (simp add: object_pre_purchase_def books.credits_total)
qed

lemma file_worth_pos:
  assumes "0 < sz" "0 \<le> cost_per_extra_mb fd"
  shows "0 < file_worth fd (Some sz)"
proof -
  have "0 < kb_of_bytes (Some sz)"
    using assms(1) by (simp add: kb_of_bytes_def)
  then show ?thesis
    using assms(2) by (simp add: file_worth_def Let_def add_pos_nonneg)
qed

definition doc_worth :: "markdown \<Rightarrow> document \<Rightarrow> int" where
  "doc_worth md d = max_html_kb md - kb_of_bytes (Some (doc_size d))"

lemma markdown_doc_step:
  "\<exists>c'. markdown_doc md dbs d (u, p, t, c)
      = (u + of_bool (\<not> doc_pdf d), p + of_bool (doc_pdf d), t + of_bool (full_refund md) * doc_worth md d, c')
    \<and> net c' = net c - of_bool (\<not> full_refund md) * ((of_bool (fst dbs) + of_bool (snd dbs)) * doc_worth md d)"
  by (simp add: markdown_doc_def Let_def doc_worth_def del: of_int_diff)

lemma markdown_loop:
  "\<exists>c'. fold (markdown_doc md dbs) ds (u, p, t, c)
      = (u + int (length (filter (\<lambda>d. \<not> doc_pdf d) ds)), p + int (length (filter doc_pdf ds)),
         t + of_bool (full_refund md) * sum_list (map (doc_worth md) ds), c')
    \<and> net c' = net c - of_bool (\<not> full_refund md)
        * ((of_bool (fst dbs) + of_bool (snd dbs)) * sum_list (map (doc_worth md) ds))"
proof (induction ds arbitrary: u p t c)
  case (Cons d ds)
  obtain c1 where 1: "markdown_doc md dbs d (u, p, t, c)
      = (u + of_bool (\<not> doc_pdf d), p + of_bool (doc_pdf d), t + of_bool (full_refund md) * doc_worth md d, c1)"
    "net c1 = net c - of_bool (\<not> full_refund md) * ((of_bool (fst dbs) + of_bool (snd dbs)) * doc_worth md d)"
    using markdown_doc_step by blast
  show ?case
    using Cons.IH [of "u + of_bool (\<not> doc_pdf d)" "p + of_bool (doc_pdf d)"
        "t + of_bool (full_refund md) * doc_worth md d" c1] 1
    by (auto simp: distrib_left)
qed simp

text \<open>A full and a partial refund of a crawl give back the same total: for each database, the
  unused part of the limit of every document plus the limit of every URL and PDF paid for that
  yielded no document.  Each unused part is measured against the HTML limit, for PDFs too.\<close>

theorem markdown_refund_total:
  "bill_total (generate_bill (markdown_post_refund md ds dbs url_size pdf_size c))
    = bill_total (generate_bill c) - (of_bool (fst dbs) + of_bool (snd dbs)) *
      (sum_list (map (doc_worth md) ds)
       + max_html_kb md * max 0 (url_size - int (length (filter (\<lambda>d. \<not> doc_pdf d) ds)))
       + max_pdf_kb md * max 0 (pdf_size - int (length (filter doc_pdf ds))))"
proof -
  obtain c' where "fold (markdown_doc md dbs) ds (0, 0, 0, c)
      = (0 + int (length (filter (\<lambda>d. \<not> doc_pdf d) ds)), 0 + int (length (filter doc_pdf ds)),
         0 + of_bool (full_refund md) * sum_list (map (doc_worth md) ds), c')"
    "net c' = net c - of_bool (\<not> full_refund md)
        * ((of_bool (fst dbs) + of_bool (snd dbs)) * sum_list (map (doc_worth md) ds))"
    using markdown_loop by blast
  then show ?thesis
    by (simp add: markdown_post_refund_def Let_def max_def distrib_left del: of_int_diff of_int_of_nat_eq)
qed

definition delete_worth :: "file_def \<Rightarrow> bool \<times> bool \<Rightarrow> delete_meta \<Rightarrow> int" where
  "delete_worth fd dbs r = (case del_task r of
       Crawl_task \<Rightarrow> (of_bool (fst dbs) + of_bool (snd dbs)) * \<lceil>del_size r\<rceil>
     | File_task \<Rightarrow> ingest_worth fd dbs [(Some (del_uri r), Some (del_size r))]
     | Research_task \<Rightarrow> \<lceil>del_size r\<rceil>
     | Other_task \<Rightarrow> 0)"

lemma delete_cost_of_net:
  "\<exists>x. delete_cost_of fd dbs r = Inr x
    \<and> (case x of None \<Rightarrow> delete_worth fd dbs r = 0 | Some d \<Rightarrow> net d = - delete_worth fd dbs r)"
proof (cases "del_task r")
  case File_task
  obtain c' where "ingest_post_refund fd dbs [(Some (del_uri r), Some (del_size r))] new_cost = Inr c'"
    "net c' = - ingest_worth fd dbs [(Some (del_uri r), Some (del_size r))]"
    using ingest_post_refund_net [of fd dbs "[(Some (del_uri r), Some (del_size r))]" new_cost] by auto
  with File_task show ?thesis
    by (simp add: delete_cost_of_def delete_worth_def)
qed (simp_all add: delete_cost_of_def delete_worth_def research_post_refund_def)

lemma cost_add_refunds: "refund_items (cost_add c d) = refund_items c @ refund_items c"
  by (simp add: cost_add_def)

lemma delete_loop:
  "\<exists>c'. delete_post_refund fd dbs rs c = Inr c' \<and> net c' = net c - sum_list (map (delete_worth fd dbs) rs)
    \<and> (refund_items c = [] \<longrightarrow> refund_items c' = [])"
proof (induction rs arbitrary: c)
  case Nil
  then show ?case by (simp add: delete_post_refund_def)
next
  case (Cons r rs)
  obtain x where x: "delete_cost_of fd dbs r = Inr x"
    "case x of None \<Rightarrow> delete_worth fd dbs r = 0 | Some d \<Rightarrow> net d = - delete_worth fd dbs r"
    using delete_cost_of_net by blast
  show ?case
  proof (cases x)
    case None
    then show ?thesis
      using x Cons.IH [of c] by (simp add: delete_post_refund_def delete_step_def [of fd dbs r])
  next
    case (Some d)
    then show ?thesis
      using x Cons.IH [of "cost_add c d"] by (simp add: delete_post_refund_def delete_step_def [of fd dbs r] cost_add_refunds algebra_simps)
  qed
qed

text \<open>Deleting documents gives back the sum of what the three kinds of refund are worth, but the
  bill it produces never lists a refund: the total of a deletion that gives something back disagrees
  with the items of its bill.\<close>

theorem delete_refund_unlisted:
  "\<exists>c'. delete_post_refund fd dbs rs new_cost = Inr c'
    \<and> bill_total (generate_bill c') = - sum_list (map (delete_worth fd dbs) rs)
    \<and> r_items (generate_bill c') = []"
  using delete_loop [of fd dbs rs new_cost]
  by (auto simp: generate_bill_def new_cost_def net_def)

end
