(* ===== verification/Cost_Service.thy ===== *)
theory Cost_Service
  imports Cost_File Helper_Util
begin

text \<open>
  services/cost_service.py, the two cost interceptors of decorators/interceptors.py and
  manager/merchant_manager.py: reading the cost file, checking, deducting and refunding credits.

  Redis is outside the repository.  The optimistic deduction is a step relation over one credit
  key with any number of clients; what is relied on is the documented guarantee of WATCH, that
  EXEC succeeds only when the watched key was not written since, stated as \<open>watch_sound\<close> on the
  parameter that decides whether EXEC goes through.
\<close>

section \<open>Keys and configuration\<close>

definition redis_credit_key :: "string \<Rightarrow> string" where
  "redis_credit_key credit = ''notifyr/credit:'' @ credit"

definition credit_key_builder :: "bool \<Rightarrow> (string \<Rightarrow> 'a) \<Rightarrow> string \<Rightarrow> 'a" where
  "credit_key_builder build func credit = func (if build then redis_credit_key credit else credit)"

definition credit_silent_fail :: "bool \<Rightarrow> 'a \<Rightarrow> 'a \<Rightarrow> 'a" where
  "credit_silent_fail cost_flag dflt body = (if \<not> cost_flag then dflt else body)"

definition bill_key :: "string \<Rightarrow> nat \<Rightarrow> nat \<Rightarrow> string" where
  "bill_key credit year month = credit @ ''@bill['' @ nat_str year @ ''-'' @ nat_str month @ '']''"

definition receipts_key :: "string \<Rightarrow> string" where
  "receipts_key credit = credit @ ''@receipts''"

definition credit_to_capabilities :: "(string, string) dict" where
  "credit_to_capabilities = [(''email'', ''email''), (''agent'', ''agentic''), (''object'', ''object''),
     (''sms'', ''twilio''), (''phone'', ''twilio''), (''document'', ''agentic''), (''token'', ''agentic''),
     (''message'', ''message''), (''webhook'', ''webhook''), (''workflow'', ''workflow''), (''chat'', ''chat''),
     (''notification'', ''notification'')]"

definition cost_verify_dependency :: "bool \<Rightarrow> bool \<Rightarrow> bool \<Rightarrow> exn option" where
  "cost_verify_dependency prod_mode file_exists redis_available =
    (if prod_mode \<and> \<not> file_exists then Some (BuildFailureError (Some ''Cost file does not exist''))
     else if \<not> redis_available then Some (BuildFailureError (Some ''Redis Service not available''))
     else None)"

text \<open>The plan keeps the credits whose capability is on, and those that need none.\<close>

definition init_plan_credits ::
  "(string, bool) dict \<Rightarrow> (string \<times> int) list \<Rightarrow> (string, int) dict result" where
  "init_plan_credits capabilities credits =
    rfold (\<lambda>(credit, dflt) plan.
      case map_of credit_to_capabilities credit of
        None \<Rightarrow> Inr (AList.update credit dflt plan)
      | Some cap \<Rightarrow>
          (case map_of capabilities cap of
             None \<Rightarrow> Inl (KeyError cap)
           | Some on \<Rightarrow> if on then Inr (AList.update credit dflt plan) else Inr plan)) credits []"

text \<open>
  One entry of the cost file: \<open>__copy__\<close> names an earlier definition, copied whole in the hard
  mode; the soft mode starts from the entry's own double underscore keys.  Entries of other kinds
  than the named ones are kept as they are.
\<close>

definition json_get :: "(string \<times> json) list \<Rightarrow> string \<Rightarrow> json \<Rightarrow> json" where
  "json_get d k dflt = (case map_of d k of None \<Rightarrow> dflt | Some v \<Rightarrow> v)"

definition copy_rules :: "json \<Rightarrow> (json \<times> json) result" where
  "copy_rules r = (case r of
       JStr s \<Rightarrow> Inr (JStr ''hard'', JStr s)
     | JDict d \<Rightarrow> Inr (json_get d ''mode'' (JStr ''hard''), json_get d ''from'' JNull)
     | _ \<Rightarrow> Inl (AttributeError ''get''))"

type_synonym defs = "(string, (string \<times> json) list) dict"

definition copy_base :: "(string \<times> json) list \<Rightarrow> defs \<Rightarrow> (string \<times> json) list option result" where
  "copy_base v ds =
    (case map_of v ''__copy__'' of
       None \<Rightarrow> Inr (Some [])
     | Some r \<Rightarrow> rbind (copy_rules r) (\<lambda>(mode, src).
         case src of
           JStr s \<Rightarrow>
             (case map_of ds s of
                None \<Rightarrow> Inr None
              | Some found \<Rightarrow> Inr (Some (if mode = JStr ''soft''
                    then filter (\<lambda>(k, _). starts_with k ''__'') v else found)))
         | JList _ \<Rightarrow> Inl TypeError
         | JDict _ \<Rightarrow> Inl TypeError
         | _ \<Rightarrow> Inr None))"

definition merge_def :: "(string \<times> json) list \<Rightarrow> (string \<times> json) list \<Rightarrow> (string \<times> json) list" where
  "merge_def base v = fold (\<lambda>(k, x). AList.update k x) v base"

definition load_entry :: "string \<times> (string \<times> json) list \<Rightarrow> defs \<Rightarrow> defs result" where
  "load_entry kv ds = (case kv of (k, v) \<Rightarrow>
     rbind (copy_base v ds) (\<lambda>base.
       case base of
         None \<Rightarrow> Inr ds
       | Some b \<Rightarrow>
           (case py_split ''/'' k of
              [cost_type, name] \<Rightarrow>
                let merged = merge_def b v;
                    known = (cost_type = ''task'' \<and> list_ex (starts_with name) [''email'', ''sms'', ''phone''])
                            \<or> cost_type = ''simple-task'' \<or> cost_type = ''file''
                in Inr (AList.update name (if known then merged else v) ds)
            | _ \<Rightarrow> Inl ValueError)))"

text \<open>An exception stops the loop and is swallowed: the definitions read before it stay.\<close>

fun load_entries :: "(string \<times> (string \<times> json) list) list \<Rightarrow> defs \<Rightarrow> bool \<times> defs" where
  "load_entries [] ds = (True, ds)"
| "load_entries (kv # rest) ds =
    (case load_entry kv ds of Inl e \<Rightarrow> (False, ds) | Inr ds' \<Rightarrow> load_entries rest ds')"

definition load_file_into_objects ::
  "(string \<times> (string \<times> json) list) list option \<Rightarrow> bool \<Rightarrow> defs \<Rightarrow> exn option \<times> defs" where
  "load_file_into_objects cost_entries has_rules ds =
    (case cost_entries of
       None \<Rightarrow> (Some (BuildFailureError (Some ''Cost File not found'')), ds)
     | Some entries \<Rightarrow>
         (case load_entries entries ds of
            (False, ds') \<Rightarrow> (None, ds')
          | (True, ds') \<Rightarrow> (if has_rules then None else Some (BuildWarningError None), ds')))"

definition verify_cost_file :: "string option \<Rightarrow> string option \<Rightarrow> exn option" where
  "verify_cost_file system currency =
    (if system \<noteq> Some ''Notifyr Credit System'' then Some (BuildFailureError (Some ''Cost system not supported''))
     else if currency \<noteq> Some ''NOTIFYR-CREDITS'' then Some (BuildFailureError (Some ''Currency not supported''))
     else None)"

text \<open>
  \<open>fetch_definition\<close>: \<open>cost_schema not in ...\<close> tests membership in the Ellipsis object.  The
  current schema it selects is not used further.
\<close>

definition fetch_definition ::
  "defs \<Rightarrow> string \<Rightarrow> (string \<times> json) list option \<Rightarrow> string option \<Rightarrow> string option
    \<Rightarrow> (string \<times> json) list option result" where
  "fetch_definition ds name dflt plan version =
    (if plan \<notin> {None, Some ''''} \<and> version \<notin> {None, Some ''''} then Inl TypeError
     else if map_of ds name = None \<and> (dflt = None \<or> dflt = Some []) then Inl (OtherException ''CostDefinitionNotFoundError'')
     else Inr (case map_of ds name of Some v \<Rightarrow> Some v | None \<Rightarrow> dflt))"

record cost_rules =
  credit_overdraft_allowed :: "bool option"
  auto_block_on_zero_credit :: "bool option"
  overdraft_ratio_allowed :: "rat option"

definition rule_or :: "'a option \<Rightarrow> 'a \<Rightarrow> 'a" where
  "rule_or r d = (case r of None \<Rightarrow> d | Some x \<Rightarrow> x)"

definition is_current_credit_overdraft_allowed ::
  "cost_rules \<Rightarrow> (string, int) dict \<Rightarrow> int \<Rightarrow> string \<Rightarrow> bool result" where
  "is_current_credit_overdraft_allowed rules plan current key =
    (if rule_or (auto_block_on_zero_credit rules) True then Inr True
     else case map_of plan key of
         None \<Rightarrow> Inl (KeyError key)
       | Some p \<Rightarrow> if p = 0 then Inl ZeroDivisionError
           else Inr (of_int (- 1 * current) / of_int p < rule_or (overdraft_ratio_allowed rules) (15 / 100)))"

section \<open>Checking and deducting\<close>

definition insufficient :: exn where
  "insufficient = OtherException ''InsufficientCreditsError''"

definition check_enough_credits :: "int option \<Rightarrow> int \<Rightarrow> exn option" where
  "check_enough_credits balance price =
    (case balance of
       None \<Rightarrow> Some (OtherException ''InvalidPurchaseRequestError'')
     | Some b \<Rightarrow> if b \<le> 0 then Some insufficient
                 else if b < price then Some insufficient else None)"

definition set_balance :: "int \<Rightarrow> bill \<Rightarrow> bill" where
  "set_balance b bl = bl\<lparr>balance_before := b, balance_after := b - bill_total bl\<rparr>"

text \<open>A bill whose total is zero is not recorded.\<close>

definition push_bill :: "bill \<Rightarrow> bill list \<Rightarrow> bill list" where
  "push_bill bl bills = (if bill_total bl = 0 then bills else bl # bills)"

text \<open>
  One attempt of \<open>deduct_credits\<close> after the read: \<open>int(None)\<close> raises before the test for a missing
  balance is reached.
\<close>

datatype attempt = Attempt_raises exn | Attempt_sets int bill

definition deduct_attempt :: "bool \<Rightarrow> int option \<Rightarrow> bill \<Rightarrow> attempt" where
  "deduct_attempt overdraft read bl =
    (case read of
       None \<Rightarrow> Attempt_raises TypeError
     | Some b \<Rightarrow> if b < bill_total bl \<and> \<not> overdraft then Attempt_raises insufficient
                 else Attempt_sets (b - bill_total bl) (set_balance b bl))"

text \<open>
  The loop against an environment: for each attempt, the balance read and whether EXEC raises
  WatchError.  The attempts beyond the given list are conflicts.
\<close>

fun deduct_credits ::
  "nat \<Rightarrow> bool \<Rightarrow> bill \<Rightarrow> (int option \<times> bool) list \<Rightarrow> (int \<times> bill) result" where
  "deduct_credits 0 overdraft bl env = Inl (OtherException ''CreditDeductionFailedError'')"
| "deduct_credits (Suc n) overdraft bl [] = Inl (OtherException ''CreditDeductionFailedError'')"
| "deduct_credits (Suc n) overdraft bl ((read, conflict) # env) =
    (case deduct_attempt overdraft read bl of
       Attempt_raises e \<Rightarrow> Inl e
     | Attempt_sets new bl' \<Rightarrow> if conflict then deduct_credits n overdraft bl' env else Inr (new, bl'))"

text \<open>
  \<open>refund_credits\<close> opens a pipeline and reads the balance through it.  A pipeline that watches no key
  only queues its commands and answers with itself, and \<open>int\<close> of a pipeline raises: no refund is ever
  made.  (The line that decrements would raise as well: it passes the pipeline by position, and
  \<open>check_db\<close> adds the keyword again.)
\<close>

datatype redis_reply = Stored "int option" | Queued

definition queued_get :: "int option \<Rightarrow> redis_reply" where
  "queued_get stored = Queued"

definition get_credit_balance :: "redis_reply \<Rightarrow> int option result" where
  "get_credit_balance r = (case r of Stored v \<Rightarrow> Inr v | Queued \<Rightarrow> Inl TypeError)"

definition refund_credits :: "bool \<Rightarrow> int option \<Rightarrow> bill \<Rightarrow> unit result" where
  "refund_credits cost_flag balance bl =
    credit_silent_fail cost_flag (Inr ())
      (rbind (get_credit_balance (queued_get balance)) (\<lambda>_. Inl TypeError))"

section \<open>Concurrent deductions\<close>

text \<open>
  One credit key, any number of clients.  A client of \<open>deduct_credits\<close> watches the key, reads it,
  and executes; it sees the number of writes so far at the time of its WATCH.  The history lists the totals that were taken, the latest first.
\<close>

datatype phase =
    Ready nat
  | Watching nat nat
  | Has_read nat nat int
  | Paid
  | Refused
  | Gave_up

record credit_state =
  balance :: int
  writes :: nat
  taken :: "int list"
  clients :: "nat \<Rightarrow> phase"

definition credit_init :: "int \<Rightarrow> credit_state" where
  "credit_init b = \<lparr>balance = b, writes = 0, taken = [], clients = (\<lambda>_. Ready 0)\<rparr>"

definition set_client :: "nat \<Rightarrow> phase \<Rightarrow> credit_state \<Rightarrow> credit_state" where
  "set_client c p s = s\<lparr>clients := (clients s)(c := p)\<rparr>"

text \<open>\<open>exec_ok w n\<close>: EXEC goes through when \<open>w\<close> writes had happened at the WATCH and \<open>n\<close> now.\<close>

inductive credit_step ::
  "(nat \<Rightarrow> nat \<Rightarrow> bool) \<Rightarrow> bool \<Rightarrow> nat \<Rightarrow> (nat \<Rightarrow> bill) \<Rightarrow> credit_state \<Rightarrow> credit_state \<Rightarrow> bool"
  for exec_ok overdraft limit bills where
  step_watch: "clients s c = Ready r \<Longrightarrow> r < limit \<Longrightarrow>
     credit_step exec_ok overdraft limit bills s (set_client c (Watching r (writes s)) s)"
| step_read: "clients s c = Watching r w \<Longrightarrow>
     credit_step exec_ok overdraft limit bills s (set_client c (Has_read r w (balance s)) s)"
| step_refuse: "clients s c = Has_read r w b \<Longrightarrow>
     deduct_attempt overdraft (Some b) (bills c) = Attempt_raises e \<Longrightarrow>
     credit_step exec_ok overdraft limit bills s (set_client c Refused s)"
| step_exec: "clients s c = Has_read r w b \<Longrightarrow>
     deduct_attempt overdraft (Some b) (bills c) = Attempt_sets new bl \<Longrightarrow> exec_ok w (writes s) \<Longrightarrow>
     credit_step exec_ok overdraft limit bills s
       (set_client c Paid (s\<lparr>balance := new, writes := writes s + 1, taken := bill_total (bills c) # taken s\<rparr>))"
| step_conflict: "clients s c = Has_read r w b \<Longrightarrow>
     deduct_attempt overdraft (Some b) (bills c) = Attempt_sets new bl \<Longrightarrow> \<not> exec_ok w (writes s) \<Longrightarrow>
     credit_step exec_ok overdraft limit bills s (set_client c (Ready (r + 1)) s)"
| step_give_up: "clients s c = Ready r \<Longrightarrow> \<not> r < limit \<Longrightarrow>
     credit_step exec_ok overdraft limit bills s (set_client c Gave_up s)"

definition watch_sound :: "(nat \<Rightarrow> nat \<Rightarrow> bool) \<Rightarrow> bool" where
  "watch_sound exec_ok \<longleftrightarrow> (\<forall>w n. exec_ok w n \<longrightarrow> w = n)"

lemma set_balance_total [simp]: "bill_total (set_balance b bl) = bill_total bl"
  by (simp add: set_balance_def)

lemma deduct_attempt_sets:
  "deduct_attempt overdraft (Some b) bl = Attempt_sets new bl' \<Longrightarrow>
    new = b - bill_total bl \<and> (bill_total bl \<le> b \<or> overdraft) \<and> bill_total bl' = bill_total bl"
  by (auto simp: deduct_attempt_def set_balance_def split: if_splits)

text \<open>The invariant: a client that has read and saw no write since has the current balance; the
  balance is the initial one less everything taken; without overdraft it never goes below zero.\<close>

definition credit_inv :: "int \<Rightarrow> bool \<Rightarrow> credit_state \<Rightarrow> bool" where
  "credit_inv b0 overdraft s \<longleftrightarrow>
    balance s = b0 - sum_list (taken s)
    \<and> (\<forall>c r w. clients s c = Watching r w \<longrightarrow> w \<le> writes s)
    \<and> (\<forall>c r w b. clients s c = Has_read r w b \<longrightarrow> w \<le> writes s \<and> (w = writes s \<longrightarrow> b = balance s))
    \<and> (\<not> overdraft \<longrightarrow> 0 \<le> b0 \<longrightarrow> 0 \<le> balance s)"

lemma credit_inv_init: "credit_inv b0 overdraft (credit_init b0)"
  by (simp add: credit_inv_def credit_init_def)

lemma credit_inv_client:
  assumes "credit_inv b0 od s"
    and "\<And>r w. p = Watching r w \<Longrightarrow> w \<le> writes s"
    and "\<And>r w b. p = Has_read r w b \<Longrightarrow> w \<le> writes s \<and> (w = writes s \<longrightarrow> b = balance s)"
  shows "credit_inv b0 od (set_client c p s)"
  using assms by (auto simp: credit_inv_def set_client_def)

lemma credit_inv_write:
  assumes "credit_inv b0 od s" "\<not> od \<Longrightarrow> 0 \<le> b0 \<Longrightarrow> 0 \<le> balance s - t"
  shows "credit_inv b0 od (s\<lparr>balance := balance s - t, writes := writes s + 1, taken := t # taken s\<rparr>)"
  using assms by (fastforce simp: credit_inv_def)

lemma credit_inv_step:
  assumes "credit_step exec_ok od limit bills s s'" "watch_sound exec_ok" "credit_inv b0 od s"
  shows "credit_inv b0 od s'"
  using assms
proof (induction rule: credit_step.induct)
  case (step_read s c r w)
  then have "w \<le> writes s"
    unfolding credit_inv_def by blast
  then show ?case
    using step_read by (intro credit_inv_client) auto
next
  case (step_exec s c r w b new bl)
  have "w = writes s"
    using step_exec(3,4) by (simp add: watch_sound_def)
  then have "b = balance s"
    using step_exec(1,5) unfolding credit_inv_def by blast
  with deduct_attempt_sets [OF step_exec(2)]
  have new: "new = balance s - bill_total (bills c)" "bill_total (bills c) \<le> balance s \<or> od"
    by simp_all
  have "credit_inv b0 od (s\<lparr>balance := new, writes := writes s + 1, taken := bill_total (bills c) # taken s\<rparr>)"
    unfolding new(1) using credit_inv_write [OF step_exec(5)] new(2) by auto
  then show ?case
    by (rule credit_inv_client) simp_all
qed (auto intro: credit_inv_client)

lemma credit_inv_reach:
  assumes "(credit_step exec_ok od limit bills)\<^sup>*\<^sup>* (credit_init b0) s" "watch_sound exec_ok"
  shows "credit_inv b0 od s"
  using assms(1)
  by (induction rule: rtranclp_induct) (auto intro: credit_inv_init credit_inv_step [OF _ assms(2)])

text \<open>The deductions that went through are those of the clients that returned, each once.\<close>

definition paid_once :: "(nat \<Rightarrow> bill) \<Rightarrow> credit_state \<Rightarrow> bool" where
  "paid_once bills s \<longleftrightarrow>
    (\<exists>cs. distinct cs \<and> set cs = {c. clients s c = Paid} \<and> taken s = map (\<lambda>c. bill_total (bills c)) cs)"

lemma paid_once_client:
  assumes "paid_once bills s" "clients s c \<noteq> Paid" "p \<noteq> Paid"
  shows "paid_once bills (set_client c p s)"
proof -
  have "{d. clients (set_client c p s) d = Paid} = {d. clients s d = Paid}"
    using assms(2,3) by (auto simp: set_client_def)
  then show ?thesis using assms(1) by (simp add: paid_once_def set_client_def)
qed

lemma paid_once_pay:
  assumes "paid_once bills s" "clients s c \<noteq> Paid"
  shows "paid_once bills (set_client c Paid (s\<lparr>balance := b, writes := n, taken := bill_total (bills c) # taken s\<rparr>))"
proof -
  obtain cs where "distinct cs" "set cs = {c. clients s c = Paid}" "taken s = map (\<lambda>c. bill_total (bills c)) cs"
    using assms(1) by (auto simp: paid_once_def)
  then have "distinct (c # cs)" "set (c # cs) = {d. clients (set_client c Paid s) d = Paid}"
    "bill_total (bills c) # taken s = map (\<lambda>c. bill_total (bills c)) (c # cs)"
    using assms(2) by (auto simp: set_client_def)
  then show ?thesis
    unfolding paid_once_def by (intro exI [of _ "c # cs"]) (simp add: set_client_def)
qed

lemma paid_once_reach:
  assumes "(credit_step exec_ok od limit bills)\<^sup>*\<^sup>* (credit_init b0) s"
  shows "paid_once bills s"
  using assms
proof (induction rule: rtranclp_induct)
  case base
  show ?case by (simp add: paid_once_def credit_init_def)
next
  case (step s s')
  from step(2,3) show ?case
    by (induction rule: credit_step.induct) (auto intro: paid_once_client paid_once_pay)
qed

text \<open>C3: However the deductions of any number of clients on one credit key interleave, no update is
  lost: the balance is the initial one less the bill of every client whose deduction returned, each
  taken once and no other; and when overdraft is not allowed and the initial balance is not negative,
  it never becomes negative. This rests on the guarantee of WATCH, that EXEC goes through only when the
  key was not written since. The refunds are no part of it: none is ever made.\<close>

theorem no_lost_update:
  assumes "(credit_step exec_ok overdraft limit bills)\<^sup>*\<^sup>* (credit_init b0) s" "watch_sound exec_ok"
  shows "(\<exists>cs. distinct cs \<and> set cs = {c. clients s c = Paid} \<and> balance s = b0 - (\<Sum>c\<leftarrow>cs. bill_total (bills c)))
    \<and> (\<not> overdraft \<and> 0 \<le> b0 \<longrightarrow> 0 \<le> balance s)"
proof -
  obtain cs where "distinct cs" "set cs = {c. clients s c = Paid}" "taken s = map (\<lambda>c. bill_total (bills c)) cs"
    using paid_once_reach [OF assms(1)] by (auto simp: paid_once_def)
  then show ?thesis
    using credit_inv_reach [OF assms] by (auto simp: credit_inv_def)
qed

definition bill_of :: "int \<Rightarrow> bill" where
  "bill_of t = generate_bill (purchase ''api_usage'' (of_int t) 1 new_cost)"

lemma bill_of_total [simp]: "bill_total (bill_of t) = t"
  by (simp add: bill_of_def)

theorem no_lost_update_witness:
  "\<exists>s. (credit_step (=) False 5 (\<lambda>_. bill_of 4))\<^sup>*\<^sup>* (credit_init 10) s \<and> taken s = [4] \<and> balance s = 6"
proof -
  let ?step = "credit_step (=) False 5 (\<lambda>_. bill_of 4)"
  let ?s1 = "set_client 0 (Watching 0 0) (credit_init 10)"
  let ?s2 = "set_client 0 (Has_read 0 0 10) ?s1"
  let ?s3 = "set_client 0 Paid (?s2\<lparr>balance := 6, writes := 1, taken := [4]\<rparr>)"
  have 1: "?step (credit_init 10) ?s1"
    using step_watch [of "credit_init 10" 0 0 5] by (simp add: credit_init_def)
  have 2: "?step ?s1 ?s2"
    using step_read [of ?s1 0 0 0] by (simp add: credit_init_def set_client_def)
  have 3: "?step ?s2 ?s3"
    using step_exec [of ?s2 0 0 0 10 False "\<lambda>_. bill_of 4" 6 "set_balance 10 (bill_of 4)" "(=)"]
    by (simp add: credit_init_def set_client_def deduct_attempt_def)
  have r: "?step\<^sup>*\<^sup>* (credit_init 10) ?s3"
    using 1 2 3 by (meson converse_rtranclp_into_rtranclp rtranclp.rtrancl_refl)
  moreover have "balance ?s3 \<ge> 0"
    using no_lost_update [OF r] by (simp add: watch_sound_def)
  ultimately show ?thesis
    by (intro exI [of _ ?s3]) (simp add: set_client_def)
qed

text \<open>Within the retry limit the first attempt that meets no conflict decides: when every balance
  read until then covers the bill (or overdraft is allowed), the deduction returns, writes the
  balance of that attempt less the bill's total, and the bill carries the two balances.\<close>

theorem deduct_first_free_attempt:
  assumes "i < limit" "i < length env"
    and "\<forall>j\<le>i. \<exists>b. fst (env ! j) = Some b \<and> (bill_total bl \<le> b \<or> overdraft)"
    and "\<forall>j<i. snd (env ! j)" "\<not> snd (env ! i)" "fst (env ! i) = Some b"
  shows "deduct_credits limit overdraft bl env = Inr (b - bill_total bl, set_balance b bl)"
  using assms
proof (induction env arbitrary: i limit bl)
  case (Cons rc env)
  obtain read conflict where rc: "rc = (read, conflict)" by (rule prod.exhaust)
  obtain n where n: "limit = Suc n"
    using Cons.prems(1) by (cases limit) auto
  show ?case
  proof (cases i)
    case 0
    then show ?thesis
      using Cons.prems rc n by (auto simp: deduct_attempt_def)
  next
    case (Suc k)
    obtain b1 where b1: "read = Some b1" "bill_total bl \<le> b1 \<or> overdraft" "conflict"
      using Cons.prems(3,4) Suc rc by (metis fst_conv nth_Cons_0 snd_conv zero_le zero_less_Suc)
    have "deduct_credits n overdraft (set_balance b1 bl) env
        = Inr (b - bill_total (set_balance b1 bl), set_balance b (set_balance b1 bl))"
    proof (rule Cons.IH [of k])
      show "\<forall>j\<le>k. \<exists>b. fst (env ! j) = Some b \<and> (bill_total (set_balance b1 bl) \<le> b \<or> overdraft)"
        using Cons.prems(3) Suc by (metis Suc_le_mono nth_Cons_Suc set_balance_total)
      show "\<forall>j<k. snd (env ! j)"
        using Cons.prems(4) Suc by (metis Suc_less_eq nth_Cons_Suc)
    qed (use Cons.prems Suc n in simp_all)
    then show ?thesis
      using b1 rc n by (auto simp: deduct_attempt_def set_balance_def)
  qed
qed simp

theorem deduct_first_free_attempt_witness:
  "deduct_credits 5 False (bill_of 4) [(Some 10, True), (Some 7, False)] = Inr (3, set_balance 7 (bill_of 4))"
  using deduct_first_free_attempt [of 1 5 "[(Some 10, True), (Some 7, False)]" "bill_of 4" False 7]
  by (simp add: le_Suc_eq)

text \<open>Deducting from a credit that has no balance raises TypeError in the first attempt, so the
  error the source means to raise for it, InvalidPurchaseRequestError, is never raised.\<close>

lemma deduct_never_invalid_request:
  "deduct_credits (Suc n) overdraft bl ((None, conflict) # env) = Inl TypeError
    \<and> deduct_credits m overdraft bl envs \<noteq> Inl (OtherException ''InvalidPurchaseRequestError'')"
proof -
  have "deduct_credits m overdraft bl envs \<noteq> Inl (OtherException ''InvalidPurchaseRequestError'')" for m bl
    by (induction m overdraft bl envs rule: deduct_credits.induct)
      (auto simp: deduct_attempt_def insufficient_def split: option.splits)
  then show ?thesis by (simp add: deduct_attempt_def)
qed

section \<open>The interceptors\<close>

text \<open>\<open>TaskCostInterceptor\<close>: the cost was computed by the handler's cost object before.\<close>

definition task_intercept_before ::
  "nat \<Rightarrow> bool \<Rightarrow> (int option \<times> bool) list \<Rightarrow> cost \<Rightarrow> (int \<times> bill) result \<times> cost" where
  "task_intercept_before limit overdraft env c =
    (let bl = generate_bill c; c = c\<lparr>last_total := bill_total bl\<rparr> in
     if last_total c < 0 then (Inl (OtherException ''CostLessThanZeroError''), c)
     else case deduct_credits limit overdraft bl env of
         Inl e \<Rightarrow> (Inl e, c)
       | Inr r \<Rightarrow> (Inr r, reset_bill False c))"

definition task_intercept_after :: "bool \<Rightarrow> int option \<Rightarrow> cost \<Rightarrow> unit result" where
  "task_intercept_after cost_flag bal c =
    (let bl = generate_bill c in if bill_total bl \<noteq> 0 then refund_credits cost_flag bal bl else Inr ())"

text \<open>\<open>DataCostInterceptor\<close> before the handler: the estimate is only checked against the stale
  \<open>last_total\<close>, then against the balance, and thrown away.\<close>

definition data_intercept_before ::
  "bool \<Rightarrow> rat \<Rightarrow> string \<Rightarrow> (cost \<Rightarrow> cost result) \<Rightarrow> int option \<Rightarrow> cost \<Rightarrow> exn option \<times> cost" where
  "data_intercept_before purchasing price credit pre bal c =
    (let c = data_init price credit c in
     if \<not> purchasing then (None, c)
     else case pre c of
         Inl e \<Rightarrow> (Some e, c)
       | Inr c \<Rightarrow>
           if last_total c < 0 then (Some (OtherException ''CostLessThanZeroError''), c)
           else case check_enough_credits bal (net c) of
               Some e \<Rightarrow> (Some e, c)
             | None \<Rightarrow> (None, reset_bill False c))"

definition data_intercept_after ::
  "bool \<Rightarrow> nat \<Rightarrow> bool \<Rightarrow> (int option \<times> bool) list \<Rightarrow> bool \<Rightarrow> int option \<Rightarrow> bill list
    \<Rightarrow> (cost \<Rightarrow> cost result) \<Rightarrow> (cost \<Rightarrow> cost result) \<Rightarrow> cost \<Rightarrow> (int \<times> bill list) option result" where
  "data_intercept_after purchasing limit overdraft env cost_flag bal bills post_buy post_back c =
    (if bypass c then Inr None
     else if purchasing then
       rbind (post_buy c) (\<lambda>c. let bl = generate_bill c in
         if bill_total bl < 0 then Inl (OtherException ''CostLessThanZeroError'')
         else rbind (deduct_credits limit overdraft bl env) (\<lambda>(b, bl). Inr (Some (b, push_bill bl bills))))
     else
       rbind (post_back c) (\<lambda>c. let bl = generate_bill c in
         if bill_total bl > 0 then Inl (OtherException ''CostMoreThanZeroError'')
         else rbind (refund_credits cost_flag bal bl) (\<lambda>_. Inr None)))"

lemma data_init_simps [simp]:
  "net (data_init p k c) = net c" "last_total (data_init p k c) = last_total c"
  "bypass (data_init p k c) = bypass c"
  by (simp_all add: data_init_def net_def)



text \<open>Copying a stored object that is not empty passes the check before the copy for every
  positive balance, and is refused after the copy was made: the copy is priced as a refund, the
  check before looks at a total that was never set, and the one after sees a bill below zero.\<close>

theorem object_copy_refused_after:
  assumes "0 < sz" "0 \<le> cost_per_extra_mb fd" "0 < b"
  shows "case data_intercept_before True price ''object'' (object_pre_purchase fd (name, version, sz)) (Some b) new_cost of
      (e, c) \<Rightarrow> e = None \<and>
        data_intercept_after True limit overdraft env flag bal bills
          (object_post_purchase fd (name, version, sz)) post_back c = Inl (OtherException ''CostLessThanZeroError'')"
proof -
  let ?c0 = "data_init price ''object'' new_cost"
  obtain c1 where 1: "object_pre_purchase fd (name, version, sz) ?c0 = Inr c1"
    "net c1 = - file_worth fd (Some sz)" "last_total c1 = 0" "bypass c1 = False"
    using object_copy_net [of fd name version sz ?c0] by auto
  obtain c2 where 2: "object_pre_purchase fd (name, version, sz) (reset_bill False c1) = Inr c2"
    "net c2 = - file_worth fd (Some sz)"
    using object_copy_net [of fd name version sz "reset_bill False c1"] by auto
  have "bypass (reset_bill False c1) = False"
    using 1(4) by (simp add: reset_bill_def)
  then show ?thesis
    using 1 2 file_worth_pos [OF assms(1,2)] assms(3)
    by (simp add: data_intercept_before_def data_intercept_after_def check_enough_credits_def
        object_post_purchase_def)
qed

theorem object_copy_refused_after_witness:
  "data_intercept_after True 5 False [(Some 10, False)] True (Some 10) []
     (object_post_purchase \<lparr>max_file_size = 10240, cost_per_extra_mb = 1\<rparr> (''a'', ''1'', 2048)) Inr
     (snd (data_intercept_before True 1 ''object''
        (object_pre_purchase \<lparr>max_file_size = 10240, cost_per_extra_mb = 1\<rparr> (''a'', ''1'', 2048)) (Some 10) new_cost))
   = Inl (OtherException ''CostLessThanZeroError'')"
  using object_copy_refused_after [where sz = 2048 and b = 10 and price = 1 and name = "''a''" and version = "''1''"
      and fd = "\<lparr>max_file_size = 10240, cost_per_extra_mb = 1\<rparr>" and limit = 5 and overdraft = False
      and env = "[(Some 10, False)]" and flag = True and bal = "Some 10" and bills = "[]" and post_back = Inr]
  by (simp split: prod.splits)

section \<open>Merchants\<close>

text \<open>
  \<open>Merchant.refund\<close> multiplies the bill's total by the factor of the merchant, and
  \<open>safe_payment\<close> runs the paid operation in the background: a failure rolls back (errors of the
  rollback are swallowed) and refunds, a success may be followed by a further payment step whose
  errors are swallowed.  What is left of the task is whether it ended or raised.
\<close>

definition merchant_refund :: "bool \<Rightarrow> int \<Rightarrow> int option \<Rightarrow> cost \<Rightarrow> unit result" where
  "merchant_refund cost_flag factor bal c =
    (let bl = generate_bill c in refund_credits cost_flag bal (bl\<lparr>bill_total := bill_total bl * factor\<rparr>))"

record merchant =
  to_rollback :: bool
  to_post_payment :: bool
  factor :: int

definition safe_payment ::
  "merchant \<Rightarrow> bool \<Rightarrow> exn option \<Rightarrow> ('w \<Rightarrow> 'w) \<Rightarrow> (cost \<Rightarrow> cost result) \<Rightarrow> (cost \<Rightarrow> cost result) \<Rightarrow> int option
    \<Rightarrow> cost \<Rightarrow> 'w \<Rightarrow> unit result \<times> 'w" where
  "safe_payment mc cost_flag failure rollback post_payment post_refund bal c w =
    (case failure of
       None \<Rightarrow>
         (if \<not> to_post_payment mc then Inr ()
          else (case rbind (post_payment (reset_bill False c)) (merchant_refund cost_flag (factor mc) bal) of
                  Inl e \<Rightarrow> Inr ()
                | Inr r \<Rightarrow> Inr ()), w)
     | Some e \<Rightarrow>
         (rbind (post_refund (reset_bill False c)) (merchant_refund cost_flag (factor mc) bal),
          if to_rollback mc then rollback w else w))"


text \<open>What the post-refund of a failed ingestion puts on the bill, and the refund then throws away: the
  price of the ingestion, with its sign turned.\<close>

lemma failed_ingestion_bill:
  "\<exists>c'. ingest_post_refund fd dbs files (reset_bill False c) = Inr c' \<and> net c' = - ingest_worth fd dbs files"
  using ingest_post_refund_net [of fd dbs files "reset_bill False c"] by auto

end
