(* ===== verification/Auth_Permission.thy ===== *)
theory Auth_Permission
  imports Security_Tokens File_Utils Cost_Service
begin

text \<open>
  classes/auth_permission.py, decorators/permissions.py, the asset checks of
  services/assets_service.py, the client and policy lookups of depends/funcs_dep.py and the
  authentication middleware of server/middleware.py.  Sets are kept as lists without repetitions.
\<close>

section \<open>The permission of a request\<close>

datatype role = PUBLIC | STATIC | ADMIN | RELAY | CUSTOM | MFA_OTP | CHAT | RESULT | REFRESH | CONTACTS
  | TWILIO | SUBSCRIPTION | CLIENT | LINK | ASSETS | PROFILE

datatype client_type = User | Admin | Twilio | App | Service

datatype auth_type = ACCESS_TOKEN | API_TOKEN

text \<open>A client type in a permission is the member of the enum or, from elsewhere, its text.\<close>

datatype type_val = Member client_type | Literal_text string

fun type_value :: "client_type \<Rightarrow> string" where
  "type_value User = ''User''"
| "type_value Admin = ''Admin''"
| "type_value Twilio = ''Twilio''"
| "type_value App = ''App''"
| "type_value Service = ''Service''"

record route_permission =
  rp_scope :: string
  rp_custom_routes :: "string list option"

text \<open>An entry of the routes; combining policies can put a plain text in the place of one.\<close>

datatype route_entry = Route route_permission | Replaced string

record assets_permission =
  ap_files :: "string list"
  ap_dirs :: "string list"

record auth =
  au_generation_id :: pv
  au_client_id :: pv
  au_group_id :: pv
  au_challenge :: pv
  au_status :: string
  au_auth_type :: auth_type
  au_client_type :: type_val
  au_scope :: scope
  au_issued_for :: string
  au_roles :: "role list"
  au_allowed_routes :: "(string, route_entry) dict"
  au_allowed_assets :: assets_permission
  au_allowed_profiles :: "string list"
  au_allowed_agents :: "string list"
  au_allowed_blogs :: "string list"

definition must_have :: "role \<Rightarrow> auth \<Rightarrow> bool" where
  "must_have r a \<longleftrightarrow> r \<in> set (au_roles a)"

definition must_not_have :: "role \<Rightarrow> auth \<Rightarrow> bool" where
  "must_not_have r a \<longleftrightarrow> r \<notin> set (au_roles a)"

definition must_have_role_such_as :: "role list \<Rightarrow> auth \<Rightarrow> bool" where
  "must_have_role_such_as roles a \<longleftrightarrow>
    (let rs = remdups roles in length (filter (\<lambda>r. r \<in> set (au_roles a)) rs) = length rs)"

text \<open>The validators of a policy.\<close>

definition check_model :: "route_permission \<Rightarrow> route_permission result" where
  "check_model r =
    (if rp_scope r = ''all'' then Inr (r\<lparr>rp_custom_routes := Some []\<rparr>)
     else if rp_custom_routes r \<in> {None, Some []} then Inl ValueError else Inr r)"

definition filter_assets_paths :: "string list \<Rightarrow> string list \<Rightarrow> string list result" where
  "filter_assets_paths extensions allowed =
    rbind (rmap (is_file False (Some extensions)) allowed) (\<lambda>_. Inr (filter_paths CHR ''/'' allowed))"

definition checks_roles :: "role list \<Rightarrow> role list" where
  "checks_roles roles = remdups (if PUBLIC \<in> set roles then roles else roles @ [PUBLIC])"

text \<open>\<open>filter_asset_permission\<close> and \<open>parse_authPermission_enum\<close>, on the texts of the policies.\<close>

definition filter_asset_permission :: "string list \<Rightarrow> assets_permission result" where
  "filter_asset_permission allowed =
    rfold (\<lambda>p d. rbind (is_file False None p) (\<lambda>b.
        Inr (if b then d\<lparr>ap_files := List.insert p (ap_files d)\<rparr> else d\<lparr>ap_dirs := List.insert p (ap_dirs d)\<rparr>)))
      allowed \<lparr>ap_files = [], ap_dirs = []\<rparr>"

definition role_members :: "(string \<times> role) list" where
  "role_members = [(''PUBLIC'', PUBLIC), (''STATIC'', STATIC), (''ADMIN'', ADMIN), (''RELAY'', RELAY),
    (''CUSTOM'', CUSTOM), (''MFA_OTP'', MFA_OTP), (''CHAT'', CHAT), (''RESULT'', RESULT), (''REFRESH'', REFRESH),
    (''CONTACTS'', CONTACTS), (''TWILIO'', TWILIO), (''SUBSCRIPTION'', SUBSCRIPTION), (''CLIENT'', CLIENT),
    (''LINK'', LINK), (''ASSETS'', ASSETS), (''PROFILE'', PROFILE)]"

definition parse_roles :: "string list \<Rightarrow> role list result" where
  "parse_roles = rmap (\<lambda>r. case map_of role_members r of None \<Rightarrow> Inl (KeyError r) | Some m \<Rightarrow> Inr m)"

section \<open>The permissions of decorators/permissions.py\<close>

record func_meta =
  fm_operation_id :: string
  fm_roles :: "role list"
  fm_excludes :: "role list"
  fm_options :: "(auth \<Rightarrow> bool result) list"

definition forbidden :: "string \<Rightarrow> exn" where
  "forbidden d = HTTPException 403 d"

fun check_options :: "(auth \<Rightarrow> bool result) list \<Rightarrow> auth \<Rightarrow> exn option" where
  "check_options [] a = None"
| "check_options (opt # opts) a =
    (case opt a of Inl e \<Rightarrow> Some e | Inr ok \<Rightarrow> if ok then check_options opts a else Some (forbidden ''Role details not allowed''))"

definition meets :: "role list \<Rightarrow> role list \<Rightarrow> bool" where
  "meets xs ys \<longleftrightarrow> list_ex (\<lambda>x. x \<in> set ys) xs"

definition route_permission_check :: "bool \<Rightarrow> bool \<Rightarrow> string \<Rightarrow> func_meta \<Rightarrow> auth option \<Rightarrow> bool result" where
  "route_permission_check accept_inactive accept_expired class_name meta authPermission =
    (case authPermission of
       None \<Rightarrow> Inl (HTTPException 501 ''Auth Permission not implemented'')
     | Some a \<Rightarrow>
         if au_auth_type a = ACCESS_TOKEN \<and> au_status a = ''inactive'' \<and> \<not> accept_inactive
           then Inl (forbidden ''Permission not active'')
         else if au_auth_type a = ACCESS_TOKEN \<and> au_status a = ''expired'' \<and> \<not> accept_expired
           then Inl (forbidden ''Permission expired'')
         else if au_client_type a = Member Admin then Inr True
         else (case check_options (fm_options meta) a of
             Some e \<Rightarrow> Inl e
           | None \<Rightarrow>
               if meets (fm_excludes meta) (au_roles a) then Inl (forbidden ''Role not allowed'')
               else if meets (fm_roles meta) (au_roles a) then Inr True
               else if CUSTOM \<notin> set (au_roles a) then Inl (forbidden ''Role not allowed'')
               else (case map_of (au_allowed_routes a) class_name of
                   None \<Rightarrow> Inl (forbidden ''Ressource not allowed'')
                 | Some (Replaced _) \<Rightarrow> Inl TypeError
                 | Some (Route rp) \<Rightarrow>
                     if rp_scope rp = ''all'' then Inr True
                     else (case rp_custom_routes rp of
                         None \<Rightarrow> Inl (KeyError ''custom_routes'')
                       | Some rs \<Rightarrow> if fm_operation_id meta \<notin> set rs then Inl (forbidden ''Route not allowed'')
                                 else Inr True))))"

text \<open>The checks of assets.  The raw check subscripts its first argument, whatever it was given.\<close>

datatype arg = Arg_auth auth | Arg_assets assets_permission | Arg_str string

definition get_allowed_assets :: "arg \<Rightarrow> assets_permission result" where
  "get_allowed_assets v =
    (case v of Arg_auth a \<Rightarrow> Inr (au_allowed_assets a)
     | Arg_assets _ \<Rightarrow> Inl (KeyError ''allowed_assets'')
     | Arg_str _ \<Rightarrow> Inl TypeError)"

fun option_messages :: "(assets_permission \<Rightarrow> string \<Rightarrow> string option) list \<Rightarrow> assets_permission \<Rightarrow> string \<Rightarrow> string option" where
  "option_messages [] a t = None"
| "option_messages (opt # opts) a t = (case opt a t of Some m \<Rightarrow> Some m | None \<Rightarrow> option_messages opts a t)"

definition raw_verify_asset_permission ::
  "arg \<Rightarrow> arg \<Rightarrow> (assets_permission \<Rightarrow> string \<Rightarrow> string option) list \<Rightarrow> bool \<Rightarrow> bool result" where
  "raw_verify_asset_permission authPermission template opts raise =
    rbind (get_allowed_assets authPermission) (\<lambda>a.
      case template of
        Arg_str t \<Rightarrow>
          if list_ex (starts_with t) (ap_dirs a) then Inr True
          else if t \<notin> set (ap_files a) then (if raise then Inl (forbidden ''Assets not allowed'') else Inr False)
          else (case option_messages opts a t of
              None \<Rightarrow> Inr True
            | Some m \<Rightarrow> if raise then Inl (forbidden ''Assets not allowed'') else Inr False)
      | _ \<Rightarrow> Inl (AttributeError ''startswith''))"

definition asset_rel_path :: "string \<Rightarrow> string option \<Rightarrow> string" where
  "asset_rel_path path asset_type = (case asset_type of None \<Rightarrow> path | Some t \<Rightarrow> t @ ''/'' @ path)"

text \<open>
  \<open>verify_asset_permission\<close> passes the template first, then the allowed assets, and only the raw check
  that follows looks at them; the options are never reached after a refusal.
\<close>

definition verify_asset_permission ::
  "string \<Rightarrow> auth \<Rightarrow> string option \<Rightarrow> (string \<Rightarrow> auth \<Rightarrow> bool) list \<Rightarrow> unit result" where
  "verify_asset_permission template authPermission template_type opts =
    (let template = (if template_type \<noteq> None \<and> template_type \<noteq> Some '''' then asset_rel_path template template_type else template)
     in rbind (raw_verify_asset_permission (Arg_str template) (Arg_assets (au_allowed_assets authPermission)) [] (opts \<noteq> []))
          (\<lambda>_. if list_all (\<lambda>opt. opt template authPermission) opts then Inr () else Inl (forbidden ''Assets not allowed'')))"

datatype cval = Val_list "string option list" | Val_str string | Val_other

text \<open>An element of a list that is not a text is skipped.\<close>

definition verify_content_asset_permission ::
  "(string, cval) dict \<Rightarrow> string list \<Rightarrow> auth \<Rightarrow> bool result" where
  "verify_content_asset_permission content model_keys authPermission =
    (let raw = (\<lambda>s. raw_verify_asset_permission (Arg_str s) (Arg_assets (au_allowed_assets authPermission)) [] True)
     in rbind (rfold (\<lambda>k _. case map_of content k of
            None \<Rightarrow> Inl (KeyError k)
          | Some (Val_list cs) \<Rightarrow> rfold (\<lambda>c _. case c of None \<Rightarrow> Inr () | Some s \<Rightarrow> rbind (raw s) (\<lambda>_. Inr ())) cs ()
          | Some (Val_str s) \<Rightarrow> rbind (raw s) (\<lambda>_. Inr ())
          | Some Val_other \<Rightarrow> Inl (HTTPException 500 ''Entity not properly accessed'')) model_keys ())
        (\<lambda>_. Inr True))"

text \<open>
  The permission on a template: the loop over the dumped scheduler goes through the keys of a
  dictionary, texts that have no items.
\<close>

definition asset_object_permission ::
  "string option \<Rightarrow> string option \<Rightarrow> string list \<Rightarrow> (string \<Rightarrow> auth \<Rightarrow> bool) list \<Rightarrow> bool \<Rightarrow>
   auth \<Rightarrow> string \<Rightarrow> bool \<Rightarrow> string option \<Rightarrow> bool result" where
  "asset_object_permission own_type extension model_keys opts accept_none authPermission template has_scheduler template_type =
    (if au_client_type authPermission = Member Admin then Inr True
     else let template_type = (if template_type = None then own_type else template_type)
     in if template = '''' \<and> accept_none \<and> template_type = None
          then Inr (''/'' \<in> set (ap_dirs (au_allowed_assets authPermission)))
        else if template = '''' \<and> \<not> accept_none then Inr False
        else let template = (case extension of None \<Rightarrow> template | Some x \<Rightarrow> if x = '''' then template else template @ ''.'' @ x)
        in rbind (verify_asset_permission template authPermission template_type opts) (\<lambda>_.
             if \<not> has_scheduler \<or> length model_keys = 0 then Inr True else Inl (AttributeError ''items'')))"

definition static_object_permission :: "auth \<Rightarrow> string \<Rightarrow> bool" where
  "static_object_permission authPermission blog =
    (if au_client_type authPermission = Member Admin then True
     else if blog \<notin> set (au_allowed_blogs authPermission) then False else True)"

text \<open>The permission on a signature, with the text its model prints to.\<close>

definition signature_permission :: "auth \<Rightarrow> (string \<times> string) option \<Rightarrow> bool result" where
  "signature_permission authPermission signature =
    (case signature of
       None \<Rightarrow> Inr True
     | Some (template, printed) \<Rightarrow>
         if template = '''' then Inl (HTTPException 400 ''Signature template not provided'')
         else asset_object_permission (Some ''email'') None [] [] False authPermission printed False None)"

text \<open>The refusals of a contact name an argument HTTPException does not have.\<close>

definition contact_permission :: "string \<Rightarrow> string \<Rightarrow> string \<Rightarrow> string \<Rightarrow> string \<Rightarrow> string \<Rightarrow> bool result" where
  "contact_permission want auth_token contact_id permission_contact_id permission_scope token =
    (if auth_token \<noteq> token then Inl TypeError
     else if contact_id \<noteq> permission_contact_id then Inl TypeError
     else if want = ''any'' then Inr True
     else if want \<noteq> permission_scope then Inl TypeError
     else Inr True)"

definition refresh_permission ::
  "(string \<Rightarrow> 't \<Rightarrow> payload option) \<Rightarrow> string \<Rightarrow> rat \<Rightarrow> bool \<Rightarrow> (pv \<Rightarrow> pv option) \<Rightarrow> 't \<Rightarrow> auth \<Rightarrow> bool result" where
  "refresh_permission unseal jwt_key now accept_inactive challenge_of token authPermission =
    rbind (verify_refresh_permission unseal jwt_key now token) (\<lambda>p.
    rbind (need p ''client_id'') (\<lambda>client_id.
    rbind (need p ''status'') (\<lambda>status.
      if status \<noteq> PStr ''active'' \<and> \<not> accept_inactive then Inl (forbidden ''Permission not active'')
      else if client_id \<noteq> au_client_id authPermission then Inl (forbidden ''Client Error'')
      else rbind (need p ''generation_id'') (\<lambda>g.
        if g \<noteq> au_generation_id authPermission then Inl (forbidden ''Generation ID mismatch'')
        else rbind (need p ''group_id'') (\<lambda>grp.
          if grp \<noteq> au_group_id authPermission then Inl (forbidden ''Group ID mismatch'')
          else (case challenge_of client_id of
              None \<Rightarrow> Inl (AttributeError ''challenge_refresh'')
            | Some c \<Rightarrow> rbind (need p ''challenge'') (\<lambda>ch.
                if c \<noteq> ch then Inl (forbidden ''Challenge not valid'') else Inr True)))))))"

text \<open>\<open>AbstractClientTypePermission\<close> compares the value of the permission with a text.\<close>

definition client_type_permission ::
  "client_type \<Rightarrow> bool \<Rightarrow> (pv \<Rightarrow> client_type result) \<Rightarrow> auth \<Rightarrow> bool result" where
  "client_type_permission want ensure type_of_client authPermission =
    rbind (if ensure then rbind (type_of_client (au_client_id authPermission)) (\<lambda>t.
             if t \<noteq> want then Inl (forbidden (''Client is not an '' @ type_value want)) else Inr ())
           else Inr ()) (\<lambda>_.
      if au_client_type authPermission \<noteq> Literal_text (type_value want)
        then Inl (forbidden (''Client type is not '' @ type_value want)) else Inr True)"

definition admin_permission :: "bool \<Rightarrow> (pv \<Rightarrow> client_type result) \<Rightarrow> auth \<Rightarrow> bool result" where
  "admin_permission = client_type_permission Admin"

definition twilio_permission :: "bool \<Rightarrow> (pv \<Rightarrow> client_type result) \<Rightarrow> auth \<Rightarrow> bool result" where
  "twilio_permission = client_type_permission Twilio"

definition user_permission :: "bool \<Rightarrow> bool \<Rightarrow> (pv \<Rightarrow> client_type result) \<Rightarrow> auth option \<Rightarrow> bool result" where
  "user_permission accept_none_auth ensure type_of_client authPermission =
    (case authPermission of None \<Rightarrow> Inr accept_none_auth
     | Some a \<Rightarrow> client_type_permission User ensure type_of_client a)"

definition same_client :: "auth \<Rightarrow> string \<Rightarrow> bool result" where
  "same_client authPermission client_id =
    (if au_client_id authPermission \<noteq> PStr client_id then Inl (forbidden ''Client ID mismatch'') else Inr True)"

definition balancer_permission :: "(string, string) dict \<Rightarrow> string \<Rightarrow> string \<Rightarrow> bool result" where
  "balancer_permission headers header token =
    (case map_of headers header of
       None \<Rightarrow> Inl (KeyError header)
     | Some v \<Rightarrow> if v \<noteq> token then Inl (HTTPException 401 ''Balancer Not authorized'') else Inr True)"

definition profile_permission :: "auth \<Rightarrow> string \<Rightarrow> bool result" where
  "profile_permission a profile =
    (if profile \<notin> set (au_allowed_profiles a) then Inl (forbidden ''Profile Is not allowed to be used'') else Inr True)"

definition agent_permission :: "auth \<Rightarrow> string \<Rightarrow> bool result" where
  "agent_permission a agent =
    (if agent \<notin> set (au_allowed_agents a) then Inl (forbidden ''Agent Is not allowed to be used'') else Inr True)"

text \<open>\<open>TaskCostPermission\<close>: the entry of the cost file of the route, and the balance read from Redis.\<close>

record cost_entry =
  ce_credit_key :: string
  ce_api_usage_cost :: "int option"
  ce_allowed_task_option :: "string list option"

definition task_cost_permission ::
  "cost_rules \<Rightarrow> bool \<Rightarrow> (string, int) dict \<Rightarrow> int option \<Rightarrow> cost_entry \<Rightarrow> string option \<Rightarrow> bool \<Rightarrow> bool result" where
  "task_cost_permission rules retry_allowed plan bal d task_type retry =
    (case bal of
       None \<Rightarrow> Inl (HTTPException 502 ''Credit information unavailable'')
     | Some current_credits \<Rightarrow>
         rbind (if current_credits \<le> 0 then is_current_credit_overdraft_allowed rules plan current_credits (ce_credit_key d)
                else Inr False) (\<lambda>blocked.
           if blocked then Inl (HTTPException 402 ''Insufficient credits'')
           else if current_credits < rule_or (ce_api_usage_cost d) 0
             then Inl (HTTPException 402 ''Insufficient credits for API usage'')
           else (case task_type of
               Some t \<Rightarrow> if t \<notin> set (rule_or (ce_allowed_task_option d) [])
                         then Inl (HTTPException 400 ''Task type not allowed for this pricing plan'')
                       else if retry \<and> \<not> retry_allowed then Inl (forbidden ''Retry not allowed by pricing policy'') else Inr True
             | None \<Rightarrow> if retry \<and> \<not> retry_allowed then Inl (forbidden ''Retry not allowed by pricing policy'') else Inr True)))"

section \<open>Clients and policies\<close>

record client =
  cl_client_id :: string
  cl_group_id :: "string option"
  cl_client_name :: string
  cl_client_type :: client_type
  cl_client_scope :: scope
  cl_issued_for :: string
  cl_auth_type :: auth_type
  cl_authenticated :: bool
  cl_can_login :: bool
  cl_password :: string
  cl_password_salt :: string

text \<open>\<open>ByPassAdminRole\<close> and \<open>AcceptNone\<close> around a lookup.\<close>

definition bypass_admin_role :: "bool \<Rightarrow> bool \<Rightarrow> role list \<Rightarrow> 'a result \<Rightarrow> 'a result" where
  "bypass_admin_role byp skip roles r =
    (if \<not> skip \<and> ADMIN \<notin> set roles \<and> \<not> byp then Inl (forbidden ''Admin role required'') else r)"

definition accept_none :: "string option \<Rightarrow> (string \<Rightarrow> 'a option result) \<Rightarrow> 'a option result" where
  "accept_none param f = (case param of None \<Rightarrow> Inr None | Some s \<Rightarrow> if s = '''' then Inr None else f s)"

text \<open>\<open>GetClient\<close>: an admin is recognised by comparing the member of the enum with a text, so never.\<close>

definition get_client ::
  "(string \<Rightarrow> client option) \<Rightarrow> (string \<Rightarrow> client option) \<Rightarrow> bool \<Rightarrow> bool \<Rightarrow> bool \<Rightarrow> bool \<Rightarrow> role list \<Rightarrow>
   string option \<Rightarrow> string \<Rightarrow> client option result" where
  "get_client by_id by_name byp accept_admin skip raise roles client_id cid =
    bypass_admin_role byp skip roles (accept_none client_id (\<lambda>i.
      rbind (if cid = ''id'' then Inr (by_id i) else if cid = ''name'' then Inr (by_name i)
             else Inl (HTTPException 400 ''Invalid CID type'')) (\<lambda>c.
        case c of
          None \<Rightarrow> if raise then Inl (HTTPException 404 ''Client does not exist'') else Inr None
        | Some c \<Rightarrow>
            if Member (cl_client_type c) = Literal_text ''Admin'' \<and> \<not> accept_admin
              then (if raise then Inl (HTTPException 404 ''Client does not exist'') else Inr None)
            else Inr (Some c))))"

text \<open>\<open>get_client_by_password\<close>: a wrong password evaluates the error and goes on.\<close>

definition get_client_by_password ::
  "(string \<Rightarrow> string \<Rightarrow> string) \<Rightarrow> (string \<Rightarrow> string) \<Rightarrow> string \<Rightarrow> (string \<Rightarrow> client option) \<Rightarrow> (string \<Rightarrow> client option) \<Rightarrow>
   string \<Rightarrow> string \<Rightarrow> string \<Rightarrow> client result" where
  "get_client_by_password hmac unb64 key by_id by_name username password cid =
    rbind (get_client by_id by_name False False True False [] (Some username) cid) (\<lambda>c.
      case c of
        None \<Rightarrow> Inl (HTTPException 400 ''Invalid username or password'')
      | Some c \<Rightarrow>
          let error = HTTPException 400 ''Invalid username or password'';
              evaluated = (if \<not> verify_password hmac unb64 (cl_password c) (cl_password_salt c) password key
                           then Some error else None)
          in if \<not> cl_can_login c
             then Inl (HTTPException 401 ''Cant authenticate right now... get your token from the admin!'')
             else Inr c)"

record policy =
  po_roles :: "string list"
  po_allowed_routes :: "(string, route_permission) dict"
  po_allowed_profiles :: "string list"
  po_allowed_assets :: "string list"
  po_allowed_agents :: "string list"
  po_allowed_blogs :: "string list"

record combined =
  co_roles :: "string list"
  co_allowed_routes :: "(string, route_entry) dict"
  co_allowed_profiles :: "string list"
  co_allowed_assets :: "string list"
  co_allowed_agents :: "string list"
  co_allowed_blogs :: "string list"

text \<open>
  A route that is already there makes the source look for \<open>scope\<close> in the table of all routes, not in
  the entry; no entry of the table is ever the text \<open>custom\<close>.
\<close>

definition merge_route :: "string \<times> route_permission \<Rightarrow> (string, route_entry) dict \<Rightarrow> (string, route_entry) dict result" where
  "merge_route kr allowed = (case kr of (k, r) \<Rightarrow>
    if \<not> dict_has allowed k then Inr (AList.update k (Route r) allowed)
    else (case map_of allowed ''scope'' of
        None \<Rightarrow> Inl (KeyError ''scope'')
      | Some v \<Rightarrow>
          if rp_scope r = ''all'' \<and> v \<noteq> Replaced ''all''
          then Inr (AList.update ''custom_routes'' (Replaced ''[]'') (AList.update ''scope'' (Replaced ''all'') allowed))
          else Inr allowed))"

definition union_into :: "'a list \<Rightarrow> 'a list \<Rightarrow> 'a list" where
  "union_into new old = fold List.insert new old"

definition merge_policy :: "policy \<Rightarrow> combined \<Rightarrow> combined result" where
  "merge_policy p c = rbind (rfold merge_route (po_allowed_routes p) (co_allowed_routes c)) (\<lambda>rs.
    Inr \<lparr>co_roles = union_into (po_roles p) (co_roles c), co_allowed_routes = rs,
         co_allowed_profiles = union_into (po_allowed_profiles p) (co_allowed_profiles c),
         co_allowed_assets = union_into (po_allowed_assets p) (co_allowed_assets c),
         co_allowed_agents = union_into (po_allowed_agents p) (co_allowed_agents c),
         co_allowed_blogs = union_into (po_allowed_blogs p) (co_allowed_blogs c)\<rparr>)"

definition get_combined_policies :: "policy list \<Rightarrow> combined result" where
  "get_combined_policies policies =
    rbind (rfold merge_policy policies \<lparr>co_roles = [], co_allowed_routes = [], co_allowed_profiles = [],
        co_allowed_assets = [], co_allowed_agents = [], co_allowed_blogs = []\<rparr>) (\<lambda>c.
      Inr (c\<lparr>co_allowed_assets := filter_paths CHR ''/'' (co_allowed_assets c)\<rparr>))"

section \<open>The authentication middleware\<close>

datatype reply = Json nat string | Next client auth

definition text_of :: "payload \<Rightarrow> string \<Rightarrow> string" where
  "text_of p k = (case map_of p k of Some (PStr s) \<Rightarrow> s | _ \<Rightarrow> '''')"

definition value_of :: "payload \<Rightarrow> string \<Rightarrow> pv" where
  "value_of p k = (case map_of p k of Some v \<Rightarrow> v | None \<Rightarrow> PNone)"

text \<open>The permission of the request: the token, the client copied into it, and the policies on top.\<close>

definition request_permission :: "payload \<Rightarrow> client \<Rightarrow> combined \<Rightarrow> assets_permission \<Rightarrow> role list \<Rightarrow> auth" where
  "request_permission p c co assets roles =
    \<lparr>au_generation_id = value_of p ''generation_id'', au_client_id = value_of p ''client_id'',
     au_group_id = value_of p ''group_id'', au_challenge = value_of p ''challenge'', au_status = text_of p ''status'',
     au_auth_type = cl_auth_type c, au_client_type = Member (cl_client_type c), au_scope = cl_client_scope c,
     au_issued_for = cl_issued_for c, au_roles = roles, au_allowed_routes = co_allowed_routes co,
     au_allowed_assets = assets, au_allowed_profiles = co_allowed_profiles co,
     au_allowed_agents = co_allowed_agents co, au_allowed_blogs = co_allowed_blogs co\<rparr>"

definition authenticate ::
  "(string \<Rightarrow> 't \<Rightarrow> payload option) \<Rightarrow> string \<Rightarrow> string \<Rightarrow> rat \<Rightarrow> (pv \<Rightarrow> pv \<Rightarrow> client result) \<Rightarrow> (client \<Rightarrow> bool) \<Rightarrow>
   (client \<Rightarrow> combined result) \<Rightarrow> string \<Rightarrow> 't result \<Rightarrow> (client \<times> auth) result" where
  "authenticate unseal jwt_key generation_id now client_cache blacklisted policies client_ip token =
    rbind token (\<lambda>t. rbind (verify_auth_permission unseal jwt_key generation_id now t) (\<lambda>p.
    rbind (need p ''client_id'') (\<lambda>client_id. rbind (need p ''group_id'') (\<lambda>group_id.
    rbind (client_cache group_id client_id) (\<lambda>c.
      case verify_client_origin (cl_client_scope c) (cl_issued_for c) client_ip (Some ''...'') of
        Some e \<Rightarrow> Inl e
      | None \<Rightarrow>
          if \<not> cl_authenticated c then Inl (HTTPException 401 ''Client is not authenticated'')
          else if cl_client_type c \<noteq> Admin \<and> blacklisted c then Inl (forbidden ''Client is blacklisted'')
          else rbind (policies c) (\<lambda>co. rbind (filter_asset_permission (co_allowed_assets co)) (\<lambda>assets.
               rbind (parse_roles (co_roles co)) (\<lambda>roles. Inr (c, request_permission p c co assets roles)))))))))"

definition dispatch ::
  "bool \<Rightarrow> (client \<times> auth) result \<Rightarrow> reply option result" where
  "dispatch bypassed r =
    (if bypassed then Inr None
     else (case r of
         Inl (HTTPException code d) \<Rightarrow> Inr (Some (Json code d))
       | Inl e \<Rightarrow> Inl e
       | Inr (c, a) \<Rightarrow> Inr (Some (Next c a))))"

section \<open>Lemmas\<close>

lemma meets_iff: "meets xs ys \<longleftrightarrow> set xs \<inter> set ys \<noteq> {}"
  by (auto simp: meets_def list_ex_iff)

lemma check_options_None:
  "check_options opts a = None \<longleftrightarrow> (\<forall>opt\<in>set opts. opt a = Inr True)"
proof (induction opts)
  case (Cons opt opts)
  then show ?case by (cases "opt a") auto
qed simp

lemma check_options_refusal:
  "\<forall>opt\<in>set opts. \<exists>b. opt a = Inr b \<Longrightarrow> check_options opts a \<in> {None, Some (forbidden ''Role details not allowed'')}"
proof (induction opts)
  case (Cons opt opts)
  then show ?case by (cases "opt a") auto
qed simp

definition status_accepted :: "bool \<Rightarrow> bool \<Rightarrow> auth \<Rightarrow> bool" where
  "status_accepted accept_inactive accept_expired a \<longleftrightarrow>
    au_auth_type a \<noteq> ACCESS_TOKEN \<or>
    (au_status a = ''inactive'' \<longrightarrow> accept_inactive) \<and> (au_status a = ''expired'' \<longrightarrow> accept_expired)"

definition route_granted :: "string \<Rightarrow> string \<Rightarrow> auth \<Rightarrow> bool" where
  "route_granted class_name op a \<longleftrightarrow>
    (case map_of (au_allowed_routes a) class_name of
       Some (Route rp) \<Rightarrow> rp_scope rp = ''all'' \<or> (case rp_custom_routes rp of Some rs \<Rightarrow> op \<in> set rs | None \<Rightarrow> False)
     | _ \<Rightarrow> False)"

definition routes_complete :: "auth \<Rightarrow> bool" where
  "routes_complete a \<longleftrightarrow> list_all (\<lambda>(n, r). case r of Route rp \<Rightarrow> rp_custom_routes rp \<noteq> None | Replaced _ \<Rightarrow> False) (au_allowed_routes a)"

lemma routes_complete_entry:
  "routes_complete a \<Longrightarrow> map_of (au_allowed_routes a) n = Some r \<Longrightarrow> \<exists>rp rs. r = Route rp \<and> rp_custom_routes rp = Some rs"
  by (auto simp: routes_complete_def list_all_iff dest!: map_of_SomeD split: route_entry.splits)

lemma raw_verify_template [simp]:
  "raw_verify_asset_permission (Arg_str t) v opts r = Inl TypeError"
  by (simp add: raw_verify_asset_permission_def get_allowed_assets_def)

lemma verify_asset_permission_TypeError [simp]:
  "verify_asset_permission template a tt opts = Inl TypeError"
  by (simp add: verify_asset_permission_def Let_def)

text \<open>Given the permission first, the raw check is the one meant: below an allowed directory, or an
  allowed file without an objection.\<close>

lemma option_messages_None:
  "option_messages opts b t = None \<longleftrightarrow> (\<forall>opt\<in>set opts. opt b t = None)"
  by (induction opts) (auto split: option.splits)

lemma raw_verify_spec:
  "raw_verify_asset_permission (Arg_auth a) (Arg_str t) opts r = Inr True \<longleftrightarrow>
    (\<exists>d\<in>set (ap_dirs (au_allowed_assets a)). starts_with t d) \<or>
    (t \<in> set (ap_files (au_allowed_assets a)) \<and> (\<forall>opt\<in>set opts. opt (au_allowed_assets a) t = None))"
  unfolding option_messages_None [symmetric]
  by (cases "option_messages opts (au_allowed_assets a) t")
    (simp_all add: raw_verify_asset_permission_def get_allowed_assets_def list_ex_iff)

lemma merge_route_keys:
  assumes "merge_route kr rs = Inr rs'" "''scope'' \<notin> fst ` set rs"
  shows "fst kr \<notin> fst ` set rs \<and> rs' = AList.update (fst kr) (Route (snd kr)) rs"
proof -
  have "map_of rs ''scope'' = None" using assms(2) by (simp add: map_of_eq_None_iff)
  then show ?thesis
    using assms(1) by (cases kr) (simp add: merge_route_def split: if_splits)
qed

lemma merge_routes_clash:
  assumes "k \<in> fst ` set rs" "k \<in> fst ` set new" "''scope'' \<notin> fst ` set new" "''scope'' \<notin> fst ` set rs"
  shows "rfold merge_route new rs = Inl (KeyError ''scope'')"
  using assms
proof (induction new arbitrary: rs)
  case (Cons kr new)
  obtain n r where [simp]: "kr = (n, r)" by (cases kr)
  show ?case
  proof (cases "n \<in> fst ` set rs")
    case True
    then show ?thesis
      using map_of_eq_None_iff [THEN iffD2, OF Cons.prems(4)] by (simp add: merge_route_def)
  next
    case False
    with Cons.prems have "k \<noteq> n" by auto
    with False Cons show ?thesis
      by (simp add: merge_route_def)
  qed
qed simp

lemma merge_routes_keys:
  "rfold merge_route new rs = Inr rs' \<Longrightarrow> ''scope'' \<notin> fst ` set new \<Longrightarrow> ''scope'' \<notin> fst ` set rs \<Longrightarrow>
    fst ` set rs' = fst ` set rs \<union> fst ` set new"
proof (induction new arbitrary: rs)
  case (Cons kr new)
  from Cons.prems obtain rs1 where "merge_route kr rs = Inr rs1" "rfold merge_route new rs1 = Inr rs'"
    by (auto simp: rbind_Inr_iff)
  with Cons merge_route_keys [of kr rs rs1] show ?case by auto
qed simp

lemma merge_routes_fail:
  "rfold merge_route new rs = Inl e \<Longrightarrow> e = KeyError ''scope''"
proof (induction new arbitrary: rs)
  case (Cons kr new)
  show ?case
  proof (cases "merge_route kr rs")
    case (Inl e')
    then have "e' = KeyError ''scope''"
      by (cases kr) (auto simp: merge_route_def split: if_splits option.splits)
    with Cons.prems Inl show ?thesis by simp
  next
    case (Inr rs1)
    with Cons show ?thesis by simp
  qed
qed simp

lemma set_union_into [simp]: "set (union_into new old) = set new \<union> set old"
  by (simp add: union_into_def) (induction new arbitrary: old, auto)

lemma authenticate_admits:
  assumes "authenticate unseal key g now cache bl pol ip tok = Inr (c, a)"
  shows "\<exists>t p gid cid co. tok = Inr t \<and> verify_auth_permission unseal key g now t = Inr p
    \<and> map_of p ''client_id'' = Some cid \<and> map_of p ''group_id'' = Some gid \<and> cache gid cid = Inr c
    \<and> verify_client_origin (cl_client_scope c) (cl_issued_for c) ip (Some ''...'') = None
    \<and> cl_authenticated c \<and> (cl_client_type c = Admin \<or> \<not> bl c) \<and> pol c = Inr co
    \<and> parse_roles (co_roles co) = Inr (au_roles a) \<and> au_client_type a = Member (cl_client_type c)
    \<and> au_client_id a = cid \<and> au_auth_type a = cl_auth_type c \<and> au_allowed_routes a = co_allowed_routes co"
  using assms
  by (auto simp: authenticate_def rbind_Inr_iff need_def request_permission_def value_of_def
      split: option.splits if_splits)

lemma route_granted_iff:
  "route_permission_check accept_inactive accept_expired cls meta (Some a) = Inr True \<longleftrightarrow>
      status_accepted accept_inactive accept_expired a \<and>
      (au_client_type a = Member Admin \<or>
       (\<forall>opt\<in>set (fm_options meta). opt a = Inr True) \<and> set (fm_excludes meta) \<inter> set (au_roles a) = {} \<and>
       (set (fm_roles meta) \<inter> set (au_roles a) \<noteq> {} \<or>
        CUSTOM \<in> set (au_roles a) \<and> route_granted cls (fm_operation_id meta) a))"
  unfolding check_options_None [symmetric] status_accepted_def
  by (simp add: route_permission_check_def forbidden_def meets_iff route_granted_def
      split: option.split route_entry.split)

lemma route_refused_403:
  assumes "\<forall>opt\<in>set (fm_options meta). \<exists>b. opt a = Inr b" "routes_complete a"
  shows "route_permission_check accept_inactive accept_expired cls meta (Some a) = Inr True \<or>
    (\<exists>d. route_permission_check accept_inactive accept_expired cls meta (Some a) = Inl (HTTPException 403 d))"
proof (cases "check_options (fm_options meta) a")
  case (Some e)
  then have "e = forbidden ''Role details not allowed''"
    using check_options_refusal [OF assms(1)] by auto
  with Some show ?thesis by (simp add: route_permission_check_def forbidden_def)
next
  case opts: None
  show ?thesis
  proof (cases "map_of (au_allowed_routes a) cls")
    case None
    with opts show ?thesis by (simp add: route_permission_check_def forbidden_def)
  next
    case (Some r)
    then obtain rp rs where "r = Route rp" "rp_custom_routes rp = Some rs"
      using routes_complete_entry [OF assms(2)] by blast
    with Some opts show ?thesis by (simp add: route_permission_check_def forbidden_def)
  qed
qed

section \<open>Properties\<close>

text \<open>C2: For every permission, status included, and every setting of the two accept flags, the route is
  granted exactly when an access token is not inactive, unless inactive ones are accepted, nor expired,
  unless expired ones are, and then the client is an admin, or every option holds, no excluded role is
  there, and a required role is, or the custom role together with an entry for the class that has scope
  all or lists the operation. When every option returns and every route entry has its list of custom
  routes, each refusal is a 403; an option that raises, or an entry without that list, can end in
  another exception.\<close>

theorem route_permission_decision:
  "(route_permission_check accept_inactive accept_expired cls meta (Some a) = Inr True \<longleftrightarrow>
      status_accepted accept_inactive accept_expired a \<and>
      (au_client_type a = Member Admin \<or>
       (\<forall>opt\<in>set (fm_options meta). opt a = Inr True) \<and> set (fm_excludes meta) \<inter> set (au_roles a) = {} \<and>
       (set (fm_roles meta) \<inter> set (au_roles a) \<noteq> {} \<or>
        CUSTOM \<in> set (au_roles a) \<and> route_granted cls (fm_operation_id meta) a)))
    \<and> ((\<forall>opt\<in>set (fm_options meta). \<exists>b. opt a = Inr b) \<and> routes_complete a \<longrightarrow>
       route_permission_check accept_inactive accept_expired cls meta (Some a) = Inr True \<or>
       (\<exists>d. route_permission_check accept_inactive accept_expired cls meta (Some a) = Inl (HTTPException 403 d)))"
proof (intro conjI impI)
  show "route_permission_check accept_inactive accept_expired cls meta (Some a) = Inr True \<longleftrightarrow>
      status_accepted accept_inactive accept_expired a \<and>
      (au_client_type a = Member Admin \<or>
       (\<forall>opt\<in>set (fm_options meta). opt a = Inr True) \<and> set (fm_excludes meta) \<inter> set (au_roles a) = {} \<and>
       (set (fm_roles meta) \<inter> set (au_roles a) \<noteq> {} \<or>
        CUSTOM \<in> set (au_roles a) \<and> route_granted cls (fm_operation_id meta) a))"
    by (rule route_granted_iff)
next
  assume "(\<forall>opt\<in>set (fm_options meta). \<exists>b. opt a = Inr b) \<and> routes_complete a"
  then show "route_permission_check accept_inactive accept_expired cls meta (Some a) = Inr True \<or>
      (\<exists>d. route_permission_check accept_inactive accept_expired cls meta (Some a) = Inl (HTTPException 403 d))"
    by (intro route_refused_403) auto
qed

definition sample_auth :: auth where
  "sample_auth = \<lparr>au_generation_id = PStr ''g'', au_client_id = PStr ''c'', au_group_id = PNone, au_challenge = PStr ''x'',
     au_status = ''active'', au_auth_type = ACCESS_TOKEN, au_client_type = Member User, au_scope = SoloDolo,
     au_issued_for = ''1.2.3.4'', au_roles = [PUBLIC, CUSTOM],
     au_allowed_routes = [(''Email'', Route \<lparr>rp_scope = ''custom'', rp_custom_routes = Some [''send'']\<rparr>)],
     au_allowed_assets = \<lparr>ap_files = [], ap_dirs = []\<rparr>, au_allowed_profiles = [], au_allowed_agents = [],
     au_allowed_blogs = []\<rparr>"

definition sample_meta :: func_meta where
  "sample_meta = \<lparr>fm_operation_id = ''send'', fm_roles = [RELAY], fm_excludes = [CHAT], fm_options = []\<rparr>"

theorem route_permission_decision_witness:
  "route_permission_check False False ''Email'' sample_meta (Some sample_auth) = Inr True
    \<and> (\<exists>d. route_permission_check False False ''Email'' sample_meta (Some (sample_auth\<lparr>au_status := ''expired''\<rparr>))
        = Inl (HTTPException 403 d))"
  using route_permission_decision [of False False "''Email''" sample_meta sample_auth]
    route_permission_decision [of False False "''Email''" sample_meta "sample_auth\<lparr>au_status := ''expired''\<rparr>"]
  by (auto simp: sample_meta_def sample_auth_def status_accepted_def routes_complete_def route_granted_def)

text \<open>C1: A request that the middleware hands on with a client has a token sealed with the key, of the
  current generation; its client is authenticated, is an admin or not blacklisted (an admin's blacklist
  entry is never looked at), and, for the scope SoloDolo, comes from the address it was issued for; a
  client of scope Organization never passes; the roles are those of its policies. When the security flag
  is off or the path is excluded, the request goes on without any of these checks, and without a client.\<close>

theorem dispatch_admits:
  assumes "dispatch bypassed (authenticate unseal key g now cache bl pol ip tok) = Inr (Some (Next c a))"
  shows "(\<exists>t p. tok = Inr t \<and> unseal key t = Some p \<and> map_of p ''generation_id'' = Some (PStr g))
    \<and> cl_authenticated c \<and> (cl_client_type c = Admin \<or> \<not> bl c) \<and> cl_client_scope c \<noteq> Organization
    \<and> (cl_client_scope c = SoloDolo \<longrightarrow> cl_issued_for c = ip)
    \<and> (\<exists>co. pol c = Inr co \<and> parse_roles (co_roles co) = Inr (au_roles a))
    \<and> \<not> bypassed \<and> dispatch True (authenticate unseal key g now cache bl pol ip tok) = Inr None"
proof -
  have r: "authenticate unseal key g now cache bl pol ip tok = Inr (c, a)"
    using assms by (auto simp: dispatch_def split: if_splits sum.splits exn.splits)
  have nb: "\<not> bypassed" using assms by (auto simp: dispatch_def)
  from r obtain t p cid gid co where *: "tok = Inr t" "verify_auth_permission unseal key g now t = Inr p"
    "cache gid cid = Inr c" "verify_client_origin (cl_client_scope c) (cl_issued_for c) ip (Some ''...'') = None"
    "cl_authenticated c" "cl_client_type c = Admin \<or> \<not> bl c" "pol c = Inr co" "parse_roles (co_roles co) = Inr (au_roles a)"
    using authenticate_admits [OF r] by (elim exE conjE) blast
  then show ?thesis
    using verified_generation [OF *(2)] nb
    by (auto simp: verify_client_origin_def dispatch_def split: scope.splits if_splits)
qed

definition sample_client :: client where
  "sample_client = \<lparr>cl_client_id = ''c'', cl_group_id = None, cl_client_name = ''n'', cl_client_type = Admin,
     cl_client_scope = SoloDolo, cl_issued_for = ''1.2.3.4'', cl_auth_type = ACCESS_TOKEN, cl_authenticated = True,
     cl_can_login = True, cl_password = '''', cl_password_salt = ''''\<rparr>"

definition sample_token :: payload where
  "sample_token = [(''generation_id'', PStr ''g''), (''client_id'', PStr ''c''), (''group_id'', PNone),
     (''created_at'', PNum 0), (''expired_at'', PNum 100)]"

definition sample_dispatch :: "reply option result" where
  "sample_dispatch = dispatch False (authenticate (\<lambda>k p. Some p) ''K'' ''g'' 1 (\<lambda>g c. Inr sample_client) (\<lambda>c. True)
     (\<lambda>c. get_combined_policies []) ''1.2.3.4'' (Inr sample_token))"

lemma sample_dispatch_next:
  "\<exists>a. sample_dispatch = Inr (Some (Next sample_client a))"
  by (simp add: sample_dispatch_def authenticate_def verify_auth_permission_def decode_token_def sample_token_def
      set_status_def need_def as_num_def Let_def sample_client_def verify_client_origin_def get_combined_policies_def
      filter_asset_permission_def parse_roles_def dispatch_def filter_paths_def)

theorem dispatch_admits_witness:
  "cl_issued_for sample_client = ''1.2.3.4'' \<and> cl_authenticated sample_client"
proof -
  obtain a where "sample_dispatch = Inr (Some (Next sample_client a))"
    using sample_dispatch_next by blast
  from dispatch_admits [OF this [unfolded sample_dispatch_def]] show ?thesis
    by (simp add: sample_client_def)
qed

text \<open>No request that passed the middleware passes the admin permission, an admin's neither: the
  permission compares the member of the enum with its text.\<close>

theorem admin_permission_refuses_admins:
  assumes "dispatch False (authenticate unseal key g now cache bl pol ip tok) = Inr (Some (Next c a))"
  shows "\<exists>e. admin_permission ensure type_of_client a = Inl e"
proof -
  have r: "authenticate unseal key g now cache bl pol ip tok = Inr (c, a)"
    using assms by (auto simp: dispatch_def split: sum.splits exn.splits)
  have "au_client_type a = Member (cl_client_type c)"
    using authenticate_admits [OF r] by (elim exE conjE) blast
  then show ?thesis
    by (auto simp: admin_permission_def client_type_permission_def rbind_def split: sum.splits if_splits)
qed

theorem admin_permission_refuses_admins_witness:
  "\<exists>a e. sample_dispatch = Inr (Some (Next sample_client a)) \<and> admin_permission False (\<lambda>_. Inr Admin) a = Inl e"
proof -
  obtain a where a: "sample_dispatch = Inr (Some (Next sample_client a))"
    using sample_dispatch_next by blast
  from admin_permission_refuses_admins [OF this [unfolded sample_dispatch_def], of False "\<lambda>_. Inr Admin"] a show ?thesis
    by blast
qed

text \<open>The permission on a template grants only to an admin, or the root to an empty template where
  that is accepted; with a template the check raises TypeError, whatever the client may use.\<close>

theorem asset_object_permission_result:
  "asset_object_permission own ext keys opts accept a template sch tt =
    (if au_client_type a = Member Admin then Inr True
     else if template = '''' \<and> \<not> accept then Inr False
     else if template = '''' \<and> own = None \<and> tt = None then Inr (''/'' \<in> set (ap_dirs (au_allowed_assets a)))
     else Inl TypeError)"
  by (cases tt; cases own) (auto simp: asset_object_permission_def Let_def)

text \<open>The password of a client is never checked: the login of a client gives the same result for
  any two passwords.\<close>

theorem password_not_checked:
  "get_client_by_password hmac unb64 key by_id by_name user password cid
    = get_client_by_password hmac unb64 key by_id by_name user other cid"
  by (simp add: get_client_by_password_def Let_def rbind_def cong: option.case_cong split: sum.split option.split)

text \<open>The lookup of clients that are not to be admins returns an admin like any other client.\<close>

lemma get_client_returns_admins:
  "get_client by_id by_name byp accept_admin skip raise roles i cid = get_client by_id by_name byp (\<not> accept_admin) skip raise roles i cid"
  by (auto simp: get_client_def bypass_admin_role_def accept_none_def rbind_def split: sum.split option.split)

text \<open>Combining the policies of a client, whose ressources are not named scope, succeeds exactly when
  no two policies name the same ressource, and then the roles are all those of the policies.\<close>

theorem combined_policies_of_two:
  assumes "''scope'' \<notin> fst ` set (po_allowed_routes p)" "''scope'' \<notin> fst ` set (po_allowed_routes q)"
    and "distinct (map fst (po_allowed_routes p))" "distinct (map fst (po_allowed_routes q))"
  shows "(if fst ` set (po_allowed_routes p) \<inter> fst ` set (po_allowed_routes q) = {}
    then \<exists>c. get_combined_policies [p, q] = Inr c \<and> set (co_roles c) = set (po_roles p) \<union> set (po_roles q)
    else get_combined_policies [p, q] = Inl (KeyError ''scope''))"
proof -
  have ok: "\<exists>rs'. rfold merge_route new rs = Inr rs'"
    if "distinct (map fst new)" "fst ` set new \<inter> fst ` set rs = {}" for new rs
    using that
  proof (induction new arbitrary: rs)
    case (Cons kr new)
    obtain n r where [simp]: "kr = (n, r)" by (cases kr)
    have "rfold merge_route new (AList.update n (Route r) rs) = rfold merge_route (kr # new) rs"
      using Cons.prems by (simp add: merge_route_def)
    moreover have "fst ` set new \<inter> fst ` set (AList.update n (Route r) rs) = {}"
      using Cons.prems by auto
    ultimately show ?case
      using Cons.IH [of "AList.update n (Route r) rs"] Cons.prems by simp
  qed simp
  obtain rs where rs: "rfold merge_route (po_allowed_routes p) [] = Inr rs"
    using ok [OF assms(3), of "[]"] by auto
  have keys: "fst ` set rs = fst ` set (po_allowed_routes p)"
    using merge_routes_keys [OF rs assms(1)] by simp
  show ?thesis
  proof (cases "fst ` set (po_allowed_routes p) \<inter> fst ` set (po_allowed_routes q) = {}")
    case True
    then obtain rs' where "rfold merge_route (po_allowed_routes q) rs = Inr rs'"
      using ok [OF assms(4), of rs] keys by auto
    with True rs show ?thesis
      by (auto simp: get_combined_policies_def merge_policy_def)
  next
    case False
    then obtain k where "k \<in> fst ` set rs" "k \<in> fst ` set (po_allowed_routes q)"
      using keys by auto
    then have "rfold merge_route (po_allowed_routes q) rs = Inl (KeyError ''scope'')"
      using merge_routes_clash assms(1,2) keys by metis
    with False rs show ?thesis
      by (simp add: get_combined_policies_def merge_policy_def)
  qed
qed

definition sample_policy :: policy where
  "sample_policy = \<lparr>po_roles = [''PUBLIC''], po_allowed_routes = [(''Email'', \<lparr>rp_scope = ''all'', rp_custom_routes = Some []\<rparr>)],
     po_allowed_profiles = [], po_allowed_assets = [], po_allowed_agents = [], po_allowed_blogs = []\<rparr>"

theorem combined_policies_of_two_witness:
  "get_combined_policies [sample_policy, sample_policy] = Inl (KeyError ''scope'')"
  using combined_policies_of_two [of sample_policy sample_policy] by (simp add: sample_policy_def)

text \<open>No client whose balance is not positive passes the cost permission, as long as the overdraft
  ratio and the cost of a call are not negative: the overdraft it allows is what it refuses.\<close>

theorem overdraft_refused:
  assumes "bal \<le> 0" "0 < rule_or (overdraft_ratio_allowed rules) (15 / 100)" "0 \<le> rule_or (ce_api_usage_cost d) 0"
  shows "\<exists>e. task_cost_permission rules retry_allowed plan (Some bal) d tt retry = Inl e"
proof (cases "is_current_credit_overdraft_allowed rules plan bal (ce_credit_key d)")
  case (Inl e)
  with assms(1) show ?thesis by (simp add: task_cost_permission_def)
next
  case (Inr b)
  show ?thesis
  proof (cases b)
    case True
    with Inr assms(1) show ?thesis by (simp add: task_cost_permission_def)
  next
    case False
    have "bal \<noteq> 0"
    proof
      assume "bal = 0"
      with Inr False assms(2) show False
        by (auto simp: is_current_credit_overdraft_allowed_def split: if_splits option.splits)
    qed
    with assms have "bal < rule_or (ce_api_usage_cost d) 0" by linarith
    with Inr False assms(1) show ?thesis by (simp add: task_cost_permission_def)
  qed
qed

theorem overdraft_refused_witness:
  "\<exists>e. task_cost_permission \<lparr>credit_overdraft_allowed = Some True, auto_block_on_zero_credit = Some False,
      overdraft_ratio_allowed = Some (1/2)\<rparr> True [(''email'', 100)] (Some (- 10))
      \<lparr>ce_credit_key = ''email'', ce_api_usage_cost = Some 1, ce_allowed_task_option = None\<rparr> None False = Inl e"
  using overdraft_refused [of "- 10" "\<lparr>credit_overdraft_allowed = Some True, auto_block_on_zero_credit = Some False,
      overdraft_ratio_allowed = Some (1/2)\<rparr>" "\<lparr>ce_credit_key = ''email'', ce_api_usage_cost = Some 1, ce_allowed_task_option = None\<rparr>"]
  by (simp add: rule_or_def)

end
