(* ===== verification/Ressource_Pipeline.thy ===== *)
theory Ressource_Pipeline
  imports Auth_Permission "HOL-Library.Multiset"
begin

text \<open>
  definition/_utils_decorator.py and the decorators of definition/_ressource.py: how permissions,
  guards, pipes, handlers and interceptors are registered on an endpoint, in which order they are
  put around it, and what each does with refusals and exceptions.  An endpoint takes the keyword
  arguments of the request and the state of everything else, \<open>'w\<close>, and returns or raises; the
  filtering of keyword arguments by annotation is left to the checks, which get them all.
\<close>

section \<open>Outcomes\<close>

datatype deco = Permission_default | Handler_default | Guard_default | Pipe_default | Interceptor_default

text \<open>A decorator exception may carry a status with its details and a response.\<close>

datatype 'r raised = Exn exn | Deco deco "(nat \<times> string) option" "'r option"

datatype 'r out = Ret 'r | Raise "'r raised"

type_synonym 'v kwargs = "(string, 'v) dict"
type_synonym ('v, 'w, 'r) endpoint = "'v kwargs \<Rightarrow> 'w \<Rightarrow> 'r out \<times> 'w"
type_synonym ('v, 'w, 'r) wrapper = "('v, 'w, 'r) endpoint \<Rightarrow> ('v, 'w, 'r) endpoint"
type_synonym ('v, 'w, 'r, 'a) check = "'v kwargs \<Rightarrow> 'w \<Rightarrow> ('r raised + 'a) \<times> 'w"

abbreviation http_error :: "nat \<Rightarrow> string \<Rightarrow> 'r out" where
  "http_error code d \<equiv> Raise (Exn (HTTPException code d))"

text \<open>The \<open>except\<close> clause the decorators share: the response of the exception, its own status, the default
  error of the decorator, or the fallback.\<close>

definition recover :: "deco \<Rightarrow> nat \<times> string \<Rightarrow> (nat \<times> string) option \<Rightarrow> 'r out \<Rightarrow> 'r out" where
  "recover kind fallback default_error r =
    (case r of
       Raise (Deco k status response) \<Rightarrow>
         if k \<noteq> kind then r
         else (case response of
             Some resp \<Rightarrow> Ret resp
           | None \<Rightarrow> (case status of
               Some (code, d) \<Rightarrow> http_error code d
             | None \<Rightarrow> (case default_error of Some (code, d) \<Rightarrow> http_error code d
                      | None \<Rightarrow> http_error (fst fallback) (snd fallback))))
     | _ \<Rightarrow> r)"

text \<open>Decorator objects and coroutine functions are awaited; a plain function gives a value that is not
  awaitable, after it ran.\<close>

datatype callee = Object | Coroutine | Plain

definition awaited :: "callee \<Rightarrow> ('v, 'w, 'r, 'a) check \<Rightarrow> ('v, 'w, 'r, 'a) check" where
  "awaited c f kw w =
    (case f kw w of
       (Inr x, w') \<Rightarrow> if c = Plain then (Inl (Exn TypeError), w') else (Inr x, w')
     | (Inl e, w') \<Rightarrow> (Inl e, w'))"

section \<open>What each decorator does around an endpoint\<close>

definition META_KEY :: string where "META_KEY = ''func_meta''"
definition CLASS_KEY :: string where "CLASS_KEY = ''class_name''"

fun run_permissions ::
  "(nat \<times> string) option \<Rightarrow> (callee \<times> ('v, 'w, 'r, bool) check) list \<Rightarrow> 'v kwargs \<Rightarrow> 'w \<Rightarrow> 'r out option \<times> 'w" where
  "run_permissions dflt [] kw w = (None, w)"
| "run_permissions dflt ((c, p) # ps) kw w =
    (case awaited c p kw w of
       (Inr True, w') \<Rightarrow> run_permissions dflt ps kw w'
     | (Inr False, w') \<Rightarrow> (Some (http_error 403 ''Forbidden''), w')
     | (Inl e, w') \<Rightarrow> (Some (recover Permission_default (501, ''Not Implemented'') dflt (Raise e)), w'))"

definition permission_wrapper ::
  "bool \<Rightarrow> (callee \<times> ('v, 'w, 'r, bool) check) list \<Rightarrow> (nat \<times> string) option \<Rightarrow> 'v \<Rightarrow> 'v \<Rightarrow> ('v, 'w, 'r) wrapper" where
  "permission_wrapper security_flag perms dflt class_name meta function kw w =
    (if \<not> security_flag then function kw w
     else if perms = [] then function kw w
     else if length kw < 1 then (http_error 501 ''Not Implemented'', w)
     else if dict_has kw META_KEY \<or> dict_has kw CLASS_KEY then (http_error 400 ''special key used'', w)
     else let kw' = AList.update META_KEY meta (AList.update CLASS_KEY class_name kw)
     in case run_permissions dflt perms kw' w of
          (None, w') \<Rightarrow> function kw w'
        | (Some r, w') \<Rightarrow> (r, w'))"

text \<open>
  A guard answers with a flag and a message, with a pair of other things, or with what is no pair: the last
  cannot be unpacked, which raises before the shape is looked at.
\<close>

datatype verdict = Verdict bool string | Malformed | No_pair

fun run_guards ::
  "(callee \<times> ('v, 'w, 'r, verdict) check) list \<Rightarrow> 'v kwargs \<Rightarrow> 'w \<Rightarrow> 'r out option \<times> 'w" where
  "run_guards [] kw w = (None, w)"
| "run_guards ((c, g) # gs) kw w =
    (case awaited c g kw w of
       (Inr Malformed, w') \<Rightarrow> (Some (http_error 501 ''Not Implemented''), w')
     | (Inr No_pair, w') \<Rightarrow> (Some (Raise (Exn TypeError)), w')
     | (Inr (Verdict True m), w') \<Rightarrow> run_guards gs kw w'
     | (Inr (Verdict False m), w') \<Rightarrow> (Some (http_error 401 m), w')
     | (Inl e, w') \<Rightarrow> (Some (Raise e), w'))"

definition guard_wrapper ::
  "(callee \<times> ('v, 'w, 'r, verdict) check) list \<Rightarrow> (nat \<times> string) option \<Rightarrow> ('v, 'w, 'r) wrapper" where
  "guard_wrapper guards dflt function kw w =
    (if guards = [] then function kw w
     else case run_guards guards kw w of
         (None, w') \<Rightarrow> function kw w'
       | (Some r, w') \<Rightarrow> (recover Guard_default (401, ''Request Validation Aborted'') dflt r, w'))"

text \<open>A pipe before the endpoint answers nothing, new arguments, or something else.\<close>

datatype 'v piped = Nothing | Arguments "'v kwargs" | Other

definition dict_update :: "'v kwargs \<Rightarrow> 'v kwargs \<Rightarrow> 'v kwargs" where
  "dict_update d new = fold (\<lambda>(k, v). AList.update k v) new d"

fun run_pipes ::
  "(callee \<times> ('v, 'w, 'r, 'v piped) check) list \<Rightarrow> 'v kwargs \<Rightarrow> 'w \<Rightarrow> ('r raised + 'v kwargs) \<times> 'w" where
  "run_pipes [] kw w = (Inr kw, w)"
| "run_pipes ((c, p) # ps) kw w =
    (case awaited c p kw w of
       (Inr Nothing, w') \<Rightarrow> run_pipes ps kw w'
     | (Inr (Arguments d), w') \<Rightarrow> run_pipes ps (dict_update kw d) w'
     | (Inr Other, w') \<Rightarrow> (Inl (Deco Pipe_default None None), w')
     | (Inl e, w') \<Rightarrow> (Inl e, w'))"

definition pipe_before_wrapper ::
  "(callee \<times> ('v, 'w, 'r, 'v piped) check) list \<Rightarrow> (nat \<times> string) option \<Rightarrow> ('v, 'w, 'r) wrapper" where
  "pipe_before_wrapper pipes dflt function kw w =
    (let (r, w') = (case run_pipes pipes kw w of
         (Inr kw', w') \<Rightarrow> function (dict_update kw kw') w'
       | (Inl e, w') \<Rightarrow> (Raise e, w'))
     in (recover Pipe_default (500, ''Internal Server Error'') dflt r, w'))"

fun run_after ::
  "(callee \<times> ('r \<Rightarrow> ('v, 'w, 'r, 'r) check)) list \<Rightarrow> 'r \<Rightarrow> 'v kwargs \<Rightarrow> 'w \<Rightarrow> 'r out \<times> 'w" where
  "run_after [] r kw w = (Ret r, w)"
| "run_after ((c, p) # ps) r kw w =
    (case awaited c (p r) kw w of
       (Inr r', w') \<Rightarrow> run_after ps r' kw w'
     | (Inl e, w') \<Rightarrow> (Raise e, w'))"

definition pipe_after_wrapper ::
  "(callee \<times> ('r \<Rightarrow> ('v, 'w, 'r, 'r) check)) list \<Rightarrow> (nat \<times> string) option \<Rightarrow> ('v, 'w, 'r) wrapper" where
  "pipe_after_wrapper pipes dflt function kw w =
    (let (r, w') = (case function kw w of
         (Ret r, w') \<Rightarrow> run_after pipes r kw w'
       | (Raise e, w') \<Rightarrow> (Raise e, w'))
     in (recover Pipe_default (500, ''Internal Server Error'') dflt r, w'))"

text \<open>\<open>Interceptor.intercept\<close>: a hook may ask to return its own result with \<open>SkipCode\<close>.\<close>

datatype 'r hook = Hook_ok | Hook_skip bool 'r | Hook_raise "'r raised"

definition intercept ::
  "('v kwargs \<Rightarrow> 'w \<Rightarrow> 'r hook \<times> 'w) \<Rightarrow> ('r \<Rightarrow> 'v kwargs \<Rightarrow> 'w \<Rightarrow> 'r hook \<times> 'w) \<Rightarrow> ('v, 'w, 'r) wrapper" where
  "intercept before after function kw w =
    (case before kw w of
       (Hook_raise e, w1) \<Rightarrow> (Raise e, w1)
     | (h, w1) \<Rightarrow>
         (case h of Hook_skip True r \<Rightarrow> (Ret r, w1)
          | _ \<Rightarrow>
            let k_star = (if dict_has kw META_KEY then AList.delete META_KEY kw else kw)
            in (case function k_star w1 of
                (Raise e, w2) \<Rightarrow> (Raise e, w2)
              | (Ret r, w2) \<Rightarrow>
                  (case after r kw w2 of
                     (Hook_raise e, w3) \<Rightarrow> (Raise e, w3)
                   | (Hook_skip True r', w3) \<Rightarrow> (Ret r', w3)
                   | (_, w3) \<Rightarrow> (Ret r, w3)))))"

text \<open>\<open>Helper.stack_decorator\<close>: the first decorator of the list is the outermost.\<close>

definition stack_decorator ::
  "('v, 'w, 'r) wrapper list \<Rightarrow> deco \<Rightarrow> (nat \<times> string) option \<Rightarrow> bool \<Rightarrow> 'v \<Rightarrow> ('v, 'w, 'r) wrapper" where
  "stack_decorator decorated kind dflt inject_func_meta meta function kw w =
    (if inject_func_meta \<and> dict_has kw META_KEY then (http_error 400 ''special key used'', w)
     else let kw = (if inject_func_meta then AList.update META_KEY meta kw else kw)
     in if decorated = [] then function kw w
        else let (r, w') = foldr (\<lambda>d f. d f) decorated function kw w
          in (recover kind (500, ''Could not correctly treat the error'') dflt r, w'))"

section \<open>Registration and order\<close>

datatype priority = LIMITER | PERMISSION | HANDLER | PIPE | GUARD | INTERCEPTOR

fun priority_value :: "priority \<Rightarrow> rat" where
  "priority_value LIMITER = 0"
| "priority_value PERMISSION = 1"
| "priority_value HANDLER = 2"
| "priority_value PIPE = 3"
| "priority_value GUARD = 4"
| "priority_value INTERCEPTOR = 5"

type_synonym ('v, 'w, 'r) callbacks = "(('v, 'w, 'r) wrapper \<times> rat) list"
type_synonym ('v, 'w, 'r) metadata = "(string, (string, ('v, 'w, 'r) callbacks) dict) dict"

definition get_or :: "('k, 'x list) dict \<Rightarrow> 'k \<Rightarrow> 'x list" where
  "get_or d k = (case map_of d k of None \<Rightarrow> [] | Some x \<Rightarrow> x)"

definition appends_funcs_callback ::
  "string \<Rightarrow> string \<Rightarrow> ('v, 'w, 'r) wrapper \<Rightarrow> priority \<Rightarrow> rat \<Rightarrow> ('v, 'w, 'r) metadata \<Rightarrow> ('v, 'w, 'r) metadata" where
  "appends_funcs_callback class_name func wr prio touch md =
    AList.update class_name
      (AList.update func (get_or (get_or md class_name) func @ [(wr, priority_value prio + touch)]) (get_or md class_name)) md"

definition add_protected_route_metadata :: "string \<Rightarrow> string \<Rightarrow> (string, string list) dict \<Rightarrow> (string, string list) dict" where
  "add_protected_route_metadata class_name operation_id routes =
    AList.update class_name (get_or routes class_name @ [operation_id]) routes"

definition stack_callbacks :: "('v, 'w, 'r) callbacks \<Rightarrow> ('v, 'w, 'r) wrapper" where
  "stack_callbacks cbs c = foldl (\<lambda>c sc. fst sc c) c (sort_key (\<lambda>x. - snd x) cbs)"

definition stack_callback :: "string \<Rightarrow> ('v, 'w, 'r) metadata \<Rightarrow> string \<Rightarrow> ('v, 'w, 'r) wrapper" where
  "stack_callback class_name md func c =
    (case map_of md class_name of
       None \<Rightarrow> c
     | Some m \<Rightarrow> (case map_of m func of None \<Rightarrow> c | Some cbs \<Rightarrow> stack_callbacks cbs c))"

type_synonym ('v, 'w, 'r) registry = "('v, 'w, 'r) metadata \<times> (string, string list) dict"

definition use_permission ::
  "bool \<Rightarrow> bool \<Rightarrow> (callee \<times> ('v, 'w, 'r, bool) check) list \<Rightarrow> (nat \<times> string) option \<Rightarrow> (string \<Rightarrow> 'v) \<Rightarrow> 'v \<Rightarrow> string \<Rightarrow>
   string \<Rightarrow> string \<Rightarrow> ('v, 'w, 'r) registry \<Rightarrow> ('v, 'w, 'r) registry" where
  "use_permission mount security_flag perms dflt class_val meta operation_id class_name func reg =
    (if \<not> mount then reg
     else (appends_funcs_callback class_name func
             (permission_wrapper security_flag perms dflt (class_val class_name) meta) PERMISSION 0 (fst reg),
           add_protected_route_metadata class_name operation_id (snd reg)))"

definition use_handler ::
  "bool \<Rightarrow> ('v, 'w, 'r) wrapper list \<Rightarrow> (nat \<times> string) option \<Rightarrow> 'v \<Rightarrow> string \<Rightarrow> string \<Rightarrow> ('v, 'w, 'r) metadata \<Rightarrow> ('v, 'w, 'r) metadata" where
  "use_handler mount handlers dflt meta class_name func md =
    (if \<not> mount then md
     else appends_funcs_callback class_name func (stack_decorator handlers Handler_default dflt False meta) HANDLER 0 md)"

definition use_guard ::
  "bool \<Rightarrow> (callee \<times> ('v, 'w, 'r, verdict) check) list \<Rightarrow> (nat \<times> string) option \<Rightarrow> string \<Rightarrow> string \<Rightarrow>
   ('v, 'w, 'r) metadata \<Rightarrow> ('v, 'w, 'r) metadata" where
  "use_guard mount guards dflt class_name func md =
    (if \<not> mount then md
     else appends_funcs_callback class_name func (guard_wrapper guards dflt) GUARD 0 md)"

definition use_pipe ::
  "bool \<Rightarrow> (callee \<times> ('v, 'w, 'r, 'v piped) check) list + (callee \<times> ('r \<Rightarrow> ('v, 'w, 'r, 'r) check)) list \<Rightarrow>
   (nat \<times> string) option \<Rightarrow> string \<Rightarrow> string \<Rightarrow> ('v, 'w, 'r) metadata \<Rightarrow> ('v, 'w, 'r) metadata" where
  "use_pipe mount pipes dflt class_name func md =
    (if \<not> mount then md
     else (case pipes of
         Inl before \<Rightarrow> appends_funcs_callback class_name func (pipe_before_wrapper before dflt) PIPE 0 md
       | Inr after \<Rightarrow> appends_funcs_callback class_name func (pipe_after_wrapper after dflt) PIPE (1 / 2) md))"

definition use_interceptor ::
  "bool \<Rightarrow> ('v, 'w, 'r) wrapper list \<Rightarrow> (nat \<times> string) option \<Rightarrow> bool \<Rightarrow> 'v \<Rightarrow> string \<Rightarrow> string \<Rightarrow>
   ('v, 'w, 'r) metadata \<Rightarrow> ('v, 'w, 'r) metadata" where
  "use_interceptor mount interceptors dflt inject_meta meta class_name func md =
    (if \<not> mount then md
     else appends_funcs_callback class_name func
       (stack_decorator interceptors Interceptor_default dflt inject_meta meta) INTERCEPTOR 0 md)"

text \<open>\<open>Throttle\<close> waits before the endpoint; the delay is drawn from the state, in milliseconds.\<close>

definition throttle_wrapper :: "('w \<Rightarrow> rat \<times> 'w) \<Rightarrow> (rat \<Rightarrow> 'w \<Rightarrow> 'w) \<Rightarrow> ('v, 'w, 'r) wrapper" where
  "throttle_wrapper delay_fn sleep function kw w =
    (let (delay, w') = delay_fn w in function kw (if delay > 0 then sleep (delay / 1000) w' else w'))"

definition throttle ::
  "('w \<Rightarrow> rat \<times> 'w) \<Rightarrow> (rat \<Rightarrow> 'w \<Rightarrow> 'w) \<Rightarrow> string \<Rightarrow> string \<Rightarrow> ('v, 'w, 'r) metadata \<Rightarrow> ('v, 'w, 'r) metadata" where
  "throttle delay_fn sleep class_name func md =
    appends_funcs_callback class_name func (throttle_wrapper delay_fn sleep) LIMITER (1 / 2) md"

text \<open>On a class a decorator is applied to each of its attributes that is an endpoint.\<close>

definition common_class_decorator :: "string list \<Rightarrow> string list \<Rightarrow> (string \<Rightarrow> 's \<Rightarrow> 's) \<Rightarrow> 's \<Rightarrow> 's" where
  "common_class_decorator attrs endpoints decorator s =
    fold (\<lambda>attr s. if attr \<in> set endpoints then decorator attr s else s) attrs s"

text \<open>\<open>UseRoles\<close>: the sets of a route's metadata, as lists without repetitions.\<close>

record role_meta =
  rm_roles :: "role list"
  rm_excludes :: "role list"
  rm_options :: "(auth \<Rightarrow> bool result) list"
  rm_default_role :: bool

definition use_roles :: "role list \<Rightarrow> role list \<Rightarrow> (auth \<Rightarrow> bool result) list \<Rightarrow> role_meta \<Rightarrow> role_meta" where
  "use_roles roles excludes opts meta =
    (let excludes1 = filter (\<lambda>r. r \<notin> set roles) (remdups excludes);
         roles1 = filter (\<lambda>r. r \<noteq> CUSTOM) (remdups roles);
         roles2 = union_into roles1 (if rm_default_role meta then [] else rm_roles meta)
     in meta\<lparr>rm_roles := roles2, rm_default_role := False,
          rm_excludes := union_into (filter (\<lambda>r. r \<notin> set roles2) excludes1) (rm_excludes meta),
          rm_options := rm_options meta @ opts\<rparr>)"

section \<open>Lemmas\<close>

text \<open>Sorting splits at the key of any element.\<close>

lemma sort_key_split:
  "sort_key f xs = sort_key f (filter (\<lambda>x. f x < v) xs) @ filter (\<lambda>x. f x = v) xs @ sort_key f (filter (\<lambda>x. v < f x) xs)"
  (is "_ = ?ys")
proof (rule properties_for_sort_key)
  show "mset ?ys = mset xs"
    by (rule multiset_eqI) auto
  show "sorted (map f ?ys)"
    by (auto simp: sorted_append intro: sorted_map_same)
  fix k
  have eq: "f k = f x \<longleftrightarrow> f x = f k" for x by auto
  have only: "filter (\<lambda>x. P (f x) \<and> f x = f k) xs = (if P (f k) then filter (\<lambda>x. f x = f k) xs else [])" for P k
    by (induction xs) auto
  show "filter (\<lambda>x. f k = f x) ?ys = filter (\<lambda>x. f k = f x) xs"
    unfolding eq
    by (cases "f k" v rule: linorder_cases)
      (auto simp: sort_key_stable only [of "\<lambda>y. y < v"] only [of "\<lambda>y. v < y"] only [of "\<lambda>y. y = v"]
        only [of "\<lambda>y. y < f k"] only [of "\<lambda>y. f k < y"])
qed

text \<open>A callback with a priority of its own stands between those of lower and those of higher priority,
  wherever it was registered.\<close>

lemma stack_callbacks_between:
  assumes "\<forall>cb\<in>set (as @ bs). snd cb \<noteq> p"
  shows "stack_callbacks (as @ (wr, p) # bs) c =
    stack_callbacks (filter (\<lambda>cb. snd cb < p) (as @ bs)) (wr (stack_callbacks (filter (\<lambda>cb. p < snd cb) (as @ bs)) c))"
proof -
  have "filter (\<lambda>cb. - snd cb = - p) (as @ (wr, p) # bs) = [(wr, p)]"
    using assms by (auto simp: filter_empty_conv)
  then have "sort_key (\<lambda>x. - snd x) (as @ (wr, p) # bs)
      = sort_key (\<lambda>x. - snd x) (filter (\<lambda>cb. p < snd cb) (as @ bs)) @ (wr, p) #
        sort_key (\<lambda>x. - snd x) (filter (\<lambda>cb. snd cb < p) (as @ bs))"
    using sort_key_split [of "\<lambda>x. - snd x" "as @ (wr, p) # bs" "- p"] by simp
  then show ?thesis by (simp add: stack_callbacks_def)
qed

lemma recover_contained: "recover k fb d r \<noteq> Raise (Deco k s resp)"
  by (auto simp: recover_def split: out.splits raised.splits option.splits)

lemma recover_Ret [simp]: "recover k fb d (Ret r) = Ret r"
  by (simp add: recover_def)

lemma dict_get_update_all:
  "map_of (dict_update d new) k = (case map_of (rev new) k of Some v \<Rightarrow> Some v | None \<Rightarrow> map_of d k)"
  using alist_store.look_put_all [of new d k] by (simp add: dict_update_def)

text \<open>An endpoint that raises is passed by an interceptor as it is: the hook after it does not run.\<close>

lemma intercept_failure:
  assumes "before kw w = (Hook_ok, w1)" "\<not> dict_has kw META_KEY" "function kw w1 = (Raise e, w2)"
  shows "intercept before after function kw w = (Raise e, w2)"
  using assms by (simp add: intercept_def)

lemma use_roles_spec:
  "set (rm_roles (use_roles roles excl opts m)) =
     (if rm_default_role m then {} else set (rm_roles m)) \<union> (set roles - {CUSTOM})"
  "set (rm_excludes (use_roles roles excl opts m)) =
     set (rm_excludes m) \<union> (set excl - set roles - set (rm_roles (use_roles roles excl opts m)))"
  by (auto simp: use_roles_def Let_def)

section \<open>Properties\<close>


definition sample_callbacks :: "(string, int, string) callbacks" where
  "sample_callbacks = [(guard_wrapper [(Object, \<lambda>kw w. (Inr (Verdict True ''''), w + 1))] None, priority_value GUARD),
     (throttle_wrapper (\<lambda>w. (100, w)) (\<lambda>d w. w + 10), priority_value LIMITER + 1 / 2)]"


text \<open>The exception of a pipe, also one raised further in, never leaves the pipes, before or after the
  endpoint: it becomes its response or an HTTP error.\<close>

theorem pipe_exception_contained:
  "fst (pipe_before_wrapper bs dflt f kw w) \<noteq> Raise (Deco Pipe_default s r)
    \<and> fst (pipe_after_wrapper as dflt f kw w) \<noteq> Raise (Deco Pipe_default s r)"
  by (simp add: pipe_before_wrapper_def pipe_after_wrapper_def recover_contained split: prod.split)

text \<open>A role that one decorator excludes and a later one requires is in both sets of the route, and every
  client of that role that is not an admin is refused.\<close>

lemma later_roles_stay_excluded:
  assumes "rl \<noteq> CUSTOM" "rl \<in> set (au_roles a)" "status_accepted False False a" "au_client_type a \<noteq> Member Admin"
    and "m' = use_roles [rl] [] [] (use_roles [] [rl] [] m)" "rm_options m = []" "rm_default_role m \<or> rl \<notin> set (rm_roles m)"
  shows "rl \<in> set (rm_roles m') \<and> route_permission_check False False cls
      \<lparr>fm_operation_id = op, fm_roles = rm_roles m', fm_excludes = rm_excludes m', fm_options = rm_options m'\<rparr> (Some a)
      = Inl (HTTPException 403 ''Role not allowed'')"
proof -
  have "rl \<in> set (rm_roles m')" "rl \<in> set (rm_excludes m')"
    using assms(1,5,7) by (auto simp: use_roles_spec)
  moreover have "rm_options m' = []"
    using assms(5,6) by (simp add: use_roles_def Let_def)
  ultimately show ?thesis
    using assms(2-4) by (auto simp: route_permission_check_def status_accepted_def meets_iff forbidden_def)
qed

lemma later_roles_stay_excluded_witness:
  "route_permission_check False False ''Email'' (let m' = use_roles [PUBLIC] [] [] (use_roles [] [PUBLIC] []
        \<lparr>rm_roles = [PUBLIC], rm_excludes = [], rm_options = [], rm_default_role = True\<rparr>)
      in \<lparr>fm_operation_id = ''send'', fm_roles = rm_roles m', fm_excludes = rm_excludes m', fm_options = rm_options m'\<rparr>)
     (Some sample_auth) = Inl (HTTPException 403 ''Role not allowed'')"
  using later_roles_stay_excluded [of PUBLIC sample_auth
      "use_roles [PUBLIC] [] [] (use_roles [] [PUBLIC] [] \<lparr>rm_roles = [PUBLIC], rm_excludes = [], rm_options = [], rm_default_role = True\<rparr>)"
      "\<lparr>rm_roles = [PUBLIC], rm_excludes = [], rm_options = [], rm_default_role = True\<rparr>" "''Email''" "''send''"]
  by (simp add: sample_auth_def status_accepted_def Let_def)

end
