(* ===== verification/Container.thy ===== *)
theory Container
  imports Prelude
begin

text \<open>
  container.py: the dependency injection container.  Classes are named; a class has a signature,
  the annotation and the name of each parameter.  The decorators that would register abstract
  resolutions and conditional builds are declared with \<open>typing.overload\<close>, so they raise when used and
  their tables are always empty: the branches on them are not modelled.  Constructors, builders and the
  injector's own construction of an unbound class are parameters.
\<close>

section \<open>Loading the dependencies\<close>

record dep_meta =
  dm_dep :: "string list"
  dm_param_names :: "string list"
  dm_dep_params :: "string list"
  dm_flag_build :: bool

type_synonym metadata = "(string, dep_meta) dict"
type_synonym signature = "(string \<times> string) list"

definition container_error :: "string \<Rightarrow> exn" where
  "container_error cls = OtherException cls"

text \<open>\<open>getSignature\<close>: an annotation that occurs again is an error, one that is not known too unless
  others are accepted; a missing annotation is called \<open>_empty\<close>.\<close>

fun get_signature :: "metadata \<Rightarrow> bool \<Rightarrow> signature \<Rightarrow> string list \<Rightarrow> string list \<Rightarrow> (string list \<times> string list) result" where
  "get_signature md accepts_others [] types names = Inr (types, names)"
| "get_signature md accepts_others ((ann, p) # ps) types names =
    (if count_list types ann = 1 then Inl (container_error ''MultipleParameterSameDependencyError'')
     else if \<not> dict_has md ann \<and> ann \<noteq> ''_empty'' then
       (if \<not> accepts_others then Inl (container_error ''NoResolvedDependencyError'')
        else get_signature md accepts_others ps types names)
     else get_signature md accepts_others ps (types @ [ann]) (names @ [p]))"

definition load_base_set :: "string list \<Rightarrow> string list \<Rightarrow> string list result" where
  "load_base_set abstract D =
    (if list_ex (\<lambda>d. d \<in> set abstract) D then Inl (container_error ''InvalidDependencyError'') else Inr (remdups D))"

definition load_one ::
  "string list \<Rightarrow> (string, string list) dict \<Rightarrow> string list \<Rightarrow> string \<times> signature \<Rightarrow>
   metadata \<times> (string, nat) dict \<Rightarrow> (metadata \<times> (string, nat) dict) result" where
  "load_one abstract possible base xs st =
    (case xs of (x, sig) \<Rightarrow> case st of (md, cnt) \<Rightarrow>
      rbind (get_signature md False sig [] []) (\<lambda>(types, names).
        let dep = remdups types;
            depNotInjected = filter (\<lambda>y. y \<notin> set base) dep
        in if list_ex (\<lambda>y. y \<notin> set abstract) depNotInjected then Inl (container_error ''NotInDependenciesError'')
           else let dep = (case map_of possible x of None \<Rightarrow> dep | Some ps \<Rightarrow> remdups (dep @ ps))
           in Inr (AList.update x \<lparr>dm_dep = dep, dm_param_names = names, dm_dep_params = types, dm_flag_build = True\<rparr> md,
                   AList.update x (length types) cnt)))"

definition load_dep ::
  "string list \<Rightarrow> (string, string list) dict \<Rightarrow> string list \<Rightarrow> (string \<times> signature) list \<Rightarrow> (metadata \<times> (string, nat) dict) result" where
  "load_dep abstract possible base D = rfold (load_one abstract possible base) D ([], [])"

text \<open>The order of equal counts is the one of a set, here the list it is kept as.\<close>

definition order_dependency :: "(string, nat) dict \<Rightarrow> string list \<Rightarrow> string list result" where
  "order_dependency dep_count base =
    (case find (\<lambda>x. \<not> dict_has dep_count x) base of
       Some x \<Rightarrow> Inl (KeyError x)
     | None \<Rightarrow> Inr (sort_key (\<lambda>x. the (map_of dep_count x)) base))"

section \<open>Building\<close>

record world =
  is_service :: "string \<Rightarrow> bool"
  constructor :: "string \<Rightarrow> (string \<times> string) list \<Rightarrow> exn option"
  build_of :: "string \<Rightarrow> exn option"
  auto_bind :: "string \<Rightarrow> exn option"

text \<open>The bound objects in the order of their binding, named by their class, and who uses whom.\<close>

record container =
  ct_metadata :: metadata
  ct_bound :: "string list"
  ct_used_by :: "(string, string list) dict"
  ct_dependants :: "(string, string list) dict"
  ct_built :: "string list"

definition container_get :: "world \<Rightarrow> string list \<Rightarrow> container \<Rightarrow> string \<Rightarrow> string result" where
  "container_get W abstract c typ =
    (if typ \<in> set abstract then Inl (container_error ''InvalidDependencyError'')
     else if typ \<in> set (ct_bound c) then Inr typ
     else (case auto_bind W typ of Some e \<Rightarrow> Inl e | None \<Rightarrow> Inr typ))"

text \<open>\<open>toParams\<close>: an unknown dependency is a KeyError, caught and raised as unresolved.\<close>

fun to_params ::
  "world \<Rightarrow> string list \<Rightarrow> bool \<Rightarrow> container \<Rightarrow> string list \<Rightarrow> string list \<Rightarrow> (string, string) dict \<Rightarrow> (string, string) dict result" where
  "to_params W abstract accept_others c [] names params = Inr params"
| "to_params W abstract accept_others c (d # ds) names params =
    (if \<not> dict_has (ct_metadata c) d then
       (if \<not> accept_others then Inl (container_error ''NoResolvedDependencyError'')
        else to_params W abstract accept_others c ds (tl names) params)
     else (case container_get W abstract c d of
         Inl (KeyError _) \<Rightarrow> Inl (container_error ''NoResolvedDependencyError'')
       | Inl e \<Rightarrow> Inl e
       | Inr obj \<Rightarrow> to_params W abstract accept_others c ds (tl names) (AList.update (hd names) obj params)))"

definition add_user :: "string \<Rightarrow> string \<Rightarrow> (string, string list) dict \<Rightarrow> (string, string list) dict" where
  "add_user user s used = AList.update s (List.insert user (case map_of used s of None \<Rightarrow> [] | Some us \<Rightarrow> us)) used"

definition create_dep :: "world \<Rightarrow> string \<Rightarrow> (string, string) dict \<Rightarrow> container \<Rightarrow> exn option \<times> container" where
  "create_dep W typ params c =
    (case constructor W typ params of
       Some e \<Rightarrow> (Some e, c)
     | None \<Rightarrow>
         if \<not> is_service W typ then (None, c)
         else let objs = map snd params;
                  c1 = c\<lparr>ct_used_by := fold (add_user typ) objs (ct_used_by c),
                         ct_dependants := AList.update typ (remdups objs) (ct_dependants c)\<rparr>
           in (case map_of (ct_metadata c) typ of
               None \<Rightarrow> (Some (KeyError typ), c1)
             | Some m \<Rightarrow>
                 if dm_flag_build m then (build_of W typ, c1\<lparr>ct_built := ct_built c1 @ [typ]\<rparr>) else (None, c1)))"

definition inject :: "world \<Rightarrow> string list \<Rightarrow> string \<Rightarrow> container \<Rightarrow> exn option \<times> container" where
  "inject W abstract x c =
    (case map_of (ct_metadata c) x of
       None \<Rightarrow> (Some (KeyError x), c)
     | Some m \<Rightarrow>
         (case to_params W abstract False c (dm_dep_params m) (dm_param_names m) [] of
            Inl e \<Rightarrow> (Some e, c)
          | Inr params \<Rightarrow>
              (case create_dep W x params c of
                 (Some e, c') \<Rightarrow> (Some e, c')
               | (None, c') \<Rightarrow> (None, c'\<lparr>ct_bound := ct_bound c' @ [x]\<rparr>))))"

fun inject_all :: "world \<Rightarrow> string list \<Rightarrow> string list \<Rightarrow> container \<Rightarrow> exn option \<times> container" where
  "inject_all W abstract [] c = (None, c)"
| "inject_all W abstract (x # xs) c =
    (case inject W abstract x c of (Some e, c') \<Rightarrow> (Some e, c') | (None, c') \<Rightarrow> inject_all W abstract xs c')"

text \<open>The classes of a set none of whose dependencies are in it.\<close>

definition no_dep :: "metadata \<Rightarrow> string list \<Rightarrow> string list result" where
  "no_dep md D =
    (case find (\<lambda>x. \<not> dict_has md x) D of
       Some x \<Rightarrow> Inl (KeyError x)
     | None \<Rightarrow> Inr (filter (\<lambda>x. list_all (\<lambda>d. d \<notin> set D) (dm_dep (the (map_of md x)))) D))"

lemma no_dep_subset: "no_dep md D = Inr ready \<Longrightarrow> set ready \<subseteq> set D"
  by (auto simp: no_dep_def split: option.splits)

function build_container :: "world \<Rightarrow> string list \<Rightarrow> string list \<Rightarrow> container \<Rightarrow> exn option \<times> container" where
  "build_container W abstract D c =
    (if D = [] then (None, c)
     else (case no_dep (ct_metadata c) D of
         Inl e \<Rightarrow> (Some e, c)
       | Inr ready \<Rightarrow>
           if ready = [] then (Some (container_error ''CircularDependencyError''), c)
           else (case inject_all W abstract ready c of
               (Some e, c') \<Rightarrow> (Some e, c')
             | (None, c') \<Rightarrow> build_container W abstract (filter (\<lambda>x. x \<notin> set ready) D) c')))"
  by pat_completeness auto

termination
proof (relation "measure (\<lambda>(W, abstract, D, c). length D)", goal_cases)
  case (2 W abstract D c ready p c')
  then obtain x where "x \<in> set ready" "x \<in> set D"
    using no_dep_subset [of "ct_metadata c" D ready] by (cases ready) auto
  then have "length (filter (\<lambda>x. x \<notin> set ready) D) < length D"
    by (intro length_filter_less) auto
  then show ?case by simp
qed simp

declare build_container.simps [simp del]

definition new_container :: "world \<Rightarrow> string list \<Rightarrow> (string, string list) dict \<Rightarrow> (string \<times> signature) list \<Rightarrow> exn option \<times> container" where
  "new_container W abstract possible D =
    (let empty = \<lparr>ct_metadata = [], ct_bound = [], ct_used_by = [], ct_dependants = [], ct_built = []\<rparr>
     in case rbind (load_base_set abstract (map fst D)) (\<lambda>base.
          rbind (load_dep abstract possible base D) (\<lambda>(md, cnt).
          rbind (order_dependency cnt base) (\<lambda>ordered. Inr (md, ordered)))) of
        Inl e \<Rightarrow> (Some e, empty)
      | Inr (md, ordered) \<Rightarrow> build_container W abstract ordered (empty\<lparr>ct_metadata := md\<rparr>))"

section \<open>Using\<close>

text \<open>\<open>need\<close> reads a key the metadata does not have.\<close>

definition dep_meta_keys :: "string list" where
  "dep_meta_keys = [''type'', ''dep'', ''param_name'', ''dep_params'', ''flag_build'']"

definition need_service :: "container \<Rightarrow> string \<Rightarrow> string result" where
  "need_service c typ =
    (if \<not> dict_has (ct_metadata c) typ then Inl (KeyError typ)
     else if ''build_only_flag'' \<notin> set dep_meta_keys then Inl (KeyError ''build_only_flag'')
     else Inr typ)"

definition bind_object :: "bool \<Rightarrow> bool \<Rightarrow> bool \<Rightarrow> exn" where
  "bind_object is_base_service has_primitive_type binds_primitive =
    (if is_base_service then ValueError
     else if has_primitive_type then ValueError
     else if binds_primitive then ValueError
     else TypeError)"

text \<open>\<open>reloadDep\<close> calls \<open>get\<close> with one argument too many.\<close>

definition reload_dep :: "container \<Rightarrow> string \<Rightarrow> exn option" where
  "reload_dep c typ = Some TypeError"

text \<open>\<open>destroyAllDependency\<close> calls the destroyer of the classes, not of the objects.\<close>

definition destroy_all_dependency :: "string list \<Rightarrow> exn option" where
  "destroy_all_dependency D = (if D = [] then None else Some TypeError)"

text \<open>\<open>InjectInMethod\<close>: the first parameter is dropped and the given keyword arguments win.\<close>

definition inject_in_method ::
  "world \<Rightarrow> string list \<Rightarrow> bool \<Rightarrow> container \<Rightarrow> signature \<Rightarrow> (string, string) dict \<Rightarrow> (string, string) dict result" where
  "inject_in_method W abstract accept_others c sig kwargs =
    rbind (get_signature (ct_metadata c) accept_others sig [] []) (\<lambda>(types, names).
      if types = [] then Inl IndexError
      else rbind (to_params W abstract accept_others c (tl types) (tl names) []) (\<lambda>params.
        Inr (fold (\<lambda>(k, v). AList.update k v) kwargs params)))"

definition inject_in_function ::
  "world \<Rightarrow> string list \<Rightarrow> bool \<Rightarrow> container \<Rightarrow> signature \<Rightarrow> (string, string) dict \<Rightarrow> (string, string) dict result" where
  "inject_in_function W abstract accept_others c sig kwargs =
    rbind (get_signature (ct_metadata c) accept_others sig [] []) (\<lambda>(types, names).
      rbind (to_params W abstract accept_others c types names []) (\<lambda>params.
        Inr (fold (\<lambda>(k, v). AList.update k v) kwargs params)))"

section \<open>Lemmas\<close>

lemma create_dep_keeps:
  "create_dep W x ps c = (e, c') \<Longrightarrow> ct_metadata c' = ct_metadata c \<and> ct_bound c' = ct_bound c"
  by (auto simp: create_dep_def Let_def split: option.splits if_splits)

lemma inject_metadata: "ct_metadata (snd (inject W ab x c)) = ct_metadata c"
  by (auto simp: inject_def split: option.splits sum.splits prod.splits dest: create_dep_keeps)

lemma inject_ok:
  "inject W ab x c = (None, c') \<Longrightarrow> ct_bound c' = ct_bound c @ [x] \<and> ct_metadata c' = ct_metadata c"
  by (auto simp: inject_def split: option.splits sum.splits prod.splits dest: create_dep_keeps)

lemma inject_all_ok:
  "inject_all W ab xs c = (None, c') \<Longrightarrow> ct_bound c' = ct_bound c @ xs \<and> ct_metadata c' = ct_metadata c"
proof (induction xs arbitrary: c)
  case (Cons x xs)
  from Cons.prems obtain c1 where "inject W ab x c = (None, c1)" "inject_all W ab xs c1 = (None, c')"
    by (auto split: prod.splits option.splits)
  with Cons.IH [of c1] inject_ok [of W ab x c c1] show ?case by simp
qed simp

lemma no_dep_ready:
  assumes "no_dep md D = Inr ready"
  shows "set ready \<subseteq> set D" "\<forall>x\<in>set ready. set (dm_dep (the (map_of md x))) \<inter> set D = {}"
    "distinct D \<Longrightarrow> distinct ready"
  using assms by (auto simp: no_dep_def list_all_iff split: option.splits)

abbreviation deps_of :: "metadata \<Rightarrow> string \<Rightarrow> string set" where
  "deps_of md x \<equiv> set (dm_dep (the (map_of md x)))"

text \<open>Every element comes after those of its dependencies that are in a given set.\<close>

fun ordered_after :: "metadata \<Rightarrow> string set \<Rightarrow> string set \<Rightarrow> string list \<Rightarrow> bool" where
  "ordered_after md S seen [] = True"
| "ordered_after md S seen (x # xs) = (deps_of md x \<inter> S \<subseteq> seen \<and> ordered_after md S (insert x seen) xs)"

lemma ordered_after_append:
  "ordered_after md S seen (xs @ ys) \<longleftrightarrow> ordered_after md S seen xs \<and> ordered_after md S (seen \<union> set xs) ys"
  by (induction xs arbitrary: seen) (auto simp: Un_insert_right [symmetric] simp del: Un_insert_right)

lemma ordered_after_mono:
  "ordered_after md S seen xs \<Longrightarrow> S' \<inter> - S \<subseteq> seen' \<Longrightarrow> seen \<subseteq> seen' \<Longrightarrow> ordered_after md S' seen' xs"
proof (induction xs arbitrary: seen seen')
  case (Cons x xs)
  from Cons.IH [of "insert x seen" "insert x seen'"] Cons.prems show ?case by auto
qed simp

lemma ordered_after_nth:
  "ordered_after md S seen xs \<Longrightarrow> i < length xs \<Longrightarrow> deps_of md (xs ! i) \<inter> S \<subseteq> seen \<union> set (take i xs)"
proof (induction xs arbitrary: seen i)
  case (Cons x xs)
  then show ?case
  proof (cases i)
    case (Suc j)
    with Cons.IH [of "insert x seen" j] Cons.prems show ?thesis by auto
  qed simp
qed simp

lemma ordered_after_ready:
  "\<forall>x\<in>set xs. deps_of md x \<inter> S = {} \<Longrightarrow> ordered_after md S seen xs"
  by (induction xs arbitrary: seen) auto

lemma build_container_order:
  assumes "build_container W ab D c = (None, c')"
  shows "\<exists>order. ct_bound c' = ct_bound c @ order \<and> set order = set D \<and> (distinct D \<longrightarrow> distinct order)
    \<and> ordered_after (ct_metadata c) (set D) {} order \<and> ct_metadata c' = ct_metadata c"
  using assms
proof (induction W ab D c rule: build_container.induct)
  case (1 W ab D c)
  show ?case
  proof (cases "D = []")
    case True
    with 1 show ?thesis by (simp add: build_container.simps)
  next
    case False
    then obtain ready c1 where ready: "no_dep (ct_metadata c) D = Inr ready" "ready \<noteq> []"
      "inject_all W ab ready c = (None, c1)" "build_container W ab (filter (\<lambda>x. x \<notin> set ready) D) c1 = (None, c')"
      using "1.prems" by (subst (asm) build_container.simps) (auto split: sum.splits if_splits prod.splits option.splits)
    let ?D = "filter (\<lambda>x. x \<notin> set ready) D"
    obtain order where order: "ct_bound c' = ct_bound c1 @ order" "set order = set ?D" "distinct ?D \<longrightarrow> distinct order"
      "ordered_after (ct_metadata c1) (set ?D) {} order" "ct_metadata c' = ct_metadata c1"
      using "1.IH" [OF False ready(1) ready(2) ready(3) [symmetric] refl ready(4)] by blast
    note c1 = inject_all_ok [OF ready(3)] and nd = no_dep_ready [OF ready(1)]
    have "ordered_after (ct_metadata c) (set D) (set ready) order"
      using ordered_after_mono [OF order(4), of "set D" "set ready"] c1 by auto
    then have "ordered_after (ct_metadata c) (set D) {} (ready @ order)"
      using ordered_after_ready [OF nd(2)] by (simp add: ordered_after_append)
    moreover have "set (ready @ order) = set D" using order(2) nd(1) by auto
    moreover have "distinct D \<longrightarrow> distinct (ready @ order)" using order(2,3) nd(3) by auto
    moreover have "ct_bound c' = ct_bound c @ (ready @ order)" "ct_metadata c' = ct_metadata c"
      using order(1,5) c1 by auto
    ultimately show ?thesis by blast
  qed
qed

section \<open>What loading guarantees\<close>

lemma get_signature_types:
  "get_signature md False sig types names = Inr (types', names') \<Longrightarrow>
    types' = types @ map fst sig \<and> set (map fst sig) \<subseteq> fst ` set md \<union> {''_empty''}"
proof (induction sig arbitrary: types names)
  case (Cons ap sig)
  obtain ann p where [simp]: "ap = (ann, p)" by (cases ap)
  from Cons.prems have "dict_has md ann \<or> ann = ''_empty''"
    "get_signature md False sig (types @ [ann]) (names @ [p]) = Inr (types', names')"
    by (simp_all split: if_splits)
  with Cons.IH [of "types @ [ann]" "names @ [p]"] show ?case by auto
qed simp

lemma load_one_ok:
  assumes "load_one ab possible base (x, sig) (md, cnt) = Inr (md', cnt')"
  shows "\<exists>m. md' = AList.update x m md \<and> set (map fst sig) \<subseteq> fst ` set md \<union> {''_empty''} \<and>
    set (dm_dep m) = set (map fst sig) \<union> (case map_of possible x of None \<Rightarrow> {} | Some ps \<Rightarrow> set ps)"
proof -
  from assms obtain types names where sig: "get_signature md False sig [] [] = Inr (types, names)"
    by (auto simp: load_one_def rbind_Inr_iff)
  let ?dep = "case map_of possible x of None \<Rightarrow> remdups types | Some ps \<Rightarrow> remdups (remdups types @ ps)"
  have "md' = AList.update x \<lparr>dm_dep = ?dep, dm_param_names = names, dm_dep_params = types, dm_flag_build = True\<rparr> md"
    using assms sig by (simp add: load_one_def Let_def split: if_splits)
  moreover have "set ?dep = set types \<union> (case map_of possible x of None \<Rightarrow> {} | Some ps \<Rightarrow> set ps)"
    by (simp split: option.split)
  ultimately show ?thesis
    using get_signature_types [OF sig] by (metis append_Nil dep_meta.select_convs(1))
qed

lemma load_dep_keeps:
  "rfold (load_one ab possible base) D (md, cnt) = Inr (md', cnt') \<Longrightarrow> y \<notin> set (map fst D) \<Longrightarrow> map_of md' y = map_of md y"
proof (induction D arbitrary: md cnt)
  case (Cons xs D)
  obtain x sig where [simp]: "xs = (x, sig)" by (cases xs)
  from Cons.prems(1) obtain md1 cnt1 where l: "load_one ab possible base (x, sig) (md, cnt) = Inr (md1, cnt1)"
    "rfold (load_one ab possible base) D (md1, cnt1) = Inr (md', cnt')"
    by (auto simp: rbind_Inr_iff)
  with Cons load_one_ok [OF l(1)] show ?case by auto
qed simp

lemma load_dep_keys:
  "rfold (load_one ab possible base) D (md, cnt) = Inr (md', cnt') \<Longrightarrow> fst ` set md' = fst ` set md \<union> set (map fst D)"
proof (induction D arbitrary: md cnt)
  case (Cons xs D)
  obtain x sig where [simp]: "xs = (x, sig)" by (cases xs)
  from Cons.prems(1) obtain md1 cnt1 where l: "load_one ab possible base (x, sig) (md, cnt) = Inr (md1, cnt1)"
    "rfold (load_one ab possible base) D (md1, cnt1) = Inr (md', cnt')"
    by (auto simp: rbind_Inr_iff)
  from load_one_ok [OF l(1)] obtain m where "md1 = AList.update x m md" by blast
  with Cons.IH [OF l(2)] show ?case by simp
qed simp

lemma load_dep_ok:
  assumes "rfold (load_one ab possible base) D (md, cnt) = Inr (md', cnt')"
    and "distinct (map fst D)" "fst ` set md \<inter> set (map fst D) = {}" "i < length D"
  shows "set (map fst (snd (D ! i))) \<subseteq> fst ` set md \<union> set (take i (map fst D)) \<union> {''_empty''} \<and>
    deps_of md' (fst (D ! i)) = set (map fst (snd (D ! i))) \<union>
      (case map_of possible (fst (D ! i)) of None \<Rightarrow> {} | Some ps \<Rightarrow> set ps)"
  using assms
proof (induction D arbitrary: md cnt i)
  case (Cons xs D)
  obtain x sig where [simp]: "xs = (x, sig)" by (cases xs)
  from Cons.prems(1) obtain md1 cnt1 where l: "load_one ab possible base (x, sig) (md, cnt) = Inr (md1, cnt1)"
    "rfold (load_one ab possible base) D (md1, cnt1) = Inr (md', cnt')"
    by (auto simp: rbind_Inr_iff)
  from load_one_ok [OF l(1)] obtain m where m: "md1 = AList.update x m md"
    "set (map fst sig) \<subseteq> fst ` set md \<union> {''_empty''}"
    "set (dm_dep m) = set (map fst sig) \<union> (case map_of possible x of None \<Rightarrow> {} | Some ps \<Rightarrow> set ps)"
    by blast
  show ?case
  proof (cases i)
    case 0
    have "map_of md' x = Some m"
      using l(2) Cons.prems(2) m(1) load_dep_keeps [OF l(2), of x] by simp
    with 0 m show ?thesis by auto
  next
    case (Suc j)
    with Cons.IH [OF l(2), of j] Cons.prems m(1) show ?thesis by auto
  qed
qed simp

lemma load_dep_error:
  "rfold (load_one ab possible base) D st \<noteq> Inl (OtherException ''CircularDependencyError'')"
proof (induction D arbitrary: st)
  case (Cons xs D)
  have sig: "get_signature md False sig ts ns \<noteq> Inl (OtherException ''CircularDependencyError'')" for md sig ts ns
    by (induction sig arbitrary: ts ns) (auto simp: container_error_def split: if_splits)
  have "load_one ab possible base xs st \<noteq> Inl (OtherException ''CircularDependencyError'')"
    using sig by (auto simp: load_one_def container_error_def Let_def rbind_def split: prod.splits sum.splits)
  with Cons.IH show ?case by (auto simp: rbind_def split: sum.splits)
qed simp

lemma order_dependency_set:
  "order_dependency cnt base = Inr xs \<Longrightarrow> set xs = set base \<and> (distinct base \<longrightarrow> distinct xs)"
  by (auto simp: order_dependency_def split: option.splits)

lemma new_container_parts:
  assumes "new_container W ab possible D = (e, c)" "\<And>e'. e = Some e' \<Longrightarrow> e' = container_error ''CircularDependencyError''"
  shows "\<exists>md cnt ordered. load_dep ab possible (remdups (map fst D)) D = Inr (md, cnt) \<and> set ordered = set (map fst D)
    \<and> distinct ordered \<and> build_container W ab ordered
        \<lparr>ct_metadata = md, ct_bound = [], ct_used_by = [], ct_dependants = [], ct_built = []\<rparr> = (e, c)"
proof -
  let ?base = "remdups (map fst D)"
  have no_circ: "rbind (load_base_set ab (map fst D)) (\<lambda>base. rbind (load_dep ab possible base D) (\<lambda>(md, cnt).
      rbind (order_dependency cnt base) (\<lambda>ordered. Inr (md, ordered)))) \<noteq> Inl (container_error ''CircularDependencyError'')"
    using load_dep_error [of ab possible ?base D "([], [])"]
    by (auto simp: load_base_set_def load_dep_def order_dependency_def container_error_def rbind_def
        split: sum.splits option.splits)
  obtain md ordered where r: "rbind (load_base_set ab (map fst D)) (\<lambda>base. rbind (load_dep ab possible base D) (\<lambda>(md, cnt).
      rbind (order_dependency cnt base) (\<lambda>ordered. Inr (md, ordered)))) = Inr (md, ordered)"
    "build_container W ab ordered \<lparr>ct_metadata = md, ct_bound = [], ct_used_by = [], ct_dependants = [], ct_built = []\<rparr> = (e, c)"
    using assms no_circ by (auto simp: new_container_def Let_def split: sum.splits)
  then obtain cnt where "load_dep ab possible ?base D = Inr (md, cnt)" "order_dependency cnt ?base = Inr ordered"
    by (auto simp: rbind_Inr_iff load_base_set_def split: if_splits)
  with r(2) order_dependency_set show ?thesis
    by (metis distinct_remdups set_remdups)
qed

lemma nth_index:
  "distinct xs \<Longrightarrow> i < length xs \<Longrightarrow> length (takeWhile (\<lambda>y. y \<noteq> xs ! i) xs) = i"
proof (induction xs arbitrary: i)
  case (Cons x xs)
  then show ?case by (cases i) auto
qed simp

lemma inject_not_circular:
  assumes "\<forall>x ps. constructor W x ps \<noteq> Some (container_error ''CircularDependencyError'')"
    "\<forall>x. build_of W x \<noteq> Some (container_error ''CircularDependencyError'')"
    "\<forall>x. auto_bind W x \<noteq> Some (container_error ''CircularDependencyError'')"
  shows "fst (inject_all W ab xs c) \<noteq> Some (container_error ''CircularDependencyError'')"
proof (induction xs arbitrary: c)
  case (Cons x xs)
  have params: "to_params W ab False c ds names ps \<noteq> Inl (container_error ''CircularDependencyError'')" for ds names ps
    using assms(3)
    by (induction ds arbitrary: names ps)
      (auto simp: container_error_def container_get_def split: sum.splits exn.splits option.splits if_splits)
  have "fst (inject W ab x c) \<noteq> Some (container_error ''CircularDependencyError'')"
    using assms(1,2) params
    by (auto simp: inject_def create_dep_def Let_def container_error_def split: option.splits sum.splits prod.splits)
  with Cons.IH show ?case by (auto split: prod.splits option.splits)
qed simp

lemma build_container_acyclic:
  assumes "\<forall>x ps. constructor W x ps \<noteq> Some (container_error ''CircularDependencyError'')"
    "\<forall>x. build_of W x \<noteq> Some (container_error ''CircularDependencyError'')"
    "\<forall>x. auto_bind W x \<noteq> Some (container_error ''CircularDependencyError'')"
    and "\<forall>x\<in>set D. \<forall>y\<in>deps_of (ct_metadata c) x \<inter> set D. (rk :: string \<Rightarrow> nat) y < rk x"
  shows "fst (build_container W ab D c) \<noteq> Some (container_error ''CircularDependencyError'')"
  using assms(4)
proof (induction W\<equiv>W ab D c rule: build_container.induct)
  case (1 ab D c)
  show ?case
  proof (cases "D = [] \<or> (\<exists>e. no_dep (ct_metadata c) D = Inl e)")
    case True
    then show ?thesis
      by (auto simp: build_container.simps no_dep_def container_error_def split: option.splits)
  next
    case False
    then obtain ready where ready: "no_dep (ct_metadata c) D = Inr ready" "D \<noteq> []"
      by (cases "no_dep (ct_metadata c) D") auto
    then obtain x0 where "x0 \<in> set D" by (cases D) auto
    then obtain x where x: "x \<in> set D" "\<forall>y\<in>set D. rk x \<le> rk y"
      using ex_has_least_nat [of "\<lambda>x. x \<in> set D" x0 rk] by auto
    then have "\<forall>d\<in>deps_of (ct_metadata c) x. d \<notin> set D"
      using 1(2) leD by blast
    then have "x \<in> set ready"
      using ready(1) x(1) by (auto simp: no_dep_def list_all_iff split: option.splits)
    then have ne: "ready \<noteq> []" by auto
    obtain e c1 where inj: "inject_all W ab ready c = (e, c1)" by fastforce
    show ?thesis
    proof (cases e)
      case None
      have "\<forall>x\<in>set (filter (\<lambda>x. x \<notin> set ready) D).
          \<forall>y\<in>deps_of (ct_metadata c1) x \<inter> set (filter (\<lambda>x. x \<notin> set ready) D). rk y < rk x"
        using 1(2) inject_all_ok [of W ab ready c c1] inj None by auto
      from 1(1) [OF ready(2) ready(1) ne inj [symmetric] None this] show ?thesis
        using ready ne inj None by (simp add: build_container.simps [of W ab D])
    next
      case (Some e')
      then show ?thesis
        using ready ne inj inject_not_circular [OF assms(1-3), of ab ready c]
        by (simp add: build_container.simps [of W ab D])
    qed
  qed
qed

section \<open>Properties\<close>

text \<open>C6: A container that was built has bound every class exactly once, and each of them after all the
  classes its constructor asks for and those it was declared to need.\<close>

theorem container_binding_order:
  assumes "new_container W ab possible D = (None, c)" "distinct (map fst D)"
    and "(x, sig) \<in> set D" "i < length (ct_bound c)" "ct_bound c ! i = x"
  shows "set (ct_bound c) = set (map fst D) \<and> distinct (ct_bound c) \<and>
    (set (map fst sig) \<union> (case map_of possible x of None \<Rightarrow> {} | Some ps \<Rightarrow> set ps)) \<inter> set (map fst D)
      \<subseteq> set (take i (ct_bound c))"
proof -
  obtain md cnt ordered where *: "load_dep ab possible (remdups (map fst D)) D = Inr (md, cnt)"
    "set ordered = set (map fst D)" "distinct ordered" "build_container W ab ordered
        \<lparr>ct_metadata = md, ct_bound = [], ct_used_by = [], ct_dependants = [], ct_built = []\<rparr> = (None, c)"
    using new_container_parts [OF assms(1)] by auto
  from build_container_order [OF *(4)] *(2,3) have bound: "set (ct_bound c) = set (map fst D)" "distinct (ct_bound c)"
    "ordered_after md (set (map fst D)) {} (ct_bound c)"
    by auto
  obtain j where j: "j < length D" "D ! j = (x, sig)" using assms(3) by (auto simp: in_set_conv_nth)
  have "deps_of md x = set (map fst sig) \<union> (case map_of possible x of None \<Rightarrow> {} | Some ps \<Rightarrow> set ps)"
    using load_dep_ok [OF *(1) [unfolded load_dep_def] assms(2) _ j(1)] j(2) by simp
  with ordered_after_nth [OF bound(3) assms(4)] assms(5) bound show ?thesis
    by simp
qed

definition sample_world :: world where
  "sample_world = \<lparr>is_service = \<lambda>_. True, constructor = \<lambda>_ _. None, build_of = \<lambda>_. None, auto_bind = \<lambda>_. None\<rparr>"

lemma sample_container_built:
  "\<exists>c. new_container sample_world [] [(''A'', [''C''])] [(''C'', []), (''A'', []), (''B'', [(''A'', ''a''), (''C'', ''c'')])] = (None, c)
    \<and> ct_bound c = [''C'', ''A'', ''B'']"
  by (simp add: new_container_def load_base_set_def load_dep_def load_one_def order_dependency_def build_container.simps
      no_dep_def inject_def container_get_def create_dep_def sample_world_def Let_def)

theorem container_binding_order_witness:
  "\<exists>c. new_container sample_world [] [(''A'', [''C''])] [(''C'', []), (''A'', []), (''B'', [(''A'', ''a''), (''C'', ''c'')])] = (None, c)
    \<and> {''A'', ''C''} \<subseteq> set (take 2 (ct_bound c))"
proof -
  obtain c where c: "new_container sample_world [] [(''A'', [''C''])] [(''C'', []), (''A'', []), (''B'', [(''A'', ''a''), (''C'', ''c'')])] = (None, c)"
    "ct_bound c = [''C'', ''A'', ''B'']"
    using sample_container_built by blast
  from container_binding_order [OF c(1), of "''B''" "[(''A'', ''a''), (''C'', ''c'')]" 2] c show ?thesis
    by (intro exI [of _ c]) auto
qed

text \<open>C38: A set of classes that loads without declared extra dependencies is never refused as circular:
  loading already asks for each class to come after those in its signature.\<close>

theorem loaded_is_acyclic:
  assumes "distinct (map fst D)" "''_empty'' \<notin> set (map fst D)"
    and "\<forall>x ps. constructor W x ps \<noteq> Some (container_error ''CircularDependencyError'')"
    and "\<forall>x. build_of W x \<noteq> Some (container_error ''CircularDependencyError'')"
    and "\<forall>x. auto_bind W x \<noteq> Some (container_error ''CircularDependencyError'')"
  shows "fst (new_container W ab [] D) \<noteq> Some (container_error ''CircularDependencyError'')"
proof
  assume "fst (new_container W ab [] D) = Some (container_error ''CircularDependencyError'')"
  then obtain c where "new_container W ab [] D = (Some (container_error ''CircularDependencyError''), c)"
    by (cases "new_container W ab [] D") auto
  then obtain md cnt ordered where *: "load_dep ab [] (remdups (map fst D)) D = Inr (md, cnt)"
    "set ordered = set (map fst D)" "build_container W ab ordered
        \<lparr>ct_metadata = md, ct_bound = [], ct_used_by = [], ct_dependants = [], ct_built = []\<rparr>
      = (Some (container_error ''CircularDependencyError''), c)"
    using new_container_parts by blast
  define rk where "rk x = length (takeWhile (\<lambda>y. y \<noteq> x) (map fst D))" for x :: string
  have "\<forall>x\<in>set ordered. \<forall>y\<in>deps_of md x \<inter> set ordered. rk y < rk x"
  proof (intro ballI)
    fix x y assume "x \<in> set ordered" and y: "y \<in> deps_of md x \<inter> set ordered"
    then obtain i where i: "i < length D" "map fst D ! i = x"
      using *(2) by (metis in_set_conv_nth length_map)
    have "deps_of md x \<subseteq> set (take i (map fst D)) \<union> {''_empty''}"
      using load_dep_ok [OF *(1) [unfolded load_dep_def] assms(1) _ i(1)] i by simp
    moreover have "y \<in> set (map fst D)" using y *(2) by blast
    then have "y \<noteq> ''_empty''" using assms(2) by blast
    ultimately have "y \<in> set (take i (map fst D))" using y by auto
    then obtain j where j: "j < i" "map fst D ! j = y"
      using i(1) by (auto simp: in_set_conv_nth)
    then show "rk y < rk x"
      using nth_index [OF assms(1), of i] nth_index [OF assms(1), of j] i(1) j(1)
      unfolding rk_def i(2) j(2) by simp
  qed
  then show False
    using build_container_acyclic [OF assms(3-5), of ordered
        "\<lparr>ct_metadata = md, ct_bound = [], ct_used_by = [], ct_dependants = [], ct_built = []\<rparr>" rk ab] *(3) by simp
qed

theorem loaded_is_acyclic_witness:
  "fst (new_container sample_world [] [] [(''A'', []), (''B'', [(''A'', ''a'')])]) \<noteq> Some (container_error ''CircularDependencyError'')"
  by (rule loaded_is_acyclic) (simp_all add: sample_world_def)

end
