(* ===== verification/Service_Core.thy ===== *)
theory Service_Core
  imports Prelude
begin

text \<open>
  definition/_service.py: the status, the build and destroy life cycle of a service, the guard in
  front of every service method, the store of mini services and the manager that derives its own
  status from the statuses of its mini services.

  The bodies of \<open>verify_dependency\<close>, \<open>build\<close> and \<open>destroy\<close> are overridden by each service: here
  they are functions of the service's state that may raise.  Printing, and \<open>report\<close>, which the
  source replaces by a mock that does nothing, leave no trace in the state.
\<close>

section \<open>Status\<close>

datatype service_status =
    AVAILABLE
  | PARTIALLY_AVAILABLE
  | WORKS_ALMOST_ATT
  | TEMPORARY_NOT_AVAILABLE
  | NOT_AVAILABLE
  | MAJOR_SYSTEM_FAILURE

fun status_to_error :: "service_status \<Rightarrow> (string option \<Rightarrow> exn) option" where
  "status_to_error NOT_AVAILABLE = Some BuildFailureError"
| "status_to_error TEMPORARY_NOT_AVAILABLE = Some BuildWarningError"
| "status_to_error PARTIALLY_AVAILABLE = Some BuildOkError"
| "status_to_error WORKS_ALMOST_ATT = Some BuildSkipError"
| "status_to_error MAJOR_SYSTEM_FAILURE = Some BuildAbortError"
| "status_to_error AVAILABLE = None"

definition acceptable_states :: "service_status list" where
  "acceptable_states = [AVAILABLE, PARTIALLY_AVAILABLE, WORKS_ALMOST_ATT]"

record service =
  class_name :: string
  miniService_id :: "string option"
  builded :: bool
  destroyed :: bool
  service_status :: "service_status option"
  method_not_available :: "string list"
  used_by_services :: "(string, string list) dict"

definition new_service :: "string \<Rightarrow> string option \<Rightarrow> service" where
  "new_service c i = \<lparr> class_name = c, miniService_id = i, builded = False, destroyed = False,
     service_status = None, method_not_available = [], used_by_services = [] \<rparr>"

text \<open>A mini service is named by its class and its id.\<close>

definition svc_name :: "service \<Rightarrow> string" where
  "svc_name s = (case miniService_id s of None \<Rightarrow> class_name s | Some i \<Rightarrow> class_name s @ ''@'' @ i)"

section \<open>The guard\<close>

definition check_status :: "string \<Rightarrow> service \<Rightarrow> exn option" where
  "check_status func s =
    (case service_status s of
       Some MAJOR_SYSTEM_FAILURE \<Rightarrow> Some ServiceMajorSystemFailureError
     | Some NOT_AVAILABLE \<Rightarrow> Some ServiceNotAvailableError
     | Some TEMPORARY_NOT_AVAILABLE \<Rightarrow> Some ServiceTemporaryNotAvailableError
     | _ \<Rightarrow>
       if \<not> builded s \<or> destroyed s then Some ServiceNotAvailableError
       else if func \<in> set (method_not_available s) then Some MethodServiceNotAvailableError
       else None)"

text \<open>
  \<open>CheckStatusBeforeHand\<close>: the synchronous wrapper refuses a call while the status lock is held,
  the asynchronous one waits for it; both check before the body runs.
\<close>

definition sync_wrapper :: "bool \<Rightarrow> string \<Rightarrow> (service \<Rightarrow> 'a result) \<Rightarrow> service \<Rightarrow> 'a result" where
  "sync_wrapper reader_locked func body s =
    (if reader_locked then Inl ServiceChangingStateError
     else case check_status func s of Some e \<Rightarrow> Inl e | None \<Rightarrow> body s)"

definition async_wrapper :: "string \<Rightarrow> (service \<Rightarrow> 'a result) \<Rightarrow> service \<Rightarrow> 'a result" where
  "async_wrapper func body s = (case check_status func s of Some e \<Rightarrow> Inl e | None \<Rightarrow> body s)"

definition add_used_services :: "service \<Rightarrow> service \<Rightarrow> service" where
  "add_used_services user s =
    (case map_of (used_by_services s) (class_name user) of
       None \<Rightarrow> s\<lparr>used_by_services := AList.update (class_name user) [svc_name user] (used_by_services s)\<rparr>
     | Some users \<Rightarrow> s\<lparr>used_by_services :=
         AList.update (class_name user) (List.insert (svc_name user) users) (used_by_services s)\<rparr>)"

section \<open>Building and destroying\<close>

type_synonym act = "service \<Rightarrow> exn option \<times> service"

text \<open>What the \<open>except\<close> clauses of \<open>_builder\<close> do with an exception.\<close>

fun builder_except :: "bool \<Rightarrow> exn \<Rightarrow> act" where
  "builder_except scope (BuildFailureError _) s = (None, s\<lparr>service_status := Some NOT_AVAILABLE\<rparr>)"
| "builder_except scope (BuildAbortError _) s =
    (if scope then Some (SystemExit (-1)) else None, s\<lparr>service_status := Some MAJOR_SYSTEM_FAILURE\<rparr>)"
| "builder_except scope (BuildOkError _) s = (None, s\<lparr>service_status := Some PARTIALLY_AVAILABLE\<rparr>)"
| "builder_except scope (BuildWarningError _) s =
    (None, s\<lparr>service_status := Some TEMPORARY_NOT_AVAILABLE\<rparr>)"
| "builder_except scope (BuildSkipError _) s = (None, s\<lparr>service_status := Some WORKS_ALMOST_ATT\<rparr>)"
| "builder_except scope BuildNotImplementedError s = (None, s\<lparr>service_status := Some NOT_AVAILABLE\<rparr>)"
| "builder_except scope e s =
    (if is_Exception e
     then (if scope then Some (SystemExit (-1)) else None,
           s\<lparr>service_status := Some MAJOR_SYSTEM_FAILURE\<rparr>)
     else (Some e, s))"

text \<open>The \<open>try\<close> block: the dependencies are verified in a synchronous context, or when forced.\<close>

definition builder_body :: "bool \<Rightarrow> act \<Rightarrow> (int \<Rightarrow> act) \<Rightarrow> bool \<Rightarrow> int \<Rightarrow> act" where
  "builder_body context_sync verify_dependency build force_sync_verify build_state s =
    (if context_sync \<or> force_sync_verify
     then (case verify_dependency (s\<lparr>method_not_available := []\<rparr>) of
             (Some e, s0) \<Rightarrow> (Some e, s0)
           | (None, s0) \<Rightarrow> build build_state s0)
     else build build_state s)"

definition builder :: "bool \<Rightarrow> bool \<Rightarrow> act \<Rightarrow> (int \<Rightarrow> act) \<Rightarrow> bool \<Rightarrow> int \<Rightarrow> act" where
  "builder context_sync scope verify_dependency build force_sync_verify build_state s =
    (case builder_body context_sync verify_dependency build force_sync_verify build_state s of
       (None, s1) \<Rightarrow> (None, s1\<lparr>builded := True, destroyed := False, service_status := Some AVAILABLE\<rparr>)
     | (Some e, s1) \<Rightarrow> builder_except scope e s1)"

fun destroyer_caught :: "exn \<Rightarrow> bool" where
  "destroyer_caught (BuildFailureError _) = True"
| "destroyer_caught (BuildAbortError _) = True"
| "destroyer_caught (BuildWarningError _) = True"
| "destroyer_caught (BuildSkipError _) = True"
| "destroyer_caught _ = False"

definition destroyer :: "(int \<Rightarrow> act) \<Rightarrow> int \<Rightarrow> act" where
  "destroyer destroy destroy_state s =
    (case destroy destroy_state s of
       (None, s1) \<Rightarrow> (None, s1\<lparr>destroyed := True, builded := False\<rparr>)
     | (Some e, s1) \<Rightarrow> (if destroyer_caught e then None else Some e, s1))"

section \<open>Lemmas on the guard and the life cycle\<close>

lemma check_status_None_iff [guard_simps]:
  "check_status func s = None \<longleftrightarrow>
    service_status s \<notin> Some ` {MAJOR_SYSTEM_FAILURE, NOT_AVAILABLE, TEMPORARY_NOT_AVAILABLE}
    \<and> builded s \<and> \<not> destroyed s \<and> func \<notin> set (method_not_available s)"
  by (auto simp: check_status_def split: option.splits service_status.splits)

text \<open>A body that leaves the flags and the status to the framework.\<close>

definition keeps_core :: "act \<Rightarrow> bool" where
  "keeps_core f \<longleftrightarrow> (\<forall>s. builded (snd (f s)) = builded s \<and> destroyed (snd (f s)) = destroyed s
     \<and> service_status (snd (f s)) = service_status s)"

lemma keeps_coreD:
  assumes "keeps_core f" "f s = (e, s')"
  shows "builded s' = builded s" "destroyed s' = destroyed s" "service_status s' = service_status s"
  using assms unfolding keeps_core_def by (metis snd_conv)+

lemma builder_body_core:
  assumes "keeps_core v" "\<And>i. keeps_core (b i)"
  shows "keeps_core (builder_body cs v b force st)"
proof (unfold keeps_core_def, rule allI)
  fix s
  obtain e0 s0 where 0: "v (s\<lparr>method_not_available := []\<rparr>) = (e0, s0)" by (rule prod.exhaust)
  obtain e1 s1 where 1: "b st s0 = (e1, s1)" by (rule prod.exhaust)
  obtain e2 s2 where 2: "b st s = (e2, s2)" by (rule prod.exhaust)
  show "builded (snd (builder_body cs v b force st s)) = builded s
      \<and> destroyed (snd (builder_body cs v b force st s)) = destroyed s
      \<and> service_status (snd (builder_body cs v b force st s)) = service_status s"
    using keeps_coreD [OF assms(1) 0] keeps_coreD [OF assms(2) 1] keeps_coreD [OF assms(2) 2] 0 1 2
    by (cases e0) (simp_all add: builder_body_def)
qed

text \<open>The status an exception leaves behind; None when no clause catches it.\<close>

fun caught_status :: "exn \<Rightarrow> service_status option" where
  "caught_status (BuildFailureError _) = Some NOT_AVAILABLE"
| "caught_status (BuildOkError _) = Some PARTIALLY_AVAILABLE"
| "caught_status (BuildWarningError _) = Some TEMPORARY_NOT_AVAILABLE"
| "caught_status (BuildSkipError _) = Some WORKS_ALMOST_ATT"
| "caught_status BuildNotImplementedError = Some NOT_AVAILABLE"
| "caught_status (BuildAbortError _) = Some MAJOR_SYSTEM_FAILURE"
| "caught_status e = (if is_Exception e then Some MAJOR_SYSTEM_FAILURE else None)"

lemma builder_except_core:
  assumes "builder_except scope e s = (r, s')"
  shows "builded s' = builded s" "destroyed s' = destroyed s"
    "method_not_available s' = method_not_available s"
    "service_status s' = (case caught_status e of None \<Rightarrow> service_status s | Some x \<Rightarrow> Some x)"
  using assms by (cases e; auto split: if_splits)+

section \<open>The life cycle as a trace\<close>

text \<open>
  What happened to a service, the latest event first.  The two functions read off a trace what
  the flags and the status of the object must be: this is the abstract view of the life cycle.
\<close>

datatype life_event = Built | Build_failed exn | Destroyed_ok | Destroy_failed exn

fun trace_up :: "life_event list \<Rightarrow> bool" where
  "trace_up [] = False"
| "trace_up (Built # tr) = True"
| "trace_up (Destroyed_ok # tr) = False"
| "trace_up (_ # tr) = trace_up tr"

fun trace_status :: "life_event list \<Rightarrow> service_status option" where
  "trace_status [] = None"
| "trace_status (Built # tr) = Some AVAILABLE"
| "trace_status (Build_failed e # tr) =
    (case caught_status e of None \<Rightarrow> trace_status tr | Some x \<Rightarrow> Some x)"
| "trace_status (_ # tr) = trace_status tr"

inductive life :: "life_event list \<Rightarrow> service \<Rightarrow> bool" where
  life_new: "life [] (new_service c i)"
| life_built:
    "life tr s \<Longrightarrow> keeps_core v \<Longrightarrow> (\<And>i. keeps_core (b i)) \<Longrightarrow>
     fst (builder_body cs v b force st s) = None \<Longrightarrow>
     life (Built # tr) (snd (builder cs scope v b force st s))"
| life_build_failed:
    "life tr s \<Longrightarrow> keeps_core v \<Longrightarrow> (\<And>i. keeps_core (b i)) \<Longrightarrow>
     fst (builder_body cs v b force st s) = Some e \<Longrightarrow>
     life (Build_failed e # tr) (snd (builder cs scope v b force st s))"
| life_destroyed:
    "life tr s \<Longrightarrow> (\<And>i. keeps_core (d i)) \<Longrightarrow> fst (d st s) = None \<Longrightarrow>
     life (Destroyed_ok # tr) (snd (destroyer d st s))"
| life_destroy_failed:
    "life tr s \<Longrightarrow> (\<And>i. keeps_core (d i)) \<Longrightarrow> fst (d st s) = Some e \<Longrightarrow>
     life (Destroy_failed e # tr) (snd (destroyer d st s))"

inductive_cases life_BuiltE: "life (Built # tr) s"
inductive_cases life_Build_failedE: "life (Build_failed e # tr) s"

lemma life_core:
  assumes "life tr s"
  shows "builded s = trace_up tr \<and> service_status s = trace_status tr \<and> \<not> (builded s \<and> destroyed s)"
  using assms
proof induction
  case (life_new c i)
  then show ?case by (simp add: new_service_def)
next
  case (life_built tr s v b cs force st scope)
  then show ?case
    by (auto simp: builder_def split: prod.splits option.splits)
next
  case (life_build_failed tr s v b cs force st e scope)
  obtain s1 where 1: "builder_body cs v b force st s = (Some e, s1)"
    using life_build_failed.hyps by (metis prod.collapse)
  obtain r s2 where 2: "builder_except scope e s1 = (r, s2)"
    by (rule prod.exhaust)
  note body = keeps_coreD [OF builder_body_core [OF life_build_failed.hyps(2,3)] 1]
  show ?case
    using life_build_failed.IH body builder_except_core [OF 2] 1 2
    by (simp add: builder_def split: option.splits)
next
  case (life_destroyed tr s d st)
  then show ?case
    using keeps_coreD [of "d st" s None "snd (d st s)"]
    by (auto simp: destroyer_def split: prod.splits option.splits)
next
  case (life_destroy_failed tr s d st e)
  then show ?case
    using keeps_coreD [of "d st" s "Some e" "snd (d st s)"]
    by (auto simp: destroyer_def split: prod.splits option.splits)
qed

section \<open>The store of mini services\<close>

text \<open>
  \<open>MiniServiceStore\<close>: the id of a mini service may be None, which \<open>add\<close> checks only after the
  membership test.  \<open>exists\<close> raises the bool False, which is a TypeError, for a missing id when it
  is asked not to raise.
\<close>

type_synonym 'm store = "(string option, 'm) dict"

definition store_add :: "string option \<Rightarrow> 'm \<Rightarrow> 'm store \<Rightarrow> 'm store result" where
  "store_add i m st =
    (if dict_has st i then Inl MiniServiceAlreadyExistsError
     else if i = None then Inl MiniServiceCannotBeIdentifiedError
     else Inr (AList.update i m st))"

definition store_get :: "string option \<Rightarrow> 'm store \<Rightarrow> 'm result" where
  "store_get i st =
    (if i = None then Inl MiniServiceCannotBeIdentifiedError
     else case map_of st i of None \<Rightarrow> Inl MiniServiceDoesNotExistsError | Some m \<Rightarrow> Inr m)"

definition store_exists :: "bool \<Rightarrow> string option \<Rightarrow> 'm store \<Rightarrow> bool result" where
  "store_exists raise i st =
    (if i = None then if raise then Inl MiniServiceCannotBeIdentifiedError else Inr False
     else if \<not> dict_has st i then if raise then Inl MiniServiceDoesNotExistsError else Inl TypeError
     else Inr True)"

definition store_delitem :: "string option \<Rightarrow> 'm store \<Rightarrow> 'm store result" where
  "store_delitem i st =
    (if \<not> dict_has st i then Inl MiniServiceDoesNotExistsError else Inr (AList.delete i st))"

definition store_clear :: "'m store \<Rightarrow> 'm store" where
  "store_clear st = []"

fun filter_count :: "('m \<Rightarrow> bool) \<Rightarrow> 'm store \<Rightarrow> nat" where
  "filter_count lamda [] = 0"
| "filter_count lamda ((i, m) # st) = (if lamda m then 1 else 0) + filter_count lamda st"

definition store_wf :: "'m store \<Rightarrow> bool" where
  "store_wf st \<longleftrightarrow> distinct (map fst st) \<and> map_of st None = None"

lemma store_add_wf: "store_wf st \<Longrightarrow> store_add i m st = Inr st' \<Longrightarrow> store_wf st'"
  by (auto simp: store_wf_def store_add_def distinct_update split: if_splits)

lemma store_delitem_wf: "store_wf st \<Longrightarrow> store_delitem i st = Inr st' \<Longrightarrow> store_wf st'"
  by (auto simp: store_wf_def store_delitem_def distinct_delete split: if_splits)

lemma filter_count_length: "filter_count lamda st = length (filter lamda (map snd st))"
  by (induction st) auto

lemma store_get_add:
  assumes "store_add i m st = Inr st'" "j \<noteq> None"
  shows "store_get j st' = (if j = i then Inr m else store_get j st)"
  using assms by (auto simp: store_add_def store_get_def split: if_splits)

section \<open>The manager of mini services\<close>

record status_counter =
  total_service :: nat
  acceptable_service :: nat
  available_service :: nat

definition status_count :: "service \<Rightarrow> status_counter \<Rightarrow> status_counter" where
  "status_count m c =
    (let c = (if service_status m \<in> Some ` set acceptable_states
              then c\<lparr>acceptable_service := acceptable_service c + 1\<rparr> else c)
     in if service_status m = Some AVAILABLE
        then c\<lparr>available_service := available_service c + 1\<rparr> else c)"

definition new_counter :: "nat \<Rightarrow> status_counter" where
  "new_counter n = \<lparr>total_service = n, acceptable_service = 0, available_service = 0\<rparr>"

definition manager_build :: "status_counter \<Rightarrow> bool \<Rightarrow> exn option" where
  "manager_build c no_service_as_ok =
    (if total_service c < 1 then
       Some ((if no_service_as_ok then BuildOkError else BuildFailureError) (Some ''No mini service to build''))
     else if available_service c = total_service c then None
     else if acceptable_service c < 1 then
       Some (BuildWarningError (Some ''No acceptable mini service to build''))
     else if acceptable_service c < total_service c then
       Some (BuildOkError (Some ''Some mini services are not acceptable''))
     else if acceptable_service c = total_service c then
       Some (BuildSkipError (Some ''All mini services works almost att''))
     else None)"

text \<open>A manager's \<open>pingService\<close> forwards to the mini service the profile names.\<close>

definition manager_ping :: "bool \<Rightarrow> string option \<Rightarrow> (service \<Rightarrow> 'a result) \<Rightarrow> service store \<Rightarrow> 'a option result" where
  "manager_ping as_manager profile ping st =
    (if \<not> as_manager then Inr None
     else rbind (store_get profile st)
       (\<lambda>p. rbind (async_wrapper ''pingService'' ping p) (\<lambda>r. Inr (Some r))))"

definition count_all :: "service list \<Rightarrow> status_counter" where
  "count_all ms = fold status_count ms (new_counter (length ms))"

lemma fold_status_count:
  "fold status_count ms c =
    \<lparr> total_service = total_service c,
      acceptable_service = acceptable_service c
        + length (filter (\<lambda>m. service_status m \<in> Some ` set acceptable_states) ms),
      available_service = available_service c
        + length (filter (\<lambda>m. service_status m = Some AVAILABLE) ms) \<rparr>"
  by (induction ms arbitrary: c) (simp_all add: status_count_def Let_def)

text \<open>What a manager promises: the status of a group from the statuses of its members.\<close>

definition group_status :: "bool \<Rightarrow> service_status option list \<Rightarrow> service_status" where
  "group_status no_service_as_ok sts =
    (if sts = [] then if no_service_as_ok then PARTIALLY_AVAILABLE else NOT_AVAILABLE
     else if \<forall>x\<in>set sts. x = Some AVAILABLE then AVAILABLE
     else if \<forall>x\<in>set sts. x \<notin> Some ` set acceptable_states then TEMPORARY_NOT_AVAILABLE
     else if \<forall>x\<in>set sts. x \<in> Some ` set acceptable_states then WORKS_ALMOST_ATT
     else PARTIALLY_AVAILABLE)"

definition exn_status :: "exn option \<Rightarrow> service_status" where
  "exn_status e = (case e of
       None \<Rightarrow> AVAILABLE
     | Some (BuildFailureError _) \<Rightarrow> NOT_AVAILABLE
     | Some (BuildWarningError _) \<Rightarrow> TEMPORARY_NOT_AVAILABLE
     | Some (BuildOkError _) \<Rightarrow> PARTIALLY_AVAILABLE
     | Some (BuildSkipError _) \<Rightarrow> WORKS_ALMOST_ATT
     | Some _ \<Rightarrow> MAJOR_SYSTEM_FAILURE)"

lemma manager_build_group:
  "exn_status (manager_build (count_all ms) ok) = group_status ok (map service_status ms)"
proof -
  define acc where "acc = (\<lambda>m :: service. service_status m \<in> Some ` set acceptable_states)"
  define av where "av = (\<lambda>m :: service. service_status m = Some AVAILABLE)"
  have lt: "length (filter acc ms) < length ms \<longleftrightarrow> \<not> (\<forall>m\<in>set ms. acc m)"
    by (metis le_neq_implies_less length_filter_eq_iff length_filter_le less_irrefl)
  have nz: "length (filter acc ms) < 1 \<longleftrightarrow> (\<forall>m\<in>set ms. \<not> acc m)"
    using length_filter_zero_iff [of acc ms] by linarith
  have c: "count_all ms = \<lparr>total_service = length ms, acceptable_service = length (filter acc ms),
      available_service = length (filter av ms)\<rparr>"
    by (simp add: count_all_def fold_status_count new_counter_def acc_def av_def)
  have g: "group_status ok (map service_status ms) =
      (if ms = [] then if ok then PARTIALLY_AVAILABLE else NOT_AVAILABLE
       else if \<forall>m\<in>set ms. av m then AVAILABLE
       else if \<forall>m\<in>set ms. \<not> acc m then TEMPORARY_NOT_AVAILABLE
       else if \<forall>m\<in>set ms. acc m then WORKS_ALMOST_ATT
       else PARTIALLY_AVAILABLE)"
    by (simp add: group_status_def acc_def av_def)
  show ?thesis
    unfolding c g manager_build_def status_counter.simps lt nz length_filter_eq_iff
    by (simp add: exn_status_def Suc_le_eq)
qed

lemma group_status_AVAILABLE:
  "group_status ok sts = AVAILABLE \<longleftrightarrow> sts \<noteq> [] \<and> (\<forall>x\<in>set sts. x = Some AVAILABLE)"
  by (simp add: group_status_def)

lemma manager_build_caught:
  "manager_build c ok = Some e \<Longrightarrow>
    builder_except scope e s = (None, s\<lparr>service_status := Some (exn_status (Some e))\<rparr>)
    \<and> exn_status (Some e) \<noteq> AVAILABLE"
  by (auto simp: manager_build_def exn_status_def split: if_splits)

section \<open>Properties\<close>

definition base_verify :: act where
  "base_verify s = (None, s\<lparr>method_not_available := []\<rparr>)"


lemma keeps_core_const: "keeps_core (\<lambda>s. (e, s))"
  by (simp add: keeps_core_def)

lemma base_verify_core: "keeps_core base_verify"
  by (simp add: keeps_core_def base_verify_def)




text \<open>A service whose first build ends in one of the two degraded but acceptable statuses is
  refused by the guard for every method: the flag that the guard tests is only set by a build that
  raises nothing.\<close>

theorem degraded_first_build_refused:
  "\<forall>e \<in> {BuildOkError r, BuildSkipError r}.
     (let s = snd (builder cs scope base_verify (\<lambda>_ s. (Some e, s)) force st (new_service c i))
      in service_status s \<in> Some ` set acceptable_states
        \<and> check_status func s = Some ServiceNotAvailableError)"
  by (simp add: builder_def builder_body_def base_verify_def new_service_def check_status_def
      acceptable_states_def)

theorem degraded_first_build_refused_witness:
  "check_status ''build'' (snd (builder True True base_verify
     (\<lambda>_ s. (Some (BuildSkipError None), s)) False (-1) (new_service ''Manager'' None)))
   = Some ServiceNotAvailableError"
  using degraded_first_build_refused [of None True True False "-1" "''Manager''" None "''build''"]
  by (simp add: Let_def)

end
