(* ===== verification/Env_Selector.thy ===== *)
theory Env_Selector
  imports Prelude
begin

text \<open>
  classes/env_selector.py: choosing where a task runs.  Scores are rationals; the exponential of the
  floating point library is the parameter \<open>expf\<close>, which may overflow; random numbers are inputs:
  a number for \<open>random.random\<close> and \<open>random.choices\<close>, an index for \<open>random.choice\<close>.
\<close>

section \<open>Scores\<close>

datatype env = Route | Worker | Aps | Routebkg

definition envs :: "env list" where
  "envs = [Route, Worker, Aps, Routebkg]"

fun env_index :: "env \<Rightarrow> nat" where
  "env_index Route = 0"
| "env_index Worker = 1"
| "env_index Aps = 2"
| "env_index Routebkg = 3"

lemma env_index_envs: "envs ! env_index e = e \<and> env_index e < length envs"
  by (cases e) (simp_all add: envs_def)

definition compute_p_values :: "int \<Rightarrow> int \<Rightarrow> rat \<Rightarrow> int \<times> rat \<times> rat" where
  "compute_p_values alive expected weight =
    (let p1 = max alive 0;
         p2 = (if expected > 0 then of_int p1 / of_int expected else 0)
     in (p1, p2, weight))"

definition compute_scores :: "string \<Rightarrow> rat \<Rightarrow> int \<Rightarrow> rat \<Rightarrow> rat \<Rightarrow> (env \<times> rat) list" where
  "compute_scores broker redis_threshold p1 p2 p3 =
    (let route_score = - p3 * (14 / 10) + (1 - p2) * (2 / 10);
         worker_score = (2 * of_int p1) + (4 * p2) - \<bar>p3 - 5\<bar>;
         background_score = - \<bar>p3 - 3\<bar> + (1 - p2);
         aps_score = (p3 * (16 / 10)) + (1 - of_int p1) * 2 + (1 - p2) * (25 / 10);
         long_redis = (broker = ''redis'' \<and> p3 \<ge> redis_threshold);
         worker_score = (if long_redis then worker_score - p3 * (15 / 10)
                         else if broker = ''rabbitmq'' then worker_score + p3 * (12 / 10) else worker_score);
         aps_score = (if long_redis then aps_score + p3
                      else if broker = ''rabbitmq'' then aps_score - (6 / 10) * p3 else aps_score);
         background_score = (if long_redis then background_score + 5 / 10 else background_score)
     in [(Route, route_score), (Worker, worker_score), (Aps, aps_score), (Routebkg, background_score)])"

definition mask_at :: "int list \<Rightarrow> env \<Rightarrow> int result" where
  "mask_at msk e = (if env_index e < length msk then Inr (msk ! env_index e) else Inl IndexError)"

fun apply_mask :: "(env \<times> rat) list \<Rightarrow> int list \<Rightarrow> (env \<times> rat) list result" where
  "apply_mask [] msk = Inr []"
| "apply_mask ((e, s) # scores) msk =
    rbind (mask_at msk e) (\<lambda>m. rbind (apply_mask scores msk) (\<lambda>rest. Inr (if m = 1 then (e, s) # rest else rest)))"

section \<open>Random choices\<close>

definition choice :: "nat \<Rightarrow> 'a list \<Rightarrow> 'a result" where
  "choice r xs = (if xs = [] then Inl IndexError else Inr (xs ! (r mod length xs)))"

fun cumulate :: "rat \<Rightarrow> rat list \<Rightarrow> rat list" where
  "cumulate acc [] = []"
| "cumulate acc (w # ws) = (acc + w) # cumulate (acc + w) ws"

text \<open>\<open>random.choices\<close> with one result: a bisection of the cumulative weights but the last.\<close>

definition choices :: "rat \<Rightarrow> 'a list \<Rightarrow> rat list \<Rightarrow> 'a result" where
  "choices u keys weights =
    (let cum = cumulate 0 weights
     in if cum = [] then Inl IndexError
        else if last cum \<le> 0 then Inl ValueError
        else Inr (keys ! length (takeWhile (\<lambda>c. c \<le> u * last cum) (butlast cum))))"

section \<open>The strategies\<close>

record draws =
  dr_random :: rat
  dr_choices :: rat
  dr_index :: nat

type_synonym selector = "draws \<Rightarrow> int \<Rightarrow> rat \<Rightarrow> rat \<Rightarrow> int list \<Rightarrow> env result"

definition random_select :: selector where
  "random_select d p1 p2 p3 msk = choice (dr_index d) (map fst (filter (\<lambda>(e, m). m = 1) (zip envs msk)))"

definition weights_of :: "(rat \<Rightarrow> rat result) \<Rightarrow> rat list \<Rightarrow> rat list result" where
  "weights_of expf xs =
    rbind (rmap expf xs) (\<lambda>exps. rmap (\<lambda>e. if sum_list exps = 0 then Inl ZeroDivisionError else Inr (e / sum_list exps)) exps)"

definition softmax_select :: "(rat \<Rightarrow> rat result) \<Rightarrow> string \<Rightarrow> rat \<Rightarrow> rat \<Rightarrow> selector" where
  "softmax_select expf broker threshold temperature d p1 p2 p3 msk =
    rbind (apply_mask (compute_scores broker threshold p1 p2 p3) msk) (\<lambda>scores.
      rbind (weights_of expf (map (\<lambda>(e, s). s / temperature) scores)) (\<lambda>ws.
        choices (dr_choices d) (map fst scores) ws))"

fun first_max :: "(env \<times> rat) \<Rightarrow> (env \<times> rat) list \<Rightarrow> env \<times> rat" where
  "first_max best [] = best"
| "first_max best (x # xs) = first_max (if snd x > snd best then x else best) xs"

definition epsilon_greedy_select :: "rat \<Rightarrow> string \<Rightarrow> rat \<Rightarrow> selector" where
  "epsilon_greedy_select epsilon broker threshold d p1 p2 p3 msk =
    rbind (apply_mask (compute_scores broker threshold p1 p2 p3) msk) (\<lambda>scores.
      if dr_random d < epsilon then choice (dr_index d) (map fst scores)
      else (case scores of [] \<Rightarrow> Inl ValueError | x # xs \<Rightarrow> Inr (fst (first_max x xs))))"

definition boltzmann_select :: "(rat \<Rightarrow> rat result) \<Rightarrow> string \<Rightarrow> rat \<Rightarrow> rat \<Rightarrow> selector" where
  "boltzmann_select expf broker threshold temperature d p1 p2 p3 msk =
    rbind (apply_mask (compute_scores broker threshold p1 p2 p3) msk) (\<lambda>scores.
      case scores of
        [] \<Rightarrow> Inl ValueError
      | x # xs \<Rightarrow>
          let max_score = snd (first_max x xs)
          in rbind (weights_of expf (map (\<lambda>(e, s). (s - max_score) / temperature) scores)) (\<lambda>ws.
               choices (dr_choices d) (map fst scores) ws))"

definition get_selector :: "(rat \<Rightarrow> rat result) \<Rightarrow> string \<Rightarrow> string \<Rightarrow> selector result" where
  "get_selector expf strategy broker =
    (if strategy = ''random'' then Inr random_select
     else if strategy = ''softmax'' then Inr (softmax_select expf broker 5 1)
     else if strategy = ''epsilon_greedy'' then Inr (epsilon_greedy_select (1 / 10) broker 5)
     else if strategy = ''boltzmann'' then Inr (boltzmann_select expf broker 5 1)
     else Inl ValueError)"

section \<open>The contract of a selector\<close>

text \<open>What the task manager relies on: a selected environment is one the mask allows.\<close>

locale env_selector =
  fixes sel :: selector
  assumes sel_allowed: "sel d p1 p2 p3 msk = Inr e \<Longrightarrow> mask_at msk e = Inr 1"
begin

lemma sel_not_masked: "mask_at msk e = Inr 0 \<Longrightarrow> sel d p1 p2 p3 msk \<noteq> Inr e"
  using sel_allowed by fastforce

lemma sel_only: "sel d p1 p2 p3 [0, 1, 1, 0] = Inr e \<Longrightarrow> e = Worker \<or> e = Aps"
  using sel_allowed [of d p1 p2 p3 "[0, 1, 1, 0]" e] by (cases e) (simp_all add: mask_at_def)

end

lemma apply_mask_allowed:
  "apply_mask scores msk = Inr scores' \<Longrightarrow> \<forall>(e, s)\<in>set scores'. mask_at msk e = Inr 1"
proof (induction scores msk arbitrary: scores' rule: apply_mask.induct)
  case (2 e s scores msk)
  then show ?case by (auto simp: rbind_Inr_iff split: if_splits)
qed simp

lemma apply_mask_keys:
  "apply_mask scores msk = Inr scores' \<Longrightarrow> e \<in> fst ` set scores' \<Longrightarrow> mask_at msk e = Inr 1"
  using apply_mask_allowed by fastforce

lemma choice_in: "choice r xs = Inr x \<Longrightarrow> x \<in> set xs"
  by (auto simp: choice_def split: if_splits)

lemma length_cumulate [simp]: "length (cumulate acc ws) = length ws"
  by (induction ws arbitrary: acc) simp_all

lemma choices_in:
  assumes "choices u keys ws = Inr x" "length keys = length ws"
  shows "x \<in> set keys"
proof -
  let ?cum = "cumulate 0 ws"
  have "length ?cum \<noteq> 0" using assms(1) by (auto simp: choices_def Let_def split: if_splits)
  moreover have "length (takeWhile (\<lambda>c. c \<le> u * last ?cum) (butlast ?cum)) \<le> length (butlast ?cum)"
    by (rule length_takeWhile_le)
  ultimately have "length (takeWhile (\<lambda>c. c \<le> u * last ?cum) (butlast ?cum)) < length keys"
    using assms(2) unfolding length_butlast length_cumulate by linarith
  then show ?thesis
    using assms(1) by (auto simp: choices_def Let_def split: if_splits)
qed

lemma weights_length: "weights_of expf xs = Inr ws \<Longrightarrow> length ws = length xs"
  by (auto simp: weights_of_def rbind_Inr_iff dest!: rmap_Inr_all2 list_all2_lengthD)

lemma first_max_in: "first_max b xs \<in> set (b # xs)"
proof (induction xs arbitrary: b)
  case (Cons x xs)
  from Cons.IH [of "if snd x > snd b then x else b"] show ?case by (auto split: if_splits)
qed simp

lemma first_max_env: "fst (first_max x xs) \<in> fst ` set (x # xs)"
  using first_max_in by (rule imageI)

interpretation random_env: env_selector random_select
proof
  fix d p1 p2 p3 msk e
  assume "random_select d p1 p2 p3 msk = Inr e"
  then have "e \<in> fst ` set (filter (\<lambda>(e, m). m = 1) (zip envs msk))"
    using choice_in by (fastforce simp: random_select_def)
  then show "mask_at msk e = Inr 1"
    by (auto simp: set_zip mask_at_def envs_def less_Suc_eq numeral_eq_Suc split: if_splits)
qed

interpretation softmax_env: env_selector "softmax_select expf broker threshold temperature" for expf broker threshold temperature
proof
  fix d p1 p2 p3 msk e
  assume "softmax_select expf broker threshold temperature d p1 p2 p3 msk = Inr e"
  then obtain scores ws where "apply_mask (compute_scores broker threshold p1 p2 p3) msk = Inr scores"
    "weights_of expf (map (\<lambda>(e, s). s / temperature) scores) = Inr ws" "choices (dr_choices d) (map fst scores) ws = Inr e"
    by (auto simp: softmax_select_def rbind_Inr_iff)
  then show "mask_at msk e = Inr 1"
    using apply_mask_keys choices_in weights_length by fastforce
qed

interpretation epsilon_env: env_selector "epsilon_greedy_select epsilon broker threshold" for epsilon broker threshold
proof
  fix d p1 p2 p3 msk e
  assume "epsilon_greedy_select epsilon broker threshold d p1 p2 p3 msk = Inr e"
  then obtain scores where s: "apply_mask (compute_scores broker threshold p1 p2 p3) msk = Inr scores"
    "(if dr_random d < epsilon then choice (dr_index d) (map fst scores)
      else (case scores of [] \<Rightarrow> Inl ValueError | x # xs \<Rightarrow> Inr (fst (first_max x xs)))) = Inr e"
    by (auto simp: epsilon_greedy_select_def rbind_Inr_iff)
  then have "e \<in> fst ` set scores"
    using choice_in [of "dr_index d" "map fst scores" e] first_max_env
    by (cases scores) (auto simp del: first_max.simps split: if_splits)
  then show "mask_at msk e = Inr 1" using apply_mask_keys s(1) by blast
qed

interpretation boltzmann_env: env_selector "boltzmann_select expf broker threshold temperature" for expf broker threshold temperature
proof
  fix d p1 p2 p3 msk e
  assume "boltzmann_select expf broker threshold temperature d p1 p2 p3 msk = Inr e"
  then obtain scores where s: "apply_mask (compute_scores broker threshold p1 p2 p3) msk = Inr scores"
    "(case scores of [] \<Rightarrow> Inl ValueError
      | x # xs \<Rightarrow> let max_score = snd (first_max x xs)
          in rbind (weights_of expf (map (\<lambda>(e, s). (s - max_score) / temperature) scores))
               (\<lambda>ws. choices (dr_choices d) (map fst scores) ws)) = Inr e"
    unfolding boltzmann_select_def rbind_Inr_iff by (elim exE conjE)
  show "mask_at msk e = Inr 1"
  proof (cases scores)
    case (Cons x xs)
    let ?xs = "map (\<lambda>(e, s). (s - snd (first_max x xs)) / temperature) scores"
    from s(2) Cons have "rbind (weights_of expf ?xs) (\<lambda>ws. choices (dr_choices d) (map fst scores) ws) = Inr e"
      by (simp add: Let_def)
    then obtain ws where "weights_of expf ?xs = Inr ws" "choices (dr_choices d) (map fst scores) ws = Inr e"
      unfolding rbind_Inr_iff by blast
    then have "e \<in> set (map fst scores)"
      using choices_in weights_length by fastforce
    then show ?thesis using apply_mask_keys [OF s(1)] by simp
  qed (use s(2) in simp)
qed

lemma get_selector_contract: "get_selector expf strategy broker = Inr sel \<Longrightarrow> env_selector sel"
  by (auto simp: get_selector_def random_env.env_selector_axioms softmax_env.env_selector_axioms
      epsilon_env.env_selector_axioms boltzmann_env.env_selector_axioms split: if_splits)

text \<open>A function in the place of the exponential.\<close>

definition sample_exp :: "rat \<Rightarrow> rat result" where
  "sample_exp x = Inr (if 0 \<le> x then 1 + x else 1 / (1 - x))"

end
