(* ===== verification/Task_Manager.thy ===== *)
theory Task_Manager
  imports Env_Selector
begin

text \<open>
  classes/celery.py and manager/task_manager.py, with the trigger of services/worker/celery_service.py:
  the model of a task, and the choice of where it runs.  Times are rationals in seconds; the queue, the
  job store and the called function are parameters, as what they raise and answer.
\<close>

section \<open>Tasks\<close>

datatype heaviness = VERY_LIGHT | LIGHT | MODERATE | HEAVY | VERY_HEAVY

fun cost_levels :: "heaviness \<Rightarrow> rat" where
  "cost_levels VERY_LIGHT = 1 / 10"
| "cost_levels LIGHT = 5 / 10"
| "cost_levels MODERATE = 1"
| "cost_levels HEAVY = 2"
| "cost_levels VERY_HEAVY = 5"

definition compute_weight :: "rat \<Rightarrow> heaviness \<Rightarrow> rat" where
  "compute_weight cost heaviness = cost * cost_levels heaviness"

datatype task_type = RRULE | SOLAR | CRONTAB | TIMEDELTA | DATETIME | NOW | INTERVAL

record celery_option =
  op_countdown :: "int option"
  op_priority :: int
  op_time_limit :: "int option"
  op_soft_time_limit :: "int option"
  op_retry :: bool
  op_ignore_result :: bool
  op_queue :: "string option"

definition check_time_limit :: "celery_option \<Rightarrow> celery_option result" where
  "check_time_limit opt =
    (if (case op_time_limit opt of None \<Rightarrow> False | Some t \<Rightarrow> \<not> (5 < t \<and> t < 1000)) then Inl ValueError
     else if (case op_soft_time_limit opt of None \<Rightarrow> False | Some t \<Rightarrow> \<not> (5 < t \<and> t < 1000)) then Inl ValueError
     else (case (op_soft_time_limit opt, op_time_limit opt) of
         (Some st, Some t) \<Rightarrow> if st > t - 5 then Inl ValueError else Inr opt
       | _ \<Rightarrow> Inr opt))"

text \<open>The priority of the dumped option counts from zero.\<close>

definition option_dump :: "celery_option \<Rightarrow> celery_option" where
  "option_dump opt = opt\<lparr>op_priority := op_priority opt - 1\<rparr>"

text \<open>A message for the client: its code, the index of the content and the environment now used.\<close>

record message =
  ms_code :: nat
  ms_index :: "nat option"
  ms_env :: string
  ms_permanent :: bool

definition FALLBACK_ENV_TASK :: nat where "FALLBACK_ENV_TASK = 549"
definition UNSUPPORTED_TASK_TYPE :: nat where "UNSUPPORTED_TASK_TYPE = 498"

text \<open>The schedule of a task: what the source stores is the object built for the beat, not the model
  that holds the objects of both schedulers.\<close>

datatype schedule = Model_object | Beat_object

record scheduler =
  sc_task_name :: string
  sc_task_type :: task_type
  sc_task_option :: celery_option
  sc_heaviness :: heaviness
  sc_schedule :: "schedule option"
  sc_messages :: "message list"

definition add_messages :: "nat \<Rightarrow> nat option \<Rightarrow> string \<Rightarrow> scheduler \<Rightarrow> scheduler result" where
  "add_messages code index obj s =
    (if code = FALLBACK_ENV_TASK then
       Inr (s\<lparr>sc_messages := sc_messages s @ [\<lparr>ms_code = code, ms_index = index, ms_env = obj, ms_permanent = False\<rparr>]\<rparr>)
     else if code = UNSUPPORTED_TASK_TYPE then
       Inr (s\<lparr>sc_messages := sc_messages s @ [\<lparr>ms_code = code, ms_index = index, ms_env = '''', ms_permanent = True\<rparr>]\<rparr>)
     else Inl ValueError)"

definition check_content :: "'a + 'a list \<Rightarrow> 'a list" where
  "check_content content = (case content of Inl x \<Rightarrow> [x] | Inr xs \<Rightarrow> xs)"

text \<open>\<open>validate_model\<close>: the option of the scheduler is validated by the model of its type, a parameter that
  tells whether it is accepted; an empty option counts as none.\<close>

definition validate_model :: "bool \<Rightarrow> (task_type \<Rightarrow> bool) \<Rightarrow> scheduler \<Rightarrow> scheduler result" where
  "validate_model has_option accepts s =
    (if sc_task_type s = NOW then Inr s
     else if \<not> has_option then Inl ValueError
     else if \<not> accepts (sc_task_type s) then Inl ValueError
     else Inr (s\<lparr>sc_schedule := Some Beat_object\<rparr>))"

text \<open>The attribute both triggers read from the stored schedule.\<close>

definition schedule_object :: "string \<Rightarrow> schedule option \<Rightarrow> unit result" where
  "schedule_object attribute sch = (if sch = Some Model_object then Inr () else Inl (AttributeError attribute))"

section \<open>Results and surroundings\<close>

record execution =
  te_offloaded :: bool
  te_handler :: string
  te_index :: "nat option"
  te_error :: bool
  te_task_id :: "string option"
  te_type :: "string option"

record surroundings =
  su_workers_expected :: int
  su_workers_alive :: int
  su_aps_activated :: bool
  su_aps_available :: bool
  su_broker :: string
  su_registry :: "string list"
  su_queue :: "string result"
  su_beat :: "string result"
  su_job :: "exn option"
  su_expf :: "rat \<Rightarrow> rat result"

text \<open>The position of the part after the first \<open>@\<close> of a task id.\<close>

definition after_at :: "string \<Rightarrow> string result" where
  "after_at task_id =
    (if CHR ''@'' \<in> set task_id then Inr (takeWhile (\<lambda>c. c \<noteq> CHR ''@'') (tl (dropWhile (\<lambda>c. c \<noteq> CHR ''@'') task_id)))
     else Inl IndexError)"

definition trigger_task_from_scheduler :: "surroundings \<Rightarrow> scheduler \<Rightarrow> nat option \<Rightarrow> execution result" where
  "trigger_task_from_scheduler W s index =
    (let done = (\<lambda>i ty. \<lparr>te_offloaded = True, te_handler = ''Celery'', te_index = index, te_error = False,
                    te_task_id = Some i, te_type = Some ty\<rparr>)
     in if sc_task_type s \<in> {NOW, DATETIME, TIMEDELTA} then
          rbind (if sc_task_type s \<noteq> NOW then schedule_object ''_beat_object'' (sc_schedule s) else Inr ()) (\<lambda>_.
            if sc_task_name s \<notin> set (su_registry W) then Inl (KeyError (sc_task_name s))
            else rbind (su_queue W) (\<lambda>task_id. rbind (after_at task_id) (\<lambda>i. Inr (done i ''task''))))
        else rbind (schedule_object ''_beat_object'' (sc_schedule s)) (\<lambda>_.
            rbind (su_beat W) (\<lambda>i. Inr (done i ''schedule''))))"

section \<open>The manager\<close>

record task_manager =
  tm_background :: bool
  tm_algorithm :: string
  tm_strategy :: string
  tm_ttd :: rat
  tm_tt :: rat
  tm_delays :: "rat list"
  tm_scheduler :: scheduler
  tm_weight :: rat
  tm_results :: "execution list"

type_synonym placed = "execution result \<times> task_manager"

definition set_algorithm :: "string \<Rightarrow> task_manager \<Rightarrow> exn option \<times> task_manager" where
  "set_algorithm a t =
    (if a \<in> {''normal'', ''mix'', ''worker'', ''route'', ''aps''} then (None, t\<lparr>tm_algorithm := a\<rparr>) else (Some ValueError, t))"

definition append_task_config :: "rat \<Rightarrow> task_manager \<Rightarrow> rat \<times> task_manager" where
  "append_task_config delay t =
    (let t1 = (if length (tm_delays t) = 0 then t\<lparr>tm_ttd := tm_ttd t + delay\<rparr> else t);
         t2 = t1\<lparr>tm_tt := tm_tt t1 + delay\<rparr>
     in (tm_tt t2, t2\<lparr>tm_delays := tm_delays t2 @ [delay]\<rparr>))"

definition schedule_ttd :: "task_manager \<Rightarrow> rat result" where
  "schedule_ttd t = (case tm_delays t of [] \<Rightarrow> Inl IndexError | d # _ \<Rightarrow> Inr (tm_ttd t - d))"

definition add_task :: "rat \<Rightarrow> nat option \<Rightarrow> task_manager \<Rightarrow> placed" where
  "add_task delay index t =
    (Inr \<lparr>te_offloaded = True, te_handler = ''BackgroundTask'', te_index = index, te_error = False,
       te_task_id = Some ''request_id'', te_type = Some ''task''\<rparr>,
     snd (append_task_config delay t))"

text \<open>\<open>_create_background_tasks\<close> reads the loop variable before the loop.\<close>

definition create_background_tasks :: "task_manager \<Rightarrow> exn option" where
  "create_background_tasks t = Some (UnboundLocalError ''t'')"

definition register_background_task :: "task_manager \<Rightarrow> exn option" where
  "register_background_task t = create_background_tasks t"

datatype call = Call_ok | Call_retry | Call_raises exn

text \<open>A task that asks for a retry makes the manager read a key its metadata does not have.\<close>

definition route_offload :: "env option \<Rightarrow> rat \<Rightarrow> nat option \<Rightarrow> call \<Rightarrow> task_manager \<Rightarrow> placed" where
  "route_offload from_env delay index callback t =
    (if tm_background t \<or> from_env = Some Routebkg then add_task delay index t
     else (case callback of
         Call_ok \<Rightarrow> (Inr \<lparr>te_offloaded = False, te_handler = ''Route Handler'', te_index = index, te_error = False,
                      te_task_id = None, te_type = Some ''task''\<rparr>, t)
       | Call_retry \<Rightarrow> (Inl (KeyError ''is_retry''), t)
       | Call_raises e \<Rightarrow> (Inl e, t)))"

text \<open>\<open>_schedule_aps_task\<close>: the patterns that name several types are sequence patterns, which no type
  matches; an interval is scheduled but gives no job back.\<close>

definition schedule_aps_task :: "surroundings \<Rightarrow> nat option \<Rightarrow> task_manager \<Rightarrow> placed" where
  "schedule_aps_task W index t =
    (let s = tm_scheduler t;
         scheduled = \<lparr>te_offloaded = True, te_handler = ''APSScheduler'', te_index = index, te_error = False,
                      te_task_id = Some ''job_id'', te_type = Some ''schedule''\<rparr>;
         job = (case su_job W of Some e \<Rightarrow> Inl e | None \<Rightarrow> Inr ())
     in if sc_task_name s \<notin> set (su_registry W) then (Inl (KeyError (sc_task_name s)), t)
        else (case sc_task_type s of
            NOW \<Rightarrow> (rbind job (\<lambda>_. Inr scheduled), t)
          | CRONTAB \<Rightarrow> (rbind (schedule_object ''_aps_object'' (sc_schedule s)) (\<lambda>_. rbind job (\<lambda>_. Inr scheduled)), t)
          | INTERVAL \<Rightarrow> (rbind (schedule_object ''_aps_object'' (sc_schedule s)) (\<lambda>_.
              rbind job (\<lambda>_. Inl (AttributeError ''next_run_time''))), t)
          | _ \<Rightarrow> (Inr \<lparr>te_offloaded = False, te_handler = ''APSScheduler'', te_index = index, te_error = True,
                    te_task_id = Some ''job_id'', te_type = Some ''error''\<rparr>, t)))"

definition trigger_worker :: "surroundings \<Rightarrow> nat option \<Rightarrow> task_manager \<Rightarrow> placed" where
  "trigger_worker W index t = (trigger_task_from_scheduler W (tm_scheduler t) index, t)"

definition normal_offload :: "surroundings \<Rightarrow> rat \<Rightarrow> nat option \<Rightarrow> call \<Rightarrow> task_manager \<Rightarrow> placed" where
  "normal_offload W delay index callback t =
    (if sc_task_type (tm_scheduler t) = NOW then route_offload None delay index callback t
     else if su_workers_expected W \<ge> 1 then trigger_worker W index t
     else schedule_aps_task W index t)"

definition select_task_env :: "surroundings \<Rightarrow> draws \<Rightarrow> rat \<Rightarrow> int list \<Rightarrow> task_manager \<Rightarrow> env result" where
  "select_task_env W d weight needed t =
    (case compute_p_values (su_workers_alive W) (su_workers_expected W) weight of (p1, p2, p3) \<Rightarrow>
       rbind (get_selector (su_expf W) (tm_strategy t) (su_broker W)) (\<lambda>sel. sel d p1 p2 p3 needed))"

definition mix_mask :: "surroundings \<Rightarrow> int list" where
  "mix_mask W = [1, if su_workers_expected W \<ge> 1 then 1 else 0, if su_aps_available W then 1 else 0, 1]"

definition mix_offload :: "surroundings \<Rightarrow> draws \<Rightarrow> rat \<Rightarrow> rat \<Rightarrow> nat option \<Rightarrow> call \<Rightarrow> task_manager \<Rightarrow> placed" where
  "mix_offload W d weight delay index callback t =
    (if sc_task_type (tm_scheduler t) = NOW then
       (case select_task_env W d weight (mix_mask W) t of
          Inl e \<Rightarrow> (Inl e, t)
        | Inr Route \<Rightarrow> route_offload (Some Route) delay index callback t
        | Inr Routebkg \<Rightarrow> route_offload (Some Routebkg) delay index callback t
        | Inr Worker \<Rightarrow> trigger_worker W index t
        | Inr Aps \<Rightarrow> schedule_aps_task W index t)
     else (Inr \<lparr>te_offloaded = False, te_handler = ''RouteHandler'', te_index = index, te_error = True,
             te_task_id = Some ''request_id'', te_type = None\<rparr>, t))"

definition fallback_to :: "nat option \<Rightarrow> string \<Rightarrow> task_manager \<Rightarrow> task_manager" where
  "fallback_to index obj t =
    (case add_messages FALLBACK_ENV_TASK index obj (tm_scheduler t) of Inr s \<Rightarrow> t\<lparr>tm_scheduler := s\<rparr> | Inl _ \<Rightarrow> t)"

lemma fallback_to_type [simp]: "sc_task_type (tm_scheduler (fallback_to index obj t)) = sc_task_type (tm_scheduler t)"
  by (simp add: fallback_to_def add_messages_def)

text \<open>How many environments are still to be tried.\<close>

definition offload_rank :: "surroundings \<Rightarrow> string \<Rightarrow> task_type \<Rightarrow> nat" where
  "offload_rank W algorithm ty =
    (if algorithm = ''route'' then (if ty = NOW then 0 else 3)
     else if algorithm = ''worker'' then (if su_workers_expected W \<ge> 1 then 0 else 2)
     else if algorithm = ''aps'' then (if su_aps_activated W then 0 else 1)
     else 0)"

text \<open>
  The loop of \<open>_offload_task\<close> over the algorithm still to try.  The message of the last error branch and
  the branch of the error itself call \<open>add_messages\<close> without arguments.
\<close>

function offload_loop ::
  "surroundings \<Rightarrow> draws \<Rightarrow> rat \<Rightarrow> rat \<Rightarrow> nat option \<Rightarrow> call \<Rightarrow> string \<Rightarrow> task_manager \<Rightarrow> placed" where
  "offload_loop W d weight delay index callback algorithm t =
    (if algorithm = ''normal'' then normal_offload W delay index callback t
     else if algorithm = ''worker'' then
       (if su_workers_expected W \<ge> 1 then trigger_worker W index t
        else if su_aps_available W then offload_loop W d weight delay index callback ''aps'' (fallback_to index ''aps'' t)
        else if sc_task_type (tm_scheduler t) = NOW then
          offload_loop W d weight delay index callback ''route'' (fallback_to index ''route'' t)
        else (Inl TypeError, t))
     else if algorithm = ''route'' then
       (if sc_task_type (tm_scheduler t) \<noteq> NOW then
          offload_loop W d weight delay index callback ''worker'' (fallback_to index ''celery worker'' t)
        else route_offload None delay index callback t)
     else if algorithm = ''mix'' then mix_offload W d weight delay index callback t
     else if algorithm = ''aps'' then
       (if su_aps_activated W then schedule_aps_task W index t
        else if su_workers_expected W \<ge> 1 then
          offload_loop W d weight delay index callback ''worker'' (fallback_to index ''celery worker'' t)
        else if sc_task_type (tm_scheduler t) = NOW then
          offload_loop W d weight delay index callback ''route'' (fallback_to index ''route'' t)
        else offload_loop W d weight delay index callback ''error'' t)
     else if algorithm = ''error'' then (Inl TypeError, t)
     else (Inl (KeyError ''task_id''), t))"
  by pat_completeness auto

termination
  by (relation "measure (\<lambda>(W, d, weight, delay, index, callback, algorithm, t).
      offload_rank W algorithm (sc_task_type (tm_scheduler t)))")
    (simp_all add: offload_rank_def)

declare offload_loop.simps [simp del]

definition offload_task :: "surroundings \<Rightarrow> draws \<Rightarrow> rat \<Rightarrow> rat \<Rightarrow> nat option \<Rightarrow> call \<Rightarrow> task_manager \<Rightarrow> exn option \<times> task_manager" where
  "offload_task W d weight delay index callback t =
    (let weight = compute_weight weight (sc_heaviness (tm_scheduler t))
     in case offload_loop W d weight delay index callback (tm_algorithm t) t of
          (Inl e, t') \<Rightarrow> (Some e, t')
        | (Inr r, t') \<Rightarrow> (None, t'\<lparr>tm_results := tm_results t' @ [r], tm_weight := tm_weight t' + weight\<rparr>))"

section \<open>Lemmas\<close>

lemma fallback_to_scheduler [simp]:
  "sc_schedule (tm_scheduler (fallback_to index obj t)) = sc_schedule (tm_scheduler t)"
  "sc_task_name (tm_scheduler (fallback_to index obj t)) = sc_task_name (tm_scheduler t)"
  "tm_strategy (fallback_to index obj t) = tm_strategy t"
  "tm_background (fallback_to index obj t) = tm_background t"
  by (simp_all add: fallback_to_def add_messages_def)

lemmas offload_defs = normal_offload_def trigger_worker_def schedule_aps_task_def route_offload_def
  trigger_task_from_scheduler_def schedule_object_def add_task_def Let_def

lemma beat_trigger_fails:
  "sc_schedule s = Some Beat_object \<Longrightarrow> sc_task_type s \<noteq> NOW \<Longrightarrow>
    trigger_task_from_scheduler W s index = Inl (AttributeError ''_beat_object'')"
  by (simp add: trigger_task_from_scheduler_def schedule_object_def Let_def)

lemma beat_aps_fails:
  assumes "sc_schedule (tm_scheduler t) = Some Beat_object" "sc_task_type (tm_scheduler t) \<noteq> NOW"
    "schedule_aps_task W index t = (Inr r, t')"
  shows "te_error r"
  using assms by (cases "sc_task_type (tm_scheduler t)")
    (auto simp: schedule_aps_task_def schedule_object_def Let_def split: if_splits)

text \<open>What a manager keeps while it falls back.\<close>

definition same_task :: "task_manager \<Rightarrow> task_manager \<Rightarrow> bool" where
  "same_task t u \<longleftrightarrow> sc_task_type (tm_scheduler u) = sc_task_type (tm_scheduler t)
    \<and> sc_schedule (tm_scheduler u) = sc_schedule (tm_scheduler t)
    \<and> sc_task_name (tm_scheduler u) = sc_task_name (tm_scheduler t)
    \<and> tm_background u = tm_background t"

lemma same_task_refl: "same_task t t"
  by (simp add: same_task_def)

lemma same_task_fallback: "same_task (fallback_to index obj t) u \<Longrightarrow> same_task t u"
  by (simp add: same_task_def)

text \<open>The ways the loop can end from an algorithm other than normal and mix.\<close>

inductive ends :: "surroundings \<Rightarrow> rat \<Rightarrow> nat option \<Rightarrow> call \<Rightarrow> task_manager \<Rightarrow> placed \<Rightarrow> bool"
  for W delay index callback t where
  on_worker: "su_workers_expected W \<ge> 1 \<Longrightarrow> same_task t u \<Longrightarrow> ends W delay index callback t (trigger_worker W index u)"
| on_route: "sc_task_type (tm_scheduler t) = NOW \<Longrightarrow> same_task t u \<Longrightarrow>
    ends W delay index callback t (route_offload None delay index callback u)"
| on_aps: "su_aps_activated W \<Longrightarrow> same_task t u \<Longrightarrow> ends W delay index callback t (schedule_aps_task W index u)"
| on_error: "ends W delay index callback t (Inl e, u)"

inductive_cases endsE: "ends W delay index callback t (Inr r, u)"

lemma ends_fallback:
  "ends W delay index callback (fallback_to index obj t) r \<Longrightarrow> ends W delay index callback t r"
  by (induction r rule: ends.induct) (auto intro: ends.intros dest: same_task_fallback)

lemma loop_ends:
  "algorithm \<notin> {''normal'', ''mix''} \<Longrightarrow>
    ends W delay index callback t (offload_loop W d weight delay index callback algorithm t)"
proof (induction W d weight delay index callback algorithm t rule: offload_loop.induct)
  case (1 W d weight delay index callback algorithm t)
  note unfold = offload_loop.simps [of W d weight delay index callback algorithm t]
  consider (worker) "algorithm = ''worker''" | (route) "algorithm = ''route''" | (aps) "algorithm = ''aps''"
    | (other) "algorithm \<notin> {''normal'', ''mix'', ''worker'', ''route'', ''aps''}"
    using "1.prems" by blast
  then show ?case
  proof cases
    case worker
    consider (a) "1 \<le> su_workers_expected W" | (b) "\<not> 1 \<le> su_workers_expected W" "su_aps_available W"
      | (c) "\<not> 1 \<le> su_workers_expected W" "\<not> su_aps_available W" "sc_task_type (tm_scheduler t) = NOW"
      | (d) "\<not> 1 \<le> su_workers_expected W" "\<not> su_aps_available W" "sc_task_type (tm_scheduler t) \<noteq> NOW"
      by blast
    then show ?thesis
      unfolding unfold using worker "1.IH"(1,2) "1.prems"
      by cases (simp_all add: on_worker same_task_refl on_error ends_fallback)
  next
    case route
    then show ?thesis
      unfolding unfold using "1.IH"(3) "1.prems"
      by (cases "sc_task_type (tm_scheduler t) = NOW") (simp_all add: on_route same_task_refl ends_fallback)
  next
    case aps
    consider (a) "su_aps_activated W" | (b) "\<not> su_aps_activated W" "1 \<le> su_workers_expected W"
      | (c) "\<not> su_aps_activated W" "\<not> 1 \<le> su_workers_expected W" "sc_task_type (tm_scheduler t) = NOW"
      | (d) "\<not> su_aps_activated W" "\<not> 1 \<le> su_workers_expected W" "sc_task_type (tm_scheduler t) \<noteq> NOW"
      by blast
    then show ?thesis
      unfolding unfold using aps "1.IH"(4,5,6) "1.prems"
      by cases (simp_all add: on_aps same_task_refl ends_fallback)
  next
    case other
    then show ?thesis unfolding unfold by (simp add: on_error)
  qed
qed

lemma loop_result_cases:
  assumes "offload_loop W d weight delay index callback algorithm t = (Inr r, t')"
  obtains (normal) "normal_offload W delay index callback t = (Inr r, t')"
    | (mix) "mix_offload W d weight delay index callback t = (Inr r, t')"
    | (fallback) "ends W delay index callback t (Inr r, t')"
proof -
  consider "algorithm = ''normal''" | "algorithm = ''mix''" | "algorithm \<notin> {''normal'', ''mix''}" by blast
  then show thesis
  proof cases
    case 1
    with assms normal show ?thesis by (simp add: offload_loop.simps)
  next
    case 2
    with assms mix show ?thesis by (simp add: offload_loop.simps)
  next
    case 3
    from loop_ends [OF this, of W delay index callback t d weight] assms fallback show ?thesis by simp
  qed
qed

lemma scheduled_loop_fails:
  assumes "sc_schedule (tm_scheduler t) = Some Beat_object" "sc_task_type (tm_scheduler t) \<noteq> NOW"
    "offload_loop W d weight delay index callback algorithm t = (Inr r, t')"
  shows "te_error r"
  using assms(3)
proof (cases rule: loop_result_cases)
  case normal
  with assms(1,2) beat_trigger_fails [OF assms(1,2)] beat_aps_fails [OF assms(1,2)] show ?thesis
    by (auto simp: normal_offload_def trigger_worker_def split: if_splits)
next
  case mix
  with assms(2) show ?thesis by (auto simp: mix_offload_def)
next
  case fallback
  with assms(1,2) show ?thesis
    by (elim endsE) (auto simp: trigger_worker_def same_task_def beat_trigger_fails intro: beat_aps_fails [OF _ _ sym])
qed

lemma mix_mask_no_worker:
  "su_workers_expected W < 1 \<Longrightarrow> select_task_env W d weight (mix_mask W) t \<noteq> Inr Worker"
proof
  assume less: "su_workers_expected W < 1" and "select_task_env W d weight (mix_mask W) t = Inr Worker"
  then obtain sel p1 p2 p3 where "get_selector (su_expf W) (tm_strategy t) (su_broker W) = Inr sel"
    "sel d p1 p2 p3 (mix_mask W) = Inr Worker"
    by (auto simp: select_task_env_def rbind_Inr_iff split: prod.splits)
  then have "mask_at (mix_mask W) Worker = Inr 1"
    using env_selector.sel_allowed [OF get_selector_contract] by blast
  with less show False by (simp add: mask_at_def mix_mask_def)
qed

lemma aps_not_celery: "schedule_aps_task W index t = (Inr r, t') \<Longrightarrow> te_handler r \<noteq> ''Celery''"
  by (cases "sc_task_type (tm_scheduler t)")
    (auto simp: schedule_aps_task_def rbind_Inr_iff Let_def split: if_splits)

lemma route_not_celery: "route_offload from_env delay index callback t = (Inr r, t') \<Longrightarrow> te_handler r \<noteq> ''Celery''"
  by (auto simp: route_offload_def add_task_def split: if_splits call.splits)

lemma no_worker_loop:
  assumes "su_workers_expected W < 1" "offload_loop W d weight delay index callback algorithm t = (Inr r, t')"
  shows "te_handler r \<noteq> ''Celery''"
  using assms(2)
proof (cases rule: loop_result_cases)
  case normal
  with assms(1) aps_not_celery route_not_celery show ?thesis
    by (auto simp: normal_offload_def split: if_splits)
next
  case mix
  then show ?thesis
    using mix_mask_no_worker [OF assms(1), of d weight t] aps_not_celery route_not_celery
    by (auto simp: mix_offload_def split: if_splits sum.splits env.splits)
next
  case fallback
  with assms(1) show ?thesis
    by (elim endsE) (auto dest: aps_not_celery [OF sym] route_not_celery [OF sym])
qed

section \<open>Properties\<close>

text \<open>C26: No task that is to run later is ever placed: for every algorithm and strategy, whatever the draws, the workers, the
  queue and the job store, a task of a type other than now, whose scheduler came out of the validation of the model, ends
  in an exception or in a last result that is marked as an error; the validation keeps the beat object where both ways
  of scheduling read attributes of the model.\<close>

theorem scheduled_task_never_placed:
  assumes "validate_model has_option accepts s = Inr (tm_scheduler t)" "sc_task_type s \<noteq> NOW"
    and "offload_task W d weight delay index callback t = (None, t')"
  shows "tm_results t' \<noteq> [] \<and> te_error (last (tm_results t'))"
proof -
  have "sc_schedule (tm_scheduler t) = Some Beat_object \<and> sc_task_type (tm_scheduler t) \<noteq> NOW"
    using assms(1,2) unfolding validate_model_def by (metis (no_types, lifting) Inl_Inr_False Inr_inject
        scheduler.select_convs scheduler.surjective scheduler.update_convs)
  moreover obtain r t1 w where "offload_loop W d w delay index callback (tm_algorithm t) t = (Inr r, t1)"
    "tm_results t' = tm_results t1 @ [r]"
    using assms(3) by (auto simp: offload_task_def Let_def split: prod.splits sum.splits)
  ultimately show ?thesis
    using scheduled_loop_fails [of t W d w delay index callback "tm_algorithm t" r] by simp
qed

definition sample_task :: "task_type \<Rightarrow> task_manager" where
  "sample_task ty = \<lparr>tm_background = False, tm_algorithm = ''mix'', tm_strategy = ''softmax'', tm_ttd = 0, tm_tt = 0, tm_delays = [],
     tm_scheduler = \<lparr>sc_task_name = ''mail'', sc_task_type = ty, sc_task_option = \<lparr>op_countdown = None, op_priority = 3,
       op_time_limit = None, op_soft_time_limit = None, op_retry = False, op_ignore_result = True, op_queue = None\<rparr>,
       sc_heaviness = MODERATE, sc_schedule = (if ty = NOW then None else Some Beat_object), sc_messages = []\<rparr>,
     tm_weight = 0, tm_results = []\<rparr>"

definition sample_surroundings :: surroundings where
  "sample_surroundings = \<lparr>su_workers_expected = 0, su_workers_alive = 0, su_aps_activated = False, su_aps_available = False,
     su_broker = ''redis'', su_registry = [''mail''], su_queue = Inr ''task@1'', su_beat = Inr ''s'', su_job = None,
     su_expf = sample_exp\<rparr>"

theorem scheduled_task_never_placed_witness:
  "(let t' = snd (offload_task sample_surroundings \<lparr>dr_random = 0, dr_choices = 0, dr_index = 0\<rparr> 1 0 None Call_ok (sample_task CRONTAB))
    in tm_results t' \<noteq> [] \<and> te_error (last (tm_results t')))"
proof -
  let ?r = "offload_task sample_surroundings \<lparr>dr_random = 0, dr_choices = 0, dr_index = 0\<rparr> 1 0 None Call_ok (sample_task CRONTAB)"
  have v: "validate_model True (\<lambda>_. True) (tm_scheduler (sample_task CRONTAB)) = Inr (tm_scheduler (sample_task CRONTAB))"
    by (simp add: validate_model_def sample_task_def)
  have "fst ?r = None"
    by (simp add: offload_task_def offload_loop.simps mix_offload_def sample_task_def Let_def)
  then have "?r = (None, snd ?r)" by (metis prod.collapse)
  from scheduled_task_never_placed [OF v _ this] show ?thesis
    by (simp add: sample_task_def Let_def)
qed

text \<open>C11: Where no worker is expected, no task is handed to the queue, also when the environment is drawn at
  random: whatever is placed is placed elsewhere.\<close>

theorem no_worker_no_queue:
  assumes "su_workers_expected W < 1" "offload_task W d weight delay index callback t = (None, t')"
  shows "te_handler (last (tm_results t')) \<noteq> ''Celery''"
proof -
  obtain r t1 w where "offload_loop W d w delay index callback (tm_algorithm t) t = (Inr r, t1)"
    "tm_results t' = tm_results t1 @ [r]"
    using assms(2) by (auto simp: offload_task_def Let_def split: prod.splits sum.splits)
  then show ?thesis
    using no_worker_loop [OF assms(1), of d w delay index callback "tm_algorithm t" t r] by simp
qed

theorem no_worker_no_queue_witness:
  "te_handler (last (tm_results (snd (offload_task (sample_surroundings\<lparr>su_aps_available := True\<rparr>)
     \<lparr>dr_random = 0, dr_choices = 0, dr_index = 0\<rparr> 1 0 None Call_ok (sample_task NOW\<lparr>tm_algorithm := ''worker''\<rparr>))))) \<noteq> ''Celery''"
proof -
  let ?r = "offload_task (sample_surroundings\<lparr>su_aps_available := True\<rparr>)
     \<lparr>dr_random = 0, dr_choices = 0, dr_index = 0\<rparr> 1 0 None Call_ok (sample_task NOW\<lparr>tm_algorithm := ''worker''\<rparr>)"
  have "fst ?r = None"
    by (simp add: offload_task_def offload_loop.simps route_offload_def fallback_to_def add_messages_def
        FALLBACK_ENV_TASK_def sample_task_def sample_surroundings_def Let_def)
  then have "?r = (None, snd ?r)" by (metis prod.collapse)
  from no_worker_no_queue [OF _ this] show ?thesis
    by (simp add: sample_surroundings_def)
qed

text \<open>A task to run now, in surroundings where nothing that is called fails; the ids of the queue are those
  Celery makes, texts of UUIDs, which have no \<open>@\<close>.\<close>

definition calm :: "surroundings \<Rightarrow> task_manager \<Rightarrow> bool" where
  "calm W t \<longleftrightarrow> sc_task_type (tm_scheduler t) = NOW \<and> sc_task_name (tm_scheduler t) \<in> set (su_registry W)
    \<and> (case su_queue W of Inr i \<Rightarrow> CHR ''@'' \<notin> set i | Inl _ \<Rightarrow> False) \<and> su_job W = None"

text \<open>Where the queue is reached, apart from a drawn environment.\<close>

definition on_queue :: "surroundings \<Rightarrow> string \<Rightarrow> bool" where
  "on_queue W algorithm \<longleftrightarrow>
    su_workers_expected W \<ge> 1 \<and> (algorithm = ''worker'' \<or> algorithm = ''aps'' \<and> \<not> su_aps_activated W)"

text \<open>A placement without an error that leaves the results to its caller.\<close>

definition placed_well :: "placed \<Rightarrow> task_manager \<Rightarrow> bool" where
  "placed_well p t \<longleftrightarrow> (case p of (Inr r, u) \<Rightarrow> \<not> te_error r \<and> tm_results u = tm_results t | (Inl _, _) \<Rightarrow> False)"

lemma calm_fallback [simp]: "calm W (fallback_to k obj t) = calm W t"
  by (simp add: calm_def)

lemma fallback_to_results [simp]: "tm_results (fallback_to k obj t) = tm_results t"
  by (simp add: fallback_to_def add_messages_def)

lemma placed_well_fallback [simp]: "placed_well p (fallback_to k obj t) = placed_well p t"
  by (simp only: placed_well_def fallback_to_results)

lemma calm_route: "calm W t \<Longrightarrow> placed_well (route_offload e delay index Call_ok t) t"
  by (simp add: placed_well_def route_offload_def add_task_def append_task_config_def Let_def)

lemma calm_worker: "calm W t \<Longrightarrow> trigger_worker W index t = (Inl IndexError, t)"
  by (auto simp: calm_def trigger_worker_def trigger_task_from_scheduler_def after_at_def Let_def split: sum.splits)

lemma calm_aps: "calm W t \<Longrightarrow> placed_well (schedule_aps_task W index t) t"
  by (simp add: calm_def placed_well_def schedule_aps_task_def Let_def)

lemma calm_loop_route: "calm W t \<Longrightarrow> placed_well (offload_loop W d w delay index Call_ok ''route'' t) t"
  using calm_route by (simp add: offload_loop.simps calm_def)

lemma calm_loop_aps:
  "calm W t \<Longrightarrow> \<not> on_queue W ''aps'' \<Longrightarrow> placed_well (offload_loop W d w delay index Call_ok ''aps'' t) t"
  using calm_aps [of W t index] calm_loop_route [of W "fallback_to index ''route'' t" d w delay index]
  by (simp add: offload_loop.simps [of _ _ _ _ _ _ "''aps''"] on_queue_def) (simp add: calm_def)

lemma calm_loop_worker:
  "calm W t \<Longrightarrow> \<not> on_queue W ''worker'' \<Longrightarrow> placed_well (offload_loop W d w delay index Call_ok ''worker'' t) t"
  using calm_loop_aps [of W "fallback_to index ''aps'' t" d w delay index]
    calm_loop_route [of W "fallback_to index ''route'' t" d w delay index]
  by (simp add: offload_loop.simps [of _ _ _ _ _ _ "''worker''"] on_queue_def) (simp add: calm_def)

lemma calm_loop_queue:
  assumes "calm W t" "on_queue W algorithm"
  shows "fst (offload_loop W d w delay index Call_ok algorithm t) = Inl IndexError"
  using assms calm_worker [of W t index] calm_worker [of W "fallback_to index ''celery worker'' t" index]
  by (auto simp: on_queue_def offload_loop.simps [of _ _ _ _ _ _ "''worker''"] offload_loop.simps [of _ _ _ _ _ _ "''aps''"])



text \<open>After any delays were appended to a fresh manager, the total is their sum, the time to done is the
  first of them, and what is left to the first task is always zero.\<close>

theorem delays_accounted:
  "fold (\<lambda>x t. snd (append_task_config x t)) (x # xs) (t\<lparr>tm_delays := [], tm_ttd := 0, tm_tt := 0\<rparr>)
      = t\<lparr>tm_delays := x # xs, tm_ttd := x, tm_tt := x + sum_list xs\<rparr>
    \<and> schedule_ttd (fold (\<lambda>x t. snd (append_task_config x t)) (x # xs) (t\<lparr>tm_delays := [], tm_ttd := 0, tm_tt := 0\<rparr>)) = Inr 0"
proof -
  have rest: "fold (\<lambda>x t. snd (append_task_config x t)) ys u = u\<lparr>tm_delays := tm_delays u @ ys, tm_tt := tm_tt u + sum_list ys\<rparr>"
    if "tm_delays u \<noteq> []" for ys and u :: task_manager
    using that
  proof (induction ys arbitrary: u)
    case (Cons y ys)
    then show ?case by (simp add: append_task_config_def Let_def add.assoc)
  qed simp
  have "fold (\<lambda>x t. snd (append_task_config x t)) (x # xs) (t\<lparr>tm_delays := [], tm_ttd := 0, tm_tt := 0\<rparr>)
      = t\<lparr>tm_delays := x # xs, tm_ttd := x, tm_tt := x + sum_list xs\<rparr>"
  proof -
    have "snd (append_task_config x (t\<lparr>tm_delays := [], tm_ttd := 0, tm_tt := 0\<rparr>)) = t\<lparr>tm_delays := [x], tm_ttd := x, tm_tt := x\<rparr>"
      by (simp add: append_task_config_def Let_def)
    then show ?thesis by (simp add: rest)
  qed
  then show ?thesis by (simp add: schedule_ttd_def)
qed

text \<open>The limits of an option are accepted exactly within their bounds and five seconds apart.\<close>

lemma check_time_limit_spec:
  "check_time_limit opt = Inr opt \<longleftrightarrow>
    (\<forall>x. op_time_limit opt = Some x \<longrightarrow> 5 < x \<and> x < 1000) \<and>
    (\<forall>x. op_soft_time_limit opt = Some x \<longrightarrow> 5 < x \<and> x < 1000) \<and>
    (\<forall>x y. op_soft_time_limit opt = Some x \<and> op_time_limit opt = Some y \<longrightarrow> x + 5 \<le> y)"
  by (cases "op_time_limit opt"; cases "op_soft_time_limit opt") (auto simp: check_time_limit_def)

end
