(* ===== verification/Task_Services.thy ===== *)
theory Task_Services
  imports Service_Core Task_Manager
begin

text \<open>
  services/worker/celery_service.py and services/worker/task_service.py: the readiness checks of the two
  services that run tasks, and the election of the instance whose scheduler runs.  The election is a step
  relation over all instances and the Redis lock; time is rational, Redis is what its documentation says
  of \<open>SET NX EX\<close>, \<open>GET\<close> and \<open>EXPIRE\<close>.  An iteration of the loop is split at the reading of the lock; resuming
  and pausing the scheduler are taken not to fail.
\<close>

section \<open>Readiness\<close>

definition celery_verify_dependency ::
  "int \<Rightarrow> string \<Rightarrow> service_status \<Rightarrow> service_status \<Rightarrow> exn option" where
  "celery_verify_dependency expected broker redis rabbitmq =
    (if expected < 1 then Some (BuildOkError (Some ''No workers expected''))
     else if broker \<notin> {''rabbitmq'', ''redis''} then Some (BuildOkError (Some ''''))
     else if broker = ''redis'' \<and> redis = NOT_AVAILABLE then Some (BuildOkError (Some ''''))
     else if broker = ''rabbitmq'' \<and> rabbitmq = NOT_AVAILABLE then Some (BuildOkError (Some ''''))
     else None)"

text \<open>The ping of the queue; the ping of its mini services is the parameter \<open>super_ping\<close>.\<close>

definition celery_ping ::
  "bool \<Rightarrow> service_status \<Rightarrow> task_type option \<Rightarrow> int \<Rightarrow> exn option \<Rightarrow> exn option" where
  "celery_ping needs_celery status ty expected super_ping =
    (if needs_celery \<and> status \<noteq> AVAILABLE then Some ServiceNotAvailableError
     else (case ty of
         None \<Rightarrow> None
       | Some ty \<Rightarrow>
           if ty = SOLAR \<and> expected < 1 then Some (OtherException ''CeleryNotAvailableError'')
           else if ty = RRULE \<and> expected < 1 then Some (OtherException ''CeleryNotAvailableError'')
           else if expected \<ge> 1 then super_ping
           else None))"

definition aps_supported :: "task_type list" where
  "aps_supported = [DATETIME, INTERVAL, TIMEDELTA, CRONTAB]"

definition aps_ping :: "bool \<Rightarrow> service_status \<Rightarrow> task_type option \<Rightarrow> int \<Rightarrow> exn option" where
  "aps_ping needs_aps status ty expected =
    (if needs_aps \<and> status \<noteq> AVAILABLE then Some ServiceNotAvailableError
     else (case ty of
         None \<Rightarrow> None
       | Some ty \<Rightarrow>
           if expected < 1 \<and> status \<noteq> AVAILABLE \<and> ty \<in> set aps_supported then Some ServiceNotAvailableError else None))"

text \<open>The check of the scheduler's own dependencies: whether it falls back to memory.\<close>

definition aps_verify_dependency :: "bool \<Rightarrow> string \<Rightarrow> service_status \<Rightarrow> service_status \<Rightarrow> bool result" where
  "aps_verify_dependency activated jobstore mongo redis =
    (if \<not> activated then Inl (BuildOkError None)
     else Inr (jobstore = ''mongodb'' \<and> mongo \<noteq> AVAILABLE \<or> jobstore = ''redis'' \<and> redis \<noteq> AVAILABLE))"

section \<open>The election\<close>

definition LEADER_LOCK_TTL :: nat where "LEADER_LOCK_TTL = 600"
definition LOWER_BOUND :: nat where "LOWER_BOUND = 300"
definition UPPER_BOUND :: nat where "UPPER_BOUND = 3300"

datatype phase = Asleep rat | Trying | Checking

record election =
  el_now :: rat
  el_lock :: "(nat \<times> rat) option"
  el_leader :: "nat \<Rightarrow> bool"
  el_phase :: "nat \<Rightarrow> phase"

text \<open>The holder of the lock, unless it has expired.\<close>

definition lock_holder :: "election \<Rightarrow> nat option" where
  "lock_holder s = (case el_lock s of None \<Rightarrow> None | Some (i, e) \<Rightarrow> if el_now s < e then Some i else None)"

definition sleep_for :: "nat \<Rightarrow> nat \<Rightarrow> election \<Rightarrow> election" where
  "sleep_for i pause s =
    s\<lparr>el_phase := (el_phase s)(i := Asleep (el_now s + of_nat LEADER_LOCK_TTL + of_nat pause))\<rparr>"

text \<open>EXPIRE sets a new lifetime on the key, whoever holds it, and does nothing when there is none.\<close>

definition expire_lock :: "election \<Rightarrow> election" where
  "expire_lock s =
    (case lock_holder s of
       None \<Rightarrow> s
     | Some j \<Rightarrow> s\<lparr>el_lock := Some (j, el_now s + of_nat LEADER_LOCK_TTL)\<rparr>)"

definition try_acquire_lock :: "nat \<Rightarrow> election \<Rightarrow> bool \<times> election" where
  "try_acquire_lock i s =
    (if lock_holder s = None then (True, s\<lparr>el_lock := Some (i, el_now s + of_nat LEADER_LOCK_TTL)\<rparr>)
     else (False, s))"

text \<open>An iteration of the loop: with the lock, an instance that does not lead becomes the leader, one
  that leads renews the lock it has just taken; without it, it goes on to read the holder.\<close>

definition try_lock :: "nat \<Rightarrow> nat \<Rightarrow> election \<Rightarrow> election" where
  "try_lock i pause s =
    (case try_acquire_lock i s of
       (True, s) \<Rightarrow>
         if \<not> el_leader s i then sleep_for i pause (s\<lparr>el_leader := (el_leader s)(i := True)\<rparr>)
         else sleep_for i pause (expire_lock s)
     | (False, s) \<Rightarrow> s\<lparr>el_phase := (el_phase s)(i := Checking)\<rparr>)"

definition check_lock :: "nat \<Rightarrow> nat \<Rightarrow> election \<Rightarrow> election" where
  "check_lock i pause s =
    (case lock_holder s of
       None \<Rightarrow> s\<lparr>el_phase := (el_phase s)(i := Trying)\<rparr>
     | Some j \<Rightarrow>
         if j \<noteq> i then sleep_for i pause (if el_leader s i then s\<lparr>el_leader := (el_leader s)(i := False)\<rparr> else s)
         else sleep_for i pause (expire_lock s))"

inductive elect :: "election \<Rightarrow> election \<Rightarrow> bool" where
  tick: "0 < dt \<Longrightarrow> elect s (s\<lparr>el_now := el_now s + dt\<rparr>)"
| wake: "el_phase s i = Asleep u \<Longrightarrow> u \<le> el_now s \<Longrightarrow> elect s (s\<lparr>el_phase := (el_phase s)(i := Trying)\<rparr>)"
| attempt: "el_phase s i = Trying \<Longrightarrow> LOWER_BOUND \<le> pause \<Longrightarrow> pause \<le> UPPER_BOUND \<Longrightarrow> elect s (try_lock i pause s)"
| check: "el_phase s i = Checking \<Longrightarrow> LOWER_BOUND \<le> pause \<Longrightarrow> pause \<le> UPPER_BOUND \<Longrightarrow> elect s (check_lock i pause s)"

definition election_init :: "(nat \<Rightarrow> rat) \<Rightarrow> election" where
  "election_init start = \<lparr>el_now = 0, el_lock = None, el_leader = (\<lambda>_. False), el_phase = (\<lambda>i. Asleep (start i))\<rparr>"

inductive reached :: "(nat \<Rightarrow> rat) \<Rightarrow> election \<Rightarrow> bool" for start where
  reached_init: "reached start (election_init start)"
| reached_step: "reached start s \<Longrightarrow> elect s s' \<Longrightarrow> reached start s'"

inductive_cases electE: "elect s s'"

text \<open>The holder of a lock leads and sleeps until well after the lock has expired.\<close>

definition election_inv :: "election \<Rightarrow> bool" where
  "election_inv s \<longleftrightarrow> (\<forall>i e. el_lock s = Some (i, e) \<and> el_now s < e \<longrightarrow>
     el_leader s i \<and> (\<exists>u. el_phase s i = Asleep u \<and> e + of_nat LOWER_BOUND \<le> u))"

lemma election_inv_init: "election_inv (election_init start)"
  by (simp add: election_inv_def election_init_def)

lemma election_inv_awake:
  assumes "election_inv s" "el_phase s i = Trying \<or> el_phase s i = Checking"
  shows "lock_holder s \<noteq> Some i"
  using assms by (auto simp: election_inv_def lock_holder_def split: option.splits if_splits)

lemma try_lock_cases:
  "lock_holder s = None \<Longrightarrow> try_lock i p s = sleep_for i p
     (s\<lparr>el_lock := Some (i, el_now s + of_nat LEADER_LOCK_TTL), el_leader := (el_leader s)(i := True)\<rparr>)"
  "lock_holder s = Some j \<Longrightarrow> try_lock i p s = s\<lparr>el_phase := (el_phase s)(i := Checking)\<rparr>"
  by (auto simp: try_lock_def try_acquire_lock_def expire_lock_def lock_holder_def LEADER_LOCK_TTL_def
      fun_upd_idem split: option.splits)

lemma check_lock_other:
  "lock_holder s = Some j \<Longrightarrow> j \<noteq> i \<Longrightarrow>
    check_lock i p s = sleep_for i p (s\<lparr>el_leader := (el_leader s)(i := False)\<rparr>)"
  by (cases "el_leader s i") (simp_all add: check_lock_def fun_upd_idem)

lemma election_inv_step:
  assumes "elect s s'" "election_inv s"
  shows "election_inv s'"
  using assms(1)
proof cases
  case (tick dt)
  with assms(2) show ?thesis by (auto simp: election_inv_def)
next
  case (wake i u)
  have "el_lock s \<noteq> Some (i, e) \<or> e \<le> el_now s" for e
    using assms(2) wake by (force simp: election_inv_def LOWER_BOUND_def)
  with assms(2) wake(1) show ?thesis by (fastforce simp: election_inv_def)
next
  case (attempt i pause)
  show ?thesis
  proof (cases "lock_holder s = None")
    case True
    with attempt show ?thesis
      by (auto simp: election_inv_def try_lock_cases sleep_for_def)
  next
    case False
    then obtain j where j: "lock_holder s = Some j" by auto
    with election_inv_awake [OF assms(2), of i] attempt(2) assms(2) attempt(1) show ?thesis
      by (auto simp: try_lock_cases(2) [OF j] election_inv_def lock_holder_def split: option.splits if_splits)
  qed
next
  case (check i pause)
  have ne: "lock_holder s \<noteq> Some i" using election_inv_awake [OF assms(2)] check(2) by simp
  show ?thesis
  proof (cases "lock_holder s")
    case None
    with check(1) assms(2) show ?thesis
      by (auto simp: election_inv_def check_lock_def lock_holder_def split: option.splits if_splits)
  next
    case (Some j)
    with ne have "j \<noteq> i" by simp
    with Some check(1) assms(2) show ?thesis
      by (auto simp: check_lock_other election_inv_def sleep_for_def lock_holder_def split: option.splits if_splits)
  qed
qed

lemma reached_inv: "reached start s \<Longrightarrow> election_inv s"
  by (induction rule: reached.induct) (auto intro: election_inv_init election_inv_step)

section \<open>Properties\<close>

text \<open>C9: In every reachable state the holder of an unexpired lock is a leader that sleeps until at least
  five minutes after the lock expires, and no step prolongs or replaces the lock before. The two EXPIRE of
  the loop never help: an instance that is awake never finds the lock its own, and a leader that renews
  has only just taken the expired lock anew.\<close>

theorem running_lock_never_prolonged:
  assumes "reached start s" "elect s s'" "lock_holder s = Some i"
  shows "el_lock s' = el_lock s \<and> el_leader s i
    \<and> (\<exists>u e. el_lock s = Some (i, e) \<and> el_phase s i = Asleep u \<and> e + 300 \<le> u)"
proof -
  have inv: "election_inv s" by (rule reached_inv [OF assms(1)])
  from assms(2) have "el_lock s' = el_lock s"
  proof cases
    case (attempt k pause)
    then show ?thesis by (simp add: try_lock_cases(2) [OF assms(3)])
  next
    case (check k pause)
    have "i \<noteq> k" using election_inv_awake [OF inv, of k] check(2) assms(3) by auto
    with check(1) show ?thesis by (simp add: check_lock_other [OF assms(3)] sleep_for_def)
  qed simp_all
  with inv assms(3) show ?thesis
    by (auto simp: election_inv_def lock_holder_def LOWER_BOUND_def split: option.splits if_splits)
qed

text \<open>A run of two instances: the first takes the lock and sleeps for more than an hour, the second is refused,
  sleeps for a quarter of an hour and then finds the lock expired.\<close>

definition wakeup :: "nat \<Rightarrow> election \<Rightarrow> election" where
  "wakeup i s = s\<lparr>el_phase := (el_phase s)(i := Trying)\<rparr>"

definition first_leads :: election where
  "first_leads = try_lock 0 3300 (wakeup 0 (election_init (\<lambda>_. 0)))"

definition second_waits :: election where
  "second_waits = check_lock 1 300 (try_lock 1 300 (wakeup 1 first_leads))"

definition both_lead :: election where
  "both_lead = try_lock 1 300 (wakeup 1 (second_waits\<lparr>el_now := el_now second_waits + 900\<rparr>))"

lemmas election_defs = first_leads_def second_waits_def both_lead_def wakeup_def try_lock_def try_acquire_lock_def expire_lock_def
  check_lock_def sleep_for_def lock_holder_def election_init_def LEADER_LOCK_TTL_def LOWER_BOUND_def UPPER_BOUND_def

lemma reached_wakeup: "reached start s \<Longrightarrow> el_phase s i = Asleep u \<Longrightarrow> u \<le> el_now s \<Longrightarrow> reached start (wakeup i s)"
  unfolding wakeup_def by (rule reached_step [OF _ elect.wake])

lemma reached_try:
  "reached start s \<Longrightarrow> el_phase s i = Trying \<Longrightarrow> LOWER_BOUND \<le> p \<Longrightarrow> p \<le> UPPER_BOUND \<Longrightarrow> reached start (try_lock i p s)"
  by (rule reached_step [OF _ elect.attempt])

lemma first_leads_reached: "reached (\<lambda>_. 0) first_leads"
proof -
  have "reached (\<lambda>_. 0) (wakeup 0 (election_init (\<lambda>_. 0)))"
    by (rule reached_wakeup [OF reached_init, where u = 0]) (simp_all add: election_init_def)
  then show ?thesis
    unfolding first_leads_def by (rule reached_try) (simp_all add: wakeup_def LOWER_BOUND_def UPPER_BOUND_def)
qed

lemma second_waits_reached: "reached (\<lambda>_. 0) second_waits"
proof -
  have "reached (\<lambda>_. 0) (wakeup 1 first_leads)"
    by (rule reached_wakeup [OF first_leads_reached, where u = 0]) (simp_all add: election_defs)
  then have "reached (\<lambda>_. 0) (try_lock 1 300 (wakeup 1 first_leads))"
    by (rule reached_try) (simp_all add: wakeup_def LOWER_BOUND_def UPPER_BOUND_def)
  then show ?thesis
    unfolding second_waits_def
    by (rule reached_step [OF _ elect.check]) (simp_all add: election_defs)
qed

theorem running_lock_never_prolonged_witness:
  "lock_holder first_leads = Some 0 \<and> el_lock (second_waits\<lparr>el_now := el_now second_waits + 5\<rparr>) = Some (0, 600)"
proof -
  have h: "lock_holder second_waits = Some 0" and e: "el_lock second_waits = Some (0, 600)"
    "lock_holder first_leads = Some 0"
    by (simp_all add: election_defs)
  have "elect second_waits (second_waits\<lparr>el_now := el_now second_waits + 5\<rparr>)"
    by (rule elect.tick) simp
  from running_lock_never_prolonged [OF second_waits_reached this h] e show ?thesis by simp
qed

text \<open>C32: Two instances can lead at the same time: a leader sleeps for longer than its lock lives, and nobody
  tells it that another one has taken the lock.\<close>

theorem two_leaders_reachable:
  "reached (\<lambda>_. 0) both_lead \<and> el_leader both_lead 0 \<and> el_leader both_lead 1 \<and> lock_holder both_lead = Some 1"
proof -
  have "reached (\<lambda>_. 0) (second_waits\<lparr>el_now := el_now second_waits + 900\<rparr>)"
    by (rule reached_step [OF second_waits_reached elect.tick]) simp
  then have "reached (\<lambda>_. 0) (wakeup 1 (second_waits\<lparr>el_now := el_now second_waits + 900\<rparr>))"
    by (rule reached_wakeup [where u = 900]) (simp_all add: election_defs)
  then have "reached (\<lambda>_. 0) both_lead"
    unfolding both_lead_def by (rule reached_try) (simp_all add: wakeup_def LOWER_BOUND_def UPPER_BOUND_def)
  then show ?thesis by (simp add: election_defs)
qed

text \<open>When both services let a task that is to run later pass, then workers are expected, or the
  scheduler is available, whatever the type of the task.\<close>

lemma ping_means_runnable:
  assumes "celery_ping nc cs (Some ty) expected sp = None" "aps_ping na ts (Some ty) expected = None" "ty \<noteq> NOW"
  shows "1 \<le> expected \<or> ts = AVAILABLE"
  using assms by (cases ty) (auto simp: celery_ping_def aps_ping_def aps_supported_def split: if_splits)

lemma ping_means_runnable_witness:
  "1 \<le> (2 :: int) \<or> AVAILABLE = NOT_AVAILABLE"
  using ping_means_runnable [of False AVAILABLE CRONTAB 2 None False NOT_AVAILABLE]
  by (simp add: celery_ping_def aps_ping_def)

end
