(* ===== verification/Url_Model.thy ===== *)
theory Url_Model
  imports Helper_Util
begin

text \<open>
  classes/url.py: the rules that filter pages by their JSON-LD data, the parameters a crawl fills into a
  URL, and the comparison of two crawls.  Pydantic coerces the input before the validators run; the
  validators, in their order, are the functions here.  The regular expression engine, the printing of a
  value that is no text and the order in which Python lists a set are parameters.
\<close>

section \<open>Filter rules\<close>

datatype value_type = String_type | Number_type | Boolean_type

datatype mode = Equals | Contains | Regex | Exists | In_list | Gt | Gte | Lt | Lte | Eq | Bt

fun MODE :: "value_type \<Rightarrow> mode list" where
  "MODE String_type = [Equals, Contains, Regex, Exists, In_list]"
| "MODE Boolean_type = [Equals, Exists]"
| "MODE Number_type = [Gt, Gte, Lt, Lte, Eq, Bt]"

datatype rule_value = RV_str string | RV_float rat | RV_bool bool | RV_strs "string list" | RV_pair rat rat | RV_none

record rule =
  ru_field :: string
  ru_type :: value_type
  ru_mode :: mode
  ru_value :: rule_value

definition validate_mode :: "value_type option \<Rightarrow> mode \<Rightarrow> mode result" where
  "validate_mode t v = (case t of None \<Rightarrow> Inl ValueError
     | Some ty \<Rightarrow> if v \<in> set (MODE ty) then Inr v else Inl ValueError)"

text \<open>For a value that is no text the source asks \<open>isinstance(v, List[str])\<close>, which raises.\<close>

fun normalize_value :: "rule_value \<Rightarrow> rule_value result" where
  "normalize_value (RV_str s) = Inr (RV_str (map lower_char s))"
| "normalize_value _ = Inl TypeError"

definition coerce_value :: "rule \<Rightarrow> rule" where
  "coerce_value r = (case ru_value r of
       RV_str s \<Rightarrow> if ru_mode r = Equals \<and> ru_type r = String_type then r\<lparr>ru_value := RV_strs [s]\<rparr> else r
     | _ \<Rightarrow> r)"

fun is_float :: "rule_value \<Rightarrow> bool" where
  "is_float (RV_float _) = True"
| "is_float _ = False"

definition validate_value :: "rule \<Rightarrow> rule result" where
  "validate_value r =
    (if ru_mode r \<in> {Eq, Gt, Gte, Lt, Lte} then
       if is_float (ru_value r) then Inr r else Inl ValueError
     else if ru_mode r = Bt then
       (case ru_value r of RV_pair _ _ \<Rightarrow> Inr r | _ \<Rightarrow> Inl ValueError)
     else if ru_mode r = Exists then Inr (r\<lparr>ru_value := RV_none\<rparr>)
     else if ru_mode r \<in> {Equals, In_list} then
       (if ru_type r = String_type then (case ru_value r of RV_strs _ \<Rightarrow> Inr r | _ \<Rightarrow> Inl ValueError)
        else if ru_type r = Boolean_type then (case ru_value r of RV_bool _ \<Rightarrow> Inr r | _ \<Rightarrow> Inl ValueError)
        else Inr r)
     else (case ru_value r of RV_str _ \<Rightarrow> Inr r | _ \<Rightarrow> Inl ValueError))"

text \<open>
  A rule from its fields: the error of a field validator that is no \<open>ValueError\<close> leaves at once, the
  others are collected; the validators of the model run when every field is valid.
\<close>

definition make_rule :: "string \<Rightarrow> value_type \<Rightarrow> mode \<Rightarrow> rule_value \<Rightarrow> rule result" where
  "make_rule field ty m v =
    rbind (normalize_value v) (\<lambda>v. rbind (validate_mode (Some ty) m) (\<lambda>m.
      validate_value (coerce_value \<lparr>ru_field = field, ru_type = ty, ru_mode = m, ru_value = v\<rparr>)))"

section \<open>Filter groups\<close>

datatype logic = AND | OR

datatype filter_node = Rule rule | Group logic "filter_node list"

text \<open>A missing key and a null are the same None.\<close>

fun get_nested :: "json \<Rightarrow> string list \<Rightarrow> json" where
  "get_nested v [] = v"
| "get_nested (JDict d) (k # ks) = get_nested (case map_of d k of Some x \<Rightarrow> x | None \<Rightarrow> JNull) ks"
| "get_nested _ (k # ks) = JNull"

record py_lib =
  pl_repr :: "json \<Rightarrow> string"
  pl_float :: "string \<Rightarrow> rat option"
  pl_search :: "string \<Rightarrow> string \<Rightarrow> bool result"

definition py_str :: "py_lib \<Rightarrow> json \<Rightarrow> string" where
  "py_str L v = (case v of JStr s \<Rightarrow> s | _ \<Rightarrow> pl_repr L v)"

fun to_float :: "py_lib \<Rightarrow> json \<Rightarrow> rat option" where
  "to_float L (JNum x) = Some x"
| "to_float L (JBool b) = Some (if b then 1 else 0)"
| "to_float L (JStr s) = pl_float L s"
| "to_float L _ = None"

fun truthy :: "json \<Rightarrow> bool" where
  "truthy JNull = False"
| "truthy (JBool b) = b"
| "truthy (JNum x) = (x \<noteq> 0)"
| "truthy (JStr s) = (s \<noteq> [])"
| "truthy (JList xs) = (xs \<noteq> [])"
| "truthy (JDict d) = (d \<noteq> [])"

fun number_of_value :: "rule_value \<Rightarrow> rat option" where
  "number_of_value (RV_float x) = Some x"
| "number_of_value (RV_bool b) = Some (if b then 1 else 0)"
| "number_of_value _ = None"

text \<open>The comparison of a text: \<open>equals\<close> reads the attribute of the group, which has none.\<close>

definition evaluate_text :: "py_lib \<Rightarrow> mode \<Rightarrow> rule_value \<Rightarrow> string \<Rightarrow> bool result" where
  "evaluate_text L m v text =
    (case m of
       Exists \<Rightarrow> Inr True
     | Equals \<Rightarrow> Inl (AttributeError ''value'')
     | Contains \<Rightarrow> (case v of RV_str s \<Rightarrow> Inr (contains_sub s text) | _ \<Rightarrow> Inl TypeError)
     | Regex \<Rightarrow> (case v of RV_str s \<Rightarrow> pl_search L s text | _ \<Rightarrow> Inl TypeError)
     | In_list \<Rightarrow> (case v of RV_strs xs \<Rightarrow> Inr (text \<in> set xs) | RV_str s \<Rightarrow> Inr (contains_sub text s) | _ \<Rightarrow> Inl TypeError)
     | _ \<Rightarrow> Inr False)"

definition evaluate_number :: "mode \<Rightarrow> rule_value \<Rightarrow> rat \<Rightarrow> bool result" where
  "evaluate_number m v num =
    (let compare = (\<lambda>rel. case number_of_value v of Some x \<Rightarrow> Inr (rel num x) | None \<Rightarrow> Inl TypeError) in
     case m of
       Gt \<Rightarrow> compare (\<lambda>a b. a > b)
     | Gte \<Rightarrow> compare (\<lambda>a b. a \<ge> b)
     | Lt \<Rightarrow> compare (\<lambda>a b. a < b)
     | Lte \<Rightarrow> compare (\<lambda>a b. a \<le> b)
     | Eq \<Rightarrow> Inr (number_of_value v = Some num)
     | Bt \<Rightarrow> (case v of RV_pair a b \<Rightarrow> Inr (a \<le> num \<and> num \<le> b) | RV_str [] \<Rightarrow> Inl IndexError | RV_strs [] \<Rightarrow> Inl IndexError
              | _ \<Rightarrow> Inl TypeError)
     | _ \<Rightarrow> Inr False)"

definition evaluate_rule :: "py_lib \<Rightarrow> rule \<Rightarrow> json \<Rightarrow> bool result" where
  "evaluate_rule L r data =
    (let v = get_nested data (py_split ''.'' (ru_field r)) in
     case ru_type r of
       String_type \<Rightarrow> if v = JNull then Inr False
         else evaluate_text L (ru_mode r) (ru_value r) (map lower_char (py_str L v))
     | Number_type \<Rightarrow> (case to_float L v of None \<Rightarrow> Inr False | Some num \<Rightarrow> evaluate_number (ru_mode r) (ru_value r) num)
     | Boolean_type \<Rightarrow>
         (case ru_mode r of
            Exists \<Rightarrow> Inr (v \<noteq> JNull)
          | Equals \<Rightarrow> Inr (number_of_value (ru_value r) = Some (if truthy v then 1 else 0))
          | _ \<Rightarrow> Inr False))"

text \<open>The slice \<open>jsonld[:5]\<close>: a dictionary cannot be sliced.\<close>

fun first_five :: "json \<Rightarrow> json list result" where
  "first_five (JList xs) = Inr (take 5 xs)"
| "first_five (JStr s) = Inr (map (\<lambda>c. JStr [c]) (take 5 s))"
| "first_five _ = Inl TypeError"

definition combine :: "logic \<Rightarrow> bool list \<Rightarrow> bool" where
  "combine op bs = (case op of AND \<Rightarrow> list_all id bs | OR \<Rightarrow> list_ex id bs)"

text \<open>All rules are evaluated, none is skipped; whatever is raised makes the group not match.\<close>

fun node_result :: "py_lib \<Rightarrow> filter_node \<Rightarrow> json \<Rightarrow> bool result"
  and match_one :: "py_lib \<Rightarrow> logic \<Rightarrow> filter_node list \<Rightarrow> json \<Rightarrow> bool list \<Rightarrow> bool" where
  "node_result L (Rule r) data = evaluate_rule L r data"
| "node_result L (Group op rules) data =
    rbind (first_five data) (\<lambda>docs. Inr (list_ex id (map (\<lambda>d. match_one L op rules d []) docs)))"
| "match_one L op [] data acc = combine op (rev acc)"
| "match_one L op (n # ns) data acc = (case node_result L n data of Inl _ \<Rightarrow> False | Inr b \<Rightarrow> match_one L op ns data (b # acc))"

definition match_group :: "py_lib \<Rightarrow> logic \<Rightarrow> filter_node list \<Rightarrow> json list \<Rightarrow> bool" where
  "match_group L op rules jsonld = list_ex (\<lambda>d. match_one L op rules d []) (take 5 jsonld)"

text \<open>
  \<open>extract_jsonld\<close>: texts that are no JSON are skipped; a graph is expanded by \<open>extend\<close>, outside of the
  \<open>try\<close>, so a graph that is a number, a truth value or null raises, and a dictionary gives its keys.
\<close>

fun extend_with :: "json \<Rightarrow> json list result" where
  "extend_with (JList xs) = Inr xs"
| "extend_with (JDict d) = Inr (map (\<lambda>(k, _). JStr k) d)"
| "extend_with (JStr s) = Inr (map (\<lambda>c. JStr [c]) s)"
| "extend_with _ = Inl TypeError"

definition extract_jsonld :: "(string \<Rightarrow> string list) \<Rightarrow> (string \<Rightarrow> json option) \<Rightarrow> string \<Rightarrow> json list result" where
  "extract_jsonld findall loads html =
    rfold (\<lambda>text results. case loads text of
        None \<Rightarrow> Inr results
      | Some (JDict d) \<Rightarrow> (case map_of d ''@graph'' of
            Some g \<Rightarrow> rbind (extend_with g) (\<lambda>xs. Inr (results @ xs))
          | None \<Rightarrow> Inr (results @ [JDict d]))
      | Some (JList xs) \<Rightarrow> Inr (results @ xs)
      | Some v \<Rightarrow> Inr (results @ [v])) (findall html) []"

section \<open>Parameters of a URL\<close>

datatype pval = PS string | PI int | PB bool

datatype pvalues = VList "pval list" | VTuple int int int

datatype param_type = List_type | Range_type

datatype url_param = URLParam (up_values: pvalues) (up_type: param_type) (up_exclude: "url_param option")

text \<open>\<open>list(set(xs))\<close>: equal values are kept once (True equals 1), in an order that is a parameter.\<close>

fun pkey :: "pval \<Rightarrow> string + int" where
  "pkey (PS s) = Inl s"
| "pkey (PI i) = Inr i"
| "pkey (PB b) = Inr (if b then 1 else 0)"

fun dedupe :: "('a \<Rightarrow> 'b) \<Rightarrow> 'a list \<Rightarrow> 'b list \<Rightarrow> 'a list" where
  "dedupe f [] seen = []"
| "dedupe f (x # xs) seen = (if f x \<in> set seen then dedupe f xs seen else x # dedupe f xs (f x # seen))"

type_synonym arrange = "pval list \<Rightarrow> pval list"

definition check_range_or_list :: "arrange \<Rightarrow> url_param \<Rightarrow> url_param result" where
  "check_range_or_list arr p =
    (case up_values p of
       VTuple s k e \<Rightarrow>
         (case up_type p of
            List_type \<Rightarrow> Inr (URLParam (VList [PI s, PI k, PI e]) List_type (up_exclude p))
          | Range_type \<Rightarrow> if s > e then Inl ValueError else if k = 0 then Inl ValueError else Inr p)
     | VList vs \<Rightarrow>
         if up_type p = Range_type then Inl ValueError
         else Inr (URLParam (VList (arr (dedupe pkey vs []))) (up_type p) (up_exclude p)))"

text \<open>
  \<open>validate_exclude\<close>: the excluded parameter was validated itself, so it is a range when its type says so;
  its own exclusion is dropped.
\<close>

definition check_exclude :: "url_param \<Rightarrow> url_param result" where
  "check_exclude p =
    (case up_exclude p of
       None \<Rightarrow> Inr p
     | Some x \<Rightarrow>
         if up_type p = List_type \<or> up_type x = List_type then Inr (URLParam (up_values p) (up_type p) None)
         else (case (up_values p, up_values x) of
             (VTuple s k e, VTuple s2 k2 e2) \<Rightarrow>
               if s > s2 then Inl ValueError
               else if e < e2 then Inl ValueError
               else if k > k2 then Inl ValueError
               else Inr (URLParam (up_values p) (up_type p) (Some (URLParam (up_values x) (up_type x) None)))
           | _ \<Rightarrow> Inl TypeError))"

definition make_param :: "arrange \<Rightarrow> pvalues \<Rightarrow> param_type \<Rightarrow> url_param option \<Rightarrow> url_param result" where
  "make_param arr vs ty ex = rbind (check_range_or_list arr (URLParam vs ty ex)) check_exclude"

text \<open>The parameters that can be constructed.\<close>

inductive built_param :: "arrange \<Rightarrow> url_param \<Rightarrow> bool" where
  "make_param arr vs ty None = Inr p \<Longrightarrow> built_param arr p"
| "built_param arr x \<Longrightarrow> make_param arr vs ty (Some x) = Inr p \<Longrightarrow> built_param arr p"

section \<open>Ranges\<close>

text \<open>Python's \<open>range\<close>, which refuses a step of zero.\<close>

definition range_list :: "int \<Rightarrow> int \<Rightarrow> int \<Rightarrow> int list" where
  "range_list s e k =
    (if k > 0 then map (\<lambda>i. s + int i * k) [0..<nat ((e - s + k - 1) div k)]
     else map (\<lambda>i. s + int i * k) [0..<nat ((s - e - k - 1) div (- k))])"

definition py_range :: "int \<Rightarrow> int \<Rightarrow> int \<Rightarrow> int list result" where
  "py_range s e k = (if k = 0 then Inl ValueError else Inr (range_list s e k))"

definition in_stepped :: "int \<Rightarrow> int \<Rightarrow> int \<Rightarrow> int \<Rightarrow> bool result" where
  "in_stepped s2 k2 e2 x =
    (if (if k2 > 0 then s2 \<le> x \<and> x < e2 else e2 < x \<and> x \<le> s2)
     then if k2 = 0 then Inl ZeroDivisionError else Inr ((x - s2) mod k2 = 0)
     else Inr False)"

definition subtract_stepped_ranges :: "url_param \<Rightarrow> url_param \<Rightarrow> int list result" where
  "subtract_stepped_ranges p x =
    (if up_type p = List_type \<or> up_type x = List_type then Inr []
     else (case (up_values p, up_values x) of
         (VTuple s k e, VTuple s2 k2 e2) \<Rightarrow>
           rbind (py_range s e k) (\<lambda>xs. rfold (\<lambda>i v. rbind (in_stepped s2 k2 e2 i) (\<lambda>b. Inr (if b then v else v @ [i]))) xs [])
       | _ \<Rightarrow> Inl TypeError))"

definition process_values :: "url_param \<Rightarrow> pval list result" where
  "process_values p =
    (case up_values p of
       VTuple s k e \<Rightarrow>
         (case up_exclude p of
            Some x \<Rightarrow> rbind (subtract_stepped_ranges p x) (\<lambda>v. Inr (map PI v))
          | None \<Rightarrow> rbind (py_range s (e + 1) k) (\<lambda>v. Inr (map PI v)))
     | VList vs \<Rightarrow> Inr vs)"

section \<open>The generated URLs\<close>

record url_config =
  uc_base_url :: string
  uc_path_params :: "(string, url_param) dict"
  uc_query_params :: "(string, url_param) dict"

text \<open>
  The validator of the path parameters calls \<open>values.get\<close> on the information object pydantic hands it,
  which has no such attribute; it runs when path parameters are given, and not for the default.
\<close>

definition make_config :: "string \<Rightarrow> (string, url_param) dict option \<Rightarrow> (string, url_param) dict \<Rightarrow> url_config result" where
  "make_config base path query =
    (case path of
       Some _ \<Rightarrow> Inl (AttributeError ''get'')
     | None \<Rightarrow> Inr \<lparr>uc_base_url = base, uc_path_params = [], uc_query_params = query\<rparr>)"

fun pval_str :: "pval \<Rightarrow> string" where
  "pval_str (PS s) = s"
| "pval_str (PI i) = int_str i"
| "pval_str (PB b) = (if b then ''True'' else ''False'')"

fun intercalate :: "string \<Rightarrow> string list \<Rightarrow> string" where
  "intercalate sep [] = []"
| "intercalate sep [s] = s"
| "intercalate sep (s # ss) = s @ sep @ intercalate sep ss"

definition py_replace :: "string \<Rightarrow> string \<Rightarrow> string \<Rightarrow> string" where
  "py_replace old new s = intercalate new (py_split old s)"

definition placeholder :: "string \<Rightarrow> string" where
  "placeholder key = ''{{'' @ key @ ''}}''"

definition fill_path :: "(string \<times> pval) list \<Rightarrow> string \<Rightarrow> string" where
  "fill_path kvs base = fold (\<lambda>(k, v) url. py_replace (placeholder k) (pval_str v) url) kvs base"

definition values_truthy :: "url_param \<Rightarrow> bool" where
  "values_truthy p = (case up_values p of VTuple _ _ _ \<Rightarrow> True | VList vs \<Rightarrow> vs \<noteq> [])"

text \<open>
  \<open>generate_urls\<close>: for a query parameter with values \<open>process_values()\<close> is called without its argument,
  so what is left of the loop over queries is the one URL without a query.
\<close>

definition generate_urls :: "url_config \<Rightarrow> string list result" where
  "generate_urls c =
    rbind (rmap (\<lambda>(k, v). rbind (process_values v) (\<lambda>vs. Inr (k, vs))) (uc_path_params c)) (\<lambda>path_values.
      if list_ex (\<lambda>(k, v). values_truthy v) (uc_query_params c) then Inl TypeError
      else Inr (map (\<lambda>combo. fill_path (zip (map fst path_values) combo) (uc_base_url c))
        (product_lists (map snd path_values))))"

section \<open>Comparing two crawls\<close>

definition compare_url :: "(string list \<Rightarrow> string list) \<Rightarrow> string list \<Rightarrow> string list \<Rightarrow> bool \<times> string list" where
  "compare_url arr ptr v =
    (let urls = arr (filter (\<lambda>u. u \<notin> set v) (dedupe id ptr [])) in if urls = [] then (True, ptr) else (False, urls))"

record other_param =
  ov_type :: param_type
  ov_values :: "pval list"
  ov_keys :: "string list"

fun as_triple :: "pval list \<Rightarrow> (int \<times> int \<times> int) option" where
  "as_triple [PI a, PI b, PI c] = Some (a, b, c)"
| "as_triple _ = None"

text \<open>
  One key: what it becomes, or None when it is removed.  For lists the source subtracts the dictionary
  \<open>value_values\<close>, that is its keys, and not its values.
\<close>

definition compare_one :: "arrange \<Rightarrow> url_param \<Rightarrow> other_param \<Rightarrow> url_param option" where
  "compare_one arr p ov =
    (case (up_values p, ov_type ov) of
       (VList vs, List_type) \<Rightarrow>
         (let diff = arr (filter (\<lambda>v. pkey v \<notin> Inl ` set (ov_keys ov)) (dedupe pkey vs [])) in
          if diff = [] then None else Some (URLParam (VList diff) (up_type p) (up_exclude p)))
     | (VTuple s k e, Range_type) \<Rightarrow>
         (if as_triple (ov_values ov) = Some (s, k, e) then None
          else (case as_triple (ov_values ov) of
              None \<Rightarrow> None
            | Some (s2, k2, e2) \<Rightarrow>
                (case rbind (make_param arr (VTuple s2 k2 e2) Range_type None)
                     (\<lambda>v. make_param arr (VTuple s k e) Range_type (Some v)) of
                   Inl _ \<Rightarrow> None | Inr temp \<Rightarrow> Some temp)))
     | _ \<Rightarrow> None)"

definition compare_param :: "arrange \<Rightarrow> (string, url_param) dict \<Rightarrow> (string, other_param) dict \<Rightarrow> bool \<times> (string, url_param) dict" where
  "compare_param arr ptr v =
    (let rest = List.map_filter (\<lambda>(k, p). case map_of v k of
          None \<Rightarrow> Some (k, p)
        | Some ov \<Rightarrow> map_option (Pair k) (compare_one arr p ov)) ptr
     in (length rest = 0, rest))"

section \<open>Ranges as sets\<close>

lemma range_index: "k > 0 \<Longrightarrow> i < nat ((d + k - 1) div k) \<longleftrightarrow> int i * k < d" for d k :: int
  using le_div_iff [of k "int i + 1" "d + k - 1"] by (auto simp: algebra_simps)

text \<open>The numbers \<open>d\<close> below a bound that are a multiple of the step are those the index runs over.\<close>

lemma range_multiples:
  fixes y d k :: int
  assumes "k > 0"
  shows "(\<exists>i < nat ((d + k - 1) div k). y = int i * k) \<longleftrightarrow> 0 \<le> y \<and> y < d \<and> k dvd y"
proof
  assume "\<exists>i < nat ((d + k - 1) div k). y = int i * k"
  then show "0 \<le> y \<and> y < d \<and> k dvd y" using assms by (auto simp: range_index)
next
  assume y: "0 \<le> y \<and> y < d \<and> k dvd y"
  then obtain m where m: "y = m * k" by (metis dvd_div_mult_self)
  then have "m \<ge> 0" using y assms by (simp add: zero_le_mult_iff)
  then show "\<exists>i < nat ((d + k - 1) div k). y = int i * k"
    using y m range_index [OF assms, of "nat m" d] by (intro exI [of _ "nat m"]) simp
qed

lemma set_range_list:
  assumes "k \<noteq> 0"
  shows "x \<in> set (range_list s e k) \<longleftrightarrow> (if k > 0 then s \<le> x \<and> x < e else e < x \<and> x \<le> s) \<and> k dvd x - s"
proof (cases "k > 0")
  case True
  have "x \<in> set (range_list s e k) \<longleftrightarrow> (\<exists>i < nat ((e - s + k - 1) div k). x - s = int i * k)"
    using True by (simp add: range_list_def image_iff Bex_def diff_eq_eq add.commute)
  also have "\<dots> \<longleftrightarrow> 0 \<le> x - s \<and> x - s < e - s \<and> k dvd x - s"
    by (rule range_multiples [OF True])
  finally show ?thesis using True by auto
next
  case False
  then have k: "- k > 0" using assms by simp
  have "x \<in> set (range_list s e k) \<longleftrightarrow> (\<exists>i < nat ((s - e + - k - 1) div - k). s - x = int i * - k)"
    using False by (simp add: range_list_def image_iff Bex_def) (simp add: algebra_simps eq_commute)
  also have "\<dots> \<longleftrightarrow> 0 \<le> s - x \<and> s - x < s - e \<and> - k dvd s - x"
    by (rule range_multiples [OF k])
  finally show ?thesis using False by (auto simp: dvd_diff_commute)
qed

lemma in_stepped_range: "k2 \<noteq> 0 \<Longrightarrow> in_stepped s2 k2 e2 x = Inr (x \<in> set (range_list s2 e2 k2))"
  by (auto simp: in_stepped_def set_range_list dvd_eq_mod_eq_0)

lemma rfold_select:
  "rfold (\<lambda>i v. rbind (Inr (P i)) (\<lambda>b. Inr (if b then v else v @ [i]))) xs acc = Inr (acc @ filter (\<lambda>i. \<not> P i) xs)"
  by (induction xs arbitrary: acc) simp_all

lemma subtract_ranges:
  assumes "k \<noteq> 0" "k2 \<noteq> 0"
  shows "subtract_stepped_ranges (URLParam (VTuple s k e) Range_type y) (URLParam (VTuple s2 k2 e2) Range_type z)
    = Inr (filter (\<lambda>i. i \<notin> set (range_list s2 e2 k2)) (range_list s e k))"
  using assms rfold_select [of "\<lambda>i. i \<in> set (range_list s2 e2 k2)" "range_list s e k" "[]"]
  by (simp add: subtract_stepped_ranges_def py_range_def in_stepped_range)

lemma not_list_type [simp]: "ty \<noteq> List_type \<longleftrightarrow> ty = Range_type"
  by (cases ty) simp_all

text \<open>What the validators leave of a parameter whose values are a range.\<close>

lemma make_param_range:
  assumes "make_param arr vs ty ex = Inr p" "up_values p = VTuple s k e"
  shows "s \<le> e \<and> k \<noteq> 0 \<and> up_type p = Range_type \<and>
    (up_exclude p = None \<or> (\<exists>s2 k2 e2. up_exclude p = Some (URLParam (VTuple s2 k2 e2) Range_type None)
       \<and> (\<exists>x. ex = Some x \<and> up_type x = Range_type \<and> up_values x = VTuple s2 k2 e2)
       \<and> s \<le> s2 \<and> e2 \<le> e \<and> k \<le> k2))"
  using assms
  by (auto simp: make_param_def check_range_or_list_def check_exclude_def
      split: pvalues.splits param_type.splits option.splits if_splits)

lemma built_param_range:
  assumes "built_param arr p" "up_values p = VTuple s k e"
  shows "s \<le> e \<and> k \<noteq> 0 \<and> up_type p = Range_type \<and>
    (up_exclude p = None \<or> (\<exists>s2 k2 e2. up_exclude p = Some (URLParam (VTuple s2 k2 e2) Range_type None)
       \<and> s \<le> s2 \<and> e2 \<le> e \<and> k \<le> k2 \<and> k2 \<noteq> 0))"
  using assms
proof (induction arbitrary: s k e rule: built_param.induct)
  case (1 arr vs ty p)
  then show ?case using make_param_range [OF 1] by auto
next
  case (2 arr x vs ty p)
  then show ?case using make_param_range [OF 2(2,4)] 2(3) by blast
qed

text \<open>C30: The numbers a range with an exclusion gives are exactly those of Python's range from its start, by its
  step, below its end, without those of the excluded range: the arithmetic test of the source is the
  membership in that range, for steps of either sign.\<close>

theorem exclusion_is_set_difference:
  assumes "built_param arr p" "up_values p = VTuple s k e" "up_exclude p = Some x"
  shows "\<exists>s2 k2 e2. up_values x = VTuple s2 k2 e2 \<and> process_values p =
    rbind (py_range s e k) (\<lambda>xs. rbind (py_range s2 e2 k2) (\<lambda>ys. Inr (map PI (filter (\<lambda>i. i \<notin> set ys) xs))))"
proof -
  obtain s2 k2 e2 where x: "x = URLParam (VTuple s2 k2 e2) Range_type None" "k2 \<noteq> 0" "k \<noteq> 0" "up_type p = Range_type"
    using built_param_range [OF assms(1,2)] assms(3) by auto
  then have "p = URLParam (VTuple s k e) Range_type (Some x)"
    using assms by (cases p) simp
  then show ?thesis
    using x subtract_ranges [OF x(3,2), of s e "Some x" s2 e2 None] by (simp add: process_values_def py_range_def)
qed

theorem exclusion_is_set_difference_witness:
  "process_values (URLParam (VTuple 1 2 10) Range_type (Some (URLParam (VTuple 3 4 8) Range_type None)))
    = Inr (map PI [1, 5, 9])"
proof -
  have "built_param id (URLParam (VTuple 3 4 8) Range_type None)"
    by (rule built_param.intros(1) [of _ "VTuple 3 4 8" Range_type]) (simp add: make_param_def check_range_or_list_def check_exclude_def)
  then have "built_param id (URLParam (VTuple 1 2 10) Range_type (Some (URLParam (VTuple 3 4 8) Range_type None)))"
    by (rule built_param.intros(2) [of _ _ "VTuple 1 2 10" Range_type]) (simp add: make_param_def check_range_or_list_def check_exclude_def)
  from exclusion_is_set_difference [OF this, of 1 2 10 "URLParam (VTuple 3 4 8) Range_type None"]
  have "process_values (URLParam (VTuple 1 2 10) Range_type (Some (URLParam (VTuple 3 4 8) Range_type None)))
      = Inr (map PI (filter (\<lambda>i. i \<notin> set (range_list 3 8 4)) (range_list 1 10 2)))"
    by (simp add: py_range_def)
  then show ?thesis by (simp add: range_list_def upt_conv_Cons)
qed

text \<open>Filling a range that was accepted never raises, and every number it gives lies between the start and
  the end.  The end itself, included for a plain range, is lost as soon as something is excluded, and a
  range with a negative step is accepted but gives nothing.\<close>

theorem built_range_values:
  assumes "built_param arr p" "up_values p = VTuple s k e"
  shows "\<exists>xs. process_values p = Inr (map PI xs) \<and> list_all (\<lambda>i. s \<le> i \<and> i \<le> e) xs
    \<and> (k dvd e - s \<and> k > 0 \<longrightarrow> (e \<in> set xs \<longleftrightarrow> up_exclude p = None)) \<and> (k < 0 \<longrightarrow> xs = [])"
proof -
  have p: "s \<le> e" "k \<noteq> 0" "up_type p = Range_type"
    using built_param_range [OF assms] by auto
  have empty: "range_list s e' k = []" if "k < 0" "e' = e \<or> e' = e + 1" for e'
    using that p set_range_list [of k _ s e'] by (cases "range_list s e' k") force+
  show ?thesis
  proof (cases "up_exclude p")
    case None
    then have "process_values p = Inr (map PI (range_list s (e + 1) k))"
      using assms(2) p by (simp add: process_values_def py_range_def)
    then show ?thesis
      using None p empty [of "e + 1"]
      by (intro exI [of _ "range_list s (e + 1) k"]) (auto simp: list_all_iff set_range_list split: if_splits)
  next
    case (Some x)
    obtain s2 k2 e2 where x: "x = URLParam (VTuple s2 k2 e2) Range_type None" "k2 \<noteq> 0"
      using built_param_range [OF assms] Some by auto
    have "p = URLParam (VTuple s k e) Range_type (Some x)"
      using assms(2) p Some by (cases p) simp
    then have "process_values p = Inr (map PI (filter (\<lambda>i. i \<notin> set (range_list s2 e2 k2)) (range_list s e k)))"
      using subtract_ranges [OF p(2) x(2), of s e "Some x" s2 e2 None] x by (simp add: process_values_def)
    then show ?thesis
      using Some p empty [of e]
      by (intro exI [of _ "filter (\<lambda>i. i \<notin> set (range_list s2 e2 k2)) (range_list s e k)"])
        (auto simp: list_all_iff set_range_list split: if_splits)
  qed
qed

theorem built_range_values_witness:
  "\<exists>xs. process_values (URLParam (VTuple 1 (-1) 9) Range_type None) = Inr (map PI xs) \<and> xs = []"
proof -
  have "built_param id (URLParam (VTuple 1 (-1) 9) Range_type None)"
    by (rule built_param.intros(1) [of _ "VTuple 1 (-1) 9" Range_type]) (simp add: make_param_def check_range_or_list_def check_exclude_def)
  from built_range_values [OF this, of 1 "-1" 9] show ?thesis by auto
qed

section \<open>The rules that can be built\<close>

fun value_fits :: "mode \<Rightarrow> value_type \<Rightarrow> rule_value \<Rightarrow> bool" where
  "value_fits Bt ty v = (case v of RV_pair _ _ \<Rightarrow> True | _ \<Rightarrow> False)"
| "value_fits Exists ty v = (v = RV_none)"
| "value_fits Contains ty v = (case v of RV_str _ \<Rightarrow> True | _ \<Rightarrow> False)"
| "value_fits Regex ty v = (case v of RV_str _ \<Rightarrow> True | _ \<Rightarrow> False)"
| "value_fits Equals ty v = (case v of RV_strs _ \<Rightarrow> ty = String_type | RV_bool _ \<Rightarrow> ty = Boolean_type | _ \<Rightarrow> False)"
| "value_fits In_list ty v = (case v of RV_strs _ \<Rightarrow> ty = String_type | RV_bool _ \<Rightarrow> ty = Boolean_type | _ \<Rightarrow> False)"
| "value_fits _ ty v = is_float v"

lemma make_rule_text:
  "make_rule f t m (RV_str s) =
    (if t = String_type \<and> m = Equals then Inr \<lparr>ru_field = f, ru_type = t, ru_mode = m, ru_value = RV_strs [map lower_char s]\<rparr>
     else if t = String_type \<and> m \<in> {Contains, Regex} then Inr \<lparr>ru_field = f, ru_type = t, ru_mode = m, ru_value = RV_str (map lower_char s)\<rparr>
     else if t \<noteq> Number_type \<and> m = Exists then Inr \<lparr>ru_field = f, ru_type = t, ru_mode = m, ru_value = RV_none\<rparr>
     else Inl ValueError)"
  by (cases t; cases m) (simp_all add: make_rule_def validate_mode_def coerce_value_def validate_value_def)

lemma make_rule_other: "\<not> (\<exists>s. v = RV_str s) \<Longrightarrow> make_rule f t m v = Inl TypeError"
  by (cases v) (simp_all add: make_rule_def)

text \<open>C35: A filter rule is accepted exactly when its value was given as a text and it is an equality of texts, a search in
  a text, or the existence of a text or of a truth value: the rule then has the field, type and comparison it was given,
  with the text in small letters, alone in a list for an equality, and no value for an existence.  Every accepted rule
  has a comparison of its type and a value that fits it.  All else is refused: every rule on numbers, equalities of truth
  values, alternatives in a list, and every value that is no text.\<close>

theorem accepted_rules:
  "(make_rule f t m v = Inr r \<longleftrightarrow> ru_field r = f \<and> ru_type r = t \<and> ru_mode r = m \<and> (\<exists>s. v = RV_str s
      \<and> (t = String_type \<and> m = Equals \<and> ru_value r = RV_strs [map lower_char s]
         \<or> t = String_type \<and> m \<in> {Contains, Regex} \<and> ru_value r = RV_str (map lower_char s)
         \<or> t \<noteq> Number_type \<and> m = Exists \<and> ru_value r = RV_none)))
    \<and> (make_rule f t m v = Inr r \<longrightarrow> m \<in> set (MODE t) \<and> value_fits m t (ru_value r))"
proof (cases "\<exists>s. v = RV_str s")
  case True
  then obtain s where "v = RV_str s" by blast
  then show ?thesis by (cases r; cases t; cases m) (auto simp: make_rule_text)
next
  case False
  then show ?thesis using make_rule_other [of v f t m] by auto
qed

theorem accepted_rules_witness:
  "make_rule ''name'' String_type Equals (RV_str ''Shoe'')
      = Inr \<lparr>ru_field = ''name'', ru_type = String_type, ru_mode = Equals, ru_value = RV_strs [map lower_char ''Shoe'']\<rparr>
    \<and> value_fits Equals String_type (RV_strs [map lower_char ''Shoe''])"
  using accepted_rules [of "''name''" String_type Equals "RV_str ''Shoe''"
      "\<lparr>ru_field = ''name'', ru_type = String_type, ru_mode = Equals, ru_value = RV_strs [map lower_char ''Shoe'']\<rparr>"] by auto

section \<open>What a group matches\<close>

text \<open>The rules whose evaluation cannot raise, and what they ask.\<close>

definition plain_rule :: "py_lib \<Rightarrow> rule \<Rightarrow> bool" where
  "plain_rule L r \<longleftrightarrow> ru_mode r = Exists \<and> ru_type r \<noteq> Number_type
    \<or> ru_type r = String_type \<and> ru_mode r = Contains \<and> (\<exists>s. ru_value r = RV_str s)"

definition asks :: "py_lib \<Rightarrow> rule \<Rightarrow> json \<Rightarrow> bool" where
  "asks L r d = (let v = get_nested d (py_split ''.'' (ru_field r)) in v \<noteq> JNull \<and>
     (ru_mode r = Contains \<longrightarrow> (case ru_value r of RV_str s \<Rightarrow> contains_sub s (map lower_char (py_str L v)) | _ \<Rightarrow> False)))"

lemma evaluate_plain: "plain_rule L r \<Longrightarrow> evaluate_rule L r d = Inr (asks L r d)"
  by (cases "ru_type r") (auto simp: plain_rule_def evaluate_rule_def evaluate_text_def asks_def Let_def)

lemma match_plain:
  "list_all (plain_rule L) rs \<Longrightarrow> match_one L op (map Rule rs) d acc = combine op (rev acc @ map (\<lambda>r. asks L r d) rs)"
  by (induction rs arbitrary: acc) (simp_all add: evaluate_plain)

lemma match_raises:
  assumes "n \<in> set ns" "node_result L n d = Inl e"
  shows "\<not> match_one L op ns d acc"
  using assms(1)
proof (induction ns arbitrary: acc)
  case (Cons m ns)
  then show ?case
    using assms(2) by (cases "node_result L m d") auto
qed simp

text \<open>A group of rules that ask for presence or for a part of a text matches exactly when one of the first
  five documents satisfies all (or one) of them.\<close>

theorem plain_group_matches:
  assumes "list_all (plain_rule L) rs"
  shows "match_group L op (map Rule rs) docs \<longleftrightarrow>
    list_ex (\<lambda>d. (op = AND \<and> list_all (\<lambda>r. asks L r d) rs) \<or> (op = OR \<and> list_ex (\<lambda>r. asks L r d) rs)) (take 5 docs)"
proof -
  have "combine op (map (\<lambda>r. asks L r d) rs) \<longleftrightarrow>
      (op = AND \<and> list_all (\<lambda>r. asks L r d) rs) \<or> (op = OR \<and> list_ex (\<lambda>r. asks L r d) rs)" for d
    by (cases op) (simp_all add: combine_def list_all_iff list_ex_iff)
  then show ?thesis
    using match_plain [OF assms, where acc = "[]"] by (simp add: match_group_def)
qed

theorem plain_group_matches_witness:
  "match_group \<lparr>pl_repr = \<lambda>_. [], pl_float = \<lambda>_. None, pl_search = \<lambda>_ _. Inr False\<rparr> AND
    (map Rule [\<lparr>ru_field = ''name'', ru_type = String_type, ru_mode = Contains, ru_value = RV_str ''ho''\<rparr>])
    [JDict [(''name'', JStr ''shoe'')]]"
  by (subst plain_group_matches)
    (simp_all add: plain_rule_def asks_def py_split_def py_str_def lower_char_def Let_def)

text \<open>A group that holds another group matches no document that is an object, whatever the other rules say;
  and neither does a group with a rule of equality on a text that the document has.\<close>

theorem dead_groups:
  assumes "list_all (\<lambda>d. \<exists>kvs. d = JDict kvs) docs"
    and "(\<exists>op' ns. Group op' ns \<in> set rules)
      \<or> (\<exists>r. Rule r \<in> set rules \<and> ru_type r = String_type \<and> ru_mode r = Equals
           \<and> list_all (\<lambda>d. get_nested d (py_split ''.'' (ru_field r)) \<noteq> JNull) docs)"
  shows "\<not> match_group L op rules docs"
proof -
  have "\<not> match_one L op rules d []" if d: "d \<in> set (take 5 docs)" for d
  proof -
    have "d \<in> set docs" using d by (rule in_set_takeD)
    then obtain kvs where kvs: "d = JDict kvs" using assms(1) by (auto simp: list_all_iff)
    obtain n e where "n \<in> set rules" "node_result L n d = Inl e"
      using assms(2)
    proof (elim disjE exE conjE)
      fix op' ns assume "Group op' ns \<in> set rules"
      moreover have "node_result L (Group op' ns) d = Inl TypeError" by (simp add: kvs)
      ultimately show thesis by (rule that)
    next
      fix r assume r: "Rule r \<in> set rules" "ru_type r = String_type" "ru_mode r = Equals"
        "list_all (\<lambda>d. get_nested d (py_split ''.'' (ru_field r)) \<noteq> JNull) docs"
      then have "node_result L (Rule r) d = Inl (AttributeError ''value'')"
        using \<open>d \<in> set docs\<close> by (simp add: evaluate_rule_def evaluate_text_def list_all_iff)
      then show thesis by (rule that [OF r(1)])
    qed
    then show ?thesis by (rule match_raises)
  qed
  then show ?thesis by (auto simp: match_group_def list_ex_iff)
qed

theorem dead_groups_witness:
  "\<not> match_group \<lparr>pl_repr = \<lambda>_. [], pl_float = \<lambda>_. None, pl_search = \<lambda>_ _. Inr False\<rparr> OR
    [Rule \<lparr>ru_field = ''name'', ru_type = String_type, ru_mode = Exists, ru_value = RV_none\<rparr>, Group AND []]
    [JDict [(''name'', JStr ''shoe'')]]"
  by (rule dead_groups) simp_all

section \<open>What is generated and compared\<close>

text \<open>Filling the placeholders gives one URL for each choice of the path values.\<close>

lemma generate_urls_count:
  assumes "rmap (\<lambda>(k, v). rbind (process_values v) (\<lambda>vs. Inr (k, vs))) (uc_path_params c) = Inr path_values"
    and "\<not> list_ex (\<lambda>(k, v). values_truthy v) (uc_query_params c)"
  shows "\<exists>urls. generate_urls c = Inr urls \<and> length urls = prod_list (map (length \<circ> snd) path_values)"
  using assms by (simp add: generate_urls_def length_product_lists)
    (simp add: foldr_map prod_list.eq_foldr comp_def)

text \<open>Cx: No URL is ever built from a parameter: a configuration with path parameters is refused by an
  \<open>AttributeError\<close>, one with a query parameter that has values raises when the URLs are generated,
  and what is left gives the base URL alone.\<close>

theorem no_url_from_parameters:
  "rbind (make_config base path query) generate_urls =
    (if path \<noteq> None then Inl (AttributeError ''get'')
     else if list_ex (\<lambda>(k, v). values_truthy v) query then Inl TypeError else Inr [base])"
  by (cases path) (simp_all add: make_config_def generate_urls_def fill_path_def)

lemma compare_url_covered:
  assumes "\<And>xs. set (arr xs) = set xs"
  shows "fst (compare_url arr ptr v) \<longleftrightarrow> set ptr \<subseteq> set v"
proof -
  have "set (dedupe id ptr seen) = set ptr - set seen" for seen :: "string list"
    by (induction ptr arbitrary: seen) auto
  then have "set (arr (filter (\<lambda>u. u \<notin> set v) (dedupe id ptr []))) = set ptr - set v"
    using assms by auto
  then have "arr (filter (\<lambda>u. u \<notin> set v) (dedupe id ptr [])) = [] \<longleftrightarrow> set ptr \<subseteq> set v"
    by (metis Diff_eq_empty_iff set_empty2)
  then show ?thesis by (simp add: compare_url_def Let_def)
qed

lemma pkey_dedupe: "pkey ` set (dedupe pkey vs seen) = pkey ` set vs - set seen"
  by (induction vs arbitrary: seen) auto

text \<open>A crawl is never found to be covered by one with the same list of values: the values are compared with
  the names of the fields of the other parameter.\<close>

theorem same_list_not_covered:
  assumes "\<And>xs. set (arr xs) = set xs" "map_of ptr key = Some (URLParam (VList vs) List_type x)"
    and "map_of other key = Some \<lparr>ov_type = List_type, ov_values = vs, ov_keys = [''values'', ''type'', ''exclude'']\<rparr>"
    and "list_ex (\<lambda>v. pkey v \<notin> Inl ` {''values'', ''type'', ''exclude''}) vs"
  shows "\<not> fst (compare_param arr ptr other)"
proof -
  let ?ov = "\<lparr>ov_type = List_type, ov_values = vs, ov_keys = [''values'', ''type'', ''exclude'']\<rparr>"
  let ?diff = "filter (\<lambda>v. pkey v \<notin> Inl ` set (ov_keys ?ov)) (dedupe pkey vs [])"
  obtain v where v: "v \<in> set vs" "pkey v \<notin> Inl ` {''values'', ''type'', ''exclude''}"
    using assms(4) by (auto simp: list_ex_iff)
  then obtain w where "w \<in> set (dedupe pkey vs [])" "pkey w = pkey v"
    using pkey_dedupe [of vs "[]"] by (metis Diff_empty empty_set image_iff)
  then have "?diff \<noteq> []" using v by (fastforce simp: filter_empty_conv)
  then have "arr ?diff \<noteq> []" using assms(1) by (metis set_empty2)
  then have "compare_one arr (URLParam (VList vs) List_type x) ?ov \<noteq> None"
    unfolding compare_one_def by (simp only: Let_def url_param.sel pvalues.case other_param.select_convs param_type.case prod.case) simp
  then obtain q where q: "compare_one arr (URLParam (VList vs) List_type x) ?ov = Some q" by auto
  have "(key, URLParam (VList vs) List_type x) \<in> set ptr" using assms(2) by (rule map_of_SomeD)
  then have "(key, q) \<in> set (snd (compare_param arr ptr other))"
    using assms(3) q by (force simp: compare_param_def Let_def List.map_filter_def)
  then show ?thesis
    by (auto simp: compare_param_def Let_def)
qed

theorem same_list_not_covered_witness:
  "\<not> fst (compare_param id [(''size'', URLParam (VList [PI 10, PI 20]) List_type None)]
    [(''size'', \<lparr>ov_type = List_type, ov_values = [PI 10, PI 20], ov_keys = [''values'', ''type'', ''exclude'']\<rparr>)])"
  by (rule same_list_not_covered [where key = "''size''" and vs = "[PI 10, PI 20]" and x = None]) (simp_all add: image_iff)

end
