(* ===== verification/Scheduler_Model.thy ===== *)
theory Scheduler_Model
  imports Helper_Util "HOL-Library.Product_Lexorder"
begin

text \<open>
  classes/scheduler.py, the models of what a task may be scheduled by, and the validators of
  utils/validation.py.  A date is a value of the proleptic calendar, as in Python's datetime, ordered by
  its fields; an interval is a number of microseconds.  What Celery, RedBeat and APScheduler make of their
  arguments is a parameter, or the arguments themselves.
\<close>

section \<open>Dates\<close>

datatype datetime = Datetime
  (dt_year: int) (dt_month: int) (dt_day: int) (dt_hour: int) (dt_minute: int) (dt_second: int) (dt_micro: int)

definition dt_key :: "datetime \<Rightarrow> int \<times> int \<times> int \<times> int \<times> int \<times> int \<times> int" where
  "dt_key d = (dt_year d, dt_month d, dt_day d, dt_hour d, dt_minute d, dt_second d, dt_micro d)"

lemma dt_key_inj: "dt_key a = dt_key b \<Longrightarrow> a = b"
  by (cases a; cases b) (simp add: dt_key_def)

instantiation datetime :: linorder
begin

definition less_eq_datetime :: "datetime \<Rightarrow> datetime \<Rightarrow> bool" where
  "a \<le> b \<longleftrightarrow> dt_key a \<le> dt_key b"

definition less_datetime :: "datetime \<Rightarrow> datetime \<Rightarrow> bool" where
  "a < b \<longleftrightarrow> dt_key a < dt_key b"

instance
  by standard (auto simp: less_eq_datetime_def less_datetime_def intro: dt_key_inj)

end

definition is_leap :: "int \<Rightarrow> bool" where
  "is_leap y \<longleftrightarrow> 4 dvd y \<and> (\<not> 100 dvd y \<or> 400 dvd y)"

definition days_in_month :: "int \<Rightarrow> int \<Rightarrow> int" where
  "days_in_month y m =
    (if m = 2 then if is_leap y then 29 else 28 else if m \<in> {4, 6, 9, 11} then 30 else 31)"

definition valid_datetime :: "datetime \<Rightarrow> bool" where
  "valid_datetime d \<longleftrightarrow> 1 \<le> dt_year d \<and> dt_year d \<le> 9999 \<and> 1 \<le> dt_month d \<and> dt_month d \<le> 12
    \<and> 1 \<le> dt_day d \<and> dt_day d \<le> days_in_month (dt_year d) (dt_month d)
    \<and> 0 \<le> dt_hour d \<and> dt_hour d \<le> 23 \<and> 0 \<le> dt_minute d \<and> dt_minute d \<le> 59
    \<and> 0 \<le> dt_second d \<and> dt_second d \<le> 59 \<and> 0 \<le> dt_micro d \<and> dt_micro d \<le> 999999"

text \<open>The constructor checks the fields, then that the time zone is none or a time zone object.\<close>

definition datetime_new :: "datetime \<Rightarrow> string option \<Rightarrow> datetime result" where
  "datetime_new d tzinfo =
    (if \<not> valid_datetime d then Inl ValueError else if tzinfo \<noteq> None then Inl TypeError else Inr d)"

definition datetime_now :: "datetime \<Rightarrow> string option \<Rightarrow> datetime result" where
  "datetime_now now tzinfo = (if tzinfo \<noteq> None then Inl TypeError else Inr now)"

definition validate_clock_value ::
  "int option \<Rightarrow> int \<Rightarrow> int \<Rightarrow> int option \<Rightarrow> int \<Rightarrow> int \<Rightarrow> exn option" where
  "validate_clock_value day hour minute month second microsecond =
    (if (case month of Some m \<Rightarrow> m < 1 \<or> m > 12 | None \<Rightarrow> False) then Some ValueError
     else if (case day of Some d \<Rightarrow> d < 1 \<or> d > 31 | None \<Rightarrow> False) then Some ValueError
     else if hour < 0 \<or> hour > 23 then Some ValueError
     else if minute < 0 \<or> minute > 59 then Some ValueError
     else if second < 0 \<or> second > 59 then Some ValueError
     else if microsecond < 0 \<or> microsecond > 999999 then Some ValueError
     else None)"

record datetime_model =
  dm_year :: int
  dm_month :: "int option"
  dm_day :: "int option"
  dm_hour :: int
  dm_minute :: int
  dm_second :: int
  dm_microsecond :: int
  dm_tzinfo :: "string option"

text \<open>Python's \<open>x or d\<close> on a number that may be missing.\<close>

definition or_default :: "int option \<Rightarrow> int \<Rightarrow> int" where
  "or_default x d = (case x of None \<Rightarrow> d | Some n \<Rightarrow> if n = 0 then d else n)"

definition datetime_build :: "datetime \<Rightarrow> datetime_model \<Rightarrow> datetime result" where
  "datetime_build now m =
    rbind (if dm_year m = 0 then rbind (datetime_now now (dm_tzinfo m)) (\<lambda>d. Inr (dt_year d)) else Inr (dm_year m)) (\<lambda>year.
      datetime_new (Datetime year (or_default (dm_month m) 1) (or_default (dm_day m) 1) (dm_hour m) (dm_minute m)
        (dm_second m) (dm_microsecond m)) (dm_tzinfo m))"

text \<open>The two validators; the trigger of the job store is made of the date of the beat.\<close>

definition datetime_check_after :: "datetime \<Rightarrow> datetime_model \<Rightarrow> datetime result" where
  "datetime_check_after now m =
    rbind (datetime_build now m) (\<lambda>d. rbind (datetime_now now (dm_tzinfo m)) (\<lambda>n.
      if d < n then Inl ValueError else datetime_build now m))"

definition make_datetime :: "datetime \<Rightarrow> datetime_model \<Rightarrow> datetime result" where
  "make_datetime now m =
    (case validate_clock_value (dm_day m) (dm_hour m) (dm_minute m) (dm_month m) (dm_second m) (dm_microsecond m) of
       Some e \<Rightarrow> Inl e
     | None \<Rightarrow> datetime_check_after now m)"

section \<open>Intervals\<close>

record timedelta_model =
  td_days :: int
  td_seconds :: int
  td_microseconds :: int
  td_milliseconds :: int
  td_minutes :: int
  td_hours :: int
  td_weeks :: int
  td_jitter :: "int option"

definition td_fields_ok :: "timedelta_model \<Rightarrow> bool" where
  "td_fields_ok m \<longleftrightarrow> list_all (\<lambda>x. 0 \<le> x)
      [td_days m, td_seconds m, td_microseconds m, td_milliseconds m, td_minutes m, td_hours m, td_weeks m]
    \<and> (case td_jitter m of None \<Rightarrow> True | Some j \<Rightarrow> 0 \<le> j \<and> j \<le> 9999)"

abbreviation second_us :: int where "second_us \<equiv> 1000000"
abbreviation day_us :: int where "day_us \<equiv> 86400000000"

text \<open>The whole seconds of a model, which are all the trigger of the job store is given.\<close>

definition whole_seconds :: "timedelta_model \<Rightarrow> int" where
  "whole_seconds m = td_seconds m + 60 * td_minutes m + 3600 * td_hours m + 86400 * (td_days m + 7 * td_weeks m)"

definition total_us :: "timedelta_model \<Rightarrow> int" where
  "total_us m = second_us * whole_seconds m + 1000 * td_milliseconds m + td_microseconds m"

definition overflow :: exn where "overflow = OtherException ''OverflowError''"

text \<open>A timedelta has at most 999999999 days; a date ends with the year 9999, 3652059 days from its start.\<close>

definition timedelta_build :: "timedelta_model \<Rightarrow> int result" where
  "timedelta_build m = (if total_us m div day_us > 999999999 then Inl overflow else Inr (total_us m))"

definition datetime_add :: "int \<Rightarrow> int \<Rightarrow> int result" where
  "datetime_add now_us us = (if now_us + us \<ge> 3652059 * day_us then Inl overflow else Inr (now_us + us))"

record interval_trigger =
  it_seconds :: int
  it_end :: "int option"
  it_start :: "datetime option"
  it_jitter :: "int option"

definition timedelta_check_after :: "int \<Rightarrow> timedelta_model \<Rightarrow> (int \<times> interval_trigger) result" where
  "timedelta_check_after now_us m =
    rbind (timedelta_build m) (\<lambda>us.
      if us \<le> 0 then Inl ValueError
      else rbind (datetime_add now_us us) (\<lambda>beat. rbind (datetime_add now_us us) (\<lambda>e. rbind (datetime_add e (30 * second_us)) (\<lambda>e.
        Inr (beat, \<lparr>it_seconds = whole_seconds m, it_end = Some e, it_start = None, it_jitter = td_jitter m\<rparr>)))))"

definition make_timedelta :: "int \<Rightarrow> timedelta_model \<Rightarrow> (int \<times> interval_trigger) result" where
  "make_timedelta now_us m = (if \<not> td_fields_ok m then Inl ValueError else timedelta_check_after now_us m)"

text \<open>\<open>IntervalSchedulerModel\<close>: the start date is optional, but its \<open>build\<close> is called in any case.\<close>

definition interval_check_after ::
  "datetime \<Rightarrow> timedelta_model \<Rightarrow> datetime_model option \<Rightarrow> (int \<times> interval_trigger) result" where
  "interval_check_after now m start =
    rbind (timedelta_build m) (\<lambda>us.
      case start of
        None \<Rightarrow> Inl (AttributeError ''build'')
      | Some s \<Rightarrow> rbind (datetime_build now s) (\<lambda>d.
          Inr (us, \<lparr>it_seconds = whole_seconds m, it_end = None, it_start = Some d, it_jitter = td_jitter m\<rparr>)))"

section \<open>Recurrence rules, solar events and crontabs\<close>

definition clock_limit :: "int list option \<Rightarrow> int \<Rightarrow> int \<Rightarrow> int list option result" where
  "clock_limit v a b =
    (case v of None \<Rightarrow> Inr None | Some xs \<Rightarrow> if list_all (\<lambda>x. a \<le> x \<and> x \<le> b) xs then Inr v else Inl ValueError)"

record rrule_model =
  rr_freq :: string
  rr_interval :: "int option"
  rr_bymonth :: "int list option"
  rr_bymonthday :: "int list option"
  rr_byweekday :: "int list option"
  rr_byhour :: "int list option"
  rr_byminute :: "int list option"
  rr_bysecond :: "int list option"
  rr_count :: "int option"
  rr_until :: "datetime option"
  rr_dtstart :: "datetime option"

definition in_limit :: "int option \<Rightarrow> bool" where
  "in_limit x = (case x of None \<Rightarrow> True | Some n \<Rightarrow> 1 \<le> n \<and> n \<le> 100000000)"

definition FREQUENCIES :: "string list" where
  "FREQUENCIES = [''YEARLY'', ''MONTHLY'', ''WEEKLY'', ''DAILY'', ''HOURLY'', ''MINUTELY'', ''SECONDLY'']"

text \<open>The limits of the lists, in the order of the fields.\<close>

definition rrule_limits :: "rrule_model \<Rightarrow> (int list option \<times> int \<times> int) list" where
  "rrule_limits m = [(rr_bymonth m, 1, 12), (rr_bymonthday m, 1, 31), (rr_byweekday m, 0, 6), (rr_byhour m, 0, 23),
     (rr_byminute m, 0, 59), (rr_bysecond m, 0, 59)]"

definition value_error :: "'b result \<Rightarrow> 'b result" where
  "value_error r = (case r of Inl e \<Rightarrow> if is_Exception e then Inl ValueError else Inl e | Inr b \<Rightarrow> Inr b)"

definition make_rrule :: "(rrule_model \<Rightarrow> 'b result) \<Rightarrow> rrule_model \<Rightarrow> 'b result" where
  "make_rrule rrule m =
    (if rr_freq m \<notin> set FREQUENCIES \<or> \<not> in_limit (rr_interval m) \<or> \<not> in_limit (rr_count m) then Inl ValueError
     else rbind (rmap (\<lambda>(v, a, b). clock_limit v a b) (rrule_limits m)) (\<lambda>_.
       if (case rr_interval m of Some i \<Rightarrow> i \<le> 0 | None \<Rightarrow> False) then Inl ValueError else value_error (rrule m)))"

text \<open>A solar event: with a time zone alone the offset is used though there is none.\<close>

definition solar_build ::
  "(int option \<Rightarrow> string option \<Rightarrow> 'b result) \<Rightarrow> timedelta_model option \<Rightarrow> string option \<Rightarrow> 'b result" where
  "solar_build solar offset timezone =
    (if offset = None \<and> timezone = None then solar None None
     else case offset of None \<Rightarrow> Inl (AttributeError ''build'')
       | Some m \<Rightarrow> rbind (timedelta_build m) (\<lambda>us. solar (Some us) timezone))"

definition make_solar ::
  "(int option \<Rightarrow> string option \<Rightarrow> 'b result) \<Rightarrow> timedelta_model option \<Rightarrow> string option \<Rightarrow> 'b result" where
  "make_solar solar offset timezone = value_error (solar_build solar offset timezone)"

record crontab_model =
  ct_minute :: "string option"
  ct_hour :: "string option"
  ct_day_of_week :: "string option"
  ct_day_of_month :: "string option"
  ct_month_of_year :: "string option"
  ct_year :: "string option"
  ct_timezone :: "string option"

definition crontab_params :: "crontab_model \<Rightarrow> (string \<times> string) list" where
  "crontab_params m = List.map_filter (\<lambda>(k, v). map_option (Pair k) v)
    [(''minute'', ct_minute m), (''hour'', ct_hour m), (''day_of_week'', ct_day_of_week m),
     (''day_of_month'', ct_day_of_month m), (''month_of_year'', ct_month_of_year m), (''year'', ct_year m),
     (''timezone'', ct_timezone m)]"

text \<open>The trigger of the job store is not given the hour and the day of the month.\<close>

definition cron_trigger_params :: "crontab_model \<Rightarrow> (string \<times> string option) list" where
  "cron_trigger_params m = [(''day_of_week'', ct_day_of_week m), (''minute'', ct_minute m), (''month'', ct_month_of_year m),
     (''year'', ct_year m)]"

definition make_crontab ::
  "((string \<times> string) list \<Rightarrow> 'b result) \<Rightarrow> ((string \<times> string option) list \<Rightarrow> 'c result) \<Rightarrow> crontab_model \<Rightarrow> ('b \<times> 'c) result" where
  "make_crontab crontab trigger m =
    value_error (rbind (crontab (crontab_params m)) (\<lambda>b. rbind (trigger (cron_trigger_params m)) (\<lambda>t. Inr (b, t))))"

section \<open>What is accepted\<close>

lemma datetime_new_iff: "datetime_new d tz = Inr d' \<longleftrightarrow> valid_datetime d \<and> tz = None \<and> d' = d"
  by (auto simp: datetime_new_def)

lemma datetime_build_cases:
  "datetime_build now m = Inr d \<longleftrightarrow> dm_tzinfo m = None \<and> valid_datetime d \<and>
    d = Datetime (if dm_year m = 0 then dt_year now else dm_year m) (or_default (dm_month m) 1) (or_default (dm_day m) 1)
      (dm_hour m) (dm_minute m) (dm_second m) (dm_microsecond m)"
  by (auto simp: datetime_build_def datetime_now_def datetime_new_iff rbind_Inr_iff)

lemma valid_datetime_bounds:
  "valid_datetime d \<Longrightarrow> 1 \<le> dt_month d \<and> dt_month d \<le> 12 \<and> 1 \<le> dt_day d \<and> dt_day d \<le> 31"
  by (auto simp: valid_datetime_def days_in_month_def split: if_splits)

text \<open>C31: A date is accepted exactly when it is given without a time zone, it is a date of the calendar (months of 28 to
  31 days, leap years, years up to 9999), and it is not in the past; the year 0 stands for this year, a month and
  a day that are missing for the first, and every other field is taken as it was given.  With a time zone every date is
  refused, and a month or a day 0 is, though the constructor would take it for the first.\<close>

theorem accepted_date:
  "make_datetime now m = Inr d \<longleftrightarrow> dm_tzinfo m = None
    \<and> d = Datetime (if dm_year m = 0 then dt_year now else dm_year m)
        (case dm_month m of None \<Rightarrow> 1 | Some x \<Rightarrow> x) (case dm_day m of None \<Rightarrow> 1 | Some x \<Rightarrow> x)
        (dm_hour m) (dm_minute m) (dm_second m) (dm_microsecond m)
    \<and> valid_datetime d \<and> now \<le> d"
proof
  assume "make_datetime now m = Inr d"
  then have clock: "validate_clock_value (dm_day m) (dm_hour m) (dm_minute m) (dm_month m) (dm_second m) (dm_microsecond m) = None"
    and check: "datetime_check_after now m = Inr d"
    by (auto simp: make_datetime_def split: option.splits)
  have "dm_month m \<noteq> Some 0" "dm_day m \<noteq> Some 0"
    using clock by (auto simp: validate_clock_value_def split: if_splits)
  moreover have "datetime_build now m = Inr d" "\<not> d < now"
    using check by (auto simp: datetime_check_after_def rbind_Inr_iff datetime_now_def split: if_splits)
  ultimately show "dm_tzinfo m = None
    \<and> d = Datetime (if dm_year m = 0 then dt_year now else dm_year m)
        (case dm_month m of None \<Rightarrow> 1 | Some x \<Rightarrow> x) (case dm_day m of None \<Rightarrow> 1 | Some x \<Rightarrow> x)
        (dm_hour m) (dm_minute m) (dm_second m) (dm_microsecond m)
    \<and> valid_datetime d \<and> now \<le> d"
    by (auto simp: datetime_build_cases or_default_def not_less split: option.splits)
next
  assume r: "dm_tzinfo m = None
    \<and> d = Datetime (if dm_year m = 0 then dt_year now else dm_year m)
        (case dm_month m of None \<Rightarrow> 1 | Some x \<Rightarrow> x) (case dm_day m of None \<Rightarrow> 1 | Some x \<Rightarrow> x)
        (dm_hour m) (dm_minute m) (dm_second m) (dm_microsecond m)
    \<and> valid_datetime d \<and> now \<le> d"
  then have d: "dt_month d = (case dm_month m of None \<Rightarrow> 1 | Some x \<Rightarrow> x)" "dt_day d = (case dm_day m of None \<Rightarrow> 1 | Some x \<Rightarrow> x)"
    "dt_hour d = dm_hour m" "dt_minute d = dm_minute m" "dt_second d = dm_second m" "dt_micro d = dm_microsecond m" by simp_all
  have v: "valid_datetime d" using r by blast
  note b = valid_datetime_bounds [OF v]
  have "validate_clock_value (dm_day m) (dm_hour m) (dm_minute m) (dm_month m) (dm_second m) (dm_microsecond m) = None"
    using b v unfolding validate_clock_value_def valid_datetime_def d by (simp split: option.splits)
  moreover have "or_default (dm_month m) 1 = dt_month d" "or_default (dm_day m) 1 = dt_day d"
    using b by (auto simp: d or_default_def split: option.splits)
  then have "datetime_build now m = Inr d"
    using r v by (simp add: datetime_build_cases d)
  moreover have "\<not> d < now" using r leD by blast
  moreover have "dm_tzinfo m = None" using r by blast
  ultimately show "make_datetime now m = Inr d"
    by (simp add: make_datetime_def datetime_check_after_def datetime_now_def)
qed

text \<open>A sample date for the witnesses: noon of the 29th of February 2028, seen from 2027.\<close>

definition sample_now :: datetime where "sample_now = Datetime 2027 3 1 12 0 0 0"

definition sample_date :: "int \<Rightarrow> datetime_model" where
  "sample_date year = \<lparr>dm_year = year, dm_month = Some 2, dm_day = Some 29, dm_hour = 12, dm_minute = 0, dm_second = 0,
     dm_microsecond = 0, dm_tzinfo = None\<rparr>"

lemma sample_date_accepted: "make_datetime sample_now (sample_date 2028) = Inr (Datetime 2028 2 29 12 0 0 0)"
  by (simp add: make_datetime_def validate_clock_value_def datetime_check_after_def datetime_build_def datetime_new_def
      datetime_now_def valid_datetime_def days_in_month_def is_leap_def or_default_def sample_date_def sample_now_def
      less_datetime_def dt_key_def less_prod_def)

text \<open>A leap day of a common year is refused though each of its fields is in its bounds.\<close>

lemma leap_day_refused: "\<not> is_leap y \<Longrightarrow> y \<noteq> 0 \<Longrightarrow> make_datetime now (sample_date y) = Inl ValueError"
  by (simp add: make_datetime_def validate_clock_value_def datetime_check_after_def datetime_build_def datetime_new_def
      valid_datetime_def days_in_month_def or_default_def sample_date_def)

lemma total_us_nonneg:
  assumes "td_fields_ok m"
  shows "0 \<le> whole_seconds m" "second_us * whole_seconds m \<le> total_us m" "0 \<le> total_us m"
  using assms by (simp_all add: td_fields_ok_def whole_seconds_def total_us_def)

text \<open>An interval is accepted exactly when one of its fields is positive and neither it nor the moments it
  leads to leave the calendar.  The beat fires after the whole interval, but the trigger of the job store
  gets only its whole seconds: an interval below a second is accepted and gives a trigger of none.\<close>

theorem accepted_interval:
  assumes "td_fields_ok m" "0 \<le> now_us"
  shows "make_timedelta now_us m =
    (if total_us m = 0 then Inl ValueError
     else if total_us m \<ge> 1000000000 * day_us \<or> now_us + total_us m + 30 * second_us \<ge> 3652059 * day_us then Inl overflow
     else Inr (now_us + total_us m, \<lparr>it_seconds = whole_seconds m,
       it_end = Some (now_us + total_us m + 30 * second_us), it_start = None, it_jitter = td_jitter m\<rparr>))"
proof -
  have "999999999 < x \<longleftrightarrow> 1000000000 \<le> x" for x :: int by arith
  then have "total_us m div day_us > 999999999 \<longleftrightarrow> total_us m \<ge> 1000000000 * day_us"
    using le_div_iff [of day_us 1000000000 "total_us m"] by simp
  then show ?thesis
    using assms total_us_nonneg [OF assms(1)]
    by (auto simp: make_timedelta_def timedelta_check_after_def timedelta_build_def datetime_add_def)
qed

theorem accepted_interval_witness:
  "make_timedelta 0 \<lparr>td_days = 0, td_seconds = 0, td_microseconds = 0, td_milliseconds = 500, td_minutes = 0,
      td_hours = 0, td_weeks = 0, td_jitter = None\<rparr>
    = Inr (500000, \<lparr>it_seconds = 0, it_end = Some 30500000, it_start = None, it_jitter = None\<rparr>)"
  by (subst accepted_interval) (simp_all add: td_fields_ok_def total_us_def whole_seconds_def)

text \<open>An interval without a start date is never accepted.\<close>

lemma interval_needs_start: "\<exists>e. interval_check_after now m None = Inl e"
  by (cases "timedelta_build m") (simp_all add: interval_check_after_def)

lemma rmap_raises: "x \<in> set xs \<Longrightarrow> f x = Inl e \<Longrightarrow> \<exists>e. rmap f xs = Inl e"
  by (induction xs) (auto simp: rbind_def split: sum.splits)

text \<open>The numbers of an accepted rule lie in the bounds of their unit.\<close>

lemma accepted_rrule:
  assumes "make_rrule rrule m = Inr b" "(Some xs, lo, hi) \<in> set (rrule_limits m)" "x \<in> set xs"
  shows "lo \<le> x \<and> x \<le> hi"
proof (rule ccontr)
  assume "\<not> ?thesis"
  then have "clock_limit (Some xs) lo hi = Inl ValueError"
    using assms(3) by (auto simp: clock_limit_def list_all_iff)
  then obtain e where "rmap (\<lambda>(v, a, b). clock_limit v a b) (rrule_limits m) = Inl e"
    using rmap_raises [OF assms(2), of "\<lambda>(v, a, b). clock_limit v a b"] by auto
  then show False using assms(1) by (simp add: make_rrule_def split: if_splits)
qed

lemma value_error_Inl: "value_error r = Inl e \<Longrightarrow> is_Exception e \<Longrightarrow> e = ValueError"
  by (auto simp: value_error_def split: sum.splits if_splits)

section \<open>Validators of plain values\<close>

definition argument_type_error :: exn where "argument_type_error = OtherException ''ArgumentTypeError''"

text \<open>\<open>int\<close> of a text: blanks around it, a sign, and digits in groups joined by underscores.\<close>

definition is_blank :: "char \<Rightarrow> bool" where
  "is_blank c = (let n = (of_char c :: nat) in n \<in> {9, 10, 11, 12, 13, 28, 29, 30, 31, 32})"

definition strip :: "(char \<Rightarrow> bool) \<Rightarrow> string \<Rightarrow> string" where
  "strip P s = rev (dropWhile P (rev (dropWhile P s)))"

definition is_digit :: "char \<Rightarrow> bool" where
  "is_digit c = (let n = (of_char c :: nat) in 48 \<le> n \<and> n \<le> 57)"

definition digits_value :: "string \<Rightarrow> int" where
  "digits_value s = fold (\<lambda>c n. 10 * n + (of_char c - 48)) s 0"

definition py_int :: "string \<Rightarrow> int option" where
  "py_int s =
    (let t = strip is_blank s;
         (neg, ds) = (case t of [] \<Rightarrow> (False, []) | c # cs \<Rightarrow> if c = CHR ''-'' then (True, cs) else if c = CHR ''+'' then (False, cs) else (False, t));
         groups = py_split ''_'' ds
     in if list_all (\<lambda>g. g \<noteq> [] \<and> list_all is_digit g) groups
        then Some ((if neg then -1 else 1) * digits_value (concat groups)) else None)"

text \<open>The variable \<open>port\<close> is assigned only for a text.\<close>

definition port_validator :: "int + string \<Rightarrow> int result" where
  "port_validator v =
    (case v of
       Inl n \<Rightarrow> Inl (UnboundLocalError ''port'')
     | Inr s \<Rightarrow> (case py_int s of
           None \<Rightarrow> Inl argument_type_error
         | Some port \<Rightarrow> if \<not> (1 \<le> port \<and> port \<le> 65535) then Inl argument_type_error else Inr port))"

text \<open>The end of line \<open>$\<close> also matches before a last newline.\<close>

definition chop_newline :: "string \<Rightarrow> string" where
  "chop_newline s = (if s \<noteq> [] \<and> last s = CHR 0x0A then butlast s else s)"

definition bracketed :: "string \<Rightarrow> bool" where
  "bracketed s = (let t = chop_newline s in length t \<ge> 2 \<and> hd t = CHR ''['' \<and> last t = CHR '']'' \<and> CHR 0x0A \<notin> set t)"

definition host_char :: "char \<Rightarrow> bool" where
  "host_char c = (let n = (of_char c :: nat) in 48 \<le> n \<and> n \<le> 57 \<or> 65 \<le> n \<and> n \<le> 90 \<or> 97 \<le> n \<and> n \<le> 122 \<or> c = CHR ''.'' \<or> c = CHR ''-'')"

definition host_validator :: "(string \<Rightarrow> bool) \<Rightarrow> string \<Rightarrow> string result" where
  "host_validator is_ip v =
    (if contains_sub ''://'' v then Inl argument_type_error
     else if CHR '':'' \<in> set v \<and> \<not> bracketed v then Inl argument_type_error
     else let candidate = strip (\<lambda>c. c = CHR ''['' \<or> c = CHR '']'') v in
       if is_ip candidate then Inr candidate
       else if chop_newline candidate \<noteq> [] \<and> list_all host_char (chop_newline candidate) then Inr candidate
       else Inl argument_type_error)"

definition digit_validator :: "int \<Rightarrow> bool" where
  "digit_validator v \<longleftrightarrow> v \<ge> 0 \<and> v \<le> 9"

definition symbols :: string where
  "symbols = ''!@#$%^&*()-_=+[]{}|;:'' @ [CHR 0x27, CHR 0x22] @ '',.<>?/'' @ [CHR 0x60] @ ''~''"

definition PasswordValidator :: "nat \<Rightarrow> nat \<Rightarrow> bool \<Rightarrow> bool \<Rightarrow> bool \<Rightarrow> string \<Rightarrow> string result" where
  "PasswordValidator min_length max_length require_digit require_symbol require_uppercase password =
    (if length password < min_length \<or> length password > max_length then Inl ValueError
     else if require_digit \<and> \<not> list_ex is_digit password then Inl ValueError
     else if require_symbol \<and> \<not> list_ex (\<lambda>c. c \<in> set symbols) password then Inl ValueError
     else if require_uppercase \<and> \<not> list_ex (\<lambda>c. let n = (of_char c :: nat) in 65 \<le> n \<and> n \<le> 90) password then Inl ValueError
     else Inr password)"

definition VALID_LANGUAGE_CODES :: "string list" where
  "VALID_LANGUAGE_CODES = [''en'', ''fr'', ''es'', ''de'', ''it'', ''pt'', ''ru'', ''zh'', ''ja'', ''ko'', ''ar'',
     ''hi'', ''bn'', ''pa'', ''mr'', ''te'', ''ta'', ''tr'', ''vi'', ''id'', ''th'']"

definition language_code_validator :: "string option \<Rightarrow> bool" where
  "language_code_validator v = (case v of None \<Rightarrow> False | Some s \<Rightarrow> map lower_char (strip is_blank s) \<in> set VALID_LANGUAGE_CODES)"

definition VALIDATORS :: "string list" where
  "VALIDATORS = [''IPV4'', ''IPV6'', ''MAC'', ''PHONE'', ''EMAIL'', ''LOCATION'', ''URL'', ''DIGIT'', ''DATE'', ''TIME'', ''LANG'']"

text \<open>A constraint of a schema: the message it records for a field, if any.\<close>

definition validate_custom :: "(string \<Rightarrow> 'v \<Rightarrow> bool result) \<Rightarrow> (string \<Rightarrow> string) \<Rightarrow> string \<Rightarrow> 'v \<Rightarrow> string option result" where
  "validate_custom validator message constraint v =
    (let c = map upper_char constraint in
     if c \<notin> set VALIDATORS then Inl (OtherException ''SchemaError'')
     else rbind (validator c v) (\<lambda>ok. Inr (if ok then None else Some (message c))))"

lemma host_validator_safe:
  assumes "host_validator is_ip v = Inr h"
  shows "\<not> contains_sub ''://'' v \<and> (CHR '':'' \<in> set v \<longrightarrow> bracketed v)
    \<and> (is_ip h \<or> list_all (\<lambda>c. host_char c \<or> c = CHR 0x0A) h)"
proof -
  have "list_all (\<lambda>c. host_char c \<or> c = CHR 0x0A) s" if "list_all host_char (chop_newline s)" for s
    using that by (cases s rule: rev_cases) (auto simp: chop_newline_def list_all_iff split: if_splits)
  then show ?thesis
    using assms by (auto simp: host_validator_def Let_def split: if_splits)
qed

text \<open>A port is accepted exactly when it is the text of a number from 1 to 65535; every port that is already a
  number raises an error of Python instead of being checked.\<close>

theorem accepted_port:
  "(port_validator v = Inr n \<longleftrightarrow> (\<exists>s. v = Inr s \<and> py_int s = Some n \<and> 1 \<le> n \<and> n \<le> 65535))
    \<and> port_validator (Inl k) = Inl (UnboundLocalError ''port'')"
  by (cases v) (auto simp: port_validator_def argument_type_error_def split: option.splits)

end
