(* ===== verification/Request_Guards.thy ===== *)
theory Request_Guards
  imports Ressource_Pipeline Task_Manager File_Utils Service_Core
begin

text \<open>
  decorators/guards.py: the guards in front of the endpoints.  A guard answers with a flag and a message, or
  raises; what it reads from the database, from other services and from the configuration is an argument.
  Sets are lists without order, and the text of a set in a message is a parameter.
\<close>

abbreviation passed :: "verdict result" where "passed \<equiv> Inr (Verdict True '''')"
abbreviation refused :: "string \<Rightarrow> verdict result" where "refused m \<equiv> Inr (Verdict False m)"

definition error_named :: "string \<Rightarrow> 'a result" where
  "error_named cls = Inl (OtherException cls)"

section \<open>Tasks\<close>

definition task_name :: "string \<Rightarrow> string" where
  "task_name t = ''app.ntfr_tasks.'' @ t"

definition celery_task_guard :: "(task_type \<Rightarrow> string) \<Rightarrow> string list \<Rightarrow> task_type list \<Rightarrow> scheduler \<Rightarrow> verdict result" where
  "celery_task_guard show_type task_names task_types s =
    (if task_names \<noteq> [] \<and> sc_task_name s \<notin> set (map task_name task_names)
     then refused (''The task: ['' @ sc_task_name s @ ''] is  not permitted for this route'')
     else if task_types \<noteq> [] \<and> sc_task_type s \<notin> set task_types
     then refused (''The task_type: ['' @ show_type (sc_task_type s) @ ''] is not permitted for this route'')
     else passed)"

text \<open>\<open>TaskWorkerGuard\<close> reads the heaviness and answers nothing.\<close>

definition task_worker_guard :: "scheduler \<Rightarrow> verdict result" where
  "task_worker_guard s = Inr No_pair"

definition track_guard :: "scheduler \<Rightarrow> verdict result" where
  "track_guard s = passed"

text \<open>
  \<open>CeleryBrokerGuard\<close>: Redis would deliver a delayed task again, so it goes to the job store or is refused;
  a countdown has to stay below 15 percent of the visibility timeout.
\<close>

definition celery_broker_guard :: "bool \<Rightarrow> string \<Rightarrow> rat \<Rightarrow> scheduler \<Rightarrow> task_manager \<Rightarrow> verdict result \<times> task_manager" where
  "celery_broker_guard allowed_fallback broker visibility s t =
    (if broker \<noteq> ''redis'' then (passed, t)
     else case (if sc_task_type s \<in> {DATETIME, TIMEDELTA}
                then if allowed_fallback then set_algorithm ''aps'' t
                     else (Some (OtherException ''CeleryRedisVisibilityTimeoutError''), t)
                else (None, t)) of
         (Some e, t') \<Rightarrow> (Inl e, t')
       | (None, t') \<Rightarrow>
         if sc_task_type s = NOW \<and> (case op_countdown (sc_task_option s) of
              Some c \<Rightarrow> c \<noteq> 0 \<and> of_int c \<ge> visibility * (15 / 100) | None \<Rightarrow> False)
         then (error_named ''CelerySchedulerOptionError'', t') else (passed, t'))"

definition arq_data_task_guard :: "string list \<Rightarrow> string \<Rightarrow> verdict result" where
  "arq_data_task_guard task_registry data_task_name =
    (if data_task_name \<notin> set task_registry then error_named ''DataTaskNotFoundError'' else passed)"

section \<open>Contacts\<close>

datatype contact_status = Active | Pending | Blacklist | Inactive

datatype content_type = Newsletter | Event | Notification | Promotion | Update | Other_content

record contact =
  co_app_registered :: bool
  co_status :: contact_status
  co_action_code :: "string option"

definition registered_contacts_guard :: "contact \<Rightarrow> verdict result" where
  "registered_contacts_guard c =
    (if co_app_registered c then passed else refused ''Contact Must be registered to proceed with this actions'')"

text \<open>
  \<open>ActiveContactGuard\<close>: the type of the content is read before it is asked whether there is a content.  The
  subscription, if there is one, has a status for e-mail and one for sms; the status is an enum member, so
  it differs from the text it is compared with.  \<open>getattr\<close> wants a text as the name and is given the
  type of the content.
\<close>

definition relay_refused :: "(bool \<times> bool) option \<Rightarrow> string \<Rightarrow> verdict result option" where
  "relay_refused subscription relay =
    (let attr = relay @ ''_status'' in
     case subscription of
       None \<Rightarrow> Some (Inl (AttributeError attr))
     | Some _ \<Rightarrow> if attr \<in> {''email_status'', ''sms_status''} then Some (refused ''Contact method is not active'')
                 else Some (Inl (AttributeError attr)))"

definition active_contact_guard ::
  "(bool \<times> bool) option \<Rightarrow> contact \<Rightarrow> content_type option \<Rightarrow> string option \<Rightarrow> verdict result" where
  "active_contact_guard subscription c subs_content relay =
    (case subs_content of
       None \<Rightarrow> Inl (AttributeError ''content_type'')
     | Some ct \<Rightarrow>
         if ct \<in> {Notification, Update} then passed
         else if co_status c \<noteq> Active then refused ''Contact is not active yet for non alert content type''
         else (case (case relay of Some r \<Rightarrow> if r \<noteq> '''' then relay_refused subscription r else None | None \<Rightarrow> None) of
             Some v \<Rightarrow> v
           | None \<Rightarrow> Inl TypeError))"

text \<open>\<open>ContactActionCodeGuard\<close>, with the encoding of the code as a parameter.\<close>

definition contact_action_code_guard ::
  "(string \<Rightarrow> string) \<Rightarrow> bool \<Rightarrow> string \<Rightarrow> contact \<Rightarrow> content_type option \<Rightarrow> verdict result" where
  "contact_action_code_guard b64 bypass_content action_code c subs_content =
    (let rest =
       (if action_code = '''' then Inl (HTTPException 400 ''Action code is required'')
        else case co_action_code c of
            None \<Rightarrow> Inl (HTTPException 403 ''Contact action code is null at the moment'')
          | Some code \<Rightarrow> if code = '''' then Inl (HTTPException 403 ''Contact action code is null at the moment'')
              else if b64 action_code \<noteq> code then refused ''Contact action Code is not valid'' else passed)
     in if bypass_content then
          (case subs_content of
             None \<Rightarrow> Inl (AttributeError ''content_type'')
           | Some ct \<Rightarrow> if ct \<in> {Notification, Update} then passed else rest)
        else rest)"

definition twilio_lookup_phone_guard :: "verdict result" where
  "twilio_lookup_phone_guard = passed"

text \<open>\<open>CarrierTypeGuard\<close> returns True before anything is looked up.\<close>

definition carrier_type_guard :: "verdict result" where
  "carrier_type_guard = Inr No_pair"

section \<open>Clients and links\<close>

definition authenticated_client_guard :: "bool \<Rightarrow> bool \<Rightarrow> verdict result" where
  "authenticated_client_guard reverse authenticated =
    (if reverse then if authenticated then refused ''Client is authenticated'' else passed
     else if \<not> authenticated then refused ''Client is not authenticated'' else passed)"

text \<open>An entry of the blacklist: when it was made and when it expires.\<close>

definition is_blacklisted ::
  "('c \<Rightarrow> (rat \<times> rat) option) \<Rightarrow> ('g \<Rightarrow> (rat \<times> rat) option) \<Rightarrow> 'c \<Rightarrow> 'g option \<Rightarrow> bool \<times> rat option" where
  "is_blacklisted of_client of_group c g =
    (case of_client c of
       Some (created, expired) \<Rightarrow> (True, Some (expired - created))
     | None \<Rightarrow> (case g of
           None \<Rightarrow> (False, None)
         | Some gr \<Rightarrow> (case of_group gr of
               Some (created, expired) \<Rightarrow> (True, Some (expired - created))
             | None \<Rightarrow> (False, None))))"

definition blacklist_client_guard ::
  "('c \<Rightarrow> (rat \<times> rat) option) \<Rightarrow> ('g \<Rightarrow> (rat \<times> rat) option) \<Rightarrow> 'c \<Rightarrow> 'g option \<Rightarrow> verdict result" where
  "blacklist_client_guard of_client of_group c g =
    (if fst (is_blacklisted of_client of_group c g) then refused ''Client is blacklisted'' else passed)"

record link =
  li_short_id :: string
  li_public :: bool
  li_archived :: bool
  li_verified :: bool

definition access_link_guard :: "bool \<Rightarrow> link \<Rightarrow> verdict result" where
  "access_link_guard return_file l =
    (if li_public l then passed
     else if li_archived l then
       if \<not> return_file then refused (''Link with short_id: '' @ li_short_id l @ '' is currently archived'')
       else error_named ''ServerFileError''
     else if \<not> li_verified l then
       if \<not> return_file then refused (''Link with short_id: '' @ li_short_id l @ '' is not verified'')
       else error_named ''ServerFileError''
     else passed)"

definition verify_link_guard :: "link \<Rightarrow> verdict result" where
  "verify_link_guard l =
    (if li_public l then refused ''Cannot verify public domain''
     else if li_archived l then refused ''Cannot verify archived domain''
     else if li_verified l then refused ''Already verified''
     else passed)"

definition policy_guard :: "(string list \<Rightarrow> string) \<Rightarrow> string list \<Rightarrow> string list \<Rightarrow> verdict result" where
  "policy_guard show_set ids allowed_profiles =
    (let missing = filter (\<lambda>p. p \<notin> set ids) (remdups allowed_profiles) in
     if missing \<noteq> [] then refused (''Those profiles does not exists at the moment: '' @ show_set missing) else passed)"

section \<open>Templates and files\<close>

definition globals_template_guard ::
  "string \<Rightarrow> string option \<Rightarrow> string list option \<Rightarrow> string option \<Rightarrow> verdict result" where
  "globals_template_guard error_message template files destination_template =
    (if template = Some ''globals.json'' then refused error_message
     else if (case files of Some fs \<Rightarrow> ''globals.json'' \<in> set fs | None \<Rightarrow> False) then refused error_message
     else if destination_template = Some ''globals.json'' then refused error_message
     else passed)"

record upload =
  uf_filename :: string
  uf_size :: nat

record upload_limits =
  ul_max_files :: "nat option"
  ul_max_files_size :: "nat option"
  ul_max_size :: "nat option"
  ul_allowed_extensions :: "string list option"

definition above :: "nat \<Rightarrow> nat option \<Rightarrow> bool" where
  "above n limit = (case limit of None \<Rightarrow> False | Some m \<Rightarrow> n > m)"

text \<open>The extension is asked of the variable it is about to be stored in.\<close>

fun check_files :: "upload_limits \<Rightarrow> upload list \<Rightarrow> string list \<Rightarrow> nat \<Rightarrow> verdict result" where
  "check_files lmt [] filenames sum_size = passed"
| "check_files lmt (f # fs) filenames sum_size =
    (if uf_filename f = '''' then error_named ''DuplicateFileNameError''
     else if uf_filename f \<in> set filenames then error_named ''DuplicateFileNameError''
     else if ul_allowed_extensions lmt \<noteq> None then Inl (UnboundLocalError ''ext'')
     else if above (uf_size f) (ul_max_files_size lmt) then error_named ''FileTooLargeError''
     else if above (sum_size + uf_size f) (ul_max_size lmt) then error_named ''TotalFilesSizeExceededError''
     else check_files lmt fs (uf_filename f # filenames) (sum_size + uf_size f))"

text \<open>An empty list of extensions counts as none.\<close>

definition new_limits :: "nat option \<Rightarrow> nat option \<Rightarrow> nat option \<Rightarrow> string list option \<Rightarrow> upload_limits" where
  "new_limits max_files max_files_size max_size allowed = \<lparr>ul_max_files = max_files, ul_max_files_size = max_files_size,
     ul_max_size = max_size,
     ul_allowed_extensions = (case allowed of None \<Rightarrow> None | Some es \<Rightarrow> if es = [] then None else Some (map (map lower_char) es))\<rparr>"

definition upload_files_guard :: "upload_limits \<Rightarrow> upload list option \<Rightarrow> verdict result" where
  "upload_files_guard lmt files =
    (case files of
       None \<Rightarrow> Inl (HTTPException 400 ''files must be a list of UploadFile'')
     | Some fs \<Rightarrow> if above (length fs) (ul_max_files lmt) then error_named ''MaxFileLimitError'' else check_files lmt fs [] 0)"

section \<open>Credits, models and databases\<close>

definition credit_plan_guard :: "string list \<Rightarrow> string \<Rightarrow> verdict result" where
  "credit_plan_guard plan_credits credit =
    (if credit \<notin> set plan_credits then error_named ''CreditNotInPlanError'' else passed)"

record llm_model =
  lm_provider :: string
  lm_models :: "string list"
  lm_max_output_tokens :: "nat option"

record agent_model =
  ag_provider :: string
  ag_model :: string
  ag_max_tokens :: "nat option"

text \<open>
  \<open>LLMProviderGuard\<close>: \<open>MODELS\<close> maps a provider to a dictionary, whose keys are what the model of the agent
  is looked up in.
\<close>

definition over_tokens :: "nat option \<Rightarrow> nat option \<Rightarrow> bool" where
  "over_tokens asked limit = (case (asked, limit) of (Some a, Some l) \<Rightarrow> a \<noteq> 0 \<and> l \<noteq> 0 \<and> a > l | _ \<Rightarrow> False)"

definition llm_provider_guard ::
  "(string, (string, string list) dict) dict \<Rightarrow> llm_model store \<Rightarrow> agent_model option \<Rightarrow> verdict result" where
  "llm_provider_guard MODELS st agent =
    (case agent of None \<Rightarrow> passed
     | Some a \<Rightarrow>
       (case store_get (Some (ag_provider a)) st of
          Inl e \<Rightarrow> if e = MiniServiceDoesNotExistsError then error_named ''LLMProviderDoesNotExistError'' else Inl e
        | Inr m \<Rightarrow>
          (case (if lm_models m \<noteq> [] then Inr (lm_models m)
                 else case map_of MODELS (lm_provider m) of
                     None \<Rightarrow> Inl (KeyError (lm_provider m)) | Some d \<Rightarrow> Inr (map fst d)) of
             Inl e \<Rightarrow> Inl e
           | Inr models \<Rightarrow>
               if ag_model a \<notin> set models then error_named ''LLMModelNotPermittedError''
               else if over_tokens (ag_max_tokens a) (lm_max_output_tokens m) then error_named ''LLMModelMaxTokenExceededError''
               else passed)))"

text \<open>\<open>DataIngestDatabaseGuard\<close> has no return for a request it does not refuse.\<close>

definition data_ingest_guard_init :: "bool \<Rightarrow> bool \<Rightarrow> (bool \<times> bool) result" where
  "data_ingest_guard_init accept_vector accept_graphiti =
    (if \<not> accept_vector \<and> \<not> accept_graphiti then Inl ValueError else Inr (accept_vector, accept_graphiti))"

definition data_ingest_database_guard :: "bool \<times> bool \<Rightarrow> bool \<Rightarrow> bool \<Rightarrow> verdict result" where
  "data_ingest_database_guard cfg has_graph has_vector =
    (if \<not> snd cfg \<and> has_graph then error_named ''AgenticDatabaseNotAllowedError''
     else if \<not> fst cfg \<and> has_vector then error_named ''AgenticDatabaseNotAllowedError''
     else Inr No_pair)"

text \<open>
  \<open>MongooseHardLimitGuard\<close> does not call the constructor of its base class, so running it as the decorator
  does fails on the attribute \<open>filter\<close> before the guard itself is reached.
\<close>

definition mongoose_hard_limit_guard :: "nat \<Rightarrow> nat \<Rightarrow> verdict result" where
  "mongoose_hard_limit_guard limit counted =
    (if counted \<ge> limit then error_named ''CollectionHardLimitReachedError'' else passed)"

datatype decorator_object = Initialised | Bare

definition run_object :: "decorator_object \<Rightarrow> 'a result \<Rightarrow> 'a result" where
  "run_object ob r = (case ob of Initialised \<Rightarrow> r | Bare \<Rightarrow> Inl (AttributeError ''filter''))"

section \<open>What the guards admit\<close>

abbreviation admits :: "verdict result \<Rightarrow> bool" where "admits v \<equiv> \<exists>m. v = Inr (Verdict True m)"

lemma refused_not_admits [simp]: "\<not> admits (refused m)" "\<not> admits (error_named e)" "\<not> admits (Inl x)" "\<not> admits (Inr No_pair)"
  by (simp_all add: error_named_def)

text \<open>A contact is admitted exactly for contents that are notifications or updates.  Whatever the contact is
  subscribed to and however active it is, every other content is refused or fails, and a request without a
  content, which the guard allows for, fails too.\<close>

theorem active_contact_admits:
  "admits (active_contact_guard subscription c subs_content relay)
    \<longleftrightarrow> subs_content = Some Notification \<or> subs_content = Some Update"
  by (auto simp: active_contact_guard_def relay_refused_def Let_def split: option.splits if_splits)

text \<open>A private link is reached exactly when it is verified and not archived, and only such a link can no more be
  verified; a public link is reached in any state.\<close>

theorem access_link_admits:
  "(admits (access_link_guard return_file l) \<longleftrightarrow> li_public l \<or> \<not> li_archived l \<and> li_verified l)
    \<and> (admits (verify_link_guard l) \<longrightarrow> \<not> admits (access_link_guard return_file l))
    \<and> (\<not> li_public l \<and> \<not> li_archived l \<longrightarrow> admits (verify_link_guard l) \<or> admits (access_link_guard return_file l))"
  by (auto simp: access_link_guard_def verify_link_guard_def error_named_def)

theorem access_link_admits_witness:
  "admits (verify_link_guard \<lparr>li_short_id = ''a'', li_public = False, li_archived = False, li_verified = False\<rparr>)
    \<and> \<not> admits (access_link_guard True \<lparr>li_short_id = ''a'', li_public = False, li_archived = False, li_verified = False\<rparr>)"
  using access_link_admits [of True "\<lparr>li_short_id = ''a'', li_public = False, li_archived = False, li_verified = False\<rparr>"]
  by auto

text \<open>Uploads without a restriction of extensions: the names are distinct and the sizes within the limits.\<close>

definition within_limits :: "upload_limits \<Rightarrow> upload list \<Rightarrow> string list \<Rightarrow> nat \<Rightarrow> bool" where
  "within_limits lmt fs seen sum_size \<longleftrightarrow> distinct (map uf_filename fs) \<and> set (map uf_filename fs) \<inter> set seen = {}
    \<and> list_all (\<lambda>f. uf_filename f \<noteq> '''' \<and> \<not> above (uf_size f) (ul_max_files_size lmt)) fs
    \<and> (fs = [] \<or> \<not> above (sum_size + sum_list (map uf_size fs)) (ul_max_size lmt))"

lemma above_mono: "above n limit \<Longrightarrow> n \<le> m \<Longrightarrow> above m limit"
  by (auto simp: above_def split: option.splits)

lemma check_files_admits:
  assumes "ul_allowed_extensions lmt = None"
  shows "admits (check_files lmt fs seen sum_size) \<longleftrightarrow> within_limits lmt fs seen sum_size"
proof (induction fs arbitrary: seen sum_size)
  case Nil
  then show ?case by (simp add: within_limits_def)
next
  case (Cons f fs)
  have mono: "\<not> above (sum_size + uf_size f + sum_list (map uf_size fs)) (ul_max_size lmt)
      \<Longrightarrow> \<not> above (sum_size + uf_size f) (ul_max_size lmt)"
    using above_mono [of "sum_size + uf_size f" "ul_max_size lmt" "sum_size + uf_size f + sum_list (map uf_size fs)"] by auto
  show ?case
    using Cons.IH [of "uf_filename f # seen" "sum_size + uf_size f"] assms mono
    by (cases fs) (auto simp: within_limits_def error_named_def add.assoc)
qed

text \<open>Uploaded files are admitted exactly when they are a list of not too many files with distinct names, each
  within its size limit and all together within the total; with a restriction of extensions only the
  empty list is ever admitted.\<close>

theorem upload_files_admits:
  "admits (upload_files_guard lmt files) \<longleftrightarrow>
    (\<exists>fs. files = Some fs \<and> \<not> above (length fs) (ul_max_files lmt)
      \<and> (fs = [] \<or> ul_allowed_extensions lmt = None \<and> within_limits lmt fs [] 0))"
proof (cases files)
  case (Some fs)
  show ?thesis
  proof (cases "ul_allowed_extensions lmt")
    case None
    then show ?thesis
      using Some check_files_admits [OF None, of fs "[]" 0]
      by (auto simp: upload_files_guard_def within_limits_def error_named_def)
  next
    case ext: (Some es)
    show ?thesis using Some ext by (cases fs) (auto simp: upload_files_guard_def error_named_def)
  qed
qed (simp add: upload_files_guard_def)

text \<open>Where Redis is the broker, a task that passes the guard is not left to the queue for later: a task at a
  date or after an interval has been moved to the job store, and a countdown is zero or below 15 percent of
  the visibility timeout.\<close>

theorem broker_guard_admits:
  assumes "celery_broker_guard allowed ''redis'' visibility s t = (passed, t')"
  shows "(sc_task_type s \<in> {DATETIME, TIMEDELTA} \<longrightarrow> allowed \<and> tm_algorithm t' = ''aps'')
    \<and> (sc_task_type s = NOW \<longrightarrow> (case op_countdown (sc_task_option s) of
         Some c \<Rightarrow> c = 0 \<or> of_int c < visibility * (15 / 100) | None \<Rightarrow> True))
    \<and> (sc_task_type s \<notin> {DATETIME, TIMEDELTA} \<longrightarrow> t' = t)"
  using assms
  by (auto simp: celery_broker_guard_def set_algorithm_def error_named_def split: if_splits option.splits)

theorem broker_guard_admits_witness:
  "tm_algorithm (snd (celery_broker_guard True ''redis'' 3600 (tm_scheduler (sample_task DATETIME)) (sample_task DATETIME))) = ''aps''"
proof -
  have "celery_broker_guard True ''redis'' 3600 (tm_scheduler (sample_task DATETIME)) (sample_task DATETIME)
      = (passed, (sample_task DATETIME)\<lparr>tm_algorithm := ''aps''\<rparr>)"
    by (simp add: celery_broker_guard_def set_algorithm_def sample_task_def)
  from broker_guard_admits [OF this] this show ?thesis by (simp add: sample_task_def)
qed

text \<open>An agent that passes the guard uses a configured provider, one of its models, and no more tokens than it
  allows; a provider without a list of its own admits no model of the program's lists.\<close>

theorem llm_guard_admits:
  assumes "admits (llm_provider_guard MODELS st (Some a))"
  shows "\<exists>m. map_of st (Some (ag_provider a)) = Some m \<and> \<not> over_tokens (ag_max_tokens a) (lm_max_output_tokens m)
    \<and> (if lm_models m \<noteq> [] then ag_model a \<in> set (lm_models m)
       else \<exists>d. map_of MODELS (lm_provider m) = Some d \<and> ag_model a \<in> fst ` set d)"
  using assms
  by (auto simp: llm_provider_guard_def store_get_def error_named_def split: option.splits sum.splits if_splits)

theorem llm_guard_admits_witness:
  "\<exists>d. map_of [(''openai'', [(''models'', [''gpt-5'']), (''default'', [''gpt-5''])])] ''openai'' = Some d \<and> ''models'' \<in> fst ` set d"
proof -
  have "admits (llm_provider_guard [(''openai'', [(''models'', [''gpt-5'']), (''default'', [''gpt-5''])])]
      [(Some ''openai'', \<lparr>lm_provider = ''openai'', lm_models = [], lm_max_output_tokens = None\<rparr>)]
      (Some \<lparr>ag_provider = ''openai'', ag_model = ''models'', ag_max_tokens = Some 10\<rparr>))"
    by (simp add: llm_provider_guard_def store_get_def over_tokens_def)
  from llm_guard_admits [OF this] show ?thesis by simp
qed

text \<open>Three guards stop every request they are put in front of: the guard on the type of a carrier, the guard on
  the databases of an ingestion, and the guard on the size of a collection, which is run without having
  been initialised.  None of them ever lets the endpoint run.\<close>

theorem stopping_guards:
  assumes "v \<in> {carrier_type_guard, data_ingest_database_guard cfg has_graph has_vector,
      run_object Bare (mongoose_hard_limit_guard limit counted)}"
    and "g = (\<lambda>kw w. (case v of Inl e \<Rightarrow> Inl (Exn e) | Inr x \<Rightarrow> Inr x, w))"
  shows "\<exists>e. guard_wrapper ((Object, g) # gs) dflt function kw w = (Raise (Exn e), w)"
proof -
  have "data_ingest_database_guard cfg has_graph has_vector
      \<in> {Inr No_pair, Inl (OtherException ''AgenticDatabaseNotAllowedError'')}"
    by (simp add: data_ingest_database_guard_def error_named_def)
  then have "v = Inr No_pair \<or> (\<exists>e. v = Inl e)"
    using assms(1) by (auto simp: carrier_type_guard_def run_object_def)
  then show ?thesis
    using assms(2) by (auto simp: guard_wrapper_def awaited_def recover_def)
qed

theorem stopping_guards_witness:
  "\<exists>e. guard_wrapper [(Object, \<lambda>kw w. (case carrier_type_guard of Inl e \<Rightarrow> Inl (Exn e) | Inr x \<Rightarrow> Inr x, w))] None
    (\<lambda>kw w. (Ret ''done'', w)) [] (0 :: nat) = (Raise (Exn e), 0)"
  by (rule stopping_guards [where v = carrier_type_guard and cfg = "(True, True)" and has_graph = True and has_vector = True
        and limit = 0 and counted = 0]) simp_all

end
