(* ===== verification/Request_Pipes.thy ===== *)
theory Request_Pipes
  imports Request_Guards Helper_Util
begin

text \<open>
  decorators/pipes.py: the pipes that rewrite the arguments of a request before the endpoint and its result
  after it, with \<open>PointerIterator\<close> of utils/helper.py over objects.  An object is the dictionary of its
  attributes, a missing attribute reads as None.  The services a pipe asks are arguments.
\<close>

section \<open>The pointer into an object\<close>

fun get_attr :: "string \<Rightarrow> json \<Rightarrow> json" where
  "get_attr k (JDict d) = (case map_of d k of Some v \<Rightarrow> v | None \<Rightarrow> JNull)"
| "get_attr k _ = JNull"

fun obj_walk :: "string list \<Rightarrow> json \<Rightarrow> json" where
  "obj_walk [] v = v"
| "obj_walk (k # ks) v = (if v = JNull then JNull else obj_walk ks (get_attr k v))"

definition obj_get :: "string list \<Rightarrow> json \<Rightarrow> json" where
  "obj_get ks v = get_attr (last ks) (obj_walk (butlast ks) v)"

fun obj_set :: "string list \<Rightarrow> json \<Rightarrow> json \<Rightarrow> json result" where
  "obj_set [] v ob = Inr ob"
| "obj_set [k] v (JDict d) = Inr (JDict (AList.update k v d))"
| "obj_set (k # ks) v (JDict d) =
    (case map_of d k of
       Some x \<Rightarrow> rbind (obj_set ks v x) (\<lambda>x'. Inr (JDict (AList.update k x' d)))
     | None \<Rightarrow> Inl (AttributeError (last ks)))"
| "obj_set (k # ks) v _ = Inl (AttributeError (last (k # ks)))"

section \<open>Contents of a task\<close>

record content_task =
  ct_filter_error :: bool
  ct_content :: "json list"
  ct_errors :: "(json, string) dict"

text \<open>\<open>ContentIndexPipe\<close>: a content without an index gets its position.\<close>

fun index_contents :: "string list \<Rightarrow> nat \<Rightarrow> json list \<Rightarrow> json list result" where
  "index_contents path i [] = Inr []"
| "index_contents path i (c # cs) =
    (let index = obj_get path c; v = (if index \<noteq> JNull then index else JNum (of_nat i)) in
     rbind (obj_set path v c) (\<lambda>c'. rbind (index_contents path (i + 1) cs) (\<lambda>cs'. Inr (c' # cs'))))"

definition index_path :: "string option \<Rightarrow> string list" where
  "index_path var = (case var of None \<Rightarrow> [''index''] | Some v \<Rightarrow> if v = '''' then [''index''] else py_split ''.'' (v @ ''.index''))"

definition content_index_pipe :: "string option \<Rightarrow> bool \<Rightarrow> content_task \<Rightarrow> content_task result" where
  "content_index_pipe var split_task t =
    (if split_task then Inr t
     else rbind (index_contents (index_path var) 0 (ct_content t)) (\<lambda>cs. Inr (t\<lparr>ct_content := cs\<rparr>)))"

text \<open>
  \<open>TemplateValidationInjectionPipe\<close>: what the template makes of a value is not stored; the template raises or
  accepts.  With \<open>filter_error\<close> the contents it refuses are dropped and noted under their index.
\<close>

fun validate_contents ::
  "(json \<Rightarrow> exn option) \<Rightarrow> string list \<Rightarrow> string list \<Rightarrow> bool \<Rightarrow> json list \<Rightarrow> json list \<times> (json, string) dict
    \<Rightarrow> (json list \<times> (json, string) dict) result" where
  "validate_contents validate data_path idx_path filter_error [] acc = Inr acc"
| "validate_contents validate data_path idx_path filter_error (c # cs) (filtered, errors) =
    (case validate (obj_get data_path c) of
       None \<Rightarrow> validate_contents validate data_path idx_path filter_error cs
                 (if filter_error then filtered @ [c] else filtered, errors)
     | Some e \<Rightarrow>
         if \<not> is_Exception e \<or> \<not> filter_error then Inl e
         else validate_contents validate data_path idx_path filter_error cs
                (filtered, AList.update (obj_get idx_path c) ''Error while creating the template'' errors))"

definition inject_template :: "(string, 't) dict option \<Rightarrow> string \<Rightarrow> 't result" where
  "inject_template assets template =
    (case assets of
       None \<Rightarrow> error_named ''TemplateAssetError''
     | Some ts \<Rightarrow> (case map_of ts template of None \<Rightarrow> Inl (KeyError template) | Some t \<Rightarrow> Inr t))"

definition template_validation_pipe ::
  "(string, json \<Rightarrow> exn option) dict option \<Rightarrow> string \<Rightarrow> bool \<Rightarrow> string list \<Rightarrow> string list \<Rightarrow> content_task \<Rightarrow> content_task result" where
  "template_validation_pipe assets template will_validate data_path idx_path t =
    rbind (inject_template assets template) (\<lambda>validate.
      if \<not> will_validate then Inr t
      else rbind (validate_contents validate data_path idx_path (ct_filter_error t) (ct_content t) ([], ct_errors t))
        (\<lambda>(filtered, errors). Inr (if ct_filter_error t then t\<lparr>ct_content := filtered, ct_errors := errors\<rparr>
           else t\<lparr>ct_errors := errors\<rparr>)))"

text \<open>
  \<open>ContactToInfoPipe\<close>: \<open>sender_type\<close> is asked of the pointer, which has no such attribute, and not of the
  content; the default \<open>raw\<close> skips every content.
\<close>

definition pointer_sender_type :: "json \<Rightarrow> string" where
  "pointer_sender_type content = ''raw''"

definition contact_to_info_pipe :: "(json \<Rightarrow> json result) \<Rightarrow> content_task \<Rightarrow> content_task result" where
  "contact_to_info_pipe resolve t =
    rbind (rfold (\<lambda>c filtered.
        if pointer_sender_type c = ''raw'' then Inr (if ct_filter_error t then filtered @ [c] else filtered)
        else rbind (resolve c) (\<lambda>c'. Inr (if ct_filter_error t then filtered @ [c'] else filtered))) (ct_content t) [])
      (\<lambda>filtered. Inr (if length filtered > 0 then t\<lparr>ct_content := filtered\<rparr> else t))"

section \<open>Templates and assets\<close>

definition to_otp_path :: "string \<Rightarrow> string" where
  "to_otp_path template = ''otp/'' @ template"

text \<open>
  \<open>TemplateParamsPipe\<close>: the routes of a type are None when the service has none, where the test of
  membership raises.  With \<open>inject_asset_routes\<close> the routes are the answer: a list, or a dictionary.
\<close>

datatype routes = Route_list "string list" | Route_dict "string list" | No_routes

datatype params_answer = Template string | Routes routes

definition template_params_pipe ::
  "(string \<Rightarrow> routes result) \<Rightarrow> (string \<Rightarrow> routes result) \<Rightarrow> string option \<Rightarrow> string option \<Rightarrow> bool \<Rightarrow> bool \<Rightarrow> string
    \<Rightarrow> params_answer result" where
  "template_params_pipe exported by_path template_type extension none_ok inject_routes template =
    (if template = '''' \<and> none_ok then Inr (Template template)
     else let template = (case extension of None \<Rightarrow> template | Some e \<Rightarrow> if e = '''' then template else template @ ''.'' @ e)
     in rbind (case template_type of
            None \<Rightarrow> rbind (by_path template) (\<lambda>r. Inr (r, template))
          | Some ty \<Rightarrow> rbind (exported ty) (\<lambda>r. Inr (r, asset_rel_path template (Some ty)))) (\<lambda>(r, template).
       case r of
         No_routes \<Rightarrow> Inl TypeError
       | Route_list xs \<Rightarrow> if template \<notin> set xs then error_named ''TemplateNotFoundError''
           else Inr (if inject_routes then Routes r else Template template)
       | Route_dict xs \<Rightarrow> if template \<notin> set xs then error_named ''TemplateNotFoundError''
           else Inr (if inject_routes then Routes r else Template template)))"

text \<open>\<open>exportRouteName\<close>: an attribute that is missing is swallowed too.\<close>

definition export_route_name :: "(string \<Rightarrow> string list option) \<Rightarrow> string \<Rightarrow> routes result" where
  "export_route_name assets name =
    Inr (if name \<notin> {''email'', ''sms'', ''phone''} then No_routes
         else case assets name of None \<Rightarrow> No_routes | Some ks \<Rightarrow> Route_list ks)"

definition template_signature_pipe ::
  "(string \<Rightarrow> routes result) \<Rightarrow> (string \<Rightarrow> routes result) \<Rightarrow> string option \<Rightarrow> string option result" where
  "template_signature_pipe exported by_path signature =
    (case signature of None \<Rightarrow> Inr None
     | Some s \<Rightarrow> rbind (template_params_pipe exported by_path (Some ''email'') (Some ''html'') False False s) (\<lambda>a.
         case a of Template t \<Rightarrow> Inr (Some t) | Routes _ \<Rightarrow> Inl TypeError))"

text \<open>\<open>FilterAllowedSchemaPipe\<close> calls the check without its options, which is an error it skips.\<close>

definition verify_without_options :: "auth \<Rightarrow> string \<Rightarrow> bool result" where
  "verify_without_options a path = Inl TypeError"

definition filter_allowed_schema_pipe :: "auth option \<Rightarrow> (string, 'd) dict \<Rightarrow> (string, 'd) dict" where
  "filter_allowed_schema_pipe authPermission r =
    (case authPermission of None \<Rightarrow> r
     | Some a \<Rightarrow> fold (\<lambda>(path, schema) acc. case verify_without_options a path of
           Inl _ \<Rightarrow> acc | Inr _ \<Rightarrow> AList.update path schema acc) r [])"

record objects_search =
  os_is_file :: bool
  os_version_id :: "string option"

definition valid_free_input_template_pipe ::
  "bool \<Rightarrow> bool \<Rightarrow> string list \<Rightarrow> string list \<Rightarrow> string \<Rightarrow> objects_search \<Rightarrow> exn option \<times> objects_search" where
  "valid_free_input_template_pipe accept_empty accept_dir allowed_extension allowed_assets template s =
    (if template \<noteq> '''' then
       if \<not> list_ex (starts_with template) allowed_assets then (Some (OtherException ''AssetTypeNotAllowedError''), s)
       else (case is_file False (Some allowed_extension) template of
           Inl e \<Rightarrow> (Some e, s)
         | Inr f \<Rightarrow>
             if \<not> f \<and> \<not> accept_dir then (Some (HTTPException 400 ''Directory Not allowed''), s)
             else let s = s\<lparr>os_is_file := soft_is_file template\<rparr> in
               if \<not> os_is_file s \<and> (case os_version_id s of Some v \<Rightarrow> v \<noteq> '''' | None \<Rightarrow> False)
               then (Some (HTTPException 400 ''There is no version on prefix''), s) else (None, s))
     else if \<not> accept_empty then (Some (HTTPException 400 ''Object name cannot be empty''), s)
     else (None, s\<lparr>os_is_file := False\<rparr>))"

section \<open>Tasks\<close>

definition register_scheduler_init :: "string option \<Rightarrow> string option result" where
  "register_scheduler_init algorithm =
    (case algorithm of None \<Rightarrow> Inr None
     | Some a \<Rightarrow> if a \<noteq> '''' \<and> a \<notin> {''normal'', ''mix'', ''worker'', ''route'', ''aps''} then Inl ValueError else Inr algorithm)"

definition register_scheduler_pipe :: "string option \<Rightarrow> scheduler \<Rightarrow> task_manager \<Rightarrow> task_manager" where
  "register_scheduler_pipe algorithm s t =
    (let t = t\<lparr>tm_scheduler := s\<rparr> in
     case algorithm of None \<Rightarrow> t | Some a \<Rightarrow> if a = '''' then t else t\<lparr>tm_algorithm := a\<rparr>)"

text \<open>\<open>CeleryTaskPipe\<close>: the options of the queue, then the full name of the task, which the registry must know.\<close>

definition celery_task_pipe ::
  "(string, heaviness) dict \<Rightarrow> bool \<Rightarrow> bool \<Rightarrow> string \<Rightarrow> scheduler \<Rightarrow> exn option \<times> scheduler" where
  "celery_task_pipe registry save_result retry queue s =
    (let opt = (sc_task_option s)\<lparr>op_ignore_result := \<not> save_result, op_retry := retry, op_queue := Some queue\<rparr>;
         name = task_name (sc_task_name s);
         s = s\<lparr>sc_task_option := opt, sc_task_name := name\<rparr>
     in case map_of registry name of
          None \<Rightarrow> (Some (KeyError name), s)
        | Some h \<Rightarrow> (None, s\<lparr>sc_heaviness := h\<rparr>))"

text \<open>\<open>OffloadedTaskResponsePipe\<close>: the results of the manager replace a missing result; the status says whether
  the work is still to be done.\<close>

definition determine_async :: "task_manager option \<Rightarrow> bool option \<Rightarrow> bool" where
  "determine_async t background =
    (case t of Some t \<Rightarrow> tm_background t | None \<Rightarrow> (case background of None \<Rightarrow> False | Some b \<Rightarrow> b))"

definition process_result :: "'r option \<Rightarrow> (task_manager \<Rightarrow> 'r) \<Rightarrow> task_manager option \<Rightarrow> 'r option" where
  "process_result r results t = (case (r, t) of (None, Some t) \<Rightarrow> Some (results t) | _ \<Rightarrow> r)"

definition offloaded_status :: "scheduler option \<Rightarrow> bool \<Rightarrow> bool \<Rightarrow> nat" where
  "offloaded_status s otp background =
    (if (case s of Some s \<Rightarrow> sc_task_type s \<noteq> NOW | None \<Rightarrow> False) \<or> otp \<and> background \<or> background then 201 else 200)"

definition offloaded_task_response_pipe ::
  "'r option \<Rightarrow> (task_manager \<Rightarrow> 'r) \<Rightarrow> bool \<Rightarrow> scheduler option \<Rightarrow> bool \<Rightarrow> task_manager option \<Rightarrow> bool option \<Rightarrow> ('r option \<times> nat) result" where
  "offloaded_task_response_pipe r results has_response s otp t background =
    (let background = determine_async t background; r = process_result r results t in
     if \<not> has_response then Inl (AttributeError ''status_code'') else Inr (r, offloaded_status s otp background))"

section \<open>Contacts, clients and phones\<close>

definition relay_pipe :: "string option \<Rightarrow> string result" where
  "relay_pipe relay =
    (case relay of
       None \<Rightarrow> Inl (HTTPException 400 ''Relay not specified'')
     | Some r \<Rightarrow> if r \<noteq> ''sms'' \<and> r \<noteq> ''email'' then Inl (HTTPException 400 ''Relay not allowed'') else Inr r)"

definition force_client_pipe :: "'c option \<Rightarrow> 'c result" where
  "force_client_pipe c = (case c of None \<Rightarrow> Inl (HTTPException 400 ''Client information is missing or invalid.'') | Some x \<Rightarrow> Inr x)"

definition force_group_pipe :: "'c option \<Rightarrow> 'c result" where
  "force_group_pipe c = (case c of None \<Rightarrow> Inl (HTTPException 400 ''Group information is missing or invalid.'') | Some x \<Rightarrow> Inr x)"

definition capitalize :: "string \<Rightarrow> string" where
  "capitalize s = (case s of [] \<Rightarrow> [] | c # cs \<Rightarrow> upper_char c # map lower_char cs)"

definition status_members :: "(string \<times> contact_status) list" where
  "status_members = [(''Active'', Active), (''Pending'', Pending), (''Blacklist'', Blacklist), (''Inactive'', Inactive)]"

definition contact_status_pipe :: "string \<Rightarrow> contact_status result" where
  "contact_status_pipe next_status =
    (let allowed = remove1 ''Active'' (map fst status_members); s = capitalize next_status in
     if s \<notin> set allowed then Inl (HTTPException 400 ''Next status query is not valid'')
     else Inr (the (map_of status_members s)))"

datatype number_choice = Default_number | Otp_number | Chat_number | Auto_mess_number

record twilio_numbers =
  tw_from :: "string option"
  tw_otp :: "string option"
  tw_chat :: "string option"
  tw_auto :: "string option"

definition set_from :: "number_choice \<Rightarrow> bool \<Rightarrow> twilio_numbers \<Rightarrow> string option result" where
  "set_from kind fallback tw =
    (if kind = Default_number then Inr (tw_from tw)
     else let pn = (case kind of Otp_number \<Rightarrow> tw_otp tw | Chat_number \<Rightarrow> tw_chat tw | _ \<Rightarrow> tw_auto tw) in
       if pn = None then if fallback then Inr (tw_from tw) else Inl ServiceNotAvailableError
       else Inr pn)"

record phone_content =
  ph_from :: "string option"
  ph_sender_type :: string
  ph_to :: "string list"

text \<open>Only the receivers that are not raw numbers are parsed as numbers.\<close>

definition twilio_scheduler_pipe ::
  "(string \<Rightarrow> string result) \<Rightarrow> number_choice \<Rightarrow> bool \<Rightarrow> twilio_numbers \<Rightarrow> phone_content list \<Rightarrow> phone_content list result" where
  "twilio_scheduler_pipe parse kind fallback tw contents =
    rmap (\<lambda>c. rbind (set_from kind fallback tw) (\<lambda>pn.
      if ph_sender_type c \<noteq> ''raw'' then rbind (rmap parse (ph_to c)) (\<lambda>ts. Inr (c\<lparr>ph_from := pn, ph_to := ts\<rparr>))
      else Inr (c\<lparr>ph_from := pn\<rparr>))) contents"

definition twilio_otp_pipe ::
  "(string \<Rightarrow> string result) \<Rightarrow> number_choice \<Rightarrow> bool \<Rightarrow> twilio_numbers \<Rightarrow> string \<Rightarrow> (string \<times> string option) result" where
  "twilio_otp_pipe parse kind fallback tw receiver =
    rbind (parse receiver) (\<lambda>r. rbind (set_from kind fallback tw) (\<lambda>pn. Inr (r, pn)))"

definition verify_email_pipe :: "(string \<Rightarrow> bool) \<Rightarrow> string \<Rightarrow> string result" where
  "verify_email_pipe valid email = (if \<not> valid email then error_named ''EmailInvalidFormatError'' else Inr email)"

section \<open>Results and services\<close>

definition mini_service_injector_pipe ::
  "(string \<Rightarrow> 'm option result) \<Rightarrow> ('m \<Rightarrow> string) \<Rightarrow> 'm store \<Rightarrow> string option \<Rightarrow> string \<Rightarrow> ('m \<times> string option) result" where
  "mini_service_injector_pipe attribute id_of st strict_value profile =
    (if strict_value = Some profile then
       rbind (attribute profile) (\<lambda>ms. case ms of
           None \<Rightarrow> error_named ''MiniServiceStrictValueNotValidError''
         | Some m \<Rightarrow> Inr (m, Some (id_of m)))
     else rbind (store_get (Some profile) st) (\<lambda>m. Inr (m, None)))"

text \<open>The pipes on results take one value or a list of them.\<close>

datatype 'a one_or_many = Just 'a | List_of "'a list"

definition data_class_to_dict_pipe ::
  "string list option \<Rightarrow> bool \<Rightarrow> (string, 'v) dict one_or_many \<Rightarrow> (string, 'v) dict one_or_many" where
  "data_class_to_dict_pipe keys incl r =
    (let cut = (\<lambda>d. case keys of None \<Rightarrow> d | Some ks \<Rightarrow> slice_dict ks incl d) in
     case r of Just d \<Rightarrow> Just (cut d) | List_of ds \<Rightarrow> List_of (map cut ds))"

definition document_friendly_pipe :: "('d \<Rightarrow> (string, json) dict) \<Rightarrow> ('d \<Rightarrow> string) \<Rightarrow> 'd one_or_many \<Rightarrow> (string, json) dict one_or_many" where
  "document_friendly_pipe dump id_of r =
    (let one = (\<lambda>d. AList.update ''id'' (JStr (id_of d)) (dump d)) in
     case r of Just d \<Rightarrow> Just (one d) | List_of ds \<Rightarrow> List_of (map one ds))"

definition json_loads_pipe :: "(string \<Rightarrow> json result) \<Rightarrow> bool \<Rightarrow> json \<Rightarrow> json result" where
  "json_loads_pipe loads silent r =
    (case r of
       JList xs \<Rightarrow> rbind (rmap (\<lambda>x. case x of JStr s \<Rightarrow> loads s | _ \<Rightarrow> Inl TypeError) xs) (\<lambda>ys. Inr (JList ys))
     | JStr s \<Rightarrow> loads s
     | _ \<Rightarrow> if silent then Inr r else Inl TypeError)"

definition global_pointer_pipe :: "string \<Rightarrow> string option \<Rightarrow> string list option" where
  "global_pointer_pipe sep globalIter = map_option (py_split sep) globalIter"

definition merchant_pipe_init :: "int \<Rightarrow> int result" where
  "merchant_pipe_init f = (if f \<notin> {-1, 1} then Inl ValueError else Inr f)"

definition domain_pipe :: "string \<Rightarrow> string \<Rightarrow> string" where
  "domain_pipe prefix dom_name = prefix @ dom_name"

definition delete_document_pipe :: "string \<Rightarrow> string \<times> (bool \<times> bool)" where
  "delete_document_pipe db =
    (if db = ''vector'' then (''Vector Document Deletion'', (True, False)) else (''Graph Document Deletion'', (False, True)))"

text \<open>\<open>GraphRelationshipPipe\<close>, with the schemas of the custom service: of the named ones, those that are
  registered, stored and of the wanted kind.\<close>

definition known_schemas :: "string list \<Rightarrow> (string, string) dict \<Rightarrow> string \<Rightarrow> string list \<Rightarrow> string list" where
  "known_schemas registry models kind names =
    remdups (filter (\<lambda>e. e \<in> set registry \<and> map_of models e = Some kind) names)"

definition graph_relationship_pipe ::
  "string list \<Rightarrow> (string, string) dict \<Rightarrow> (string list \<times> string list) option \<Rightarrow> exn option" where
  "graph_relationship_pipe registry models cfg =
    (case cfg of None \<Rightarrow> None
     | Some (entities, edges) \<Rightarrow>
         if entities \<noteq> [] \<and> known_schemas registry models ''Entity'' entities = [] then Some (OtherException ''NoEntitiesCustomSchemaError'')
         else if edges \<noteq> [] \<and> known_schemas registry models ''Edge'' edges = [] then Some (OtherException ''NoEdgesCustomSchemaError'')
         else None)"

section \<open>What the pipes do\<close>

text \<open>The pipe that should replace the contacts of a task by their e-mail or phone changes nothing: whatever the
  lookup would answer, and however the errors are to be filtered, the task leaves as it came.\<close>

theorem contacts_never_resolved:
  "contact_to_info_pipe resolve t = Inr t"
proof -
  have "rfold (\<lambda>c filtered.
        if pointer_sender_type c = ''raw'' then Inr (if ct_filter_error t then filtered @ [c] else filtered)
        else rbind (resolve c) (\<lambda>c'. Inr (if ct_filter_error t then filtered @ [c'] else filtered))) cs acc
      = Inr (if ct_filter_error t then acc @ cs else acc)" for cs acc
    by (induction cs arbitrary: acc) (simp_all add: pointer_sender_type_def)
  then show ?thesis
    by (simp add: contact_to_info_pipe_def)
qed

lemma no_schema_allowed: "filter_allowed_schema_pipe (Some a) r = []"
proof -
  have "fold (\<lambda>(path, schema) acc. case verify_without_options a path of
      Inl _ \<Rightarrow> acc | Inr _ \<Rightarrow> AList.update path schema acc) r acc = acc" for acc
    by (induction r arbitrary: acc) (auto simp: verify_without_options_def)
  then show ?thesis by (simp add: filter_allowed_schema_pipe_def)
qed

lemma contact_status_never_active: "contact_status_pipe s \<noteq> Inr Active"
  by (auto simp: contact_status_pipe_def status_members_def Let_def split: if_splits)

lemma offloaded_status_iff:
  "offloaded_status s otp b = 201 \<longleftrightarrow> b \<or> (\<exists>x. s = Some x \<and> sc_task_type x \<noteq> NOW)"
  by (auto simp: offloaded_status_def split: option.splits)

text \<open>A pipe on dictionaries cuts each of them down to the wanted keys.\<close>

lemma data_class_cut:
  assumes "list_all (\<lambda>d. distinct (map fst d)) ds"
  shows "data_class_to_dict_pipe (Some ks) incl (List_of ds) = List_of (map (filter (\<lambda>(k, v). (k \<in> set ks) = incl)) ds)"
  using assms by (auto simp: data_class_to_dict_pipe_def list_all_iff slice_dict_filter)

section \<open>Indexing and validating\<close>

definition with_index :: "nat \<Rightarrow> json \<Rightarrow> json" where
  "with_index i c = (case c of JDict d \<Rightarrow> JDict (AList.update ''index'' (JNum (of_nat i)) d) | _ \<Rightarrow> c)"

definition fresh :: "json \<Rightarrow> bool" where
  "fresh c \<longleftrightarrow> (\<exists>d. c = JDict d \<and> map_of d ''index'' = None)"

lemma index_contents_fresh:
  "list_all fresh cs \<Longrightarrow> index_contents [''index''] i cs = Inr (map (\<lambda>(i, c). with_index i c) (enumerate i cs))"
  by (induction cs arbitrary: i) (auto simp: fresh_def obj_get_def with_index_def)

lemma get_attr_with_index [simp]:
  "fresh c \<Longrightarrow> k \<noteq> ''index'' \<Longrightarrow> get_attr k (with_index i c) = get_attr k c"
  "fresh c \<Longrightarrow> get_attr ''index'' (with_index i c) = JNum (of_nat i)"
  by (auto simp: fresh_def with_index_def)

lemma obj_get_with_index:
  assumes "fresh c" "path \<noteq> []" "hd path \<noteq> ''index''"
  shows "obj_get path (with_index i c) = obj_get path c"
proof (cases path)
  case (Cons k ks)
  obtain d where d: "c = JDict d" using assms(1) by (auto simp: fresh_def)
  then have "with_index i c \<noteq> JNull" "c \<noteq> JNull" by (simp_all add: with_index_def)
  then show ?thesis
    using Cons assms by (cases "ks = []") (simp_all add: obj_get_def)
qed (use assms in simp)

lemma validate_contents_filter:
  assumes "\<forall>v e. validate v = Some e \<longrightarrow> is_Exception e"
  shows "validate_contents validate dp ip True cs (filtered, errors) =
    Inr (filtered @ filter (\<lambda>c. validate (obj_get dp c) = None) cs,
      fold (\<lambda>c. AList.update (obj_get ip c) ''Error while creating the template'')
        (filter (\<lambda>c. validate (obj_get dp c) \<noteq> None) cs) errors)"
  using assms by (induction cs arbitrary: filtered errors) (auto split: option.splits)

lemma keys_fold_update:
  "fst ` set (fold (\<lambda>c. AList.update (f c) m) cs errors) = f ` set cs \<union> fst ` set errors"
  by (induction cs arbitrary: errors) auto

text \<open>Contents that came without an index are first numbered and then filtered by the template: what stays are
  the numbered contents the template accepts, in their order, and the errors are noted under exactly the
  positions of the others, none of which is lost.\<close>

theorem indexed_then_validated:
  assumes "list_all fresh (ct_content t)" "ct_filter_error t" "ct_errors t = []"
    and "\<forall>v e. validate v = Some e \<longrightarrow> is_Exception e" "dp \<noteq> []" "hd dp \<noteq> ''index''"
  shows "\<exists>t'. rbind (content_index_pipe None False t) (template_validation_pipe (Some ((tpl, validate) # assets)) tpl True dp [''index'']) = Inr t'
    \<and> ct_content t' = map (\<lambda>(i, c). with_index i c)
        (filter (\<lambda>(i, c). validate (obj_get dp c) = None) (enumerate 0 (ct_content t)))
    \<and> fst ` set (ct_errors t') = (\<lambda>i. JNum (of_nat i)) ` {i. i < length (ct_content t) \<and> validate (obj_get dp (ct_content t ! i)) \<noteq> None}"
proof -
  let ?cs = "ct_content t" and ?ok = "\<lambda>c. validate (obj_get dp c) = None"
  let ?ics = "map (\<lambda>(i, c). with_index i c) (enumerate 0 ?cs)"
  have fresh: "fresh c" if "(i, c) \<in> set (enumerate 0 ?cs)" for i c
    using that assms(1) by (auto simp: list_all_iff in_set_enumerate_eq)
  have same: "?ok (with_index i c) \<longleftrightarrow> ?ok c" if "(i, c) \<in> set (enumerate 0 ?cs)" for i c
    using obj_get_with_index [OF fresh [OF that] assms(5,6)] by simp
  have kept: "filter ?ok ?ics = map (\<lambda>(i, c). with_index i c) (filter (\<lambda>(i, c). ?ok c) (enumerate 0 ?cs))"
    using same by (auto simp: filter_map comp_def intro!: arg_cong [where f = "map _"] filter_cong)
  have nth: "?ics ! i = with_index i (?cs ! i)" "fresh (?cs ! i)" if "i < length ?cs" for i
    using that assms(1) by (simp_all add: nth_enumerate_eq list_all_length)
  have "set (filter (\<lambda>c. \<not> ?ok c) ?ics) = (\<lambda>i. ?ics ! i) ` {i. i < length ?cs \<and> \<not> ?ok (?ics ! i)}"
    by (subst set_filter_nth) simp
  also have "\<dots> = (\<lambda>i. with_index i (?cs ! i)) ` {i. i < length ?cs \<and> \<not> ?ok (?cs ! i)}"
    using nth obj_get_with_index [OF nth(2) assms(5,6)] by (intro image_cong) (simp_all cong: conj_cong)
  finally have "obj_get [''index''] ` set (filter (\<lambda>c. \<not> ?ok c) ?ics)
      = (\<lambda>i. obj_get [''index''] (with_index i (?cs ! i))) ` {i. i < length ?cs \<and> \<not> ?ok (?cs ! i)}"
    by (simp only: image_image)
  also have "\<dots> = (\<lambda>i. JNum (of_nat i)) ` {i. i < length ?cs \<and> \<not> ?ok (?cs ! i)}"
    using nth(2) by (intro image_cong) (simp_all add: obj_get_def)
  finally have keys: "obj_get [''index''] ` set (filter (\<lambda>c. \<not> ?ok c) ?ics)
      = (\<lambda>i. JNum (of_nat i)) ` {i. i < length ?cs \<and> \<not> ?ok (?cs ! i)}" .
  have "content_index_pipe None False t = Inr (t\<lparr>ct_content := ?ics\<rparr>)"
    using index_contents_fresh [OF assms(1)] by (simp add: content_index_pipe_def index_path_def)
  then show ?thesis
    using validate_contents_filter [OF assms(4), of dp "[''index'']" ?ics "[]" "[]"] assms(2,3) kept keys
    by (simp add: template_validation_pipe_def inject_template_def keys_fold_update)
qed

definition sample_contents :: content_task where
  "sample_contents = \<lparr>ct_filter_error = True, ct_content = [JDict [(''to'', JNull)], JDict [(''to'', JNum 1)]], ct_errors = []\<rparr>"

theorem indexed_then_validated_witness:
  "\<exists>t'. rbind (content_index_pipe None False sample_contents)
      (template_validation_pipe (Some [(''welcome'', \<lambda>v. if v = JNull then Some ValueError else None)]) ''welcome'' True [''to''] [''index'']) = Inr t'
    \<and> ct_content t' = [JDict [(''to'', JNum 1), (''index'', JNum 1)]]"
proof -
  let ?validate = "\<lambda>v. if v = JNull then Some ValueError else None"
  have "list_all fresh (ct_content sample_contents)" "ct_filter_error sample_contents" "ct_errors sample_contents = []"
    "\<forall>v e. ?validate v = Some e \<longrightarrow> is_Exception e" "[''to''] \<noteq> []" "hd [''to''] \<noteq> ''index''"
    by (auto simp: sample_contents_def fresh_def split: if_splits)
  from indexed_then_validated [OF this] obtain t' where
    t': "rbind (content_index_pipe None False sample_contents)
      (template_validation_pipe (Some [(''welcome'', ?validate)]) ''welcome'' True [''to''] [''index'']) = Inr t'"
    and content: "ct_content t' = map (\<lambda>(i, c). with_index i c)
        (filter (\<lambda>(i, c). ?validate (obj_get [''to''] c) = None) (enumerate 0 (ct_content sample_contents)))"
    by blast
  note content
  also have "map (\<lambda>(i, c). with_index i c)
        (filter (\<lambda>(i, c). ?validate (obj_get [''to''] c) = None) (enumerate 0 (ct_content sample_contents)))
      = [JDict [(''to'', JNum 1), (''index'', JNum 1)]]"
  proof -
    have "enumerate 0 (ct_content sample_contents) = [(0, JDict [(''to'', JNull)]), (1, JDict [(''to'', JNum 1)])]"
      by (simp add: sample_contents_def)
    moreover have "obj_get [''to''] (JDict [(''to'', v)]) = v" for v
      by (simp add: obj_get_def)
    moreover have "with_index 1 (JDict [(''to'', JNum 1)]) = JDict [(''to'', JNum 1), (''index'', JNum 1)]"
      by (simp add: with_index_def)
    ultimately show ?thesis by (simp only: filter.simps list.map prod.case) simp
  qed
  finally have "ct_content t' = [JDict [(''to'', JNum 1), (''index'', JNum 1)]]" .
  then show ?thesis by (intro exI [of _ t'] conjI) (rule t')
qed

end
