(* ===== verification/Event_Streams.thy ===== *)
theory Event_Streams
  imports Service_Core Helper_Util
begin

text \<open>
  The consumption of Redis streams: services/database/redis_service.py (\<open>_consume_stream\<close>, \<open>stream_data\<close>),
  depends/lock.py, and the handlers of callback/event_stream.py and callback/track_stream.py.  An entry is an
  id with its fields, which are texts; a handler answers with the ids that are done, which are then
  acknowledged and deleted.  The database, the constructors of the tables and the detection of devices are
  arguments: what they raise, if anything.  Sets of ids are lists without order.
\<close>

section \<open>Entries\<close>

type_synonym fields = "(string, string option) dict"
type_synonym entry = "string \<times> fields"

text \<open>Redis stores no None: it is sent as the empty text and read back as None.\<close>

definition none_to_empty_str :: "fields \<Rightarrow> fields" where
  "none_to_empty_str = map (\<lambda>(k, v). (k, if v = None then Some '''' else v))"

definition empty_str_to_none :: "fields \<Rightarrow> fields" where
  "empty_str_to_none = map (\<lambda>(k, v). (k, if v = Some '''' then None else v))"

text \<open>\<open>stream_data\<close>: what is added to the stream, if it is known and there is something to send.\<close>

definition stream_data :: "string list \<Rightarrow> string \<Rightarrow> fields \<Rightarrow> fields option result" where
  "stream_data callbacks stream data =
    (if stream \<notin> set callbacks then Inl (OtherException ''RedisStreamDoesNotExistsError'')
     else if data = [] then Inr None else Inr (Some (none_to_empty_str data)))"

section \<open>The consumer\<close>

text \<open>
  The stream with its group: entries not yet delivered, entries delivered and not acknowledged, and entries
  that are acknowledged and deleted.  \<open>st_handed\<close> remembers what the handler was given, in order.
\<close>

record stream =
  st_new :: "entry list"
  st_pending :: "string list"
  st_gone :: "string list"
  st_handed :: "string list"

definition empty_stream :: stream where
  "empty_stream = \<lparr>st_new = [], st_pending = [], st_gone = [], st_handed = []\<rparr>"

text \<open>
  One turn of \<open>_consume_stream\<close>: the group reads what was never delivered.  An exception of the handler, or
  an acknowledgement of nothing, which Redis refuses, ends in the bare \<open>except\<close> clause.
\<close>

definition consume :: "nat \<Rightarrow> (entry list \<Rightarrow> string list result) \<Rightarrow> stream \<Rightarrow> stream" where
  "consume count handler s =
    (let batch = take count (st_new s);
         ids = map fst batch;
         s = s\<lparr>st_new := drop count (st_new s), st_pending := st_pending s @ ids, st_handed := st_handed s @ ids\<rparr>
     in if batch = [] then s
        else case handler batch of
          Inl e \<Rightarrow> s
        | Inr [] \<Rightarrow> s
        | Inr acks \<Rightarrow> s\<lparr>st_pending := filter (\<lambda>i. i \<notin> set acks) (st_pending s),
            st_gone := st_gone s @ filter (\<lambda>i. i \<in> set acks) ids\<rparr>)"

text \<open>The life of a stream: entries with fresh ids are added, and the consumer takes its turns, in any state of
  what the handler depends on.\<close>

inductive stream_step :: "('w \<Rightarrow> entry list \<Rightarrow> string list result) \<Rightarrow> stream \<Rightarrow> stream \<Rightarrow> bool"
  for handle :: "'w \<Rightarrow> entry list \<Rightarrow> string list result" where
  add_entry: "i \<notin> set (map fst (st_new s)) \<union> set (st_handed s) \<Longrightarrow>
    stream_step handle s (s\<lparr>st_new := st_new s @ [(i, v)]\<rparr>)"
| take_turn: "stream_step handle s (consume count (handle w) s)"

inductive stream_run :: "('w \<Rightarrow> entry list \<Rightarrow> string list result) \<Rightarrow> stream \<Rightarrow> stream \<Rightarrow> bool"
  for handle :: "'w \<Rightarrow> entry list \<Rightarrow> string list result" where
  run_refl: "stream_run handle s s"
| run_step: "stream_run handle s s' \<Longrightarrow> stream_step handle s' s'' \<Longrightarrow> stream_run handle s s''"

text \<open>A handler only answers with ids it was given.\<close>

locale batch_handler =
  fixes handle :: "'w \<Rightarrow> entry list \<Rightarrow> string list result"
  assumes acks_given: "handle w es = Inr acks \<Longrightarrow> set acks \<subseteq> fst ` set es"
begin

definition stream_ok :: "stream \<Rightarrow> bool" where
  "stream_ok s \<longleftrightarrow> distinct (map fst (st_new s) @ st_handed s)
    \<and> set (st_pending s) \<union> set (st_gone s) = set (st_handed s) \<and> set (st_pending s) \<inter> set (st_gone s) = {}"

lemma empty_ok: "stream_ok empty_stream"
  by (simp add: stream_ok_def empty_stream_def)

lemma consume_parts:
  assumes "stream_ok s"
  obtains batch acks where "st_new s = batch @ st_new (consume n (handle w) s)"
    "st_handed (consume n (handle w) s) = st_handed s @ map fst batch" "set acks \<subseteq> fst ` set batch"
    "set (st_pending (consume n (handle w) s)) = (set (st_pending s) \<union> fst ` set batch) - set acks"
    "set (st_gone (consume n (handle w) s)) = set (st_gone s) \<union> set acks"
proof (cases "take n (st_new s) = [] \<or> (\<exists>e. handle w (take n (st_new s)) = Inl e) \<or> handle w (take n (st_new s)) = Inr []")
  case True
  then have "consume n (handle w) s = s\<lparr>st_new := drop n (st_new s), st_handed := st_handed s @ map fst (take n (st_new s)),
      st_pending := st_pending s @ map fst (take n (st_new s))\<rparr>"
    by (auto simp: consume_def Let_def)
  then show ?thesis
    by (intro that [of "take n (st_new s)" "[]"]) simp_all
next
  case False
  then obtain a as where acks: "handle w (take n (st_new s)) = Inr (a # as)"
    by (metis (no_types) list.exhaust sum.exhaust)
  have "set (a # as) \<subseteq> fst ` set (take n (st_new s))"
    using acks by (rule acks_given)
  moreover have "consume n (handle w) s = s\<lparr>st_new := drop n (st_new s), st_handed := st_handed s @ map fst (take n (st_new s)),
      st_pending := filter (\<lambda>i. i \<notin> set (a # as)) (st_pending s @ map fst (take n (st_new s))),
      st_gone := st_gone s @ filter (\<lambda>i. i \<in> set (a # as)) (map fst (take n (st_new s)))\<rparr>"
    using False acks by (simp add: consume_def Let_def del: filter.simps)
  ultimately show ?thesis
    by (intro that [of "take n (st_new s)" "a # as"]) auto
qed

lemma consume_ok:
  assumes "stream_ok s"
  shows "stream_ok (consume n (handle w) s)"
proof -
  define s' where "s' = consume n (handle w) s"
  obtain batch acks where c: "st_new s = batch @ st_new s'" "st_handed s' = st_handed s @ map fst batch"
    "set acks \<subseteq> fst ` set batch" "set (st_pending s') = (set (st_pending s) \<union> fst ` set batch) - set acks"
    "set (st_gone s') = set (st_gone s) \<union> set acks"
    unfolding s'_def using consume_parts [OF assms] by blast
  have ok: "distinct (map fst (batch @ st_new s') @ st_handed s)" "set (st_pending s) \<union> set (st_gone s) = set (st_handed s)"
    "set (st_pending s) \<inter> set (st_gone s) = {}"
    using assms c(1) by (simp_all only: stream_ok_def)
  then have "fst ` set batch \<inter> set (st_handed s) = {}" by auto
  then have "set (st_pending s') \<union> set (st_gone s') = set (st_handed s')" "set (st_pending s') \<inter> set (st_gone s') = {}"
    using ok(2,3) c(3) unfolding c(2) c(4) c(5) by auto
  moreover have "distinct (map fst (st_new s') @ st_handed s')"
    using ok(1) unfolding c(2) by auto
  ultimately have "stream_ok s'" unfolding stream_ok_def by blast
  then show ?thesis unfolding s'_def .
qed

lemma step_ok: "stream_step handle s s' \<Longrightarrow> stream_ok s \<Longrightarrow> stream_ok s'"
  by (induction rule: stream_step.induct) (auto simp: consume_ok, auto simp: stream_ok_def)

lemma run_ok: "stream_run handle s s' \<Longrightarrow> stream_ok s \<Longrightarrow> stream_ok s'"
  by (induction rule: stream_run.induct) (auto dest: step_ok)

lemma consume_keeps_pending:
  assumes "stream_ok s"
  shows "set (st_pending s) \<subseteq> set (st_pending (consume n (handle w) s))"
proof -
  obtain batch acks where c: "st_new s = batch @ st_new (consume n (handle w) s)" "set acks \<subseteq> fst ` set batch"
    "set (st_pending (consume n (handle w) s)) = (set (st_pending s) \<union> fst ` set batch) - set acks"
    by (rule consume_parts [OF assms, of n w])
  have "set (st_pending s) \<subseteq> set (st_handed s)" "set (map fst batch) \<inter> set (st_handed s) = {}"
    using assms c(1) by (auto simp: stream_ok_def)
  then show ?thesis using c by auto
qed

text \<open>What was delivered and not acknowledged in its turn stays so.\<close>

lemma stuck_forever:
  "stream_run handle s s' \<Longrightarrow> stream_ok s \<Longrightarrow> set (st_pending s) \<subseteq> set (st_pending s')"
proof (induction rule: stream_run.induct)
  case (run_step s s' s'')
  then have ok: "stream_ok s'" using run_ok by blast
  have "set (st_pending s') \<subseteq> set (st_pending s'')"
    using run_step.hyps(2) ok
    by (induction rule: stream_step.induct) (use consume_keeps_pending in auto)
  then show ?case using run_step by blast
qed simp

lemma handed_once: "stream_run handle empty_stream s \<Longrightarrow> distinct (st_handed s)"
  using run_ok [OF _ empty_ok] by (simp add: stream_ok_def)

lemma pending_not_gone: "stream_run handle empty_stream s \<Longrightarrow> set (st_pending s) \<inter> set (st_gone s) = {}"
  using run_ok [OF _ empty_ok] by (simp add: stream_ok_def)

end

section \<open>The lock of the database service\<close>

text \<open>\<open>lock_logic\<close>: when the service of the database is not usable, nothing is done and nothing is acknowledged.\<close>

definition lock_logic :: "service_status option \<Rightarrow> (entry list \<Rightarrow> string list result) \<Rightarrow> entry list \<Rightarrow> string list result" where
  "lock_logic status func es = (if status \<notin> Some ` set acceptable_states then Inr [] else func es)"

definition locked :: "('w \<Rightarrow> entry list \<Rightarrow> string list result) \<Rightarrow> service_status option \<times> 'w \<Rightarrow> entry list \<Rightarrow> string list result" where
  "locked handle = (\<lambda>(status, w). lock_logic status (handle w))"

section \<open>Retrying\<close>

definition integrity_error :: exn where "integrity_error = OtherException ''IntegrityError''"

text \<open>\<open>retry_logic\<close>: the outcome of the k-th attempt is given; the answer is the exception that leaves, and
  whether the body was completed.\<close>

function retry_from :: "(nat \<Rightarrow> exn option) \<Rightarrow> nat \<Rightarrow> nat \<Rightarrow> exn option \<times> bool" where
  "retry_from attempt retry k =
    (if k < retry then
       (case attempt k of
          None \<Rightarrow> (None, True)
        | Some e \<Rightarrow> if e = integrity_error then if k + 1 = retry then (Some e, False) else retry_from attempt retry (k + 1)
                    else (Some e, False))
     else (None, False))"
  by pat_completeness auto
termination by (relation "measure (\<lambda>(a, r, k). r - k)") auto

declare retry_from.simps [simp del]

definition retry_logic :: "nat \<Rightarrow> (nat \<Rightarrow> exn option) \<Rightarrow> exn option \<times> bool" where
  "retry_logic retry attempt = retry_from attempt retry 0"

lemma retry_from_completed:
  "snd (retry_from attempt retry k) \<longleftrightarrow>
    (\<exists>i. k \<le> i \<and> i < retry \<and> attempt i = None \<and> (\<forall>j. k \<le> j \<and> j < i \<longrightarrow> attempt j = Some integrity_error))"
proof (induction attempt retry k rule: retry_from.induct)
  case (1 attempt retry k)
  consider "k \<ge> retry" | "k < retry" "attempt k = None"
    | e where "k < retry" "attempt k = Some e" "e \<noteq> integrity_error \<or> k + 1 = retry"
    | "k < retry" "attempt k = Some integrity_error" "k + 1 \<noteq> retry"
    by fastforce
  then show ?case
  proof cases
    case 1
    then show ?thesis by (auto simp: retry_from.simps [of attempt retry k])
  next
    case 2
    then show ?thesis by (auto simp: retry_from.simps [of attempt retry k] intro: exI [of _ k])
  next
    case 3
    have "i = k" if "k \<le> i" "i < retry" "\<forall>j. k \<le> j \<and> j < i \<longrightarrow> attempt j = Some integrity_error" for i
    proof (rule ccontr)
      assume "i \<noteq> k"
      then have "attempt k = Some integrity_error" "k + 1 < retry" using that by auto
      then show False using 3 by auto
    qed
    then show ?thesis using 3 by (auto simp: retry_from.simps [of attempt retry k])
  next
    case 4
    then have "snd (retry_from attempt retry k) = snd (retry_from attempt retry (k + 1))"
      by (simp add: retry_from.simps [of attempt retry k])
    moreover have "(k \<le> i \<and> i < retry \<and> attempt i = None \<and> (\<forall>j. k \<le> j \<and> j < i \<longrightarrow> attempt j = Some integrity_error))
      \<longleftrightarrow> (k + 1 \<le> i \<and> i < retry \<and> attempt i = None \<and> (\<forall>j. k + 1 \<le> j \<and> j < i \<longrightarrow> attempt j = Some integrity_error))" for i
    proof (cases "i = k")
      case False
      have "k \<le> j \<longleftrightarrow> j = k \<or> k + 1 \<le> j" for j by auto
      then show ?thesis using 4 False by auto
    qed (use 4 in simp)
    ultimately show ?thesis using "1.IH" [OF 4(1,2) refl 4(3)] by simp
  qed
qed

lemma retry_logic_completed:
  "snd (retry_logic retry attempt) \<longleftrightarrow>
    (\<exists>i < retry. attempt i = None \<and> (\<forall>j < i. attempt j = Some integrity_error))"
  by (simp add: retry_logic_def retry_from_completed)

end
