(* ===== verification/Event_Handlers.thy ===== *)
theory Event_Handlers
  imports Event_Streams
begin

text \<open>
  The handlers of callback/event_stream.py and callback/track_stream.py.  A handler reads a batch of
  entries into the rows and the counts it will write, then writes them; an entry whose reading raises is
  invalid, but what was counted for it before stays counted.  Tables, constructors and transactions are
  arguments: the exception they raise, if any.
\<close>

section \<open>Counting\<close>

definition count_of :: "'k \<Rightarrow> ('k, int) dict \<Rightarrow> int" where
  "count_of k d = (case map_of d k of None \<Rightarrow> 0 | Some n \<Rightarrow> n)"

definition bump :: "'k \<Rightarrow> int \<Rightarrow> ('k, int) dict \<Rightarrow> ('k, int) dict" where
  "bump k n d = AList.update k (count_of k d + n) d"

lemma count_of_bump [simp]: "count_of k (bump k' n d) = count_of k d + (if k = k' then n else 0)"
  by (simp add: bump_def count_of_def)

text \<open>A subscript and \<open>get\<close> of a dictionary.\<close>

definition need_field :: "fields \<Rightarrow> string \<Rightarrow> string option result" where
  "need_field v k = (case map_of v k of None \<Rightarrow> Inl (KeyError k) | Some x \<Rightarrow> Inr x)"

definition get_field :: "fields \<Rightarrow> string \<Rightarrow> string option" where
  "get_field v k = (case map_of v k of None \<Rightarrow> None | Some x \<Rightarrow> x)"

definition add_id :: "string \<Rightarrow> string list \<Rightarrow> string list" where
  "add_id i xs = (if i \<in> set xs then xs else xs @ [i])"

definition union_ids :: "string list \<Rightarrow> string list \<Rightarrow> string list" where
  "union_ids xs ys = xs @ filter (\<lambda>i. i \<notin> set xs) ys"

lemma set_add_id [simp]: "set (add_id i xs) = insert i (set xs)"
  by (auto simp: add_id_def)

lemma set_union_ids [simp]: "set (union_ids xs ys) = set xs \<union> set ys"
  by (auto simp: union_ids_def)

section \<open>Simple rows\<close>

record batch =
  ba_objs :: "fields list"
  ba_valid :: "string list"
  ba_invalid :: "string list"

definition empty_batch :: batch where
  "empty_batch = \<lparr>ba_objs = [], ba_valid = [], ba_invalid = []\<rparr>"

text \<open>\<open>simple_bulk_creates\<close>: the rows of an entry, and the insertion of all of them.\<close>

definition bulk_row :: "(fields \<Rightarrow> exn option) \<Rightarrow> entry \<Rightarrow> batch \<Rightarrow> batch" where
  "bulk_row orm e b =
    (let (i, v) = e; v = empty_str_to_none v in
     case orm v of
       None \<Rightarrow> b\<lparr>ba_objs := ba_objs b @ [v], ba_valid := add_id i (ba_valid b)\<rparr>
     | Some _ \<Rightarrow> b\<lparr>ba_invalid := add_id i (ba_invalid b)\<rparr>)"

definition simple_bulk_creates :: "(fields \<Rightarrow> exn option) \<Rightarrow> exn option \<Rightarrow> entry list \<Rightarrow> string list \<times> fields list" where
  "simple_bulk_creates orm bulk_create es =
    (let b = fold (bulk_row orm) es empty_batch in
     case bulk_create of
       None \<Rightarrow> (union_ids (ba_valid b) (ba_invalid b), ba_objs b)
     | Some _ \<Rightarrow> (ba_invalid b, []))"

section \<open>Visits of links\<close>

type_synonym visit_key = "string option \<times> string option \<times> string option \<times> string option \<times> string"

record link_batch =
  lb_objs :: "fields list"
  lb_count :: "(string option, int) dict"
  lb_analytics :: "(visit_key, int) dict"
  lb_valid :: "string list"
  lb_invalid :: "string list"

definition empty_link :: link_batch where
  "empty_link = \<lparr>lb_objs = [], lb_count = [], lb_analytics = [], lb_valid = [], lb_invalid = []\<rparr>"

definition blank_stripped :: "string \<Rightarrow> string" where
  "blank_stripped s = rev (dropWhile (\<lambda>c. c = CHR '' '') (rev (dropWhile (\<lambda>c. c = CHR '' '') s)))"

definition device_type :: "(string \<Rightarrow> string result) \<Rightarrow> fields \<Rightarrow> string result" where
  "device_type detect v =
    (case get_field v ''user_agent'' of
       None \<Rightarrow> Inr ''unknown''
     | Some ua \<Rightarrow> rbind (detect ua) (\<lambda>d. Inr (if blank_stripped d = '''' then ''unknown'' else blank_stripped d)))"

definition visit_key :: "(string \<Rightarrow> string result) \<Rightarrow> string option \<Rightarrow> fields \<Rightarrow> visit_key result" where
  "visit_key detect link_id v =
    rbind (device_type detect v) (\<lambda>d.
      if get_field v ''country'' = None then Inr (link_id, Some ''N/A'', Some ''N/A'', Some ''N/A'', d)
      else rbind (need_field v ''country'') (\<lambda>c. rbind (need_field v ''region'') (\<lambda>r. rbind (need_field v ''city'') (\<lambda>t.
        Inr (link_id, c, r, t, d)))))"

definition link_row :: "(string \<Rightarrow> string result) \<Rightarrow> (fields \<Rightarrow> exn option) \<Rightarrow> entry \<Rightarrow> link_batch \<Rightarrow> link_batch" where
  "link_row detect orm e b =
    (let (i, v) = e; v = empty_str_to_none v; bad = (\<lambda>b. b\<lparr>lb_invalid := add_id i (lb_invalid b)\<rparr>) in
     case need_field v ''link_id'' of
       Inl _ \<Rightarrow> bad b
     | Inr link_id \<Rightarrow>
         (let b = b\<lparr>lb_count := bump link_id 1 (lb_count b)\<rparr> in
          case visit_key detect link_id v of
            Inl _ \<Rightarrow> bad b
          | Inr k \<Rightarrow>
              (let b = b\<lparr>lb_analytics := bump k 1 (lb_analytics b)\<rparr> in
               case orm v of
                 Some _ \<Rightarrow> bad b
               | None \<Rightarrow> b\<lparr>lb_objs := lb_objs b @ [v], lb_valid := add_id i (lb_valid b)\<rparr>)))"

record link_world =
  lw_detect :: "string \<Rightarrow> string result"
  lw_orm :: "fields \<Rightarrow> exn option"
  lw_visits :: "exn option"
  lw_analytics :: "exn option"

record link_written =
  wr_acks :: "string list"
  wr_events :: "fields list"
  wr_visits :: "(string option, int) dict"
  wr_analytics :: "(visit_key, int) dict"

text \<open>\<open>Add_Link_Event\<close>: two transactions, the second for the analytics.\<close>

definition add_link_event :: "link_world \<Rightarrow> entry list \<Rightarrow> link_written" where
  "add_link_event w es =
    (let b = fold (link_row (lw_detect w) (lw_orm w)) es empty_link in
     case lw_visits w of
       Some _ \<Rightarrow> \<lparr>wr_acks = lb_invalid b, wr_events = [], wr_visits = [], wr_analytics = []\<rparr>
     | None \<Rightarrow>
         (case lw_analytics w of
            Some _ \<Rightarrow> \<lparr>wr_acks = lb_invalid b, wr_events = lb_objs b, wr_visits = lb_count b, wr_analytics = []\<rparr>
          | None \<Rightarrow> \<lparr>wr_acks = union_ids (lb_valid b) (lb_invalid b), wr_events = lb_objs b, wr_visits = lb_count b,
              wr_analytics = lb_analytics b\<rparr>))"

section \<open>Events of e-mails\<close>

datatype email_status = RECEIVED | SENT | DELIVERED | SOFT_BOUNCE | HARD_BOUNCE | MAILBOX_FULL | OPENED | LINK_CLICKED
  | FAILED | BLOCKED | COMPLAINT | DEFERRED | DELAYED | REPLIED | REJECTED

type_synonym column = "string option \<times> string"

record email_batch =
  eb_objs :: "fields list"
  eb_providers :: "string option list"
  eb_analytics :: "(column, int) dict"
  eb_delivered :: "string option list"
  eb_opens :: "string option list"
  eb_replied :: "string option list"
  eb_bounced :: "string option list"
  eb_status :: "(string option, email_status) dict"
  eb_valid :: "string list"
  eb_invalid :: "string list"

definition empty_email :: email_batch where
  "empty_email = \<lparr>eb_objs = [], eb_providers = [], eb_analytics = [], eb_delivered = [], eb_opens = [], eb_replied = [],
     eb_bounced = [], eb_status = [], eb_valid = [], eb_invalid = []\<rparr>"

text \<open>The \<open>match\<close> on the event: the columns it adds to, and what it notes about the e-mail.\<close>

definition columns_of :: "email_status \<Rightarrow> bool \<Rightarrow> string list" where
  "columns_of ev delivered =
    (case ev of
       RECEIVED \<Rightarrow> [''received''] | REJECTED \<Rightarrow> [''rejected''] | SENT \<Rightarrow> [''sent'']
     | DELIVERED \<Rightarrow> if delivered then [] else [''delivered'']
     | OPENED \<Rightarrow> [''opened''] | LINK_CLICKED \<Rightarrow> [''opened'']
     | SOFT_BOUNCE \<Rightarrow> [''bounced''] | HARD_BOUNCE \<Rightarrow> [''bounced''] | MAILBOX_FULL \<Rightarrow> [''bounced'']
     | REPLIED \<Rightarrow> [''replied'', ''opened''] | FAILED \<Rightarrow> [''failed''] | COMPLAINT \<Rightarrow> [''complaint'']
     | _ \<Rightarrow> [])"

definition note_event :: "string option \<Rightarrow> email_status \<Rightarrow> email_batch \<Rightarrow> email_batch" where
  "note_event m ev b =
    b\<lparr>eb_delivered := (if ev = DELIVERED then List.insert m (eb_delivered b) else eb_delivered b),
      eb_opens := (if ev \<in> {OPENED, LINK_CLICKED, REPLIED} then List.insert m (eb_opens b) else eb_opens b),
      eb_replied := (if ev = REPLIED then List.insert m (eb_replied b) else eb_replied b),
      eb_bounced := (if ev = HARD_BOUNCE then List.insert m (eb_bounced b) else eb_bounced b)\<rparr>"

text \<open>The status is set twice: the second \<open>if\<close> overwrites what the first said about openings.\<close>

definition set_email_status :: "string option \<Rightarrow> email_status \<Rightarrow> email_batch \<Rightarrow> email_batch" where
  "set_email_status m ev b =
    (let b = b\<lparr>eb_status := AList.update m (if m \<in> set (eb_opens b) then OPENED else ev) (eb_status b)\<rparr>
     in b\<lparr>eb_status := AList.update m (if m \<in> set (eb_replied b) then REPLIED else ev) (eb_status b)\<rparr>)"

definition email_row :: "(fields \<Rightarrow> email_status result) \<Rightarrow> entry \<Rightarrow> email_batch \<Rightarrow> email_batch" where
  "email_row orm e b =
    (let (i, v) = e; v = empty_str_to_none v; bad = (\<lambda>b. b\<lparr>eb_invalid := add_id i (eb_invalid b)\<rparr>) in
     case need_field v ''email_id'' of
       Inl _ \<Rightarrow> bad b
     | Inr m \<Rightarrow>
         (let provider = (case map_of v ''esp_provider'' of None \<Rightarrow> Some ''Untracked Provider'' | Some x \<Rightarrow> x) in
          case orm v of
            Inl _ \<Rightarrow> bad b
          | Inr ev \<Rightarrow>
              (let factor = (if get_field v ''correction'' \<noteq> None then -1 else 1);
                   cols = columns_of ev (m \<in> set (eb_delivered b));
                   b = b\<lparr>eb_objs := eb_objs b @ [v], eb_providers := List.insert provider (eb_providers b),
                     eb_analytics := fold (\<lambda>c. bump (provider, c) factor) cols (eb_analytics b)\<rparr>;
                   b = set_email_status m ev (note_event m ev b)
               in b\<lparr>eb_valid := add_id i (eb_valid b)\<rparr>)))"

text \<open>
  After the batch: the tracked e-mails get their status; their ids are UUIDs, which equal no text of the sets
  of delivered and bounced e-mails.  The writing is tried four times.
\<close>

record email_world =
  ew_orm :: "fields \<Rightarrow> email_status result"
  ew_trackers :: "(string \<times> email_status) list result"
  ew_attempt :: "nat \<Rightarrow> exn option"

definition track_emails :: "(string option, email_status) dict \<Rightarrow> (string \<times> email_status) list \<Rightarrow> (string \<times> email_status) list result" where
  "track_emails status ts =
    rmap (\<lambda>(m, cur). if cur = REPLIED then Inr (m, cur)
      else case map_of status (Some m) of None \<Rightarrow> Inl (KeyError m) | Some st \<Rightarrow> Inr (m, st)) ts"

record email_written =
  em_events :: "fields list"
  em_statuses :: "(string \<times> email_status) list"
  em_analytics :: "(column, int) dict"

definition add_email_event :: "email_world \<Rightarrow> entry list \<Rightarrow> (string list \<times> email_written option) result" where
  "add_email_event w es =
    (let b = fold (email_row (ew_orm w)) es empty_email in
     rbind (ew_trackers w) (\<lambda>ts. rbind (track_emails (eb_status b) ts) (\<lambda>ts.
       if fst (retry_logic 4 (ew_attempt w)) = None
       then Inr (union_ids (eb_valid b) (eb_invalid b),
         Some \<lparr>em_events = eb_objs b, em_statuses = ts, em_analytics = eb_analytics b\<rparr>)
       else Inr (eb_invalid b, None))))"

section \<open>Events of texts and calls\<close>

record sms_batch =
  sb_objs :: "fields list"
  sb_status :: "(string option, string option) dict"
  sb_valid :: "string list"
  sb_invalid :: "string list"

definition empty_sms :: sms_batch where
  "empty_sms = \<lparr>sb_objs = [], sb_status = [], sb_valid = [], sb_invalid = []\<rparr>"

text \<open>
  \<open>Add_Twilio_Sms_Event\<close>: for a counted status the source subscripts the entry with the dictionary of the
  analytics, which cannot be a key.  Prices are stored below a key that was never made.
\<close>

definition SMS_COUNTED :: "string list" where
  "SMS_COUNTED = [''RECEIVED'', ''REJECTED'', ''SENT'', ''FAILED'', ''BOUNCE'', ''DELIVERED'']"

definition sms_row :: "(fields \<Rightarrow> exn option) \<Rightarrow> entry \<Rightarrow> sms_batch \<Rightarrow> sms_batch" where
  "sms_row orm e b =
    (let (i, v) = e; v = empty_str_to_none v; bad = (\<lambda>b. b\<lparr>sb_invalid := add_id i (sb_invalid b)\<rparr>);
         row = AList.delete ''price_unit'' (AList.delete ''price'' (AList.delete ''correction'' v)) in
     if \<not> list_all (\<lambda>k. map_of v k \<noteq> None) [''correction'', ''price'', ''price_unit''] then bad b
     else if orm row \<noteq> None then bad b
     else let b = b\<lparr>sb_objs := sb_objs b @ [row], sb_valid := add_id i (sb_valid b)\<rparr> in
       case need_field v ''current_event'' of
         Inl _ \<Rightarrow> bad b
       | Inr ev \<Rightarrow>
           if ev \<in> Some ` set SMS_COUNTED then bad b
           else case need_field v ''sms_id'' of
               Inl _ \<Rightarrow> bad b
             | Inr sid \<Rightarrow>
                 if get_field v ''price'' \<noteq> None \<or> get_field v ''price_unit'' \<noteq> None then bad b
                 else b\<lparr>sb_status := AList.update sid ev (sb_status b)\<rparr>)"

record sms_world =
  sw_orm :: "fields \<Rightarrow> exn option"
  sw_trackers :: "string list result"
  sw_attempt :: "nat \<Rightarrow> exn option"

text \<open>What is written: the rows, the status of each tracked text; the analytics are the initial zeros.\<close>

definition add_sms_event :: "sms_world \<Rightarrow> entry list \<Rightarrow> (string list \<times> (fields list \<times> (string \<times> string option) list) option) result" where
  "add_sms_event w es =
    (let b = fold (sms_row (sw_orm w)) es empty_sms in
     rbind (sw_trackers w) (\<lambda>ts.
     rbind (rmap (\<lambda>s. case map_of (sb_status b) (Some s) of None \<Rightarrow> Inl (KeyError s) | Some st \<Rightarrow> Inr (s, st)) ts) (\<lambda>ts.
       if fst (retry_logic 4 (sw_attempt w)) = None
       then Inr (union_ids (sb_valid b) (sb_invalid b), Some (sb_objs b, ts))
       else Inr (sb_invalid b, None))))"

text \<open>
  \<open>Add_Twilio_Call_Event\<close> keeps what it knows of a call in the dictionary \<open>Call_Ids\<close>, which starts empty; for a
  call that is not in it the entry of the call is read before it is made, in both branches.  An entry
  whose reading raises before that is invalid too.  The table of calls is asked for a column of the table of
  texts, and the analytics function is called with an argument too many.
\<close>

record call_state =
  cs_call_ids :: "(string option, fields list) dict"
  cs_invalid :: "string list"
  cs_valid :: "string list"
  cs_objs :: "fields list"

definition call_row :: "(entry \<Rightarrow> call_state \<Rightarrow> call_state) \<Rightarrow> entry \<Rightarrow> call_state \<Rightarrow> call_state" where
  "call_row known e b =
    (let (i, v) = e; v = empty_str_to_none v; bad = b\<lparr>cs_invalid := add_id i (cs_invalid b)\<rparr> in
     case need_field v ''call_id'' of
       Inl _ \<Rightarrow> bad
     | Inr c \<Rightarrow>
         if map_of (cs_call_ids b) c = None then
           (case need_field v ''city'' of Inl _ \<Rightarrow> bad | Inr _ \<Rightarrow> bad)
         else known e b)"

record call_world =
  cw_known :: "entry \<Rightarrow> call_state \<Rightarrow> call_state"
  cw_lookup :: "exn option"
  cw_bulk :: "nat \<Rightarrow> exn option"

definition add_call_event :: "call_world \<Rightarrow> (string option, fields list) dict \<Rightarrow> entry list
    \<Rightarrow> (string list \<times> fields list) result \<times> (string option, fields list) dict" where
  "add_call_event w ids es =
    (let b = fold (call_row (cw_known w)) es \<lparr>cs_call_ids = ids, cs_invalid = [], cs_valid = [], cs_objs = []\<rparr> in
     (case cw_lookup w of
        Some e \<Rightarrow> Inl e
      | None \<Rightarrow>
          (case fst (retry_logic 3 (\<lambda>k. case cw_bulk w k of Some e \<Rightarrow> Some e | None \<Rightarrow> Some TypeError)) of
             None \<Rightarrow> Inr (union_ids (cs_valid b) (cs_invalid b), cs_objs b)
           | Some _ \<Rightarrow> Inr (cs_invalid b, [])), cs_call_ids b))"

section \<open>Subscriptions and new contacts\<close>

type_synonym place = "string option \<times> string option \<times> string option"

definition place_of :: "fields \<Rightarrow> place result" where
  "place_of v =
    rbind (need_field v ''country'') (\<lambda>c. rbind (need_field v ''state'') (\<lambda>s. rbind (need_field v ''region'') (\<lambda>r. Inr (c, s, r))))"

abbreviation no_place :: place where "no_place \<equiv> (Some ''N/A'', Some ''N/A'', Some ''N/A'')"

record place_batch =
  pb_analytics :: "(place, int) dict"
  pb_valid :: "string list"
  pb_invalid :: "string list"

definition empty_place :: place_batch where
  "empty_place = \<lparr>pb_analytics = [], pb_valid = [], pb_invalid = []\<rparr>"

text \<open>
  \<open>Add_Contact_Subs_Event\<close> sets two counters inside of an entry of the analytics that is not there.  For one
  that were there, an integer is added to a dictionary.
\<close>

definition subs_row :: "entry \<Rightarrow> place_batch \<Rightarrow> place_batch" where
  "subs_row e b =
    (let (i, v) = e; v = empty_str_to_none v; bad = b\<lparr>pb_invalid := add_id i (pb_invalid b)\<rparr> in
     case (if get_field v ''country'' \<noteq> None then place_of v else Inr no_place) of
       Inl _ \<Rightarrow> bad
     | Inr k \<Rightarrow> bad)"

definition add_contact_subs_event :: "exn option \<Rightarrow> entry list \<Rightarrow> string list \<times> (place, int) dict" where
  "add_contact_subs_event upsert es =
    (let b = fold subs_row es empty_place in
     case upsert of
       None \<Rightarrow> (union_ids (pb_valid b) (pb_invalid b), pb_analytics b)
     | Some _ \<Rightarrow> (pb_invalid b, []))"

definition creation_row :: "entry \<Rightarrow> place_batch \<Rightarrow> place_batch" where
  "creation_row e b =
    (let (i, v) = e; v = empty_str_to_none v; bad = b\<lparr>pb_invalid := add_id i (pb_invalid b)\<rparr> in
     case rbind (need_field v ''country'') (\<lambda>c. if c \<noteq> None then place_of v else Inr no_place) of
       Inl _ \<Rightarrow> bad
     | Inr k \<Rightarrow> b\<lparr>pb_analytics := bump k 1 (pb_analytics b), pb_valid := add_id i (pb_valid b)\<rparr>)"

definition add_contact_creation_event :: "exn option \<Rightarrow> entry list \<Rightarrow> string list \<times> (place, int) dict" where
  "add_contact_creation_event upsert es =
    (let b = fold creation_row es empty_place in
     case upsert of
       None \<Rightarrow> (union_ids (pb_valid b) (pb_invalid b), pb_analytics b)
     | Some _ \<Rightarrow> (pb_invalid b, []))"

section \<open>Every entry is accounted for\<close>

lemma fold_ids:
  assumes "\<And>e b. ids (row e b) = insert (fst e) (ids b)"
  shows "ids (fold row es b) = fst ` set es \<union> ids b"
  by (induction es arbitrary: b) (auto simp: assms)

lemma link_row_ids:
  "set (lb_valid (link_row detect orm e b)) \<union> set (lb_invalid (link_row detect orm e b))
    = insert (fst e) (set (lb_valid b) \<union> set (lb_invalid b))"
  by (cases e) (auto simp: link_row_def Let_def split: sum.splits option.splits)

lemma email_row_ids:
  "set (eb_valid (email_row orm e b)) \<union> set (eb_invalid (email_row orm e b))
    = insert (fst e) (set (eb_valid b) \<union> set (eb_invalid b))"
  by (cases e) (auto simp: email_row_def note_event_def set_email_status_def Let_def split: sum.splits)

lemma sms_row_ids:
  "set (sb_valid (sms_row orm e b)) \<union> set (sb_invalid (sms_row orm e b))
    = insert (fst e) (set (sb_valid b) \<union> set (sb_invalid b))"
  by (cases e) (auto simp: sms_row_def Let_def split: sum.splits)

lemma bulk_row_ids:
  "set (ba_valid (bulk_row orm e b)) \<union> set (ba_invalid (bulk_row orm e b))
    = insert (fst e) (set (ba_valid b) \<union> set (ba_invalid b))"
  by (cases e) (auto simp: bulk_row_def Let_def split: option.splits)

lemma creation_row_ids:
  "set (pb_valid (creation_row e b)) \<union> set (pb_invalid (creation_row e b))
    = insert (fst e) (set (pb_valid b) \<union> set (pb_invalid b))"
  by (cases e) (auto simp: creation_row_def Let_def split: sum.splits)

lemma subs_row_bad: "subs_row e b = b\<lparr>pb_invalid := add_id (fst e) (pb_invalid b)\<rparr>"
  by (cases e) (auto simp: subs_row_def Let_def split: sum.splits)

lemma link_fold_ids:
  "set (lb_valid (fold (link_row detect orm) es b)) \<union> set (lb_invalid (fold (link_row detect orm) es b))
    = fst ` set es \<union> (set (lb_valid b) \<union> set (lb_invalid b))"
  by (rule fold_ids [of "\<lambda>b. set (lb_valid b) \<union> set (lb_invalid b)"]) (rule link_row_ids)

lemma email_fold_ids:
  "set (eb_valid (fold (email_row orm) es b)) \<union> set (eb_invalid (fold (email_row orm) es b))
    = fst ` set es \<union> (set (eb_valid b) \<union> set (eb_invalid b))"
  by (rule fold_ids [of "\<lambda>b. set (eb_valid b) \<union> set (eb_invalid b)"]) (rule email_row_ids)

lemma sms_fold_ids:
  "set (sb_valid (fold (sms_row orm) es b)) \<union> set (sb_invalid (fold (sms_row orm) es b))
    = fst ` set es \<union> (set (sb_valid b) \<union> set (sb_invalid b))"
  by (rule fold_ids [of "\<lambda>b. set (sb_valid b) \<union> set (sb_invalid b)"]) (rule sms_row_ids)

lemma bulk_fold_ids:
  "set (ba_valid (fold (bulk_row orm) es b)) \<union> set (ba_invalid (fold (bulk_row orm) es b))
    = fst ` set es \<union> (set (ba_valid b) \<union> set (ba_invalid b))"
  by (rule fold_ids [of "\<lambda>b. set (ba_valid b) \<union> set (ba_invalid b)"]) (rule bulk_row_ids)

section \<open>The handlers as consumers of streams\<close>

definition link_handler :: "link_world \<Rightarrow> entry list \<Rightarrow> string list result" where
  "link_handler w es = Inr (wr_acks (add_link_event w es))"

definition email_handler :: "email_world \<Rightarrow> entry list \<Rightarrow> string list result" where
  "email_handler w es = rbind (add_email_event w es) (\<lambda>(acks, _). Inr acks)"

definition sms_handler :: "sms_world \<Rightarrow> entry list \<Rightarrow> string list result" where
  "sms_handler w es = rbind (add_sms_event w es) (\<lambda>(acks, _). Inr acks)"

definition tracking_handler :: "(fields \<Rightarrow> exn option) \<times> exn option \<Rightarrow> entry list \<Rightarrow> string list result" where
  "tracking_handler w es = Inr (fst (simple_bulk_creates (fst w) (snd w) es))"

lemma locked_handler: "batch_handler handle \<Longrightarrow> batch_handler (locked handle)"
  by (auto simp: batch_handler_def locked_def lock_logic_def split: if_splits)

lemma link_handler_ok: "batch_handler link_handler"
proof
  fix w es acks
  assume "link_handler w es = Inr acks"
  then show "set acks \<subseteq> fst ` set es"
    using link_fold_ids [of "lw_detect w" "lw_orm w" es empty_link]
    by (auto simp: link_handler_def add_link_event_def empty_link_def Let_def split: option.splits)
qed

lemma email_handler_ok: "batch_handler email_handler"
proof
  fix w es acks
  assume "email_handler w es = Inr acks"
  then show "set acks \<subseteq> fst ` set es"
    using email_fold_ids [of "ew_orm w" es empty_email]
    by (auto simp: email_handler_def add_email_event_def empty_email_def Let_def rbind_Inr_iff split: if_splits)
qed

lemma sms_handler_ok: "batch_handler sms_handler"
proof
  fix w es acks
  assume "sms_handler w es = Inr acks"
  then show "set acks \<subseteq> fst ` set es"
    using sms_fold_ids [of "sw_orm w" es empty_sms]
    by (auto simp: sms_handler_def add_sms_event_def empty_sms_def Let_def rbind_Inr_iff split: if_splits)
qed

lemma tracking_handler_ok: "batch_handler tracking_handler"
proof
  fix w es acks
  assume "tracking_handler w es = Inr acks"
  then show "set acks \<subseteq> fst ` set es"
    using bulk_fold_ids [of "fst w" es empty_batch]
    by (auto simp: tracking_handler_def simple_bulk_creates_def empty_batch_def Let_def split: option.splits)
qed

interpretation links: batch_handler "locked link_handler"
  by (rule locked_handler [OF link_handler_ok])

interpretation emails: batch_handler "locked email_handler"
  by (rule locked_handler [OF email_handler_ok])

interpretation texts: batch_handler "locked sms_handler"
  by (rule locked_handler [OF sms_handler_ok])

interpretation trackings: batch_handler "locked tracking_handler"
  by (rule locked_handler [OF tracking_handler_ok])

section \<open>What becomes of an entry\<close>

lemma count_list_distinct: "distinct xs \<Longrightarrow> x \<in> set xs \<Longrightarrow> count_list xs x = 1"
  by (induction xs) (auto simp: count_list_0_iff)

text \<open>C13: An entry is given to its handler at most once.  One that is delivered while the service of the database
  is not usable stays pending for good: whatever the consumer does afterwards, with the database back or
  not, it is never given to the handler again, never stored and never deleted.\<close>

theorem delivered_while_down_is_lost:
  assumes "stream_run (locked link_handler) empty_stream s" "status \<notin> Some ` set acceptable_states"
    and "i \<in> fst ` set (take n (st_new s))"
    and "stream_run (locked link_handler) (consume n (locked link_handler (status, w)) s) s'"
  shows "i \<in> set (st_pending s') \<and> i \<notin> set (st_gone s') \<and> count_list (st_handed s') i = 1"
proof -
  let ?s1 = "consume n (locked link_handler (status, w)) s"
  have ok: "links.stream_ok s" by (rule links.run_ok [OF assms(1) links.empty_ok])
  have "locked link_handler (status, w) es = Inr []" for es
    using assms(2) by (simp add: locked_def lock_logic_def)
  then have pending: "i \<in> set (st_pending ?s1)"
    using assms(3) by (auto simp: consume_def Let_def)
  have ok1: "links.stream_ok ?s1" by (rule links.consume_ok [OF ok])
  have i: "i \<in> set (st_pending s')"
    using links.stuck_forever [OF assms(4) ok1] pending by blast
  have "links.stream_ok s'" by (rule links.run_ok [OF assms(4) ok1])
  then have "i \<notin> set (st_gone s')" "i \<in> set (st_handed s')" "distinct (st_handed s')"
    using i by (auto simp: links.stream_ok_def)
  then show ?thesis using i by (simp add: count_list_distinct)
qed

definition sample_links :: link_world where
  "sample_links = \<lparr>lw_detect = Inr, lw_orm = (\<lambda>_. None), lw_visits = None, lw_analytics = None\<rparr>"

theorem delivered_while_down_is_lost_witness:
  "''1'' \<in> set (st_pending (consume 10 (locked link_handler (Some NOT_AVAILABLE, sample_links))
     (empty_stream\<lparr>st_new := [(''1'', [(''link_id'', Some ''a'')])]\<rparr>)))"
proof -
  have "stream_step (locked link_handler) empty_stream (empty_stream\<lparr>st_new := [(''1'', [(''link_id'', Some ''a'')])]\<rparr>)"
    using add_entry [of "''1''" empty_stream "locked link_handler" "[(''link_id'', Some ''a'')]"] by (simp add: empty_stream_def)
  then have run: "stream_run (locked link_handler) empty_stream (empty_stream\<lparr>st_new := [(''1'', [(''link_id'', Some ''a'')])]\<rparr>)"
    by (rule run_step [OF run_refl])
  show ?thesis
    using delivered_while_down_is_lost [OF run, of "Some NOT_AVAILABLE" "''1''" 10 sample_links, OF _ _ run_refl]
    by (simp add: acceptable_states_def)
qed

section \<open>What the handlers write\<close>

text \<open>The entries a visit is stored for.\<close>

definition link_stored :: "link_world \<Rightarrow> fields \<Rightarrow> bool" where
  "link_stored w v \<longleftrightarrow> (\<exists>l k. need_field v ''link_id'' = Inr l \<and> visit_key (lw_detect w) l v = Inr k) \<and> lw_orm w v = None"

lemma link_row_count:
  "count_of l (lb_count (link_row detect orm e b)) = count_of l (lb_count b)
    + (if need_field (empty_str_to_none (snd e)) ''link_id'' = Inr l then 1 else 0)"
  by (cases e) (auto simp: link_row_def Let_def split: sum.splits option.splits)

lemma link_row_objs:
  "lb_objs (link_row (lw_detect w) (lw_orm w) e b) = lb_objs b
    @ (if link_stored w (empty_str_to_none (snd e)) then [empty_str_to_none (snd e)] else [])"
  by (cases e) (auto simp: link_row_def link_stored_def Let_def split: sum.splits option.splits)

lemma link_fold_count:
  "count_of l (lb_count (fold (link_row detect orm) es b)) = count_of l (lb_count b)
    + int (length (filter (\<lambda>e. need_field (empty_str_to_none (snd e)) ''link_id'' = Inr l) es))"
  by (induction es arbitrary: b) (simp_all add: link_row_count)

lemma link_fold_objs:
  "lb_objs (fold (link_row (lw_detect w) (lw_orm w)) es b) = lb_objs b
    @ filter (link_stored w) (map (empty_str_to_none \<circ> snd) es)"
  by (induction es arbitrary: b) (simp_all add: link_row_objs)

text \<open>The visits added to a link are the entries that name it, while the rows stored for them are only those
  of the entries that could be read: an entry that is invalid is counted all the same.  When only the
  transaction of the analytics fails, rows and visits are stored but not acknowledged.\<close>

theorem link_visits_counted:
  assumes "lw_visits w = None"
  shows "count_of l (wr_visits (add_link_event w es))
      = int (length (filter (\<lambda>e. need_field (empty_str_to_none (snd e)) ''link_id'' = Inr l) es))
    \<and> wr_events (add_link_event w es) = filter (link_stored w) (map (empty_str_to_none \<circ> snd) es)
    \<and> (lw_analytics w = None \<longrightarrow> set (wr_acks (add_link_event w es)) = fst ` set es)"
  using assms link_fold_ids [of "lw_detect w" "lw_orm w" es empty_link] link_fold_count [of l "lw_detect w" "lw_orm w" es empty_link]
    link_fold_objs [of w es empty_link]
  by (auto simp: add_link_event_def empty_link_def count_of_def Let_def split: option.splits)

theorem link_visits_counted_witness:
  "count_of (Some ''a'') (wr_visits (add_link_event sample_links [(''1'', [(''link_id'', Some ''a''), (''country'', Some ''CA'')])])) = 1
    \<and> wr_events (add_link_event sample_links [(''1'', [(''link_id'', Some ''a''), (''country'', Some ''CA'')])]) = []"
  using link_visits_counted [of sample_links "Some ''a''" "[(''1'', [(''link_id'', Some ''a''), (''country'', Some ''CA'')])]"]
  by (simp add: sample_links_def need_field_def get_field_def empty_str_to_none_def link_stored_def visit_key_def device_type_def)

text \<open>The events of an e-mail among the entries that can be read.\<close>

definition events_of :: "(fields \<Rightarrow> email_status result) \<Rightarrow> string option \<Rightarrow> entry list \<Rightarrow> email_status list" where
  "events_of orm m es = List.map_filter (\<lambda>e. let v = empty_str_to_none (snd e) in
     if need_field v ''email_id'' = Inr m then (case orm v of Inr ev \<Rightarrow> Some ev | Inl _ \<Rightarrow> None) else None) es"

lemma events_of_simps:
  "events_of orm m [] = []"
  "events_of orm m (es @ [e]) = events_of orm m es @ (let v = empty_str_to_none (snd e) in
     if need_field v ''email_id'' = Inr m then (case orm v of Inr ev \<Rightarrow> [ev] | Inl _ \<Rightarrow> []) else [])"
  by (simp_all add: events_of_def List.map_filter_def Let_def split: sum.splits)

lemma email_row_status:
  "map_of (eb_status (email_row orm (i, v) b)) m =
    (case (if need_field (empty_str_to_none v) ''email_id'' = Inr m then orm (empty_str_to_none v) else Inl TypeError) of
       Inr ev \<Rightarrow> Some (if ev = REPLIED \<or> m \<in> set (eb_replied b) then REPLIED else ev)
     | Inl _ \<Rightarrow> map_of (eb_status b) m)"
proof (cases "need_field (empty_str_to_none v) ''email_id''")
  case (Inr m')
  then show ?thesis
    by (cases "orm (empty_str_to_none v)") (auto simp: email_row_def note_event_def set_email_status_def Let_def)
qed (simp add: email_row_def Let_def)

lemma email_row_replied:
  "m \<in> set (eb_replied (email_row orm e b)) \<longleftrightarrow> m \<in> set (eb_replied b) \<or>
    (let v = empty_str_to_none (snd e) in need_field v ''email_id'' = Inr m \<and> orm v = Inr REPLIED)"
  by (cases e) (auto simp: email_row_def note_event_def set_email_status_def Let_def split: sum.splits)

text \<open>C39: After a batch the status of an e-mail is replied if a reply to it was among the events, and otherwise
  the last event in the order of delivery: that it was opened before is forgotten by any later event.\<close>

theorem email_status_of_batch:
  "map_of (eb_status (fold (email_row orm) es empty_email)) m =
    (case events_of orm m es of [] \<Rightarrow> None
     | evs \<Rightarrow> Some (if REPLIED \<in> set evs then REPLIED else last evs))"
proof -
  have "map_of (eb_status (fold (email_row orm) es empty_email)) m =
      (if events_of orm m es = [] then None
       else Some (if REPLIED \<in> set (events_of orm m es) then REPLIED else last (events_of orm m es)))
    \<and> (m \<in> set (eb_replied (fold (email_row orm) es empty_email)) \<longleftrightarrow> REPLIED \<in> set (events_of orm m es))"
  proof (induction es rule: rev_induct)
    case Nil
    then show ?case by (simp add: events_of_simps empty_email_def)
  next
    case (snoc e es)
    obtain i v where e: "e = (i, v)" by (rule prod.exhaust)
    show ?case
    proof (cases "need_field (empty_str_to_none v) ''email_id'' = Inr m")
      case True
      then show ?thesis
        using snoc.IH by (cases "orm (empty_str_to_none v)") (simp_all add: e events_of_simps email_row_status email_row_replied eq_commute [of REPLIED])
    next
      case False
      then show ?thesis
        using snoc.IH by (simp add: e events_of_simps email_row_status email_row_replied)
    qed
  qed
  then show ?thesis by (cases "events_of orm m es") simp_all
qed

lemma sms_row_invalid: "i \<in> set (sb_invalid b) \<Longrightarrow> i \<in> set (sb_invalid (sms_row orm (j, v) b))"
  unfolding sms_row_def Let_def prod.case by (auto split: sum.splits)

lemma sms_invalid_grows: "i \<in> set (sb_invalid b) \<Longrightarrow> i \<in> set (sb_invalid (fold (sms_row orm) es b))"
proof (induction es arbitrary: b)
  case (Cons e es)
  then show ?case
    using sms_row_invalid [of i b orm "fst e" "snd e"] by simp
qed simp

lemma sms_counted_invalid:
  assumes "get_field (empty_str_to_none v) ''current_event'' \<in> Some ` set SMS_COUNTED"
  shows "i \<in> set (sb_invalid (sms_row orm (i, v) b))"
  using assms by (auto simp: sms_row_def need_field_def get_field_def Let_def split: option.splits)

text \<open>Every text message event that has one of the counted statuses is acknowledged whether or not anything could
  be written, so with the database refusing the rows it is deleted without having been stored.\<close>

theorem sms_events_acknowledged:
  assumes "(i, v) \<in> set es" "get_field (empty_str_to_none v) ''current_event'' \<in> Some ` set SMS_COUNTED"
    and "add_sms_event w es = Inr (acks, written)"
  shows "i \<in> set acks"
proof -
  obtain xs ys where es: "es = xs @ (i, v) # ys"
    using assms(1) by (meson split_list)
  have "i \<in> set (sb_invalid (fold (sms_row (sw_orm w)) es empty_sms))"
    using sms_invalid_grows [OF sms_counted_invalid [OF assms(2)]] by (simp add: es)
  then show ?thesis
    using assms(3) by (auto simp: add_sms_event_def Let_def rbind_Inr_iff split: if_splits)
qed

theorem sms_events_acknowledged_witness:
  "\<exists>acks. add_sms_event \<lparr>sw_orm = (\<lambda>_. None), sw_trackers = Inr [], sw_attempt = (\<lambda>_. Some ValueError)\<rparr>
     [(''1'', [(''correction'', None), (''price'', None), (''price_unit'', None), (''current_event'', Some ''SENT'')])]
     = Inr (acks, None) \<and> ''1'' \<in> set acks"
proof -
  let ?w = "\<lparr>sw_orm = (\<lambda>_. None), sw_trackers = Inr [], sw_attempt = (\<lambda>_. Some ValueError)\<rparr>"
  let ?v = "[(''correction'', None), (''price'', None), (''price_unit'', None), (''current_event'', Some ''SENT'')]"
  have v: "empty_str_to_none ?v = ?v" by (simp add: empty_str_to_none_def)
  then have "get_field (empty_str_to_none ?v) ''current_event'' = Some ''SENT''" by (simp add: get_field_def)
  then have counted: "get_field (empty_str_to_none ?v) ''current_event'' \<in> Some ` set SMS_COUNTED" by (simp add: SMS_COUNTED_def)
  obtain acks where r: "add_sms_event ?w [(''1'', ?v)] = Inr (acks, None)"
    by (simp add: add_sms_event_def empty_sms_def retry_logic_def retry_from.simps integrity_error_def)
  have "''1'' \<in> set acks"
    by (rule sms_events_acknowledged [OF _ counted r]) simp
  then show ?thesis using r by blast
qed

lemma call_row_bad: "cs_call_ids b = [] \<Longrightarrow> call_row known e b = b\<lparr>cs_invalid := add_id (fst e) (cs_invalid b)\<rparr>"
  by (cases e) (auto simp: call_row_def Let_def split: sum.splits)

lemma call_fold_bad:
  "cs_call_ids b = [] \<Longrightarrow> fold (call_row known) es b = b\<lparr>cs_invalid := fold (\<lambda>e. add_id (fst e)) es (cs_invalid b)\<rparr>"
  by (induction es arbitrary: b) (simp_all add: call_row_bad)

lemma subs_fold_bad: "fold subs_row es b = b\<lparr>pb_invalid := fold (\<lambda>e. add_id (fst e)) es (pb_invalid b)\<rparr>"
  by (induction es arbitrary: b) (simp_all add: subs_row_bad)

lemma set_fold_add_id: "set (fold (\<lambda>e. add_id (fst e)) es xs) = fst ` set es \<union> set xs"
  by (induction es arbitrary: xs) auto

lemma retry_never_succeeds: "\<forall>k. attempt k \<noteq> None \<Longrightarrow> 0 < n \<Longrightarrow> fst (retry_logic n attempt) \<noteq> None"
proof -
  assume a: "\<forall>k. attempt k \<noteq> None" "0 < n"
  have "k < n \<Longrightarrow> fst (retry_from attempt n k) \<noteq> None" for k
  proof (induction "n - k" arbitrary: k)
    case (Suc m)
    obtain e where "attempt k = Some e" using a(1) by blast
    then show ?case
      using Suc.hyps(1) [of "k + 1"] Suc.hyps(2) Suc.prems by (simp add: retry_from.simps [of attempt n k])
  qed simp
  then show ?thesis using a(2) by (simp add: retry_logic_def)
qed

text \<open>No event of a call and no subscription of a contact is ever stored.  A batch of calls fails as a whole or is
  acknowledged entry by entry without a row, what is known of a call is never remembered, and every
  subscription is acknowledged without being counted.\<close>

theorem calls_and_subscriptions_dropped:
  "snd (add_call_event w [] es) = []
    \<and> (case fst (add_call_event w [] es) of
         Inl e \<Rightarrow> cw_lookup w = Some e
       | Inr (acks, rows) \<Rightarrow> set acks = fst ` set es \<and> rows = [])
    \<and> set (fst (add_contact_subs_event upsert es)) = fst ` set es \<and> snd (add_contact_subs_event upsert es) = []"
proof -
  have "fst (retry_logic 3 (\<lambda>k. case cw_bulk w k of Some e \<Rightarrow> Some e | None \<Rightarrow> Some TypeError)) \<noteq> None"
    by (rule retry_never_succeeds) (simp_all split: option.splits)
  then show ?thesis
    by (auto simp: add_call_event_def call_fold_bad add_contact_subs_event_def subs_fold_bad empty_place_def
        set_fold_add_id Let_def split: option.splits)
qed

text \<open>What is sent is what is received, unless a field was the empty text.\<close>

lemma stream_roundtrip:
  "list_all (\<lambda>(k, v). v \<noteq> Some '''') d \<Longrightarrow> empty_str_to_none (none_to_empty_str d) = d"
  by (induction d) (auto simp: empty_str_to_none_def none_to_empty_str_def)

end
