(* ===== verification/Cache_Model.thy ===== *)
theory Cache_Model
  imports Request_Guards
begin

text \<open>
  depends/orm_cache.py and depends/res_cache.py over services/database/redis_service.py and
  services/database/memcached_service.py: values kept beside their source.  The servers are dictionaries from
  keys to texts; what their clients make of a value or of an expiry, JSON, and the constructor of a row are parameters.
\<close>

section \<open>Redis\<close>

datatype pyval = P_json json | P_text string | P_number rat | P_bool bool

datatype num = Whole int | Fraction rat

definition num_le_zero :: "num \<Rightarrow> bool" where
  "num_le_zero n = (case n of Whole i \<Rightarrow> i \<le> 0 | Fraction q \<Rightarrow> q \<le> 0)"

type_synonym server = "(string, string) dict"

record redis_lib =
  rd_dumps :: "json \<Rightarrow> string"
  rd_loads :: "string \<Rightarrow> json result"
  rd_encode :: "pyval \<Rightarrow> string result"
  rd_ex :: "num \<Rightarrow> exn option"

text \<open>\<open>RedisService.store\<close>: dictionaries and lists as JSON; an expiry that is not positive is none.\<close>

definition redis_store :: "redis_lib \<Rightarrow> bool \<Rightarrow> string \<Rightarrow> pyval \<Rightarrow> num \<Rightarrow> server \<Rightarrow> exn option \<times> server" where
  "redis_store R nx key v expiry s =
    (case (case v of
         P_json (JDict d) \<Rightarrow> Inr (rd_dumps R (JDict d))
       | P_json (JList l) \<Rightarrow> Inr (rd_dumps R (JList l))
       | _ \<Rightarrow> rd_encode R v) of
       Inl e \<Rightarrow> (Some e, s)
     | Inr t \<Rightarrow>
         (case (if num_le_zero expiry then None else rd_ex R expiry) of
            Some e \<Rightarrow> (Some e, s)
          | None \<Rightarrow> (None, if nx \<and> dict_has s key then s else AList.update key t s)))"

definition redis_retrieve :: "redis_lib \<Rightarrow> string \<Rightarrow> server \<Rightarrow> json option result" where
  "redis_retrieve R key s = (case map_of s key of None \<Rightarrow> Inr None | Some t \<Rightarrow> rbind (rd_loads R t) (\<lambda>j. Inr (Some j)))"

definition redis_delete :: "string \<Rightarrow> server \<Rightarrow> server" where
  "redis_delete key s = AList.delete key s"

text \<open>\<open>scan\<close> unpacks what \<open>redis.scan\<close> returns without awaiting it, and \<open>delete_all\<close> starts with a scan.\<close>

definition redis_scan :: "string \<Rightarrow> server \<Rightarrow> string list result" where
  "redis_scan pattern s = Inl TypeError"

definition redis_delete_all :: "(string list \<Rightarrow> server \<Rightarrow> server) \<Rightarrow> string \<Rightarrow> bool \<Rightarrow> server \<Rightarrow> exn option \<times> server" where
  "redis_delete_all del_keys prefix simple_prefix s =
    (case redis_scan (if simple_prefix then prefix @ ''*'' else prefix) s of
       Inl e \<Rightarrow> (Some e, s)
     | Inr keys \<Rightarrow> (None, if keys = [] then s else del_keys keys s))"

interpretation redis_keys: kv_store "[] :: server" map_of AList.update redis_delete
  by unfold_locales (simp_all add: redis_delete_def)

section \<open>The cache of rows\<close>

text \<open>The expiry of a cache: a number, a text, an interval, a function of the object, or something else.\<close>

datatype 'o expiry = E_num num | E_text string | E_delta rat | E_call "'o \<Rightarrow> num result" | E_other

definition set_expiry :: "(string \<Rightarrow> int result) \<Rightarrow> 'o expiry \<Rightarrow> num" where
  "set_expiry parse_time x =
    (case x of
       E_num n \<Rightarrow> if num_le_zero n then Whole 0 else n
     | E_text s \<Rightarrow> (case parse_time s of Inr i \<Rightarrow> Whole i | Inl _ \<Rightarrow> Whole 0)
     | E_delta q \<Rightarrow> Fraction q
     | _ \<Rightarrow> Whole 0)"

text \<open>
  The attributes of a row: a value that JSON can write, the other values of the primitive classes, as bytes or a set,
  which it cannot, a UUID, and all else: a date, an enumeration, a relation.
\<close>

datatype attr = Json_attr json | Raw_attr | Uuid_attr string | Object_attr

text \<open>What a row is stored as without \<open>to_json\<close>: UUIDs become texts, and what is not primitive is left out.\<close>

fun primitive_fields :: "(string \<times> attr) list \<Rightarrow> (string, json) dict result" where
  "primitive_fields [] = Inr []"
| "primitive_fields ((field, a) # fs) =
    (case a of
       Json_attr j \<Rightarrow> rbind (primitive_fields fs) (\<lambda>d. Inr ((field, j) # d))
     | Uuid_attr u \<Rightarrow> rbind (primitive_fields fs) (\<lambda>d. Inr ((field, JStr u) # d))
     | Raw_attr \<Rightarrow> Inl TypeError
     | Object_attr \<Rightarrow> primitive_fields fs)"

text \<open>
  The type of a cache.  Of the class of a table: the fields of a row, its property \<open>to_json\<close> if the class has one,
  and the constructor of the class, to which the stored dictionary gives the keywords; of dictionaries; of other values,
  which are stored as they are.
\<close>

datatype 'o cached_type =
    Model_type "'o \<Rightarrow> (string \<times> attr) list" "('o \<Rightarrow> (string, json) dict) option" "(string, json) dict \<Rightarrow> 'o result"
  | Dict_type "'o \<Rightarrow> (string, json) dict" "json \<Rightarrow> 'o result"
  | Value_type "'o \<Rightarrow> pyval" "json \<Rightarrow> 'o result"

text \<open>How a cache is made: its keys, its expiry, and its type.\<close>

record 'o orm_cache =
  oc_key :: "string list \<Rightarrow> string result"
  oc_expiry :: "'o expiry"
  oc_nx :: bool
  oc_type :: "'o cached_type"
  oc_use_to_json :: bool

text \<open>What \<open>Store\<close> hands to Redis for an object, and for None, and what \<open>Get\<close> makes of what comes back.\<close>

definition row_dict :: "bool \<Rightarrow> ('o \<Rightarrow> (string \<times> attr) list) \<Rightarrow> ('o \<Rightarrow> (string, json) dict) option \<Rightarrow> 'o \<Rightarrow> (string, json) dict result" where
  "row_dict use_to_json columns to_json ob =
    (case to_json of
       Some f \<Rightarrow> if use_to_json then Inr (f ob) else primitive_fields (columns ob)
     | None \<Rightarrow> primitive_fields (columns ob))"

definition encode_object :: "'o orm_cache \<Rightarrow> 'o option \<Rightarrow> pyval result" where
  "encode_object C ob =
    (case (oc_type C, ob) of
       (Model_type columns to_json init, Some ob) \<Rightarrow> rbind (row_dict (oc_use_to_json C) columns to_json ob) (\<lambda>d. Inr (P_json (JDict d)))
     | (Model_type columns to_json init, None) \<Rightarrow> Inl (AttributeError ''_meta'')
     | (Dict_type items back, Some ob) \<Rightarrow> Inr (P_json (JDict (items ob)))
     | (Dict_type items back, None) \<Rightarrow> Inl TypeError
     | (Value_type as_value back, Some ob) \<Rightarrow> Inr (as_value ob)
     | (Value_type as_value back, None) \<Rightarrow> Inr (P_json JNull))"

definition decode_object :: "'o orm_cache \<Rightarrow> json \<Rightarrow> 'o result" where
  "decode_object C j =
    (case oc_type C of
       Model_type columns to_json init \<Rightarrow> (case j of JDict d \<Rightarrow> init d | _ \<Rightarrow> Inl TypeError)
     | Dict_type items back \<Rightarrow> back j
     | Value_type as_value back \<Rightarrow> back j)"

text \<open>\<open>Store\<close> reads an object it is not given from the source, with the keywords of the call.\<close>

definition orm_store ::
  "redis_lib \<Rightarrow> (string \<Rightarrow> int result) \<Rightarrow> 'o orm_cache \<Rightarrow> string list \<Rightarrow> 'o option \<Rightarrow> 'o option result \<Rightarrow> 'o expiry \<Rightarrow> server
    \<Rightarrow> exn option \<times> server" where
  "orm_store R parse_time C ks ob source x s =
    (case oc_key C ks of
       Inl e \<Rightarrow> (Some e, s)
     | Inr key \<Rightarrow>
         (case rbind (if ob = None then source else Inr ob) (encode_object C) of
            Inl e \<Rightarrow> (Some e, s)
          | Inr v \<Rightarrow> redis_store R (oc_nx C) key v (set_expiry parse_time x) s))"

definition orm_get :: "redis_lib \<Rightarrow> 'o orm_cache \<Rightarrow> string list \<Rightarrow> server \<Rightarrow> 'o option result" where
  "orm_get R C ks s =
    rbind (oc_key C ks) (\<lambda>key. rbind (redis_retrieve R key s) (\<lambda>r. case r of
        None \<Rightarrow> Inr None
      | Some j \<Rightarrow> if j = JNull then Inr None else rbind (decode_object C j) (\<lambda>ob. Inr (Some ob))))"

definition orm_invalid :: "'o orm_cache \<Rightarrow> string list \<Rightarrow> server \<Rightarrow> exn option \<times> server" where
  "orm_invalid C ks s = (case oc_key C ks of Inl e \<Rightarrow> (Some e, s) | Inr key \<Rightarrow> (None, redis_delete key s))"

definition orm_invalid_all :: "(string list \<Rightarrow> server \<Rightarrow> server) \<Rightarrow> 'o orm_cache \<Rightarrow> spec \<Rightarrow> string list option \<Rightarrow> server \<Rightarrow> exn option \<times> server" where
  "orm_invalid_all del_keys C prefix msk s =
    (case prefix of
       One p \<Rightarrow> redis_delete_all del_keys p True s
     | Many ps \<Rightarrow>
         (case oc_key C (case msk of None \<Rightarrow> replicate (length ps) ''*'' | Some m \<Rightarrow> m) of
            Inl e \<Rightarrow> (Some e, s)
          | Inr p \<Rightarrow> redis_delete_all del_keys p False s))"

text \<open>
  \<open>DB_Get\<close>: of a tuple or list the element at the index of the cache.  The source may answer with one value or
  with several.
\<close>

datatype 'o answer = Single "'o option" | Several "'o option list"

definition db_get :: "nat \<Rightarrow> 'o answer \<Rightarrow> ('o answer, 'o) sum option" where
  "db_get index a = (case a of
       Single None \<Rightarrow> None
     | Single (Some ob) \<Rightarrow> Some (Inr ob)
     | Several xs \<Rightarrow> if index < length xs then map_option Inr (xs ! index) else Some (Inl a))"

text \<open>
  \<open>Cache\<close>: with a computed expiry that is not positive nothing is returned, though the object was found; the
  random seconds are added to nothing.
\<close>

definition orm_cache_cache ::
  "redis_lib \<Rightarrow> (string \<Rightarrow> int result) \<Rightarrow> bool \<Rightarrow> 'o orm_cache \<Rightarrow> string list \<Rightarrow> 'o option result \<Rightarrow> server
    \<Rightarrow> 'o option result \<times> server" where
  "orm_cache_cache R parse_time when C ks source s =
    (if \<not> when then (source, s)
     else case orm_get R C ks s of
         Inl e \<Rightarrow> (Inl e, s)
       | Inr (Some ob) \<Rightarrow> (Inr (Some ob), s)
       | Inr None \<Rightarrow>
           (case source of
              Inl e \<Rightarrow> (Inl e, s)
            | Inr None \<Rightarrow> (Inr None, s)
            | Inr (Some ob) \<Rightarrow>
                (case (case oc_expiry C of
                         E_call f \<Rightarrow> rbind (f ob) (\<lambda>n. Inr (if num_le_zero n then None else Some (E_num n)))
                       | x \<Rightarrow> Inr (Some x)) of
                   Inl e \<Rightarrow> (Inl e, s)
                 | Inr None \<Rightarrow> (Inr None, s)
                 | Inr (Some x) \<Rightarrow>
                     (case orm_store R parse_time C ks (Some ob) (Inr None) x s of
                        (Some e, s') \<Rightarrow> (Inl e, s')
                      | (None, s') \<Rightarrow> (Inr (Some ob), s')))))"

text \<open>
  The cache of the blacklist: \<open>is_blacklisted\<close> answers with a flag and a time, of which the cache takes the flag,
  and its expiry subscripts the flag for the time.
\<close>

definition blacklist_cache :: "(string list \<Rightarrow> string result) \<Rightarrow> bool orm_cache" where
  "blacklist_cache key = \<lparr>oc_key = key, oc_expiry = E_call (\<lambda>flag. Inl TypeError), oc_nx = False,
     oc_type = Value_type P_bool (\<lambda>j. case j of JBool b \<Rightarrow> Inr b | _ \<Rightarrow> Inl TypeError), oc_use_to_json = True\<rparr>"

definition blacklist_source ::
  "('c \<Rightarrow> (rat \<times> rat) option) \<Rightarrow> ('g \<Rightarrow> (rat \<times> rat) option) \<Rightarrow> 'c \<Rightarrow> 'g option \<Rightarrow> bool option result" where
  "blacklist_source of_client of_group c g = Inr (Some (fst (is_blacklisted of_client of_group c g)))"

section \<open>The cache of responses\<close>

text \<open>
  The decorator of the keys hands the positional arguments on after the key it built: with a key builder they
  are the arguments of the operation, without one the first of them is the key once more.
\<close>

datatype arg_val = A_key string | A_val pyval | A_num num

definition built_call ::
  "string \<Rightarrow> string \<Rightarrow> (string result) option \<Rightarrow> arg_val list \<Rightarrow> (string \<times> arg_val list) result" where
  "built_call prefix sep kb args =
    rbind (case kb of
        Some r \<Rightarrow> r
      | None \<Rightarrow> (case args of [] \<Rightarrow> Inl IndexError | A_key k # _ \<Rightarrow> Inr k | _ \<Rightarrow> Inl (OtherException ''MemCacheNoValidKeysDefinedError'')))
      (\<lambda>k. Inr (prefix @ sep @ k, args))"

definition memcached_get :: "(string \<Rightarrow> json result) \<Rightarrow> string \<Rightarrow> server \<Rightarrow> json option result" where
  "memcached_get loads key s = (case map_of s key of None \<Rightarrow> Inr None | Some t \<Rightarrow> rbind (loads t) (\<lambda>j. Inr (Some j)))"

definition memcached_set :: "(arg_val \<Rightarrow> string result) \<Rightarrow> string \<Rightarrow> arg_val \<Rightarrow> server \<Rightarrow> exn option \<times> server" where
  "memcached_set dumps key v s = (case dumps v of Inl e \<Rightarrow> (Some e, s) | Inr t \<Rightarrow> (None, AList.update key t s))"

text \<open>With one key \<open>delete\<close> encodes the tuple of the keys instead of the key.\<close>

definition memcached_delete :: "(string list \<Rightarrow> server \<Rightarrow> server) \<Rightarrow> string list \<Rightarrow> server \<Rightarrow> exn option \<times> server" where
  "memcached_delete delete_many keys s =
    (if length keys < 1 then (Some (OtherException ''MemCacheNoValidKeysDefinedError''), s)
     else if length keys = 1 then (Some (AttributeError ''encode''), s)
     else (None, delete_many keys s))"

definition res_get :: "(string \<Rightarrow> json result) \<Rightarrow> string \<Rightarrow> string \<Rightarrow> string result option \<Rightarrow> arg_val list \<Rightarrow> server \<Rightarrow> json option result" where
  "res_get loads prefix sep kb args s =
    rbind (built_call prefix sep kb args) (\<lambda>(key, rest). if rest \<noteq> [] then Inl TypeError else memcached_get loads key s)"

text \<open>\<open>Set\<close> takes the key, the value and an expiry.\<close>

definition res_set :: "(arg_val \<Rightarrow> string result) \<Rightarrow> string \<Rightarrow> string \<Rightarrow> string result option \<Rightarrow> arg_val list \<Rightarrow> server \<Rightarrow> exn option \<times> server" where
  "res_set dumps prefix sep kb args s =
    (case built_call prefix sep kb args of
       Inl e \<Rightarrow> (Some e, s)
     | Inr (key, [v]) \<Rightarrow> memcached_set dumps key v s
     | Inr (key, [v, expiry]) \<Rightarrow> memcached_set dumps key v s
     | Inr _ \<Rightarrow> (Some TypeError, s))"

definition res_delete ::
  "(string list \<Rightarrow> server \<Rightarrow> server) \<Rightarrow> string \<Rightarrow> string \<Rightarrow> string result option \<Rightarrow> arg_val list \<Rightarrow> server \<Rightarrow> exn option \<times> server" where
  "res_delete delete_many prefix sep kb args s =
    (case built_call prefix sep kb args of
       Inl e \<Rightarrow> (Some e, s)
     | Inr (key, rest) \<Rightarrow> if rest \<noteq> [] then (Some TypeError, s) else memcached_delete delete_many [key] s)"

section \<open>What the caches promise\<close>

text \<open>
  A cache of rows with a fixed expiry that Redis accepts and a key for every request, whose rows can be written as JSON,
  which is read as it was written.
\<close>

definition sound_cache :: "redis_lib \<Rightarrow> (string \<Rightarrow> int result) \<Rightarrow> 'o orm_cache \<Rightarrow> bool" where
  "sound_cache R parse_time C \<longleftrightarrow> \<not> oc_nx C \<and> (\<forall>f. oc_expiry C \<noteq> E_call f)
    \<and> (\<forall>ks. \<exists>k. oc_key C ks = Inr k)
    \<and> (num_le_zero (set_expiry parse_time (oc_expiry C)) \<or> rd_ex R (set_expiry parse_time (oc_expiry C)) = None)
    \<and> (\<forall>ob. \<exists>d. encode_object C (Some ob) = Inr (P_json (JDict d)) \<and> rd_loads R (rd_dumps R (JDict d)) = Inr (JDict d))"

definition key_of :: "'o orm_cache \<Rightarrow> string list \<Rightarrow> string" where
  "key_of C ks = (case oc_key C ks of Inr k \<Rightarrow> k | Inl _ \<Rightarrow> '''')"

definition dict_of :: "'o orm_cache \<Rightarrow> 'o \<Rightarrow> (string, json) dict" where
  "dict_of C ob = (case encode_object C (Some ob) of Inr (P_json (JDict d)) \<Rightarrow> d | _ \<Rightarrow> [])"

definition text_of :: "redis_lib \<Rightarrow> 'o orm_cache \<Rightarrow> 'o \<Rightarrow> string" where
  "text_of R C ob = rd_dumps R (JDict (dict_of C ob))"

text \<open>What a lookup that hits answers with.\<close>

definition from_cache :: "'o orm_cache \<Rightarrow> 'o \<Rightarrow> 'o option result" where
  "from_cache C ob = rbind (decode_object C (JDict (dict_of C ob))) (\<lambda>ob. Inr (Some ob))"

lemma sound_store:
  assumes "sound_cache R pt C"
  shows "orm_store R pt C ks (Some ob) source (oc_expiry C) s = (None, AList.update (key_of C ks) (text_of R C ob) s)"
proof -
  obtain k where "oc_key C ks = Inr k" using assms unfolding sound_cache_def by blast
  moreover obtain d where "encode_object C (Some ob) = Inr (P_json (JDict d))" using assms unfolding sound_cache_def by blast
  ultimately show ?thesis
    using assms by (auto simp: sound_cache_def orm_store_def redis_store_def key_of_def text_of_def dict_of_def)
qed

lemma sound_get:
  assumes "sound_cache R pt C"
  shows "map_of s (key_of C ks) = None \<Longrightarrow> orm_get R C ks s = Inr None"
    and "map_of s (key_of C ks) = Some (text_of R C ob) \<Longrightarrow> orm_get R C ks s = from_cache C ob"
proof -
  obtain k where k: "oc_key C ks = Inr k" using assms unfolding sound_cache_def by blast
  then show "map_of s (key_of C ks) = None \<Longrightarrow> orm_get R C ks s = Inr None"
    by (simp add: orm_get_def redis_retrieve_def key_of_def)
  obtain d where d: "encode_object C (Some ob) = Inr (P_json (JDict d))" "rd_loads R (rd_dumps R (JDict d)) = Inr (JDict d)"
    using assms unfolding sound_cache_def by blast
  assume "map_of s (key_of C ks) = Some (text_of R C ob)"
  then show "orm_get R C ks s = from_cache C ob"
    using k d by (simp add: orm_get_def redis_retrieve_def key_of_def text_of_def dict_of_def from_cache_def)
qed

lemma from_cache_not_None: "from_cache C ob \<noteq> Inr None"
  by (cases "decode_object C (JDict (dict_of C ob))") (simp_all add: from_cache_def)

lemma sound_cache_again:
  assumes "sound_cache R pt C" "map_of s (key_of C ks) = Some (text_of R C ob)"
  shows "orm_cache_cache R pt True C ks source s = (from_cache C ob, s)"
  using sound_get(2) [OF assms] from_cache_not_None [of C ob]
  by (cases "from_cache C ob") (auto simp: orm_cache_cache_def split: option.split)

lemma sound_cache_missed:
  assumes "sound_cache R pt C" "map_of s (key_of C ks) = None"
  shows "orm_cache_cache R pt True C ks (Inr (Some ob)) s = (Inr (Some ob), AList.update (key_of C ks) (text_of R C ob) s)"
proof -
  have "(case oc_expiry C of E_call f \<Rightarrow> rbind (f ob) (\<lambda>n. Inr (if num_le_zero n then None else Some (E_num n)))
      | x \<Rightarrow> Inr (Some x)) = Inr (Some (oc_expiry C))"
    using assms(1) by (cases "oc_expiry C") (simp_all add: sound_cache_def)
  then show ?thesis
    using sound_get(1) [OF assms] sound_store [OF assms(1)] by (simp add: orm_cache_cache_def)
qed

lemma primitive_fields_kept:
  "primitive_fields fs = Inr d \<Longrightarrow>
    (f, j) \<in> set d \<longleftrightarrow> (f, Json_attr j) \<in> set fs \<or> (\<exists>u. j = JStr u \<and> (f, Uuid_attr u) \<in> set fs)"
proof (induction fs arbitrary: d)
  case (Cons fa fs)
  then show ?case by (cases fa; cases "snd fa") (auto simp: rbind_Inr_iff)
qed simp

text \<open>C29: A cache of rows reads through, but does not give a row back as it was.  For a cache of a table without nx, whose
  condition lets the request through, with a fixed expiry that Redis accepts, a key for every request, and rows that
  JSON can write and reads back as it wrote them, in front of a server whose entries agree with the source: a lookup that
  misses answers with the row of the source and adds the entry, and every entry still agrees with the source; a lookup
  that hits, and every lookup of the key after this one, whatever the source then says, answers with what the
  constructor of the table makes of the stored fields (or raises as it does).  These are, where the rows are not written
  by to_json, the fields with a JSON value and the UUIDs, these as text: every other field is lost.\<close>

theorem orm_cache_reads_through:
  assumes "sound_cache R pt C" "oc_type C = Model_type columns to_json init"
    and "redis_keys.coherent (\<lambda>k. text_of R C (src k)) s"
  shows "let k = key_of C ks; row = src k; d = dict_of C row; again = rbind (init d) (\<lambda>ob. Inr (Some ob));
      (answer, s') = orm_cache_cache R pt True C ks (Inr (Some row)) s
    in answer = (if map_of s k = None then Inr (Some row) else again)
      \<and> s' = (if map_of s k = None then AList.update k (text_of R C row) s else s)
      \<and> redis_keys.coherent (\<lambda>k. text_of R C (src k)) s'
      \<and> orm_cache_cache R pt True C ks source s' = (again, s')
      \<and> (to_json = None \<or> \<not> oc_use_to_json C \<longrightarrow>
          (\<forall>f j. (f, j) \<in> set d \<longleftrightarrow> (f, Json_attr j) \<in> set (columns row) \<or> (\<exists>u. j = JStr u \<and> (f, Uuid_attr u) \<in> set (columns row))))"
proof -
  let ?src = "\<lambda>k. text_of R C (src k)" and ?k = "key_of C ks"
  let ?row = "src ?k" and ?d = "dict_of C (src ?k)"
  have again: "from_cache C ?row = rbind (init ?d) (\<lambda>ob. Inr (Some ob))"
    by (simp add: from_cache_def decode_object_def assms(2))
  have hit: "map_of s ?k = Some t \<Longrightarrow> t = ?src ?k" for t using assms(3) by (simp add: redis_keys.coherent_def)
  have r: "orm_cache_cache R pt True C ks (Inr (Some ?row)) s
      = (if map_of s ?k = None then Inr (Some ?row) else from_cache C ?row, snd (redis_keys.read_through ?src ?k s))"
    using hit sound_cache_again [OF assms(1), of s ks ?row] sound_cache_missed [OF assms(1), of s ks ?row]
    by (cases "map_of s ?k") (auto simp: redis_keys.read_through_def)
  have s': "snd (redis_keys.read_through ?src ?k s) = (if map_of s ?k = None then AList.update ?k (text_of R C ?row) s else s)"
    by (auto simp: redis_keys.read_through_def split: option.split)
  have coherent: "redis_keys.coherent ?src (snd (redis_keys.read_through ?src ?k s))"
    by (rule redis_keys.read_through_coherent [OF assms(3)])
  then have "map_of (snd (redis_keys.read_through ?src ?k s)) ?k = Some (?src ?k)"
    using redis_keys.read_through_hit [of ?src ?k s] unfolding redis_keys.coherent_def by blast
  then have next_time: "orm_cache_cache R pt True C ks source (snd (redis_keys.read_through ?src ?k s))
      = (from_cache C ?row, snd (redis_keys.read_through ?src ?k s))" by (rule sound_cache_again [OF assms(1)])
  have "primitive_fields (columns ?row) = Inr ?d" if "to_json = None \<or> \<not> oc_use_to_json C"
  proof -
    obtain d where d: "encode_object C (Some ?row) = Inr (P_json (JDict d))" using assms(1) unfolding sound_cache_def by blast
    have "row_dict (oc_use_to_json C) columns to_json ?row = primitive_fields (columns ?row)"
      using that by (auto simp: row_dict_def split: option.split)
    with d show ?thesis by (simp add: dict_of_def encode_object_def assms(2) rbind_Inr_iff)
  qed
  then have "to_json = None \<or> \<not> oc_use_to_json C \<longrightarrow>
      (\<forall>f j. (f, j) \<in> set ?d \<longleftrightarrow> (f, Json_attr j) \<in> set (columns ?row) \<or> (\<exists>u. j = JStr u \<and> (f, Uuid_attr u) \<in> set (columns ?row)))"
    using primitive_fields_kept by blast
  then show ?thesis using r s' coherent next_time unfolding again Let_def by simp
qed

definition sample_redis :: redis_lib where
  "sample_redis = \<lparr>rd_dumps = (\<lambda>j. case j of JDict ((_, JStr s) # _) \<Rightarrow> s | _ \<Rightarrow> ''''),
     rd_loads = (\<lambda>s. Inr (JDict [(''name'', JStr s)])),
     rd_encode = (\<lambda>_. Inl TypeError), rd_ex = (\<lambda>n. case n of Whole _ \<Rightarrow> None | Fraction _ \<Rightarrow> Some TypeError)\<rparr>"

text \<open>Rows with a name, and a date that is not stored.\<close>

definition sample_cache :: "(string \<times> nat option) orm_cache" where
  "sample_cache = \<lparr>oc_key = (\<lambda>ks. Inr (concat ks)), oc_expiry = E_num (Whole 60), oc_nx = False,
     oc_type = Model_type (\<lambda>(name, since). [(''name'', Json_attr (JStr name)), (''since'', Object_attr)]) None
       (\<lambda>d. case map_of d ''name'' of Some (JStr s) \<Rightarrow> Inr (s, None) | _ \<Rightarrow> Inl ValueError),
     oc_use_to_json = True\<rparr>"

lemma sample_cache_sound: "sound_cache sample_redis (\<lambda>_. Inl ValueError) sample_cache"
  by (auto simp: sound_cache_def sample_cache_def sample_redis_def num_le_zero_def set_expiry_def encode_object_def row_dict_def)

theorem orm_cache_reads_through_witness:
  "(let (answer, s') = orm_cache_cache sample_redis (\<lambda>_. Inl ValueError) True sample_cache [''link'', ''7''] (Inr (Some (''row'', Some 5))) []
    in answer = Inr (Some (''row'', Some 5))
      \<and> orm_cache_cache sample_redis (\<lambda>_. Inl ValueError) True sample_cache [''link'', ''7''] (Inr None) s' = (Inr (Some (''row'', None)), s'))"
proof -
  have t: "oc_type sample_cache = Model_type (\<lambda>(name, since). [(''name'', Json_attr (JStr name)), (''since'', Object_attr)]) None
       (\<lambda>d. case map_of d ''name'' of Some (JStr s) \<Rightarrow> Inr (s, None) | _ \<Rightarrow> Inl ValueError)"
    by (simp add: sample_cache_def)
  have d: "dict_of sample_cache (''row'', Some 5) = [(''name'', JStr ''row'')]"
    by (simp add: dict_of_def encode_object_def row_dict_def sample_cache_def)
  from orm_cache_reads_through [OF sample_cache_sound t redis_keys.coherent_init, where ks = "[''link'', ''7'']" and src = "\<lambda>_. (''row'', Some 5)"
      and source = "Inr None"]
  show ?thesis by (auto simp: Let_def d)
qed

text \<open>Looking a client up in the cache of the blacklist raises whenever the answer is not cached, for clients that
  are blacklisted and for those that are not, and nothing is ever cached.\<close>

theorem blacklist_lookup_raises:
  assumes "key [gid, cid] = Inr k" "map_of s k = None"
  shows "orm_cache_cache R pt True (blacklist_cache key) [gid, cid] (blacklist_source of_client of_group c g) s = (Inl TypeError, s)"
  using assms
  by (simp add: orm_cache_cache_def orm_get_def redis_retrieve_def blacklist_cache_def blacklist_source_def)

theorem blacklist_lookup_raises_witness:
  "orm_cache_cache sample_redis (\<lambda>_. Inl ValueError) True (blacklist_cache (\<lambda>ks. Inr (concat ks))) [''g'', ''c'']
     (blacklist_source (\<lambda>_. None) (\<lambda>_. None) ''c'' (None :: string option)) [] = (Inl TypeError, [])"
  by (rule blacklist_lookup_raises [where k = "''gc''"]) simp_all

text \<open>What should drop many cached rows at once drops none: it raises and the server keeps every entry, so an entry
  that no longer agrees with its source is still served.\<close>

theorem invalidate_all_keeps_entries:
  assumes "sound_cache R pt C" "map_of s (key_of C ks) = Some (text_of R C old)"
  shows "fst (orm_invalid_all del_keys C prefix msk s) \<noteq> None
    \<and> orm_cache_cache R pt True C ks (Inr (Some new)) (snd (orm_invalid_all del_keys C prefix msk s)) = (from_cache C old, s)"
proof -
  have "\<exists>e. orm_invalid_all del_keys C prefix msk s = (Some e, s)"
    unfolding orm_invalid_all_def redis_delete_all_def redis_scan_def by (simp split: spec.split sum.split)
  then obtain e where "orm_invalid_all del_keys C prefix msk s = (Some e, s)" by blast
  then show ?thesis
    using sound_cache_again [OF assms] by simp
qed

theorem invalidate_all_keeps_entries_witness:
  "orm_cache_cache sample_redis (\<lambda>_. Inl ValueError) True sample_cache [''link'', ''7''] (Inr (Some (''new'', None)))
     (snd (orm_invalid_all (\<lambda>_ s. s) sample_cache (One ''link'') None [(''link7'', ''row'')]))
   = (Inr (Some (''row'', None)), [(''link7'', ''row'')])"
proof -
  have "map_of [(''link7'', ''row'')] (key_of sample_cache [''link'', ''7'']) = Some (text_of sample_redis sample_cache (''row'', None))"
    by (simp add: key_of_def text_of_def dict_of_def encode_object_def row_dict_def sample_cache_def sample_redis_def)
  moreover have "from_cache sample_cache (''row'', None) = Inr (Some (''row'', None))"
    by (simp add: from_cache_def dict_of_def decode_object_def encode_object_def row_dict_def sample_cache_def)
  ultimately show ?thesis
    using invalidate_all_keeps_entries [OF sample_cache_sound, THEN conjunct2] by metis
qed

lemma res_delete_raises: "\<exists>e. res_delete dm prefix sep kb args s = (Some e, s)"
  by (auto simp: res_delete_def memcached_delete_def split: sum.splits)

lemma res_without_builder:
  "res_get loads prefix sep None [A_key k] s = Inl TypeError"
  "res_set dumps prefix sep None [A_key k, v] s = memcached_set dumps (prefix @ sep @ k) (A_key k) s"
  by (simp_all add: res_get_def res_set_def built_call_def)

end
