(* ===== verification/Service_Network.thy ===== *)
theory Service_Network
  imports Service_Core
begin

text \<open>
  callback/status_sub.py and \<open>propagate\<close> of manager/broker_manager.py: a change of the state of a service that
  is broadcast, applied, and passed on to the services that use it.  A network maps the names of the services
  to the services; what the bodies of a service do is in \<open>bodies\<close>.  The depth of the recursion is bounded as
  in Python, by a limit that is an argument.
\<close>

section \<open>Links and messages\<close>

record link_params =
  lp_build_follow_dep :: bool
  lp_to_build :: bool
  lp_to_destroy :: bool
  lp_to_async_verify :: bool
  lp_build_state :: int
  lp_destroy_state :: int

text \<open>\<open>LiaisonDependency\<close>: for the name of a class, the links to the classes it depends on.\<close>

type_synonym liaison = "(string, (string, link_params) dict) dict"

definition dep_liaison :: "string \<Rightarrow> (string \<times> link_params) list \<Rightarrow> liaison \<Rightarrow> liaison" where
  "dep_liaison cls links L = AList.update cls (fold (\<lambda>(c, p) d. AList.update c p d) links []) L"

record state_message =
  sm_service :: string
  sm_status :: "int option"
  sm_to_destroy :: bool
  sm_to_build :: bool
  sm_bypass_async_verify :: bool
  sm_force_sync_verify :: bool
  sm_build_state :: int
  sm_destroy_state :: int
  sm_callback :: "string option"
  sm_recursive :: bool

definition status_of :: "int \<Rightarrow> service_status result" where
  "status_of i =
    (if i = 1 then Inr AVAILABLE else if i = 2 then Inr PARTIALLY_AVAILABLE else if i = 3 then Inr WORKS_ALMOST_ATT
     else if i = 4 then Inr TEMPORARY_NOT_AVAILABLE else if i = 5 then Inr NOT_AVAILABLE
     else if i = 6 then Inr MAJOR_SYSTEM_FAILURE else Inl ValueError)"

text \<open>What each service does by itself; a callback is there when the service has a method of that name.\<close>

record bodies =
  bo_verify :: act
  bo_build :: "int \<Rightarrow> act"
  bo_destroy :: "int \<Rightarrow> act"
  bo_async_verify :: "service \<Rightarrow> bool result \<times> service"
  bo_callback :: "string \<Rightarrow> act option"

type_synonym network = "string \<Rightarrow> service"

section \<open>Reacting to a change\<close>

text \<open>Two acts one after the other, the second only when the first raises nothing.\<close>

definition act_then :: "act \<Rightarrow> act \<Rightarrow> act" where
  "act_then f g s = (case f s of (Some e, s') \<Rightarrow> (Some e, s') | (None, s') \<Rightarrow> g s')"

text \<open>\<open>context_sync\<close> and \<open>scope\<close> are those of the life cycle in \<open>builder\<close>.\<close>

definition rebuild :: "bool \<Rightarrow> bool \<Rightarrow> bodies \<Rightarrow> bool \<Rightarrow> int \<Rightarrow> bool \<Rightarrow> act" where
  "rebuild context_sync scope B async_verify build_state force_sync_verify s =
    (case (if async_verify then bo_async_verify B s else (Inr True, s)) of
       (Inl e, s') \<Rightarrow> (Some e, s')
     | (Inr ok, s') \<Rightarrow>
         if ok then builder context_sync scope (bo_verify B) (bo_build B) force_sync_verify build_state s' else (None, s'))"

definition react :: "bool \<Rightarrow> bool \<Rightarrow> link_params \<Rightarrow> state_message \<Rightarrow> bodies \<Rightarrow> act" where
  "react context_sync scope p m B =
    (let follow = lp_build_follow_dep p;
         to_destroy = (if follow then sm_to_destroy m else lp_to_destroy p);
         to_build = (if follow then sm_to_build m else lp_to_build p);
         async_verify = (if follow then \<not> sm_bypass_async_verify m else lp_to_async_verify p);
         build_state = (if follow then sm_build_state m else lp_build_state p);
         destroy_state = (if follow then sm_destroy_state m else lp_destroy_state p);
         force_sync_verify = (follow \<and> sm_force_sync_verify m)
     in act_then (\<lambda>s. if to_destroy then destroyer (bo_destroy B) destroy_state s else (None, s))
          (\<lambda>s. if to_build then rebuild context_sync scope B async_verify build_state force_sync_verify s else (None, s)))"

section \<open>Passing it on\<close>

type_synonym walk = "network \<times> string list"

primrec each :: "('x \<Rightarrow> walk \<Rightarrow> exn option \<times> walk) \<Rightarrow> 'x list \<Rightarrow> walk \<Rightarrow> exn option \<times> walk" where
  "each f [] st = (None, st)"
| "each f (x # xs) st = (case f x st of (Some e, st') \<Rightarrow> (Some e, st') | (None, st') \<Rightarrow> each f xs st')"

definition users :: "network \<Rightarrow> string \<Rightarrow> string list" where
  "users net s = concat (map snd (used_by_services (net s)))"

text \<open>
  One user of the service: the links are looked up under its name.  Its name is remembered only after its
  own users were visited.
\<close>

definition visit_user ::
  "(link_params \<Rightarrow> string \<Rightarrow> act) \<Rightarrow> liaison \<Rightarrow> (string \<Rightarrow> walk \<Rightarrow> exn option \<times> walk) \<Rightarrow> string \<Rightarrow> string \<Rightarrow> walk \<Rightarrow> exn option \<times> walk" where
  "visit_user reaction L go s d st =
    (let (net, cache) = st in
     if d \<in> set cache then (None, st)
     else case map_of L d of
         None \<Rightarrow> (Some (KeyError d), st)
       | Some links \<Rightarrow>
         (case map_of links (class_name (net s)) of
            None \<Rightarrow> (None, st)
          | Some p \<Rightarrow>
            (case reaction p d (net d) of
               (Some e, sv) \<Rightarrow> (Some e, (net(d := sv), cache))
             | (None, sv) \<Rightarrow>
               (case go d (net(d := sv), cache) of
                  (Some e, st') \<Rightarrow> (Some e, st')
                | (None, (net', cache')) \<Rightarrow> (None, (net', cache' @ [d]))))))"

primrec recursive ::
  "(link_params \<Rightarrow> string \<Rightarrow> act) \<Rightarrow> liaison \<Rightarrow> nat \<Rightarrow> string \<Rightarrow> walk \<Rightarrow> exn option \<times> walk" where
  "recursive reaction L 0 s st = (Some (OtherException ''RecursionError''), st)"
| "recursive reaction L (Suc limit) s st =
    (if s \<in> set (snd st) then (None, st)
     else each (visit_user reaction L (recursive reaction L limit) s) (users (fst st) s) st)"

section \<open>The subscribers\<close>

record system =
  sy_mirror :: "(string, string) dict"
  sy_classes :: "string list"
  sy_liaison :: liaison
  sy_bodies :: "string \<Rightarrow> bodies"
  sy_context_sync :: bool
  sy_scope :: "string \<Rightarrow> bool"
  sy_limit :: nat

definition resolve_service :: "system \<Rightarrow> string \<Rightarrow> string result" where
  "resolve_service Y n =
    (let n = (case map_of (sy_mirror Y) n of Some x \<Rightarrow> x | None \<Rightarrow> n) in
     if n \<notin> set (sy_classes Y) then Inl (KeyError n) else Inr n)"

definition system_react :: "system \<Rightarrow> state_message \<Rightarrow> link_params \<Rightarrow> string \<Rightarrow> act" where
  "system_react Y m p d = react (sy_context_sync Y) (sy_scope Y d) p m (sy_bodies Y d)"

text \<open>What happens to the service itself; the value of a callback that is not there is reported all the same.\<close>

definition own_change :: "system \<Rightarrow> state_message \<Rightarrow> string \<Rightarrow> act" where
  "own_change Y m n =
    act_then (\<lambda>s. case sm_status m of None \<Rightarrow> (None, s)
        | Some i \<Rightarrow> (case status_of i of Inl e \<Rightarrow> (Some e, s) | Inr x \<Rightarrow> (None, s\<lparr>service_status := Some x\<rparr>)))
      (act_then (\<lambda>s. if sm_to_destroy m then destroyer (bo_destroy (sy_bodies Y n)) (sm_destroy_state m) s else (None, s))
        (act_then (\<lambda>s. if sm_to_build m
              then rebuild (sy_context_sync Y) (sy_scope Y n) (sy_bodies Y n) (\<not> sm_bypass_async_verify m) (sm_build_state m) (sm_force_sync_verify m) s
              else (None, s))
          (\<lambda>s. case sm_callback m of None \<Rightarrow> (None, s)
             | Some c \<Rightarrow> (case bo_callback (sy_bodies Y n) c of Some f \<Rightarrow> f s | None \<Rightarrow> (Some (UnboundLocalError ''var_''), s)))))"

definition set_service :: "system \<Rightarrow> state_message \<Rightarrow> string \<Rightarrow> network \<Rightarrow> exn option \<times> network" where
  "set_service Y m n net =
    (case own_change Y m n (net n) of
       (Some e, sv) \<Rightarrow> (Some e, net(n := sv))
     | (None, sv) \<Rightarrow>
         if \<not> sm_recursive m then (None, net(n := sv))
         else (case recursive (system_react Y m) (sy_liaison Y) (sy_limit Y) n (net(n := sv), []) of
             (r, (net', cache)) \<Rightarrow> (r, net')))"

definition swallow :: "exn option \<times> 'a \<Rightarrow> exn option \<times> 'a" where
  "swallow r = (case r of (Some e, x) \<Rightarrow> (if is_Exception e then None else Some e, x) | _ \<Rightarrow> r)"

definition SetServiceStatus :: "system \<Rightarrow> state_message \<Rightarrow> network \<Rightarrow> exn option \<times> network" where
  "SetServiceStatus Y m net =
    swallow (case resolve_service Y (sm_service m) of Inl e \<Rightarrow> (Some e, net) | Inr n \<Rightarrow> set_service Y m n net)"

section \<open>Every dependent service reacts once\<close>

definition link_of :: "liaison \<Rightarrow> network \<Rightarrow> string \<Rightarrow> string \<Rightarrow> link_params option" where
  "link_of L net s d = (case map_of L d of None \<Rightarrow> None | Some links \<Rightarrow> map_of links (class_name (net s)))"

definition edges :: "liaison \<Rightarrow> network \<Rightarrow> (string \<times> string) set" where
  "edges L net = {(s, d). d \<in> set (users net s) \<and> link_of L net s d \<noteq> None}"

abbreviation reach :: "liaison \<Rightarrow> network \<Rightarrow> string \<Rightarrow> string set" where
  "reach L net s \<equiv> (edges L net)\<^sup>+ `` {s}"

definition wired :: "network \<Rightarrow> network \<Rightarrow> bool" where
  "wired net0 net \<longleftrightarrow> (\<forall>x. class_name (net x) = class_name (net0 x) \<and> used_by_services (net x) = used_by_services (net0 x))"

text \<open>A network whose users are all keys of the links, without circles, and whose services react without
  raising and without changing their names or users.\<close>

definition quiet_network :: "(link_params \<Rightarrow> string \<Rightarrow> act) \<Rightarrow> liaison \<Rightarrow> network \<Rightarrow> (string \<Rightarrow> nat) \<Rightarrow> bool" where
  "quiet_network reaction L net h \<longleftrightarrow>
    (\<forall>s. \<forall>d \<in> set (users net s). map_of L d \<noteq> None) \<and> (\<forall>s d. (s, d) \<in> edges L net \<longrightarrow> h d < h s)
    \<and> (\<forall>p d. fst (reaction p d (net d)) = None \<and> wired net (net(d := snd (reaction p d (net d)))))"

definition reacted :: "(link_params \<Rightarrow> string \<Rightarrow> act) \<Rightarrow> liaison \<Rightarrow> network \<Rightarrow> string \<Rightarrow> service \<Rightarrow> bool" where
  "reacted reaction L net d sv \<longleftrightarrow>
    (\<exists>s p. d \<in> set (users net s) \<and> link_of L net s d = Some p \<and> sv = snd (reaction p d (net d)))"

text \<open>A walk that visits a set of services, and when it may start.\<close>

definition covers ::
  "(link_params \<Rightarrow> string \<Rightarrow> act) \<Rightarrow> liaison \<Rightarrow> network \<Rightarrow> string set \<Rightarrow> walk \<Rightarrow> exn option \<times> walk \<Rightarrow> bool" where
  "covers reaction L net0 R st r \<longleftrightarrow>
    fst r = None \<and> set (snd (snd r)) = set (snd st) \<union> R \<and> wired net0 (fst (snd r))
    \<and> (\<forall>d. d \<notin> R - set (snd st) \<longrightarrow> fst (snd r) d = fst st d)
    \<and> (\<forall>d \<in> R - set (snd st). reacted reaction L net0 d (fst (snd r) d))"

definition ready :: "liaison \<Rightarrow> network \<Rightarrow> string set \<Rightarrow> walk \<Rightarrow> bool" where
  "ready L net0 R st \<longleftrightarrow> edges L net0 `` set (snd st) \<subseteq> set (snd st) \<and> wired net0 (fst st)
    \<and> (\<forall>d \<in> R - set (snd st). fst st d = net0 d)"

lemma wired_users: "wired net0 net \<Longrightarrow> users net s = users net0 s" "wired net0 net \<Longrightarrow> link_of L net s d = link_of L net0 s d"
  by (simp_all add: wired_def users_def link_of_def cong: option.case_cong)

lemma wired_update:
  assumes "wired net0 net" "net d = net0 d" "wired net0 (net0(d := sv))"
  shows "wired net0 (net(d := sv))"
proof -
  have "class_name sv = class_name (net0 d) \<and> used_by_services sv = used_by_services (net0 d)"
    using assms(3) unfolding wired_def by (metis fun_upd_same)
  then show ?thesis using assms(1) by (simp add: wired_def)
qed

lemma reach_step: "reach L net s = (\<Union>d \<in> edges L net `` {s}. insert d (reach L net d))"
  by (auto dest: tranclD intro: trancl_into_trancl2 dest!: rtranclD)

lemma reach_closed: "edges L net `` reach L net s \<subseteq> reach L net s"
  by (auto intro: trancl_into_trancl)

lemma closed_reach:
  assumes "edges L net `` C \<subseteq> C" "d \<in> C"
  shows "insert d (reach L net d) \<subseteq> C"
proof -
  have "x \<in> C" if "(d, x) \<in> (edges L net)\<^sup>+" for x
    using that by (induction rule: trancl_induct) (use assms in blast)+
  then show ?thesis using assms(2) by auto
qed

lemma rank_reach:
  assumes "quiet_network reaction L net h" "x \<in> reach L net d"
  shows "h x < h d"
proof -
  have "(d, x) \<in> (edges L net)\<^sup>+" using assms(2) by simp
  then show ?thesis
  proof (induction rule: trancl_induct)
    case (base y)
    then show ?case using assms(1) by (simp add: quiet_network_def)
  next
    case (step y z)
    then have "h z < h y" using assms(1) by (simp add: quiet_network_def)
    then show ?case using step by simp
  qed
qed

lemma covers_empty: "ready L net0 R st \<Longrightarrow> R \<subseteq> set (snd st) \<Longrightarrow> covers reaction L net0 R st (None, st)"
  by (auto simp: covers_def ready_def)

lemma covers_ready:
  assumes "ready L net0 (R1 \<union> R2) st" "covers reaction L net0 R1 st r" "edges L net0 `` R1 \<subseteq> R1"
  shows "ready L net0 R2 (snd r)"
proof -
  have c: "set (snd (snd r)) = set (snd st) \<union> R1" using assms(2) by (simp add: covers_def)
  have same: "fst (snd r) d = net0 d" if "d \<in> R2" "d \<notin> set (snd st)" "d \<notin> R1" for d
    using assms(1,2) that by (simp add: ready_def covers_def)
  then have "\<forall>d \<in> R2 - set (snd (snd r)). fst (snd r) d = net0 d" using c by blast
  moreover have "edges L net0 `` set (snd (snd r)) \<subseteq> set (snd (snd r))"
    using assms(1,3) c unfolding ready_def by blast
  ultimately show ?thesis using assms(2) by (simp add: ready_def covers_def)
qed

lemma covers_trans:
  assumes "covers reaction L net0 R1 st r1" "covers reaction L net0 R2 (snd r1) r2"
  shows "covers reaction L net0 (R1 \<union> R2) st r2"
proof -
  have c: "set (snd (snd r1)) = set (snd st) \<union> R1" using assms(1) by (simp add: covers_def)
  have "fst (snd r2) d = fst st d" if "d \<notin> (R1 \<union> R2) - set (snd st)" for d
  proof -
    have "d \<notin> R2 - set (snd (snd r1))" "d \<notin> R1 - set (snd st)" using that c by blast+
    then show ?thesis using assms by (simp add: covers_def)
  qed
  moreover have "reacted reaction L net0 d (fst (snd r2) d)" if "d \<in> (R1 \<union> R2) - set (snd st)" for d
  proof (cases "d \<in> R1")
    case True
    then have "fst (snd r2) d = fst (snd r1) d" using assms(2) c by (simp add: covers_def)
    then show ?thesis using True that assms(1) by (simp add: covers_def)
  next
    case False
    then have "d \<in> R2 - set (snd (snd r1))" using that c by blast
    then show ?thesis using assms(2) by (simp add: covers_def)
  qed
  ultimately show ?thesis using assms c by (simp add: covers_def Un_assoc)
qed

lemma visit_user_covers:
  assumes Q: "quiet_network reaction L net0 h" and d: "d \<in> set (users net0 s)"
    and R: "R = (if link_of L net0 s d = None then {} else insert d (reach L net0 d))"
    and st: "ready L net0 R st"
    and go: "\<And>st. link_of L net0 s d \<noteq> None \<Longrightarrow> ready L net0 (reach L net0 d) st \<Longrightarrow> covers reaction L net0 (reach L net0 d) st (go d st)"
  shows "covers reaction L net0 R st (visit_user reaction L go s d st)"
proof (cases "d \<in> set (snd st)")
  case True
  then have "R \<subseteq> set (snd st)"
    using R st closed_reach [of L net0 "set (snd st)" d] by (auto simp: ready_def split: if_splits)
  then show ?thesis
    using covers_empty [OF st] True by (cases st) (simp add: visit_user_def)
next
  case False
  obtain net cache where stp: "st = (net, cache)" by (cases st)
  obtain links where links: "map_of L d = Some links"
    using Q d unfolding quiet_network_def by blast
  have name: "class_name (net s) = class_name (net0 s)" using st stp by (simp add: ready_def wired_def)
  show ?thesis
  proof (cases "link_of L net0 s d")
    case None
    then have "visit_user reaction L go s d st = (None, st)"
      using links name stp by (simp add: visit_user_def link_of_def)
    then show ?thesis using covers_empty [OF st, of reaction] None R by simp
  next
    case (Some p)
    have p: "map_of links (class_name (net s)) = Some p" using Some links name by (simp add: link_of_def)
    have Rd: "R = insert d (reach L net0 d)" using R Some by simp
    have netd: "net d = net0 d" using st False stp Rd by (simp add: ready_def)
    let ?sv = "snd (reaction p d (net0 d))"
    have quiet: "reaction p d (net d) = (None, ?sv)" "wired net0 (net0(d := ?sv))"
      using Q netd by (simp_all add: quiet_network_def prod_eq_iff)
    have off: "d \<notin> reach L net0 d" using rank_reach [OF Q, of d d] by blast
    have "ready L net0 (reach L net0 d) (net(d := ?sv), cache)"
      using st stp Rd off wired_update [of net0 net d ?sv] netd quiet(2) by (auto simp: ready_def)
    then have goes: "covers reaction L net0 (reach L net0 d) (net(d := ?sv), cache) (go d (net(d := ?sv), cache))"
      using go Some by simp
    obtain net' cache' where r: "go d (net(d := ?sv), cache) = (None, (net', cache'))"
      using goes by (metis covers_def prod.collapse)
    have v: "visit_user reaction L go s d st = (None, (net', cache' @ [d]))"
      using False stp links p quiet(1) r by (simp add: visit_user_def)
    have sv: "net' d = ?sv" using goes r off by (simp add: covers_def)
    have "reacted reaction L net0 d ?sv" using d Some unfolding reacted_def by blast
    then show ?thesis
      using goes r v sv stp Rd False by (auto simp: covers_def)
  qed
qed

lemma each_covers:
  assumes Q: "quiet_network reaction L net0 h" and "set xs \<subseteq> set (users net0 s)"
    and "ready L net0 (\<Union>d \<in> edges L net0 `` {s} \<inter> set xs. insert d (reach L net0 d)) st"
    and go: "\<And>d st. (s, d) \<in> edges L net0 \<Longrightarrow> ready L net0 (reach L net0 d) st \<Longrightarrow> covers reaction L net0 (reach L net0 d) st (go d st)"
  shows "covers reaction L net0 (\<Union>d \<in> edges L net0 `` {s} \<inter> set xs. insert d (reach L net0 d)) st (each (visit_user reaction L go s) xs st)"
  using assms(2,3)
proof (induction xs arbitrary: st)
  case Nil
  then show ?case using covers_empty [of L net0 "{}" st] by simp
next
  case (Cons d xs)
  let ?R1 = "if link_of L net0 s d = None then {} else insert d (reach L net0 d)"
  let ?R2 = "\<Union>d \<in> edges L net0 `` {s} \<inter> set xs. insert d (reach L net0 d)"
  have R: "(\<Union>d \<in> edges L net0 `` {s} \<inter> set (d # xs). insert d (reach L net0 d)) = ?R1 \<union> ?R2"
    using Cons.prems(1) by (auto simp: edges_def)
  have "ready L net0 ?R1 st" using Cons.prems(2) unfolding R by (simp add: ready_def)
  then have 1: "covers reaction L net0 ?R1 st (visit_user reaction L go s d st)"
    using visit_user_covers [OF Q, of d s ?R1 st go] Cons.prems(1) go by (simp add: edges_def)
  moreover obtain st' where st': "visit_user reaction L go s d st = (None, st')"
    using 1 by (metis covers_def prod.collapse)
  moreover have "edges L net0 `` ?R1 \<subseteq> ?R1"
    using reach_closed [of L net0 d] by (auto intro: trancl_into_trancl r_into_trancl)
  ultimately have "ready L net0 ?R2 st'"
    using covers_ready [of L net0 ?R1 ?R2 st reaction "(None, st')"] Cons.prems(2) unfolding R by simp
  then have "covers reaction L net0 ?R2 st' (each (visit_user reaction L go s) xs st')"
    using Cons.IH Cons.prems(1) by simp
  then show ?case
    using covers_trans [OF 1] st' unfolding R by simp
qed

lemma recursive_covers:
  assumes Q: "quiet_network reaction L net0 h" and "h s < limit" "ready L net0 (reach L net0 s) st"
  shows "covers reaction L net0 (reach L net0 s) st (recursive reaction L limit s st)"
  using assms(2,3)
proof (induction limit arbitrary: s st)
  case (Suc limit)
  show ?case
  proof (cases "s \<in> set (snd st)")
    case True
    then have "reach L net0 s \<subseteq> set (snd st)"
      using closed_reach [of L net0 "set (snd st)" s] Suc.prems(2) by (simp add: ready_def)
    then show ?thesis using covers_empty [OF Suc.prems(2)] True by simp
  next
    case False
    have xs: "users (fst st) s = users net0 s"
      using Suc.prems(2) by (intro wired_users) (simp add: ready_def)
    have all: "edges L net0 `` {s} \<inter> set (users net0 s) = edges L net0 `` {s}" by (auto simp: edges_def)
    have go: "covers reaction L net0 (reach L net0 d) st' (recursive reaction L limit d st')"
      if "(s, d) \<in> edges L net0" "ready L net0 (reach L net0 d) st'" for d st'
    proof (rule Suc.IH [OF _ that(2)])
      have "h d < h s" using Q that(1) unfolding quiet_network_def by blast
      then show "h d < limit" using Suc.prems(1) by simp
    qed
    have "covers reaction L net0 (reach L net0 s) st
        (each (visit_user reaction L (recursive reaction L limit) s) (users net0 s) st)"
      using each_covers [OF Q, of "users net0 s" s st, OF subset_refl _ go] Suc.prems(2)
      unfolding all reach_step [of L net0 s, symmetric] .
    then show ?thesis using False xs by simp
  qed
qed simp

section \<open>What a change of state reaches\<close>

text \<open>C14: A change that is sent with the recursive flag to a known service, and whose own part raises
  nothing, is passed on to exactly the services that use it over links, directly or through others: each
  of them reacts once, to a link to one of its dependencies, and no other service changes. This holds
  under conditions on the network: every user of every service is a key of LiaisonDependency, so that no
  mini service is among the users (its name is never a key, and it ends the propagation, see
  mini_service_ends_propagation); the links have no circle and lead no deeper than the limit of the
  recursion, both witnessed by a rank; and no reaction of any service to any link raises, or changes the
  service's class name or its users.\<close>

theorem state_change_reaches_users:
  assumes "resolve_service Y (sm_service m) = Inr n" "own_change Y m n (net n) = (None, sv)" "sm_recursive m"
    and "quiet_network (system_react Y m) (sy_liaison Y) (net(n := sv)) h" "h n < sy_limit Y"
  shows "\<exists>net'. SetServiceStatus Y m net = (None, net') \<and> net' n = sv
    \<and> (\<forall>d \<in> reach (sy_liaison Y) (net(n := sv)) n. reacted (system_react Y m) (sy_liaison Y) (net(n := sv)) d (net' d))
    \<and> (\<forall>d. d \<notin> insert n (reach (sy_liaison Y) (net(n := sv)) n) \<longrightarrow> net' d = net d)"
proof -
  let ?net = "net(n := sv)" and ?L = "sy_liaison Y"
  let ?r = "recursive (system_react Y m) ?L (sy_limit Y) n (?net, [])"
  have "ready ?L ?net (reach ?L ?net n) (?net, [])" by (simp add: ready_def wired_def)
  from recursive_covers [OF assms(4,5) this]
  have c: "covers (system_react Y m) ?L ?net (reach ?L ?net n) (?net, []) ?r" .
  obtain net' cache where r: "?r = (None, (net', cache))" using c by (metis covers_def prod.collapse)
  have n: "n \<notin> reach ?L ?net n" using rank_reach [OF assms(4), of n n] by blast
  have "SetServiceStatus Y m net = (None, net')"
    using assms(1-3) r by (simp add: SetServiceStatus_def set_service_def swallow_def)
  moreover have "net' n = sv" using c r n by (simp add: covers_def)
  moreover have "\<forall>d. d \<notin> insert n (reach ?L ?net n) \<longrightarrow> net' d = net d" using c r by (simp add: covers_def)
  moreover have "\<forall>d \<in> reach ?L ?net n. reacted (system_react Y m) ?L ?net d (net' d)" using c r by (simp add: covers_def)
  ultimately show ?thesis by blast
qed

definition idle :: bodies where
  "idle = \<lparr>bo_verify = (\<lambda>s. (None, s)), bo_build = (\<lambda>i s. (None, s)), bo_destroy = (\<lambda>i s. (None, s)),
     bo_async_verify = (\<lambda>s. (Inr True, s)), bo_callback = (\<lambda>c. None)\<rparr>"

definition follow_link :: link_params where
  "follow_link = \<lparr>lp_build_follow_dep = True, lp_to_build = False, lp_to_destroy = False, lp_to_async_verify = False,
     lp_build_state = -1, lp_destroy_state = -1\<rparr>"

definition sample_system :: system where
  "sample_system = \<lparr>sy_mirror = [], sy_classes = [''Vault'', ''Redis''], sy_liaison = [(''Vault'', []), (''Redis'', [(''Vault'', follow_link)])],
     sy_bodies = (\<lambda>_. idle), sy_context_sync = True, sy_scope = (\<lambda>_. False), sy_limit = 1000\<rparr>"

definition sample_network :: network where
  "sample_network = (\<lambda>x. new_service x None)(''Vault'' := (new_service ''Vault'' None)\<lparr>used_by_services := [(''Redis'', [''Redis''])]\<rparr>)"

definition rebuild_message :: "string \<Rightarrow> state_message" where
  "rebuild_message n = \<lparr>sm_service = n, sm_status = None, sm_to_destroy = False, sm_to_build = True, sm_bypass_async_verify = True,
     sm_force_sync_verify = False, sm_build_state = -1, sm_destroy_state = -1, sm_callback = None, sm_recursive = True\<rparr>"

lemmas react_defs = react_def act_then_def rebuild_def builder_def builder_body_def destroyer_def

theorem state_change_reaches_users_witness:
  "\<exists>net'. SetServiceStatus sample_system (rebuild_message ''Vault'') sample_network = (None, net')
    \<and> service_status (net' ''Redis'') = Some AVAILABLE"
proof -
  let ?Y = sample_system and ?m = "rebuild_message ''Vault''"
  let ?sv = "(sample_network ''Vault'')\<lparr>builded := True, destroyed := False, service_status := Some AVAILABLE\<rparr>"
  let ?net = "sample_network(''Vault'' := ?sv)" and ?h = "\<lambda>x. if x = ''Vault'' then 1 else 0 :: nat"
  have users: "users ?net s = (if s = ''Vault'' then [''Redis''] else [])" for s
    by (simp add: users_def sample_network_def new_service_def)
  have reaction: "system_react ?Y ?m p d s = (None, if lp_build_follow_dep p \<or> lp_to_build p
      then (if lp_to_destroy p \<and> \<not> lp_build_follow_dep p then s\<lparr>destroyed := True, builded := False, method_not_available := []\<rparr> else s\<lparr>method_not_available := []\<rparr>)
        \<lparr>builded := True, destroyed := False, service_status := Some AVAILABLE\<rparr>
      else if lp_to_destroy p then s\<lparr>destroyed := True, builded := False\<rparr> else s)" for p d s
    by (auto simp: system_react_def react_defs rebuild_message_def sample_system_def idle_def Let_def)
  have Q: "quiet_network (system_react ?Y ?m) (sy_liaison ?Y) ?net ?h"
    unfolding quiet_network_def reaction
    by (auto simp: users edges_def wired_def sample_system_def link_of_def split: if_splits)
  have edge: "(''Vault'', ''Redis'') \<in> edges (sy_liaison ?Y) ?net"
    by (simp add: edges_def users) (simp add: link_of_def sample_system_def sample_network_def new_service_def)
  have own: "resolve_service ?Y (sm_service ?m) = Inr ''Vault''" "own_change ?Y ?m ''Vault'' (sample_network ''Vault'') = (None, ?sv)"
    "sm_recursive ?m" "?h ''Vault'' < sy_limit ?Y"
    by (simp_all add: resolve_service_def own_change_def react_defs rebuild_message_def sample_system_def idle_def
        sample_network_def new_service_def)
  obtain net' where 1: "SetServiceStatus ?Y ?m sample_network = (None, net')"
    and 2: "reacted (system_react ?Y ?m) (sy_liaison ?Y) ?net ''Redis'' (net' ''Redis'')"
    using state_change_reaches_users [OF own(1-3) Q own(4)] edge by blast
  obtain s p where "''Redis'' \<in> set (users ?net s)" "link_of (sy_liaison ?Y) ?net s ''Redis'' = Some p"
    and red: "net' ''Redis'' = snd (system_react ?Y ?m p ''Redis'' (?net ''Redis''))"
    using 2 unfolding reacted_def by blast
  then have "p = follow_link"
    by (auto simp: link_of_def sample_system_def split: if_splits)
  then show ?thesis using 1 red unfolding reaction by (simp add: follow_link_def)
qed

text \<open>C37: A mini service ends the propagation.  Links are kept under the names of classes, none of which has an @, but a mini
  service is looked up under its class, an @ and its id: when a change is sent with the recursive flag to a known
  service, whose own part raises nothing, and the first of its users is a mini service, the lookup raises, the error is
  swallowed, only the service itself has changed, and no user, neither the mini service nor those after it, hears of it.\<close>

theorem mini_service_ends_propagation:
  assumes "resolve_service Y (sm_service m) = Inr n" "own_change Y m n (net n) = (None, sv)" "sm_recursive m"
    and "users (net(n := sv)) n = svc_name ms # ds" "miniService_id ms = Some i"
    and "\<forall>c \<in> set (map fst (sy_liaison Y)). CHR ''@'' \<notin> set c"
  shows "SetServiceStatus Y m net = (None, net(n := sv))"
proof -
  have "CHR ''@'' \<in> set (svc_name ms)" using assms(5) by (simp add: svc_name_def)
  then have "svc_name ms \<notin> fst ` set (sy_liaison Y)" using assms(6) by auto
  then have "map_of (sy_liaison Y) (svc_name ms) = None" by (simp add: map_of_eq_None_iff)
  then show ?thesis
    using assms(1-4) by (cases "sy_limit Y")
      (simp_all add: SetServiceStatus_def set_service_def swallow_def visit_user_def)
qed

theorem mini_service_ends_propagation_witness:
  "SetServiceStatus sample_system (rebuild_message ''Redis'')
      (sample_network(''Redis'' := (new_service ''Redis'' None)\<lparr>used_by_services := [(''SMTP'', [''SMTP@1'']), (''Vault'', [''Vault''])]\<rparr>))
    = (None, sample_network(''Redis'' := (new_service ''Redis'' None)\<lparr>used_by_services := [(''SMTP'', [''SMTP@1'']), (''Vault'', [''Vault''])],
        builded := True, destroyed := False, service_status := Some AVAILABLE\<rparr>))"
  by (subst mini_service_ends_propagation [where n = "''Redis''" and ms = "new_service ''SMTP'' (Some ''1'')" and ds = "[''Vault'']" and i = "''1''"])
    (auto simp: resolve_service_def own_change_def react_defs rebuild_message_def sample_system_def idle_def
      sample_network_def new_service_def users_def svc_name_def)

text \<open>The order of the visits is not that of the dependencies: a service can react before one it depends on.\<close>

lemma reacts_before_dependency:
  "\<exists>net L. (''b'', ''c'') \<in> edges L net
    \<and> snd (snd (recursive (\<lambda>p d s. (None, s)) L 5 ''a'' (net, []))) = [''c'', ''b'']"
proof -
  let ?L = "[(''b'', [(''a'', follow_link)]), (''c'', [(''a'', follow_link), (''b'', follow_link)])]"
  let ?net = "(\<lambda>x. new_service x None)(''a'' := (new_service ''a'' None)\<lparr>used_by_services := [(''c'', [''c'']), (''b'', [''b''])]\<rparr>,
    ''b'' := (new_service ''b'' None)\<lparr>used_by_services := [(''c'', [''c''])]\<rparr>)"
  have "(''b'', ''c'') \<in> edges ?L ?net"
    by (simp add: edges_def users_def link_of_def new_service_def)
  moreover have "snd (snd (recursive (\<lambda>p d s. (None, s)) ?L 5 ''a'' (?net, []))) = [''c'', ''b'']"
    by (simp add: numeral_eq_Suc visit_user_def users_def new_service_def)
  ultimately show ?thesis by blast
qed

section \<open>Sending a message, variables and mini services\<close>

text \<open>\<open>propagate\<close> chooses the channel, or refuses the message.\<close>

definition propagate :: "system \<Rightarrow> (string \<Rightarrow> bool) \<Rightarrow> state_message \<Rightarrow> string option \<Rightarrow> string result" where
  "propagate Y is_manager m mini_id =
    (if sm_service m \<notin> set (sy_classes Y) then Inl (OtherException ''ServiceDoesNotExistError'')
     else rbind (case mini_id of
           Some _ \<Rightarrow> if is_manager (sm_service m) then Inr ''mini-service-status'' else Inl (OtherException ''StateProtocolMalFormattedError'')
         | None \<Rightarrow> Inr ''service-status'')
       (\<lambda>queue. case sm_status m of None \<Rightarrow> Inr queue
          | Some i \<Rightarrow> (case status_of i of Inl _ \<Rightarrow> Inl (OtherException ''StateProtocolMalFormattedError'') | Inr _ \<Rightarrow> Inr queue)))"

text \<open>\<open>SetServiceVariables\<close> on the attributes of a service: only those it has are set.\<close>

definition set_variables :: "(string, 'v) dict option \<Rightarrow> (string, 'v) dict \<Rightarrow> (string, 'v) dict" where
  "set_variables variables attrs =
    (case variables of None \<Rightarrow> attrs
     | Some vs \<Rightarrow> fold (\<lambda>(k, v) a. if dict_has a k then AList.update k v a else a) vs attrs)"

text \<open>\<open>SetMiniProfilStatus\<close>: \<open>found\<close> is what the container has under the name, and for a manager its store.\<close>

definition SetMiniProfilStatus ::
  "system \<Rightarrow> (string \<Rightarrow> string store option result) \<Rightarrow> state_message \<Rightarrow> string option \<Rightarrow> string option \<Rightarrow> network \<Rightarrow> exn option \<times> network" where
  "SetMiniProfilStatus Y found m service mini_id net =
    (case service of None \<Rightarrow> (None, net)
     | Some n \<Rightarrow>
       swallow (case found (case map_of (sy_mirror Y) n of Some x \<Rightarrow> x | None \<Rightarrow> n) of
           Inl e \<Rightarrow> (Some e, net)
         | Inr None \<Rightarrow> (None, net)
         | Inr (Some st) \<Rightarrow>
           (case store_get mini_id st of Inl e \<Rightarrow> (Some e, net) | Inr mini \<Rightarrow> swallow (set_service Y m mini net))))"

lemma propagate_accepts:
  "propagate Y is_manager m mini_id = Inr queue \<longleftrightarrow>
    sm_service m \<in> set (sy_classes Y) \<and> (mini_id \<noteq> None \<longrightarrow> is_manager (sm_service m))
    \<and> (case sm_status m of None \<Rightarrow> True | Some i \<Rightarrow> \<exists>x. status_of i = Inr x)
    \<and> queue = (if mini_id = None then ''service-status'' else ''mini-service-status'')"
  by (auto simp: propagate_def rbind_Inr_iff split: option.splits sum.splits if_splits)

lemma fold_known_keys: "fst ` set (fold (\<lambda>(k, v) a. if dict_has a k then AList.update k v a else a) xs a) = fst ` set a"
proof (induction xs arbitrary: a)
  case (Cons x xs)
  obtain k v where x: "x = (k, v)" by (cases x)
  have "fst ` set (AList.update k v a) = fst ` set a" if "dict_has a k"
    using that by (simp add: dom_update insert_absorb)
  then show ?case using Cons [of a] Cons [of "AList.update k v a"] by (simp add: x)
qed simp

lemma set_variables_keys: "fst ` set (set_variables vs attrs) = fst ` set attrs"
  by (cases vs) (simp_all add: set_variables_def fold_known_keys)

end
