(* ===== verification/Mocked.thy ===== *)
theory Mocked
  imports Prelude
begin

text \<open>
  \<open>Mock\<close> of utils/tools.py: the decorated function is never called.  The caller gets the answer the decorator
  was given, None where it was given none, and nothing else changes.  Its values are built from what the
  decorator holds: a function is called, an exception is raised, dictionaries and lists are built item by item.
  A coroutine sleeps for some seconds before; a plain function answers at once.
\<close>

datatype 'v mock_value =
    Mock_plain 'v | Mock_call "'v result" | Mock_raise exn | Mock_dict "(string \<times> 'v mock_value) list" | Mock_list "'v mock_value list"

datatype 'v built = Built_plain 'v | Built_dict "(string \<times> 'v built) list" | Built_list "'v built list"

fun build_result :: "'v mock_value \<Rightarrow> 'v built result"
  and build_items :: "(string \<times> 'v mock_value) list \<Rightarrow> (string \<times> 'v built) list result"
  and build_list :: "'v mock_value list \<Rightarrow> 'v built list result" where
  "build_result (Mock_plain v) = Inr (Built_plain v)"
| "build_result (Mock_call r) = rbind r (\<lambda>v. Inr (Built_plain v))"
| "build_result (Mock_raise e) = Inl e"
| "build_result (Mock_dict kvs) = rbind (build_items kvs) (\<lambda>d. Inr (Built_dict d))"
| "build_result (Mock_list xs) = rbind (build_list xs) (\<lambda>l. Inr (Built_list l))"
| "build_items [] = Inr []"
| "build_items ((k, v) # kvs) = rbind (build_result v) (\<lambda>b. rbind (build_items kvs) (\<lambda>d. Inr ((k, b) # d)))"
| "build_list [] = Inr []"
| "build_list (x # xs) = rbind (build_result x) (\<lambda>b. rbind (build_list xs) (\<lambda>l. Inr (b # l)))"

text \<open>A call of a function decorated with \<open>@Mock()\<close>, in a state of type \<open>'w\<close>: the answer is always None.\<close>

definition mocked :: "('w \<Rightarrow> 'r \<times> 'w) \<Rightarrow> 'w \<Rightarrow> 'r option \<times> 'w" where
  "mocked func w = (None, w)"

lemma mocked_unchanged [simp]: "mocked func w = (None, w)"
  by (simp add: mocked_def)

lemma build_list_plain: "build_list (map Mock_plain xs) = Inr (map Built_plain xs)"
  by (induction xs) simp_all

end
