(* ===== verification/Reactive_Streams.thy ===== *)
theory Reactive_Streams
  imports Helper_Util Mocked "HOL-Library.Multiset"
begin

text \<open>
  Requests that are kept open until their events have come: classes/stream_data_parser.py,
  services/reactive_service.py, manager/keep_alive_manager.py and the messages of classes/broker.py between
  processes.  What a subject of ReactiveX delivers to an observer is a list of notifications; locks are the
  flag whether they are held.
\<close>

section \<open>The parser of a stream\<close>

datatype parser_kind = Continuous | Sequential

record parser =
  pa_kind :: parser_kind
  pa_state :: "string list"
  pa_completed :: bool

definition new_parser :: "parser_kind \<Rightarrow> string list \<Rightarrow> parser" where
  "new_parser k ss = \<lparr>pa_kind = k, pa_state = ss, pa_completed = False\<rparr>"

definition up_state :: "string \<Rightarrow> parser \<Rightarrow> parser result" where
  "up_state st p =
    (case pa_kind p of
       Continuous \<Rightarrow>
         if st \<notin> set (pa_state p) then Inl (OtherException ''ContinuousStateError'')
         else Inr (p\<lparr>pa_state := remove1 st (pa_state p)\<rparr>)
     | Sequential \<Rightarrow>
         if st \<notin> set (pa_state p) then Inr p
         else if last (pa_state p) \<noteq> st then Inl (OtherException ''SequentialStateError'')
         else Inr (p\<lparr>pa_state := butlast (pa_state p)\<rparr>))"

definition completed :: "parser \<Rightarrow> bool" where
  "completed p \<longleftrightarrow> pa_completed p \<or> length (pa_state p) = 0"

section \<open>Subjects\<close>

text \<open>The subjects of the service, each with the locks of the requests that wait for it.\<close>

type_synonym locks = "(string, bool) dict"
type_synonym subjects = "(string, locks) dict"

definition subject_not_found :: exn where "subject_not_found = OtherException ''ReactiveSubjectNotFoundError''"

definition create_subject :: "string \<Rightarrow> string option \<Rightarrow> bool \<Rightarrow> subjects \<Rightarrow> (string \<times> subjects) result" where
  "create_subject generated subject_id plain subs =
    rbind (if plain then Inr generated else case subject_id of None \<Rightarrow> Inl ValueError | Some i \<Rightarrow> Inr i) (\<lambda>i.
      if dict_has subs i then Inl (OtherException ''ReactiveSubjectAlreadyExist'') else Inr (i, AList.update i [] subs))"

definition get_subject :: "string \<Rightarrow> subjects \<Rightarrow> locks result" where
  "get_subject i subs = (case map_of subs i of None \<Rightarrow> Inl subject_not_found | Some ls \<Rightarrow> Inr ls)"

definition register_lock :: "string \<Rightarrow> locks \<Rightarrow> locks" where
  "register_lock req ls = AList.update req True ls"

definition lock_lock :: "string \<Rightarrow> locks \<Rightarrow> locks result" where
  "lock_lock req ls = (if dict_has ls req then Inr (AList.update req True ls) else Inl (OtherException ''LockNotFoundError''))"

definition dispose_lock :: "string \<Rightarrow> locks \<Rightarrow> locks" where
  "dispose_lock req ls = AList.delete req ls"

text \<open>Every event ends with this, whatever the event is.\<close>

definition release_all :: "locks \<Rightarrow> locks" where
  "release_all ls = map (\<lambda>(r, held). (r, False)) ls"

definition delete_subject :: "string \<Rightarrow> subjects \<Rightarrow> subjects result" where
  "delete_subject i subs = rbind (get_subject i subs) (\<lambda>_. Inr (AList.delete i subs))"

definition dispose :: "string \<Rightarrow> string list \<Rightarrow> string option \<Rightarrow> subjects \<Rightarrow> exn option \<times> subjects" where
  "dispose req subject_list rx subs =
    (let subs = fold (\<lambda>i subs. case map_of subs i of None \<Rightarrow> subs | Some ls \<Rightarrow> AList.update i (dispose_lock req ls) subs) subject_list subs
     in case rx of None \<Rightarrow> (None, subs)
        | Some i \<Rightarrow> (case delete_subject i subs of Inl e \<Rightarrow> (Some e, subs) | Inr subs' \<Rightarrow> (None, subs')))"

section \<open>The manager of a request\<close>

record 'd stream_event =
  sd_state :: "string option"
  sd_data :: "'d option"

record 'd keep_alive =
  ka_value :: "(string, 'd) dict"
  ka_error :: "exn option"
  ka_parser :: parser

text \<open>\<open>on_next\<close>: the value is kept before the parser has its say, and an event that goes well clears the error.\<close>

definition on_next :: "'d stream_event \<Rightarrow> 'd keep_alive \<Rightarrow> 'd keep_alive" where
  "on_next v k =
    (case sd_state v of
       None \<Rightarrow> k\<lparr>ka_error := Some (KeyError ''state'')\<rparr>
     | Some st \<Rightarrow>
         (case (if st \<in> set (pa_state (ka_parser k))
                then (case sd_data v of None \<Rightarrow> Inl (KeyError ''data'') | Some d \<Rightarrow> Inr (k\<lparr>ka_value := AList.update st d (ka_value k)\<rparr>))
                else Inr k) of
            Inl e \<Rightarrow> k\<lparr>ka_error := Some e\<rparr>
          | Inr k' \<Rightarrow>
              (case up_state st (ka_parser k') of
                 Inl e \<Rightarrow> k'\<lparr>ka_error := Some e\<rparr>
               | Inr p \<Rightarrow> k'\<lparr>ka_parser := p, ka_error := None\<rparr>)))"

datatype 'd notification = Next "'d stream_event" | Error exn | Completed

definition notify :: "'d notification \<Rightarrow> 'd keep_alive \<Rightarrow> 'd keep_alive" where
  "notify n k =
    (case n of
       Next v \<Rightarrow> on_next v k
     | Error e \<Rightarrow> k\<lparr>ka_error := Some e\<rparr>
     | Completed \<Rightarrow> k\<lparr>ka_parser := (ka_parser k)\<lparr>pa_completed := True\<rparr>\<rparr>)"

text \<open>
  \<open>wait_for\<close>: the request acquires its lock, which every event releases, and then looks at what has come.  The
  timeout shrinks by the time that has passed since the last look.
\<close>

datatype 'd phase = Waiting | Returned "(string, 'd) dict" | Raised exn

record 'd wait =
  wt_ka :: "'d keep_alive"
  wt_locked :: bool
  wt_clock :: rat
  wt_since :: rat
  wt_timeout :: rat
  wt_phase :: "'d phase"

definition timeout_error :: exn where "timeout_error = OtherException ''TimeoutError''"

definition start_wait :: "'d notification list \<Rightarrow> 'd keep_alive \<Rightarrow> rat \<Rightarrow> rat \<Rightarrow> 'd wait" where
  "start_wait ns k tm now = \<lparr>wt_ka = fold notify ns k, wt_locked = (ns = []), wt_clock = now, wt_since = now,
     wt_timeout = tm, wt_phase = Waiting\<rparr>"

definition wake :: "'d wait \<Rightarrow> 'd wait" where
  "wake w =
    (case ka_error (wt_ka w) of
       Some e \<Rightarrow> w\<lparr>wt_locked := True, wt_phase := Raised e\<rparr>
     | None \<Rightarrow>
         if completed (ka_parser (wt_ka w)) then w\<lparr>wt_locked := True, wt_phase := Returned (ka_value (wt_ka w))\<rparr>
         else let delta = wt_clock w - wt_since w in
           if delta > wt_timeout w then w\<lparr>wt_locked := True, wt_phase := Raised timeout_error\<rparr>
           else w\<lparr>wt_locked := True, wt_since := wt_clock w, wt_timeout := wt_timeout w - delta\<rparr>)"

inductive wait_step :: "'d wait \<Rightarrow> 'd wait \<Rightarrow> bool" where
  notified: "wt_phase w = Waiting \<Longrightarrow> wait_step w (w\<lparr>wt_ka := notify n (wt_ka w), wt_locked := False\<rparr>)"
| passed: "wt_phase w = Waiting \<Longrightarrow> 0 \<le> dt \<Longrightarrow> wait_step w (w\<lparr>wt_clock := wt_clock w + dt\<rparr>)"
| woken: "wt_phase w = Waiting \<Longrightarrow> \<not> wt_locked w \<Longrightarrow> wait_step w (wake w)"
| expired: "wt_phase w = Waiting \<Longrightarrow> wt_locked w \<Longrightarrow> wt_clock w \<ge> wt_since w + wt_timeout w \<Longrightarrow>
    wait_step w (w\<lparr>wt_phase := Raised timeout_error\<rparr>)"

section \<open>Messages between processes\<close>

record 'd broker_message =
  bm_subject_id :: string
  bm_state :: string
  bm_value :: "'d option"
  bm_error :: "(string \<times> string list) option"

text \<open>An exception travels as its class and its arguments; only the classes of Python itself come back.\<close>

definition json_to_exception :: "string list \<Rightarrow> (string \<times> string list) option \<Rightarrow> string \<times> string list" where
  "json_to_exception builtins e =
    (case e of None \<Rightarrow> (''Exception'', []) | Some (c, args) \<Rightarrow> (if c \<in> set builtins then c else ''Exception'', args))"

text \<open>The body of \<open>Broker.publish\<close> from a worker that is not in the pool of the subject: the message that would be
  given to a background task.  The method is decorated with \<open>@Mock()\<close>: no task is added.\<close>

definition publish_message :: "string option \<Rightarrow> (string \<times> string list) + 'd \<Rightarrow> string \<Rightarrow> 'd broker_message option" where
  "publish_message subject_id v state =
    (case subject_id of None \<Rightarrow> None
     | Some i \<Rightarrow> Some (case v of
           Inl e \<Rightarrow> \<lparr>bm_subject_id = i, bm_state = ''error'', bm_value = None, bm_error = Some e\<rparr>
         | Inr d \<Rightarrow> \<lparr>bm_subject_id = i, bm_state = state, bm_value = Some d, bm_error = None\<rparr>))"

definition publish ::
  "string option \<Rightarrow> (string \<times> string list) + 'd \<Rightarrow> string \<Rightarrow> 'd broker_message list \<Rightarrow> unit option \<times> 'd broker_message list" where
  "publish subject_id v state =
    mocked (\<lambda>tasks. ((), tasks @ (case publish_message subject_id v state of None \<Rightarrow> [] | Some m \<Rightarrow> [m])))"

text \<open>What the consumer of the channel makes of a message, for a subject that exists: a notification, if any, and whether the
  subject is deleted.  A missing value cannot be subscripted.\<close>

definition delivered :: "string list \<Rightarrow> 'd stream_event broker_message \<Rightarrow> ('d notification option \<times> bool)" where
  "delivered builtins m =
    (if bm_state m = ''completed'' then (Some Completed, True)
     else if bm_state m = ''error'' then (Some (Error (OtherException (fst (json_to_exception builtins (bm_error m))))), False)
     else if bm_state m = ''next'' then (Some (case bm_value m of Some v \<Rightarrow> Next v | None \<Rightarrow> Error TypeError), False)
     else (None, False))"

definition consume_message ::
  "string list \<Rightarrow> 'd stream_event broker_message \<Rightarrow> subjects \<Rightarrow> ('d notification option \<times> subjects)" where
  "consume_message builtins m subs =
    (case map_of subs (bm_subject_id m) of
       None \<Rightarrow> (None, subs)
     | Some ls \<Rightarrow>
         (case delivered builtins m of
            (None, _) \<Rightarrow> (None, subs)
          | (Some n, True) \<Rightarrow> (Some n, AList.delete (bm_subject_id m) subs)
          | (Some n, False) \<Rightarrow> (Some n, AList.update (bm_subject_id m) (release_all ls) subs)))"

section \<open>What the parsers accept\<close>

definition feed :: "string list \<Rightarrow> parser \<Rightarrow> parser result" where
  "feed es p = rfold up_state es p"

definition accepts :: "parser_kind \<Rightarrow> string list \<Rightarrow> string list \<Rightarrow> bool" where
  "accepts k ss es \<longleftrightarrow> (\<exists>p. feed es (new_parser k ss) = Inr p \<and> completed p)"

lemma accepts_Nil: "accepts k ss [] \<longleftrightarrow> ss = []"
  by (simp add: accepts_def feed_def new_parser_def completed_def)

lemma accepts_Continuous_Cons:
  "accepts Continuous ss (e # es) \<longleftrightarrow> e \<in> set ss \<and> accepts Continuous (remove1 e ss) es"
  by (simp add: accepts_def feed_def new_parser_def up_state_def)

lemma accepts_Sequential_Cons:
  "accepts Sequential ss (e # es) \<longleftrightarrow>
    (if e \<notin> set ss then accepts Sequential ss es else last ss = e \<and> accepts Sequential (butlast ss) es)"
  by (simp add: accepts_def feed_def new_parser_def up_state_def)

lemma remdups_snoc: "remdups (xs @ [e]) = filter (\<lambda>x. x \<noteq> e) (remdups xs) @ [e]"
  by (induction xs) auto

lemma sequential_accepts:
  "distinct ss \<Longrightarrow> accepts Sequential ss es \<longleftrightarrow> remdups (rev (filter (\<lambda>e. e \<in> set ss) es)) = ss"
proof (induction es arbitrary: ss)
  case Nil
  then show ?case by (auto simp: accepts_Nil)
next
  case (Cons e es)
  show ?case
  proof (cases "e \<in> set ss")
    case False
    then show ?thesis using Cons by (simp add: accepts_Sequential_Cons)
  next
    case True
    then obtain xs l where ss: "ss = xs @ [l]" by (cases ss rule: rev_cases) auto
    let ?rest = "remdups (rev (filter (\<lambda>x. x \<in> set ss) es))"
    have "accepts Sequential ss (e # es) \<longleftrightarrow> l = e \<and> accepts Sequential xs es"
      using True by (simp add: accepts_Sequential_Cons ss)
    also have "\<dots> \<longleftrightarrow> l = e \<and> remdups (rev (filter (\<lambda>x. x \<in> set xs) es)) = xs"
      using Cons.IH [of xs] Cons.prems ss by simp
    also have "\<dots> \<longleftrightarrow> l = e \<and> filter (\<lambda>x. x \<noteq> e) ?rest = xs"
    proof -
      have "filter (\<lambda>x. x \<noteq> e) ?rest = remdups (rev (filter (\<lambda>x. x \<in> set ss \<and> x \<noteq> e) es))"
        by (simp add: remdups_filter [symmetric] rev_filter [symmetric] conj_commute)
      moreover have "(\<lambda>x. x \<in> set ss \<and> x \<noteq> l) = (\<lambda>x. x \<in> set xs)" using Cons.prems ss by auto
      ultimately show ?thesis by auto
    qed
    also have "\<dots> \<longleftrightarrow> filter (\<lambda>x. x \<noteq> e) ?rest @ [e] = ss"
      using ss by auto
    finally show ?thesis using True by (simp add: remdups_snoc)
  qed
qed

lemma continuous_accepts: "accepts Continuous ss es \<longleftrightarrow> mset es = mset ss"
proof (induction es arbitrary: ss)
  case Nil
  then show ?case by (auto simp: accepts_Nil)
next
  case (Cons e es)
  have "accepts Continuous ss (e # es) \<longleftrightarrow> e \<in> set ss \<and> mset es = mset ss - {#e#}"
    by (simp add: accepts_Continuous_Cons Cons.IH mset_remove1)
  also have "\<dots> \<longleftrightarrow> mset (e # es) = mset ss"
    by (auto simp: set_mset_mset [symmetric] simp del: set_mset_mset)
      (metis add_mset_remove_trivial union_single_eq_member)+
  finally show ?case .
qed

text \<open>C33: A parser accepts exactly the right events.  The continuous one wants each of its states once, in any order,
  and nothing else; the sequential one ignores other events and repetitions and wants the first occurrences
  of its states in the reverse of the order they were listed in.\<close>

theorem parser_accepts:
  "(accepts Continuous ss es \<longleftrightarrow> mset es = mset ss)
    \<and> (distinct ss \<longrightarrow> (accepts Sequential ss es \<longleftrightarrow> remdups (rev (filter (\<lambda>e. e \<in> set ss) es)) = ss))"
  using sequential_accepts continuous_accepts by blast

theorem parser_accepts_witness:
  "accepts Sequential [''completed'', ''dtmf-result''] [''ringing'', ''dtmf-result'', ''dtmf-result'', ''completed'']
    \<and> \<not> accepts Sequential [''completed'', ''dtmf-result''] [''completed'', ''dtmf-result'']
    \<and> accepts Continuous [''phrase-result'', ''voice-result''] [''voice-result'', ''phrase-result'']"
proof -
  have "distinct [''completed'', ''dtmf-result'']" by simp
  note sequential = parser_accepts [THEN conjunct2, rule_format, OF this]
  show ?thesis
    unfolding parser_accepts [THEN conjunct1] sequential by simp
qed

section \<open>What a waiting request sees\<close>

abbreviation unfinished :: "'d keep_alive \<Rightarrow> bool" where
  "unfinished k \<equiv> ka_error k = None \<and> \<not> completed (ka_parser k)"

definition wait_ok :: "rat \<Rightarrow> 'd wait \<Rightarrow> bool" where
  "wait_ok deadline w \<longleftrightarrow>
    (case wt_phase w of
       Waiting \<Rightarrow> (wt_locked w \<longrightarrow> unfinished (wt_ka w)) \<and> wt_since w + wt_timeout w = deadline
     | Returned v \<Rightarrow> v = ka_value (wt_ka w) \<and> completed (ka_parser (wt_ka w)) \<and> ka_error (wt_ka w) = None
     | Raised e \<Rightarrow> ka_error (wt_ka w) = Some e \<or> e = timeout_error \<and> deadline \<le> wt_clock w)"

lemma wait_step_ok: "wait_step w w' \<Longrightarrow> wait_ok deadline w \<Longrightarrow> wait_ok deadline w'"
proof (induction rule: wait_step.induct)
  case (woken w)
  then show ?case
    by (auto simp: wait_ok_def wake_def Let_def algebra_simps split: option.splits)
qed (auto simp: wait_ok_def)

lemma wait_run_ok: "wait_step\<^sup>*\<^sup>* w w' \<Longrightarrow> wait_ok deadline w \<Longrightarrow> wait_ok deadline w'"
  by (induction rule: rtranclp_induct) (auto intro: wait_step_ok)

text \<open>C15: A request that waits misses nothing.  However events, time and wake-ups interleave, while it is blocked on its
  lock its stream is neither finished nor failed, and the deadline is the one it started with; it returns
  only the values of a finished stream, and raises only the error of the stream or, not before the
  deadline, a timeout.\<close>

theorem waiting_misses_nothing:
  assumes "unfinished k" "wait_step\<^sup>*\<^sup>* (start_wait ns k tm now) w"
  shows "case wt_phase w of
      Waiting \<Rightarrow> (wt_locked w \<longrightarrow> unfinished (wt_ka w)) \<and> wt_since w + wt_timeout w = now + tm
    | Returned v \<Rightarrow> v = ka_value (wt_ka w) \<and> completed (ka_parser (wt_ka w)) \<and> ka_error (wt_ka w) = None
    | Raised e \<Rightarrow> ka_error (wt_ka w) = Some e \<or> e = timeout_error \<and> now + tm \<le> wt_clock w"
proof -
  have "wait_ok (now + tm) (start_wait ns k tm now)"
    using assms(1) by (auto simp: wait_ok_def start_wait_def)
  then show ?thesis
    using wait_run_ok [OF assms(2)] by (simp add: wait_ok_def)
qed

definition fresh_manager :: "parser_kind \<Rightarrow> string list \<Rightarrow> string keep_alive" where
  "fresh_manager kind ss = \<lparr>ka_value = [], ka_error = None, ka_parser = new_parser kind ss\<rparr>"

definition dtmf :: "string notification" where
  "dtmf = Next \<lparr>sd_state = Some ''dtmf-result'', sd_data = Some ''1234''\<rparr>"

theorem waiting_misses_nothing_witness:
  "let w = start_wait [dtmf] (fresh_manager Continuous [''dtmf-result'']) 10 0 in
    wt_phase (wake w) = Returned [(''dtmf-result'', ''1234'')] \<and> ka_error (wt_ka (wake w)) = None"
proof -
  let ?k = "fresh_manager Continuous [''dtmf-result'']" and ?w = "start_wait [dtmf] (fresh_manager Continuous [''dtmf-result'']) 10 0"
  have "unfinished ?k" by (simp add: fresh_manager_def new_parser_def completed_def)
  moreover have "wait_step\<^sup>*\<^sup>* ?w (wake ?w)"
    by (rule r_into_rtranclp, rule woken) (simp_all add: start_wait_def)
  moreover have "wt_phase (wake ?w) = Returned [(''dtmf-result'', ''1234'')]"
    by (simp add: wake_def start_wait_def fresh_manager_def dtmf_def notify_def on_next_def new_parser_def up_state_def completed_def)
  ultimately show ?thesis
    using waiting_misses_nothing [of ?k "[dtmf]" 10 0 "wake ?w"] by (simp add: Let_def)
qed

text \<open>An error of the stream is lost when a good event follows before the request has woken up.\<close>

lemma good_event_clears_error:
  "ka_error (notify (Next \<lparr>sd_state = Some st, sd_data = Some d\<rparr>) k) = None
    \<longleftrightarrow> (\<exists>p. up_state st (ka_parser k) = Inr p)"
  by (auto simp: notify_def on_next_def split: sum.splits)

text \<open>Behind the mock, the end of a stream is announced as \<open>complete\<close> and awaited as \<open>completed\<close>.\<close>

lemma complete_never_delivered:
  "publish_message (Some i) (Inr d) ''complete'' = Some m \<Longrightarrow> consume_message builtins m subs = (None, subs)"
  by (auto simp: publish_message_def consume_message_def delivered_def split: option.splits)

text \<open>A subject that a message has completed is gone, and the disposal of the request that owns it raises.\<close>

lemma dispose_after_completion:
  assumes "bm_state m = ''completed''" "bm_subject_id m = i"
  shows "fst (dispose req [] (Some i) (snd (consume_message builtins m subs))) = Some subject_not_found"
  using assms
  by (auto simp: dispose_def delete_subject_def get_subject_def consume_message_def delivered_def delete_conv'
      split: option.splits)

text \<open>A class of Python itself comes back as it was sent, every other as its base.\<close>

lemma exception_roundtrip:
  "json_to_exception builtins (Some (c, args)) = (c, args) \<longleftrightarrow> c \<in> set builtins \<or> c = ''Exception''"
  by (auto simp: json_to_exception_def)

lemma subject_created: "create_subject g sid plain subs = Inr (i, subs') \<Longrightarrow> get_subject i subs' = Inr [] \<and> get_subject i subs = Inl subject_not_found"
  by (auto simp: create_subject_def get_subject_def rbind_Inr_iff map_of_eq_None_iff split: if_splits option.splits)

end
