(* ===== verification/Crawl_Model.thy ===== *)
theory Crawl_Model
  imports Url_Model "HOL-Library.Multiset"
begin

text \<open>
  models/crawal4ai_model.py: what a request to crawl web sites may contain.  pydantic checks the constraints of
  the fields, then the validators of the fields, then those of the model; every failure is a ValueError of its
  own kind (ValidationError), other exceptions leave at once.
\<close>

section \<open>Scorers and filters of a deep crawl\<close>

text \<open>Truth of an optional list, dictionary or number in Python.\<close>

abbreviation given :: "'a list option \<Rightarrow> bool" where
  "given x \<equiv> x \<noteq> None \<and> x \<noteq> Some []"

abbreviation nonzero :: "'a::zero option \<Rightarrow> bool" where
  "nonzero x \<equiv> x \<noteq> None \<and> x \<noteq> Some 0"

datatype scorer_mode = Keyword | Domain_authority | Path_depth | Content_type | Freshness

record scorer_model =
  sc_mode :: scorer_mode
  sc_weight :: rat
  sc_keyword :: "string list option"
  sc_domain_weights :: "(string, rat) dict option"
  sc_default_weight :: "rat option"
  sc_current_year :: "int option"
  sc_type_weights :: "(string, rat) dict option"

definition check_scorer :: "scorer_model \<Rightarrow> scorer_model result" where
  "check_scorer m =
    (if sc_weight m \<le> 0 then Inl ValueError
     else case sc_mode m of
       Keyword \<Rightarrow>
         if \<not> given (sc_keyword m) then Inl ValueError
         else if given (sc_domain_weights m) \<or> nonzero (sc_default_weight m) \<or> nonzero (sc_current_year m) \<or> given (sc_type_weights m)
           then Inl ValueError else Inr m
     | Domain_authority \<Rightarrow>
         if \<not> given (sc_domain_weights m) then Inl ValueError
         else if given (sc_keyword m) \<or> nonzero (sc_current_year m) \<or> given (sc_type_weights m) then Inl ValueError else Inr m
     | Path_depth \<Rightarrow>
         if given (sc_keyword m) \<or> given (sc_domain_weights m) \<or> nonzero (sc_current_year m) \<or> given (sc_type_weights m)
           then Inl ValueError else Inr m
     | Content_type \<Rightarrow>
         if \<not> given (sc_type_weights m) then Inl ValueError
         else if given (sc_keyword m) \<or> given (sc_domain_weights m) \<or> nonzero (sc_current_year m) then Inl ValueError else Inr m
     | Freshness \<Rightarrow>
         if given (sc_keyword m) \<or> given (sc_domain_weights m) \<or> given (sc_type_weights m) then Inl ValueError else Inr m)"

datatype filter_mode = Url_pattern | Domain | Content_type_filter | Content_relevance | Seo

record filter_model =
  fm_mode :: filter_mode
  fm_threshold :: rat
  fm_patterns :: "string list option"
  fm_include_domains :: "string list option"
  fm_blocked_domains :: "string list option"
  fm_allowed_types :: "string list option"
  fm_query :: "string option"
  fm_similarity_threshold :: "rat option"
  fm_keywords :: "string list option"

definition check_filter :: "filter_model \<Rightarrow> filter_model result" where
  "check_filter m =
    (if fm_threshold m < 0 \<or> 1 < fm_threshold m then Inl ValueError
     else case fm_mode m of
       Url_pattern \<Rightarrow>
         if \<not> given (fm_patterns m) then Inl ValueError
         else if given (fm_include_domains m) \<or> given (fm_blocked_domains m) \<or> given (fm_allowed_types m) \<or> given (fm_query m)
           \<or> nonzero (fm_similarity_threshold m) \<or> given (fm_keywords m) then Inl ValueError else Inr m
     | Domain \<Rightarrow>
         if \<not> given (fm_include_domains m) \<and> \<not> given (fm_blocked_domains m) then Inl ValueError
         else if given (fm_patterns m) \<or> given (fm_allowed_types m) \<or> given (fm_query m)
           \<or> nonzero (fm_similarity_threshold m) \<or> given (fm_keywords m) then Inl ValueError else Inr m
     | Content_type_filter \<Rightarrow>
         if \<not> given (fm_allowed_types m) then Inl ValueError
         else if given (fm_patterns m) \<or> given (fm_include_domains m) \<or> given (fm_blocked_domains m) \<or> given (fm_query m)
           \<or> nonzero (fm_similarity_threshold m) \<or> given (fm_keywords m) then Inl ValueError else Inr m
     | Content_relevance \<Rightarrow>
         if \<not> given (fm_query m) then Inl ValueError
         else if given (fm_patterns m) \<or> given (fm_include_domains m) \<or> given (fm_blocked_domains m) \<or> given (fm_allowed_types m)
           \<or> given (fm_keywords m) then Inl ValueError
         else (case fm_similarity_threshold m of
             Some t \<Rightarrow> if 0 \<le> t \<and> t \<le> 1 then Inr m else Inl ValueError
           | None \<Rightarrow> Inr m)
     | Seo \<Rightarrow>
         if given (fm_patterns m) \<or> given (fm_include_domains m) \<or> given (fm_blocked_domains m) \<or> given (fm_allowed_types m)
           \<or> given (fm_query m) \<or> nonzero (fm_similarity_threshold m) then Inl ValueError else Inr m)"

datatype algorithm = Bfs | Dfs | Best_first

text \<open>A score is a number or minus infinity; the validator only sees scores that were given.\<close>

datatype score = Minus_infinity | Score rat

definition check_score :: "rat option \<Rightarrow> score result" where
  "check_score v =
    (case v of None \<Rightarrow> Inr Minus_infinity
     | Some s \<Rightarrow> if 0 \<le> s \<and> s \<le> 1 then Inr (Score s) else Inl ValueError)"

record deep_crawl_model =
  dm_algorithm :: algorithm
  dm_max_pages :: rat
  dm_max_depth :: rat
  dm_include_external :: bool
  dm_score_threshold :: "score option"
  dm_url_scorers :: "scorer_model list option"
  dm_url_filters :: "filter_model list option"

definition checked_list :: "('a \<Rightarrow> 'a result) \<Rightarrow> 'a list option \<Rightarrow> 'a list option result" where
  "checked_list f xs = (case xs of None \<Rightarrow> Inr None | Some l \<Rightarrow> rbind (rmap f l) (\<lambda>l. Inr (Some l)))"

text \<open>The score threshold is left out (None), or given, possibly as null.\<close>

definition make_deep_crawl ::
  "algorithm \<Rightarrow> rat \<Rightarrow> rat \<Rightarrow> bool \<Rightarrow> rat option option \<Rightarrow> scorer_model list option \<Rightarrow> filter_model list option \<Rightarrow> deep_crawl_model result" where
  "make_deep_crawl alg pages depth ext threshold scorers filters =
    (if pages < 1 \<or> 100 < pages \<or> depth < 0 \<or> 10 < depth then Inl ValueError
     else rbind (case threshold of None \<Rightarrow> Inr None | Some v \<Rightarrow> rbind (check_score v) (\<lambda>s. Inr (Some s))) (\<lambda>t.
       rbind (checked_list check_scorer scorers) (\<lambda>ss. rbind (checked_list check_filter filters) (\<lambda>fs.
         Inr \<lparr>dm_algorithm = alg, dm_max_pages = pages, dm_max_depth = depth, dm_include_external = ext,
           dm_score_threshold = t, dm_url_scorers = ss, dm_url_filters = fs\<rparr>))))"

section \<open>Which URLs to crawl\<close>

datatype crawl_source = CC | Sitemap | Sitemap_CC

datatype domain_arg = OneDomain string | Domains "string list"

record seeding_url =
  sd_domain :: "string list"
  sd_source :: crawl_source
  sd_max_urls :: int
  sd_score_threshold :: "rat option"
  sd_queries :: "string list"
  sd_pattern :: "string option"
  sd_top :: "int option"
  sd_jsonld :: "(logic \<times> filter_node list) option"

definition MAX_URLS :: nat where "MAX_URLS = 10"

definition parse_domain :: "domain_arg \<Rightarrow> string list" where
  "parse_domain d = (case d of OneDomain s \<Rightarrow> [s] | Domains ds \<Rightarrow> ds)"

text \<open>\<open>arr\<close> is the order in which Python lists a set, \<open>http_url\<close> the parser of URLs of pydantic.\<close>

definition validate_domain :: "(string list \<Rightarrow> string list) \<Rightarrow> string list \<Rightarrow> string list result" where
  "validate_domain arr d =
    (if length d = 0 then Inl ValueError else if length d > 100 then Inl ValueError else Inr (arr (dedupe id d [])))"

text \<open>Queries that are left out stay the empty list; given ones are checked, and null has no length.\<close>

definition validate_queries :: "(string list \<Rightarrow> string list) \<Rightarrow> string list option \<Rightarrow> string list result" where
  "validate_queries arr q =
    (case q of None \<Rightarrow> Inl TypeError | Some l \<Rightarrow> Inr (arr (dedupe id (if length l = 0 then l @ [''''] else l) [])))"

definition validate_pattern :: "string option \<Rightarrow> string" where
  "validate_pattern p =
    (case p of None \<Rightarrow> ''*''
     | Some s \<Rightarrow> if \<not> (s \<noteq> [] \<and> hd s = CHR ''*'') \<and> \<not> (s \<noteq> [] \<and> last s = CHR ''*'') then ''*'' @ s @ ''*'' else s)"

definition validate_top :: "seeding_url \<Rightarrow> seeding_url result" where
  "validate_top m =
    (let max_top = sd_max_urls m * int (length (sd_domain m))
     in case sd_top m of
          Some t \<Rightarrow> if t < max_top then Inl ValueError else Inr (m\<lparr>sd_top := Some max_top\<rparr>)
        | None \<Rightarrow> Inr (m\<lparr>sd_top := Some max_top\<rparr>))"

record seeding_args =
  sa_domain :: domain_arg
  sa_source :: crawl_source
  sa_max_urls :: int
  sa_score_threshold :: "rat option"
  sa_queries :: "string list option option"
  sa_pattern :: "string option option"
  sa_top :: "int option"
  sa_jsonld :: "(logic \<times> filter_node list) option"

definition make_seeding ::
  "(string list \<Rightarrow> string list) \<Rightarrow> (string \<Rightarrow> string result) \<Rightarrow> seeding_args \<Rightarrow> seeding_url result" where
  "make_seeding arr http_url a =
    (let ds = parse_domain (sa_domain a) in
     if sa_queries a = Some None then Inl TypeError
     else if length ds < 1 \<or> MAX_URLS < length ds \<or> sa_max_urls a < 1 \<or> 50 < sa_max_urls a
       \<or> (case sa_score_threshold a of Some s \<Rightarrow> s \<le> 0 \<or> 1 \<le> s | None \<Rightarrow> False)
       \<or> (case sa_top a of Some t \<Rightarrow> t < 1 | None \<Rightarrow> False) then Inl ValueError
     else rbind (rmap http_url ds) (\<lambda>urls. rbind (validate_domain arr urls) (\<lambda>dom.
       rbind (case sa_queries a of None \<Rightarrow> Inr [] | Some q \<Rightarrow> validate_queries arr q) (\<lambda>qs.
         validate_top \<lparr>sd_domain = dom, sd_source = sa_source a, sd_max_urls = sa_max_urls a,
           sd_score_threshold = sa_score_threshold a, sd_queries = qs,
           sd_pattern = (case sa_pattern a of None \<Rightarrow> None | Some p \<Rightarrow> Some (validate_pattern p)),
           sd_top = sa_top a, sd_jsonld = sa_jsonld a\<rparr>))))"

text \<open>The parameters of a generator, when they are given: between one and five.\<close>

definition validate_path_params :: "(string, url_param) dict \<Rightarrow> (string, url_param) dict result" where
  "validate_path_params v = (if length v > 5 then Inl ValueError else if length v = 0 then Inl ValueError else Inr v)"

section \<open>What is accepted\<close>

text \<open>The validators as two tables: the fields a mode needs one of, and the fields it may have.\<close>

definition present_fields :: "(string \<times> bool) list \<Rightarrow> string list" where
  "present_fields l = map fst (filter snd l)"

definition scorer_fields :: "scorer_model \<Rightarrow> string list" where
  "scorer_fields m = present_fields [(''keyword'', given (sc_keyword m)), (''domain_weights'', given (sc_domain_weights m)),
     (''default_weight'', nonzero (sc_default_weight m)), (''current_year'', nonzero (sc_current_year m)),
     (''type_weights'', given (sc_type_weights m))]"

fun scorer_needs :: "scorer_mode \<Rightarrow> string list" where
  "scorer_needs Keyword = [''keyword'']"
| "scorer_needs Domain_authority = [''domain_weights'']"
| "scorer_needs Content_type = [''type_weights'']"
| "scorer_needs _ = []"

fun scorer_may :: "scorer_mode \<Rightarrow> string list" where
  "scorer_may Keyword = [''keyword'']"
| "scorer_may Domain_authority = [''domain_weights'', ''default_weight'']"
| "scorer_may Path_depth = [''default_weight'']"
| "scorer_may Content_type = [''type_weights'', ''default_weight'']"
| "scorer_may Freshness = [''current_year'', ''default_weight'']"

definition filter_fields :: "filter_model \<Rightarrow> string list" where
  "filter_fields m = present_fields [(''patterns'', given (fm_patterns m)), (''include_domains'', given (fm_include_domains m)),
     (''blocked_domains'', given (fm_blocked_domains m)), (''allowed_types'', given (fm_allowed_types m)), (''query'', given (fm_query m)),
     (''similarity_threshold'', nonzero (fm_similarity_threshold m)), (''keywords'', given (fm_keywords m))]"

fun filter_needs :: "filter_mode \<Rightarrow> string list" where
  "filter_needs Url_pattern = [''patterns'']"
| "filter_needs Domain = [''include_domains'', ''blocked_domains'']"
| "filter_needs Content_type_filter = [''allowed_types'']"
| "filter_needs Content_relevance = [''query'']"
| "filter_needs Seo = []"

fun filter_may :: "filter_mode \<Rightarrow> string list" where
  "filter_may Content_relevance = [''query'', ''similarity_threshold'']"
| "filter_may Seo = [''keywords'']"
| "filter_may k = filter_needs k"

definition meets_table :: "string list \<Rightarrow> string list \<Rightarrow> string list \<Rightarrow> bool" where
  "meets_table needs may present \<longleftrightarrow> (needs = [] \<or> set needs \<inter> set present \<noteq> {}) \<and> set present \<subseteq> set may"

lemma present_fields_set: "f \<in> set (present_fields l) \<longleftrightarrow> (f, True) \<in> set l"
  by (force simp: present_fields_def)

lemma meets_table_present:
  "meets_table needs may (present_fields l) \<longleftrightarrow>
    (needs = [] \<or> list_ex (\<lambda>(f, here). here \<and> f \<in> set needs) l) \<and> list_all (\<lambda>(f, here). here \<longrightarrow> f \<in> set may) l"
proof -
  have "set needs \<inter> set (present_fields l) \<noteq> {} \<longleftrightarrow> list_ex (\<lambda>(f, here). here \<and> f \<in> set needs) l"
    by (auto simp: list_ex_iff present_fields_set disjoint_iff)
  moreover have "set (present_fields l) \<subseteq> set may \<longleftrightarrow> list_all (\<lambda>(f, here). here \<longrightarrow> f \<in> set may) l"
    by (auto simp: list_all_iff present_fields_set)
  ultimately show ?thesis by (simp add: meets_table_def)
qed

lemma scorer_table:
  "check_scorer m = (if 0 < sc_weight m \<and> meets_table (scorer_needs (sc_mode m)) (scorer_may (sc_mode m)) (scorer_fields m)
     then Inr m else Inl ValueError)"
  by (cases "sc_mode m") (simp_all add: check_scorer_def scorer_fields_def meets_table_present)

definition similarity_fits :: "filter_model \<Rightarrow> bool" where
  "similarity_fits m = (case (fm_mode m, fm_similarity_threshold m) of (Content_relevance, Some t) \<Rightarrow> 0 \<le> t \<and> t \<le> 1 | _ \<Rightarrow> True)"

lemma filter_table:
  "check_filter m = (if 0 \<le> fm_threshold m \<and> fm_threshold m \<le> 1
       \<and> meets_table (filter_needs (fm_mode m)) (filter_may (fm_mode m)) (filter_fields m) \<and> similarity_fits m
     then Inr m else Inl ValueError)"
  by (cases "fm_mode m")
    (simp_all add: check_filter_def filter_fields_def meets_table_present similarity_fits_def split: option.split)

text \<open>The validators of scorers and filters are two tables: a scorer is accepted when its weight is positive, a filter
  when its threshold is a probability, and when it has one of the fields its mode needs and none its mode
  may not have.  A default weight is let through for every mode but that of keywords, whatever the messages say.\<close>

theorem scorers_and_filters_by_table:
  "check_scorer s = (if 0 < sc_weight s \<and> meets_table (scorer_needs (sc_mode s)) (scorer_may (sc_mode s)) (scorer_fields s)
     then Inr s else Inl ValueError)
   \<and> check_filter f = (if 0 \<le> fm_threshold f \<and> fm_threshold f \<le> 1
       \<and> meets_table (filter_needs (fm_mode f)) (filter_may (fm_mode f)) (filter_fields f) \<and> similarity_fits f
     then Inr f else Inl ValueError)"
  using scorer_table filter_table by blast

lemma rmap_value_length: "rmap f xs = Inr ys \<Longrightarrow> length ys = length xs"
  by (metis rmap_Inr_all2 list_all2_lengthD)

lemma dedupe_id: "distinct (dedupe id xs seen) \<and> set (dedupe id xs seen) = set xs - set seen"
  by (induction xs arbitrary: seen) auto

lemma dedupe_length: "length (dedupe f xs seen) \<le> length xs"
  by (induction xs arbitrary: seen) (auto intro: le_SucI)

text \<open>A seeding request that is accepted names between one and ten domains, each once, and each of its queries once;
  the number of URLs it asks for is at least the most its domains can give, and is replaced by it, so it never
  limits anything.\<close>

theorem accepted_seeding:
  assumes "make_seeding arr http_url a = Inr m" "\<forall>xs. mset (arr xs) = mset xs"
  shows "distinct (sd_domain m) \<and> sd_domain m \<noteq> [] \<and> length (sd_domain m) \<le> MAX_URLS
    \<and> distinct (sd_queries m) \<and> (sa_queries a \<noteq> None \<longrightarrow> sd_queries m \<noteq> [])
    \<and> sd_top m = Some (sd_max_urls m * int (length (sd_domain m))) \<and> sd_max_urls m \<in> {1..50}
    \<and> (case sa_top a of None \<Rightarrow> True | Some t \<Rightarrow> sd_max_urls m * int (length (sd_domain m)) \<le> t)"
proof -
  have arr: "set (arr xs) = set xs" "distinct (arr xs) = distinct xs" "length (arr xs) = length xs" for xs
    using assms(2) by (metis mset_eq_setD, metis mset_eq_imp_distinct_iff, metis mset_eq_length)
  obtain urls dom qs where
    bounds: "length (parse_domain (sa_domain a)) \<le> MAX_URLS" "sa_max_urls a \<in> {1..50}"
    and urls: "rmap http_url (parse_domain (sa_domain a)) = Inr urls"
    and dom: "validate_domain arr urls = Inr dom"
    and qs: "(case sa_queries a of None \<Rightarrow> Inr [] | Some q \<Rightarrow> validate_queries arr q) = Inr qs"
    and m: "sd_domain m = dom" "sd_queries m = qs" "sd_max_urls m = sa_max_urls a"
      "sd_top m = Some (sa_max_urls a * int (length dom))"
      "case sa_top a of None \<Rightarrow> True | Some t \<Rightarrow> sa_max_urls a * int (length dom) \<le> t"
    using assms(1)
    by (auto simp: make_seeding_def Let_def rbind_Inr_iff validate_top_def not_less split: if_splits option.splits)
  have d: "dom = arr (dedupe id urls [])" "urls \<noteq> []"
    using dom by (auto simp: validate_domain_def split: if_splits)
  have "length dom \<le> MAX_URLS"
    using dedupe_length [of id urls "[]"] bounds(1) rmap_value_length [OF urls] d arr(3) by simp
  moreover have once: "distinct (arr (dedupe id l []))" "set (arr (dedupe id l [])) = set l" for l
    using arr dedupe_id [of l "[]"] by simp_all
  moreover have "dom \<noteq> []" "distinct dom" using d once [of urls] by auto
  moreover have "distinct qs \<and> (sa_queries a \<noteq> None \<longrightarrow> qs \<noteq> [])"
  proof (cases "sa_queries a")
    case None
    then show ?thesis using qs by simp
  next
    case (Some q)
    then obtain l0 where q: "q = Some l0" using qs by (cases q) (simp_all add: validate_queries_def)
    let ?l = "if length l0 = 0 then l0 @ [''''] else l0"
    have l: "qs = arr (dedupe id ?l [])" "?l \<noteq> []" using qs Some q by (simp_all only: validate_queries_def option.case sum.inject) simp
    then have "set qs = set ?l" "distinct qs" using once [of ?l] by (simp_all only:)
    then show ?thesis using l(2) by (metis list.set_sel(1) empty_iff empty_set)
  qed
  ultimately show ?thesis using m bounds(2) by (simp split: option.splits)
qed

definition sample_seeding :: seeding_args where
  "sample_seeding = \<lparr>sa_domain = Domains [''a.com'', ''b.com'', ''a.com''], sa_source = Sitemap, sa_max_urls = 25, sa_score_threshold = None,
    sa_queries = Some (Some []), sa_pattern = Some (Some ''blog''), sa_top = Some 60, sa_jsonld = None\<rparr>"

theorem accepted_seeding_witness:
  "\<exists>m. make_seeding rev Inr sample_seeding = Inr m \<and> sd_top m = Some 50 \<and> sd_pattern m = Some ''*blog*'' \<and> sd_queries m = [''''] \<and> distinct (sd_domain m)"
proof -
  let ?m = "\<lparr>sd_domain = [''b.com'', ''a.com''], sd_source = Sitemap, sd_max_urls = 25, sd_score_threshold = None, sd_queries = [''''],
    sd_pattern = Some ''*blog*'', sd_top = Some 50, sd_jsonld = None\<rparr>"
  have m: "make_seeding rev Inr sample_seeding = Inr ?m"
    by (simp add: make_seeding_def sample_seeding_def parse_domain_def MAX_URLS_def validate_domain_def validate_queries_def
        validate_pattern_def validate_top_def Let_def)
  then show ?thesis using accepted_seeding [OF m] by simp
qed

end
