(* ===== verification/Markdown_Slice.thy ===== *)
theory Markdown_Slice
  imports Prelude "HOL-Library.Sublist"
begin

text \<open>
  \<open>slice_markdown\<close> of ingestion/crawl_ingestion.py: a document is cut to a number of bytes, between paragraphs and
  then between sentences.  A text is the list of its code points, which UTF-8 writes in one to four bytes.
\<close>

type_synonym utext = "nat list"

definition utf8_len :: "nat \<Rightarrow> nat" where
  "utf8_len c = (if c < 128 then 1 else if c < 2048 then 2 else if c < 65536 then 3 else 4)"

lemma utf8_len_line_feed [simp]: "utf8_len 10 = 1"
  by (simp add: utf8_len_def)

abbreviation bytes :: "utext \<Rightarrow> nat" where
  "bytes t \<equiv> sum_list (map utf8_len t)"

text \<open>White space of \<open>str\<close>, and the characters a sentence ends with.\<close>

definition is_space :: "nat \<Rightarrow> bool" where
  "is_space c \<longleftrightarrow> 9 \<le> c \<and> c \<le> 13 \<or> 28 \<le> c \<and> c \<le> 32 \<or> 8192 \<le> c \<and> c \<le> 8202
    \<or> c \<in> {133, 160, 5760, 8232, 8233, 8239, 8287, 12288}"

definition ends_sentence :: "nat \<Rightarrow> bool" where
  "ends_sentence c \<longleftrightarrow> c \<in> {46, 33, 63}"

fun push :: "nat \<Rightarrow> utext list \<Rightarrow> utext list" where
  "push c [] = [[c]]"
| "push c (p # ps) = (c # p) # ps"

text \<open>\<open>split\<close> at two line feeds, and \<open>join\<close> with them.\<close>

fun split_pars :: "utext \<Rightarrow> utext list" where
  "split_pars [] = [[]]"
| "split_pars [c] = [[c]]"
| "split_pars (c # d # t) = (if c = 10 \<and> d = 10 then [] # split_pars t else push c (split_pars (d # t)))"

fun join_pars :: "utext list \<Rightarrow> utext" where
  "join_pars [] = []"
| "join_pars [p] = p"
| "join_pars (p # q # ps) = p @ [10, 10] @ join_pars (q # ps)"

text \<open>\<open>re.split\<close> at white space that follows the end of a sentence; the flag says whether the last character was one.\<close>

function split_sents :: "bool \<Rightarrow> utext \<Rightarrow> utext list" where
  "split_sents e [] = [[]]"
| "split_sents e (c # t) =
    (if e \<and> is_space c then [] # split_sents False (dropWhile is_space t) else push c (split_sents (ends_sentence c) t))"
  by pat_completeness auto
termination
  by (relation "measure (\<lambda>(e, t). length t)") (auto simp: less_Suc_eq_le length_dropWhile_le)

fun take_sents :: "nat \<Rightarrow> utext list \<Rightarrow> utext list \<times> nat \<Rightarrow> utext list \<times> nat" where
  "take_sents max_bytes [] r = r"
| "take_sents max_bytes (s # ss) (parts, current) =
    (let space = (if ss = [] then 0 else 1)
     in if current + (bytes s + space) \<le> max_bytes then take_sents max_bytes ss (parts @ [s], current + (bytes s + space))
        else (parts, current))"

fun take_pars :: "nat \<Rightarrow> bool \<Rightarrow> utext list \<Rightarrow> utext list \<times> nat \<Rightarrow> utext list \<times> nat" where
  "take_pars max_bytes first [] r = r"
| "take_pars max_bytes first (p # ps) (parts, current) =
    (let separator = (if first then 0 else 2)
     in if current + (bytes p + separator) > max_bytes then take_sents max_bytes (split_sents False p) (parts, current)
        else take_pars max_bytes False ps (parts @ [p], current + (bytes p + separator)))"

text \<open>The last resort: the bytes are cut, and what is left of a character is ignored.\<close>

fun cut_bytes :: "nat \<Rightarrow> utext \<Rightarrow> utext" where
  "cut_bytes n [] = []"
| "cut_bytes n (c # t) = (if utf8_len c \<le> n then c # cut_bytes (n - utf8_len c) t else [])"

text \<open>\<open>rsplit(' ', 1)[0]\<close> of a text with a space.\<close>

definition before_last_space :: "utext \<Rightarrow> utext" where
  "before_last_space t = rev (tl (dropWhile (\<lambda>c. c \<noteq> 32) (rev t)))"

lemma before_last_space_prefix: "strict_prefix (before_last_space t) t \<or> t = []"
proof (cases "dropWhile (\<lambda>c. c \<noteq> 32) (rev t)")
  case Nil
  then show ?thesis unfolding before_last_space_def by (cases t) (simp_all only: list.sel rev.simps, simp_all)
next
  case (Cons c u)
  let ?P = "\<lambda>c. c \<noteq> (32::nat)"
  have "rev t = takeWhile ?P (rev t) @ c # u" using Cons takeWhile_dropWhile_id [of ?P "rev t"] by simp
  then have "t = rev u @ c # rev (takeWhile ?P (rev t))"
    by (metis append_assoc append_Cons append_Nil rev.simps(2) rev_append rev_rev_ident)
  then show ?thesis
    using Cons unfolding before_last_space_def by (metis list.sel(3) strict_prefixI')
qed

lemma before_last_space_length: "t \<noteq> [] \<Longrightarrow> length (before_last_space t) < length t"
  using before_last_space_prefix [of t] by (blast intro: prefix_length_less)

function trim :: "nat \<Rightarrow> utext \<Rightarrow> utext" where
  "trim n t = (if bytes t > n \<and> t \<noteq> [] then trim n (if 32 \<in> set t then before_last_space t else butlast t) else t)"
  by pat_completeness auto
termination
  by (relation "measure (\<lambda>(n, t). length t)") (auto intro: before_last_space_length)

declare trim.simps [simp del]

text \<open>What is returned: a text, or a text with its size.\<close>

datatype sliced = Whole utext | Cut utext nat

definition slice_markdown :: "nat \<Rightarrow> utext \<Rightarrow> sliced" where
  "slice_markdown max_bytes markdown =
    (if bytes markdown \<le> max_bytes then Whole markdown
     else let (parts, current) = take_pars max_bytes True (split_pars markdown) ([], 0)
       in if parts = [] then Whole (cut_bytes max_bytes markdown)
          else Cut (trim max_bytes (join_pars parts)) current)"

section \<open>What is left of a document\<close>

lemma split_pars_Nil: "split_pars t \<noteq> []"
  by (cases t rule: split_pars.cases) (auto elim: push.elims)

lemma join_push: "ps \<noteq> [] \<Longrightarrow> join_pars (push c ps) = c # join_pars ps"
  by (cases ps rule: join_pars.cases) simp_all

lemma join_split: "join_pars (split_pars t) = t"
proof (induction t rule: split_pars.induct)
  case (3 c d t)
  have "join_pars ([] # split_pars t) = [10, 10] @ join_pars (split_pars t)"
    using split_pars_Nil [of t] by (cases "split_pars t") simp_all
  then show ?case using 3 by (auto simp: join_push split_pars_Nil simp del: push.simps)
qed simp_all

lemma bytes_join_snoc: "bytes (join_pars (ps @ [p])) = bytes (join_pars ps) + (bytes p + (if ps = [] then 0 else 2))"
  by (induction ps rule: join_pars.induct) simp_all

lemma join_take_prefix: "prefix (join_pars (take k ps)) (join_pars ps)"
proof (induction ps arbitrary: k rule: join_pars.induct)
  case (3 p q ps)
  show ?case
  proof (cases k)
    case (Suc m)
    then show ?thesis using 3 [of m] by (cases m) (auto simp: take_Suc_Cons)
  qed simp
qed (auto simp: take_Cons')

lemma trim_prefix: "prefix (trim n t) t"
proof (induction n t rule: trim.induct)
  case (1 n t)
  have "prefix (if 32 \<in> set t then before_last_space t else butlast t) t"
    using before_last_space_prefix [of t] by (auto simp: prefixeq_butlast strict_prefix_def before_last_space_def)
  then show ?case
    using 1 by (subst trim.simps) (auto intro: prefix_order.trans)
qed

lemma trim_bytes: "bytes (trim n t) \<le> n"
proof (induction n t rule: trim.induct)
  case (1 n t)
  then show ?case by (subst trim.simps) (auto simp: not_less)
qed

lemma trim_same: "bytes t \<le> n \<Longrightarrow> trim n t = t"
  by (subst trim.simps) simp

lemma cut_bytes_longest:
  "bytes (cut_bytes n t) \<le> n \<and> (cut_bytes n t = t \<and> bytes t \<le> n
    \<or> (\<exists>c u. t = cut_bytes n t @ c # u \<and> n < bytes (cut_bytes n t) + utf8_len c))"
proof (induction n t rule: cut_bytes.induct)
  case (2 n c t)
  show ?case
  proof (cases "utf8_len c \<le> n")
    case True
    note IH = 2 [OF True]
    show ?thesis
    proof (cases "cut_bytes (n - utf8_len c) t = t \<and> bytes t \<le> n - utf8_len c")
      case False
      then obtain d u where "t = cut_bytes (n - utf8_len c) t @ d # u" "n - utf8_len c < bytes (cut_bytes (n - utf8_len c) t) + utf8_len d"
        using IH by blast
      then have "c # t = cut_bytes n (c # t) @ d # u" "n < bytes (cut_bytes n (c # t)) + utf8_len d"
        using True by simp_all
      moreover have "bytes (cut_bytes n (c # t)) \<le> n" using conjunct1 [OF IH] True by simp
      ultimately show ?thesis by blast
    qed (use True in auto)
  qed simp
qed simp

text \<open>The size of the first sentences of a paragraph, each but its last one with the space after it.\<close>

definition sents_size :: "utext list \<Rightarrow> nat \<Rightarrow> nat" where
  "sents_size ss j = sum_list (map bytes (take j ss)) + min j (length ss - 1)"

lemma sents_size_0 [simp]: "sents_size ss 0 = 0"
  by (simp add: sents_size_def)

lemma sents_size_Suc: "sents_size (s # ss) (Suc j) = bytes s + (if ss = [] then 0 else 1) + sents_size ss j"
  by (cases ss) (simp_all add: sents_size_def)

text \<open>What was taken: the paragraphs that fit, and then the sentences of the next one that fit.\<close>

lemma take_sents_takes:
  "current \<le> n \<Longrightarrow> \<exists>j \<le> length ss. take_sents n ss (parts, current) = (parts @ take j ss, current + sents_size ss j)
    \<and> current + sents_size ss j \<le> n \<and> (j < length ss \<longrightarrow> n < current + sents_size ss (Suc j))"
proof (induction ss arbitrary: parts current)
  case (Cons s ss)
  let ?c = "current + (bytes s + (if ss = [] then 0 else 1))"
  show ?case
  proof (cases "?c \<le> n")
    case True
    obtain j where "j \<le> length ss" "take_sents n ss (parts @ [s], ?c) = ((parts @ [s]) @ take j ss, ?c + sents_size ss j)"
      "?c + sents_size ss j \<le> n" "j < length ss \<longrightarrow> n < ?c + sents_size ss (Suc j)"
      using Cons.IH [OF True] by blast
    then show ?thesis using True by (intro exI [of _ "Suc j"]) (auto simp: Let_def sents_size_Suc)
  next
    case False
    then have "take_sents n (s # ss) (parts, current) = (parts, current)" "n < current + sents_size (s # ss) (Suc 0)"
      by (auto simp: Let_def sents_size_Suc)
    then show ?thesis using Cons.prems by (intro exI [of _ 0]) simp
  qed
qed simp

lemma take_pars_takes:
  "pars = before @ rest \<Longrightarrow> first = (before = []) \<Longrightarrow> bytes (join_pars before) \<le> n \<Longrightarrow> n < bytes (join_pars pars) \<Longrightarrow>
    \<exists>k j. k < length pars \<and> bytes (join_pars (take k pars)) \<le> n \<and> n < bytes (join_pars (take (Suc k) pars))
      \<and> j \<le> length (split_sents False (pars ! k))
      \<and> take_pars n first rest (before, bytes (join_pars before))
          = (take k pars @ take j (split_sents False (pars ! k)), bytes (join_pars (take k pars)) + sents_size (split_sents False (pars ! k)) j)
      \<and> bytes (join_pars (take k pars)) + sents_size (split_sents False (pars ! k)) j \<le> n
      \<and> (j < length (split_sents False (pars ! k)) \<longrightarrow>
           n < bytes (join_pars (take k pars)) + sents_size (split_sents False (pars ! k)) (Suc j))"
proof (induction rest arbitrary: before first)
  case (Cons p ps)
  let ?total = "bytes p + (if first then 0 else 2)"
  have joined: "bytes (join_pars before) + ?total = bytes (join_pars (before @ [p]))"
    using Cons.prems(2) by (simp add: bytes_join_snoc)
  show ?case
  proof (cases "bytes (join_pars before) + ?total > n")
    case True
    have k: "take (length before) pars = before" "take (Suc (length before)) pars = before @ [p]" "pars ! length before = p"
      using Cons.prems(1) by (simp_all add: take_Suc_conv_app_nth)
    have "take_pars n first (p # ps) (before, bytes (join_pars before))
        = take_sents n (split_sents False p) (before, bytes (join_pars before))"
      using True by (simp add: Let_def)
    moreover obtain j where "j \<le> length (split_sents False p)" "take_sents n (split_sents False p) (before, bytes (join_pars before))
        = (before @ take j (split_sents False p), bytes (join_pars before) + sents_size (split_sents False p) j)"
      "bytes (join_pars before) + sents_size (split_sents False p) j \<le> n"
      "j < length (split_sents False p) \<longrightarrow> n < bytes (join_pars before) + sents_size (split_sents False p) (Suc j)"
      using take_sents_takes [OF Cons.prems(3)] by blast
    moreover have "length before < length pars" using Cons.prems(1) by simp
    ultimately show ?thesis
      using True Cons.prems(3) unfolding joined by (intro exI [of _ "length before"] exI [of _ j], unfold k) simp
  next
    case False
    then have "bytes (join_pars (before @ [p])) \<le> n" using joined by simp
    then show ?thesis
      using Cons.IH [of "before @ [p]" False] Cons.prems(1,4) False joined by (simp add: Let_def)
  qed
qed simp

text \<open>C28: Slicing keeps a document within the limit.  What is returned alone is the longest prefix of the document that
  fits, all of it exactly when it fits.  What is returned with a size, for a document that does not fit, is made from as
  many paragraphs as fit, with the two bytes between them, and as many sentences of the next one as fit after them, with
  one byte for the white space after each but its last: that sum is the size; the text, in which two line feeds stand
  before every part, is all of these parts where they fit so, and a prefix of them that fits where not.  When only whole
  paragraphs were taken it is a prefix of the document and the size is its size.\<close>

theorem slice_within_limit:
  "case slice_markdown n t of
     Whole r \<Rightarrow> bytes r \<le> n \<and> (r = t \<longleftrightarrow> bytes t \<le> n)
       \<and> (r \<noteq> t \<longrightarrow> (\<exists>c u. t = r @ c # u \<and> n < bytes r + utf8_len c))
   | Cut r m \<Rightarrow> n < bytes t \<and> bytes r \<le> n \<and> m \<le> n
       \<and> (\<exists>k j. let pars = split_pars t; sents = split_sents False (pars ! k); size = bytes (join_pars (take k pars));
                  parts = take k pars @ take j sents
            in parts \<noteq> [] \<and> k < length pars \<and> size \<le> n \<and> n < bytes (join_pars (take (Suc k) pars))
              \<and> m = size + sents_size sents j \<and> (j < length sents \<longrightarrow> n < size + sents_size sents (Suc j))
              \<and> prefix r (join_pars parts) \<and> (bytes (join_pars parts) \<le> n \<longrightarrow> r = join_pars parts)
              \<and> (j = 0 \<longrightarrow> prefix r t \<and> m = bytes r))"
proof (cases "bytes t \<le> n")
  case True
  then show ?thesis by (simp add: slice_markdown_def)
next
  case False
  obtain parts current where took: "take_pars n True (split_pars t) ([], 0) = (parts, current)" by fastforce
  obtain k j where kj: "k < length (split_pars t)" "bytes (join_pars (take k (split_pars t))) \<le> n"
    "n < bytes (join_pars (take (Suc k) (split_pars t)))"
    "parts = take k (split_pars t) @ take j (split_sents False (split_pars t ! k))"
    "current = bytes (join_pars (take k (split_pars t))) + sents_size (split_sents False (split_pars t ! k)) j" "current \<le> n"
    "j < length (split_sents False (split_pars t ! k)) \<longrightarrow>
      n < bytes (join_pars (take k (split_pars t))) + sents_size (split_sents False (split_pars t ! k)) (Suc j)"
    using take_pars_takes [of "split_pars t" "[]" "split_pars t" True n] took False by (auto simp: join_split)
  have whole: "j = 0 \<longrightarrow> prefix (trim n (join_pars parts)) t \<and> current = bytes (trim n (join_pars parts))"
    using kj join_take_prefix [of k "split_pars t"] by (auto simp: trim_same join_split)
  show ?thesis
  proof (cases "parts = []")
    case True
    have "cut_bytes n t \<noteq> t" using cut_bytes_longest [of n t] False by auto
    then show ?thesis using cut_bytes_longest [of n t] False True by (auto simp: slice_markdown_def took)
  next
    case parts: False
    have slice: "slice_markdown n t = Cut (trim n (join_pars parts)) current"
      using False parts by (simp add: slice_markdown_def took)
    have trimmed: "prefix (trim n (join_pars parts)) (join_pars parts)"
      "bytes (join_pars parts) \<le> n \<longrightarrow> trim n (join_pars parts) = join_pars parts"
      by (simp_all add: trim_prefix trim_same)
    show ?thesis unfolding slice sliced.case Let_def
      using False trim_bytes [of n "join_pars parts"] kj(6) parts kj(1-3,5,7) trimmed whole unfolding kj(4)
      by (intro conjI exI [of _ k] exI [of _ j]) (assumption | simp)+
  qed
qed

text \<open>A document of two paragraphs, ``a. b'' and ``cd'', in five bytes, and in seven, where the separator that was
  not counted costs a sentence that was.\<close>

theorem slice_within_limit_witness:
  "slice_markdown 5 [97, 46, 32, 98, 10, 10, 99, 100] = Cut [97, 46, 32, 98] 4
    \<and> slice_markdown 7 [97, 46, 32, 98, 10, 10, 99, 100] = Cut [97, 46] 6
    \<and> bytes [97, 46, 32, 98] \<le> 5 \<and> 5 < bytes [97, 46, 32, 98, 10, 10, 99, 100]"
proof -
  have "slice_markdown 5 [97, 46, 32, 98, 10, 10, 99, 100] = Cut [97, 46, 32, 98] 4"
    "slice_markdown 7 [97, 46, 32, 98, 10, 10, 99, 100] = Cut [97, 46] 6"
    by (simp_all add: slice_markdown_def utf8_len_def is_space_def ends_sentence_def trim.simps before_last_space_def Let_def)
  moreover have "bytes [97, 46, 32, 98] \<le> 5 \<and> 5 < bytes [97, 46, 32, 98, 10, 10, 99, 100]"
    using slice_within_limit [where n = 5 and t = "[97, 46, 32, 98, 10, 10, 99, 100]"] calculation(1) by (simp del: list.map sum_list.Cons)
  ultimately show ?thesis by blast
qed

end
