(* ===== verification/Crawl_Ingestion.thy ===== *)
theory Crawl_Ingestion
  imports Crawl_Model Markdown_Slice File_Utils
begin

text \<open>
  ingestion/crawl_ingestion.py: the crawl of a web site.  The crawler, the seeder, the HTTP client and the language
  models of crawl4ai are parameters: what they return is the argument of the code that reads it.
\<close>

section \<open>The URLs\<close>

record seeded =
  se_url :: string
  se_status :: "string option"
  se_json_ld :: "json list"
  se_score :: rat

text \<open>\<open>fetch\<close> is what the seeder finds for a query, by domain; of equal scores the earlier one comes first.\<close>

definition add_seeded :: "seeded \<Rightarrow> seeded list \<Rightarrow> seeded list" where
  "add_seeded u all_urls =
    (if (case se_status u of Some s \<Rightarrow> s | None \<Rightarrow> ''unknown'') \<noteq> ''valid'' then all_urls
     else if se_url u \<in> set (map se_url all_urls) then all_urls else all_urls @ [u])"

definition py_take :: "int \<Rightarrow> 'a list \<Rightarrow> 'a list" where
  "py_take k xs = take (nat (if k < 0 then int (length xs) + k else k)) xs"

definition generate_from_seeding ::
  "(string option \<Rightarrow> (string, seeded list) dict result) \<Rightarrow> seeding_url \<Rightarrow> seeded list result" where
  "generate_from_seeding fetch m =
    rbind (rfold (\<lambda>q all_urls. rbind (fetch (if q = [] then None else Some q)) (\<lambda>found.
        Inr (fold add_seeded (concat (map snd found)) all_urls))) (sd_queries m) [])
      (\<lambda>all_urls. let sorted_urls = sort_key (\<lambda>u. - se_score u) all_urls
         in Inr (case sd_top m of None \<Rightarrow> sorted_urls | Some k \<Rightarrow> py_take k sorted_urls))"

datatype urls_arg =
    Static "string list"
  | Seeding seeding_url
  | Generator url_config "(logic \<times> filter_node list) option"

definition no_url :: exn where "no_url = OtherException ''NoURLToCrawlError''"

text \<open>The session of a generator is opened with \<open>url\<close>, which the loop assigns only later.\<close>

definition crawl_urls ::
  "py_lib \<Rightarrow> (string option \<Rightarrow> (string, seeded list) dict result) \<Rightarrow> urls_arg \<Rightarrow> string list result" where
  "crawl_urls L fetch urls =
    rbind (case urls of
        Static us \<Rightarrow> Inr (dedupe id us [])
      | Seeding m \<Rightarrow>
          rbind (generate_from_seeding fetch m) (\<lambda>all_urls.
            Inr (case sd_jsonld m of None \<Rightarrow> []
              | Some (op, rules) \<Rightarrow> map se_url (filter (\<lambda>u. se_json_ld u \<noteq> [] \<and> match_group L op rules (se_json_ld u)) all_urls)))
      | Generator cfg jsonld \<Rightarrow> Inl (UnboundLocalError ''url''))
      (\<lambda>found. if found = [] then Inl no_url else Inr found)"

section \<open>The strategy of the extraction\<close>

record schema_config =
  sx_strategy :: string
  sx_name :: string
  sx_url :: string

datatype extraction = Texts | Schema schema_config | Knowledge

datatype extraction_strategy =
    JsonCssExtractionStrategy json
  | RegexExtractionStrategy json
  | LLMExtractionStrategy string bool

definition ingest_error :: "string \<Rightarrow> exn" where "ingest_error s = OtherException s"

text \<open>
  \<open>fetch_schema\<close>: \<open>cached\<close> is what the file of the schema holds, if there is one; \<open>page\<close> the status and the text of
  the example; \<open>body\<close> the text of its body, when it has one; \<open>css\<close> and \<open>regex\<close> generate a schema from it.
  An error class that is called with an argument too many raises TypeError.
\<close>

definition fetch_schema ::
  "json result option \<Rightarrow> (nat \<times> string) result \<Rightarrow> (string \<Rightarrow> string option) \<Rightarrow> (string \<Rightarrow> json result) \<Rightarrow> (string \<Rightarrow> json result)
    \<Rightarrow> schema_config \<Rightarrow> (extraction_strategy \<times> json) result" where
  "fetch_schema cached page body css regex c =
    (if sx_name c = [] \<or> sx_url c = [] then Inl (ingest_error ''Crawl4AIModeConfigMissingError'')
     else rbind (case cached of None \<Rightarrow> Inr JNull | Some r \<Rightarrow> r) (\<lambda>known.
       rbind (if truthy known then Inr known
          else rbind page (\<lambda>(status, html).
            if status = 404 then Inl (ingest_error ''SchemaHTMLExampleNotFoundError'')
            else if status = 204 then Inl (ingest_error ''SchemaHasNoContentError'')
            else if status \<noteq> 200 then Inl TypeError
            else case body html of
                None \<Rightarrow> Inl (ingest_error ''SchemaHTMLFormatError'')
              | Some schema_html \<Rightarrow>
                  if schema_html = [] then Inl (ingest_error ''NoInputHtmlSchemaError'')
                  else if sx_strategy c = ''json'' then css schema_html
                  else if sx_strategy c = ''regex'' then regex schema_html
                  else Inl (ingest_error ''BadSchemaGenerationStrategyError'')))
         (\<lambda>raw. if \<not> truthy raw then Inl (ingest_error ''SchemaCouldNotBeGeneratedError'')
            else Inr (if sx_strategy c = ''regex'' then RegexExtractionStrategy raw else JsonCssExtractionStrategy raw, raw))))"

definition build_strategy ::
  "bool \<Rightarrow> (schema_config \<Rightarrow> (extraction_strategy \<times> json) result) \<Rightarrow> extraction \<Rightarrow> extraction_strategy option result" where
  "build_strategy has_schema fetch config =
    (case config of
       Texts \<Rightarrow> Inr (Some (LLMExtractionStrategy ''block'' True))
     | Schema c \<Rightarrow>
         if sx_strategy c = ''json'' then rbind (fetch c) (\<lambda>(st, raw). Inr (Some st))
         else if has_schema then Inr (Some (LLMExtractionStrategy ''schema'' False)) else Inl (UnboundLocalError ''schema'')
     | Knowledge \<Rightarrow> Inr None)"

text \<open>The scorers and filters of a deep crawl, which are functions of the module with a parameter \<open>self\<close>.\<close>

datatype scorer =
    KeywordRelevanceScorer "string list option" rat
  | DomainAuthorityScorer "(string, rat) dict option" rat rat
  | PathDepthScorer rat
  | ContentTypeScorer "(string, rat) dict option" rat
  | FreshnessScorer "int option" rat

definition or_else :: "'a::zero option \<Rightarrow> 'a \<Rightarrow> 'a" where
  "or_else x d = (case x of Some v \<Rightarrow> if v = 0 then d else v | None \<Rightarrow> d)"

definition build_scorers :: "'self \<Rightarrow> deep_crawl_model \<Rightarrow> scorer list" where
  "build_scorers self m =
    (case dm_url_scorers m of None \<Rightarrow> []
     | Some ss \<Rightarrow> map (\<lambda>s. case sc_mode s of
           Keyword \<Rightarrow> KeywordRelevanceScorer (sc_keyword s) (sc_weight s)
         | Domain_authority \<Rightarrow> DomainAuthorityScorer (sc_domain_weights s) (or_else (sc_default_weight s) (1/2)) (sc_weight s)
         | Path_depth \<Rightarrow> PathDepthScorer (sc_weight s)
         | Content_type \<Rightarrow> ContentTypeScorer (sc_type_weights s) (sc_weight s)
         | Freshness \<Rightarrow> FreshnessScorer (sc_current_year s) (sc_weight s)) ss)"

datatype url_filter =
    URLPatternFilter "string list option" rat
  | DomainFilter "string list option" "string list option"
  | ContentTypeFilter "string list option"
  | ContentRelevanceFilter "string option" rat rat
  | SEOFilter rat "string list option"

definition build_filters :: "'self \<Rightarrow> deep_crawl_model \<Rightarrow> url_filter list option" where
  "build_filters self m =
    (case dm_url_filters m of None \<Rightarrow> None | Some [] \<Rightarrow> None
     | Some fs \<Rightarrow> Some (map (\<lambda>f. case fm_mode f of
           Url_pattern \<Rightarrow> URLPatternFilter (fm_patterns f) (fm_threshold f)
         | Domain \<Rightarrow> DomainFilter (fm_include_domains f) (fm_blocked_domains f)
         | Content_type_filter \<Rightarrow> ContentTypeFilter (fm_allowed_types f)
         | Content_relevance \<Rightarrow> ContentRelevanceFilter (fm_query f) (or_else (fm_similarity_threshold f) (1/2)) (fm_threshold f)
         | Seo \<Rightarrow> SEOFilter (fm_threshold f) (fm_keywords f)) fs))"

text \<open>A function of two parameters that is called with one.\<close>

definition called_with_one :: "('a \<Rightarrow> 'b \<Rightarrow> 'c) \<Rightarrow> 'd \<Rightarrow> 'c result" where
  "called_with_one f x = Inl TypeError"

record deep_crawl =
  dc_algorithm :: algorithm
  dc_max_depth :: rat
  dc_max_pages :: rat
  dc_scorers :: "scorer list"
  dc_filters :: "url_filter list option"
  dc_include_external :: bool
  dc_score_threshold :: "score option option"

definition build_deep_crawl :: "deep_crawl_model \<Rightarrow> deep_crawl result" where
  "build_deep_crawl m =
    (let extra_args = (if dm_algorithm m \<in> {Bfs, Dfs} then Some (dm_score_threshold m) else None)
     in rbind (called_with_one (build_scorers :: unit \<Rightarrow> _) m) (\<lambda>ss. rbind (called_with_one (build_filters :: unit \<Rightarrow> _) m) (\<lambda>fs.
          Inr \<lparr>dc_algorithm = dm_algorithm m, dc_max_depth = dm_max_depth m, dc_max_pages = dm_max_pages m, dc_scorers = ss,
            dc_filters = fs, dc_include_external = dm_include_external m, dc_score_threshold = extra_args\<rparr>)))"

text \<open>\<open>initialize_config\<close>, whose run configuration has its generator and its strategy exchanged.\<close>

datatype run_part = Markdown_generator | Strategy "extraction_strategy option"

record run_config =
  rc_urls :: "string list"
  rc_deep_crawl :: "deep_crawl option"
  rc_markdown_generator :: run_part
  rc_extraction_strategy :: run_part

definition initialize_config ::
  "string list result \<Rightarrow> deep_crawl_model option \<Rightarrow> extraction_strategy option result \<Rightarrow> run_config result" where
  "initialize_config urls deep st =
    rbind urls (\<lambda>us. rbind (case deep of None \<Rightarrow> Inr None | Some m \<Rightarrow> rbind (build_deep_crawl m) (\<lambda>d. Inr (Some d))) (\<lambda>d.
      rbind st (\<lambda>s. Inr \<lparr>rc_urls = us, rc_deep_crawl = d, rc_markdown_generator = Strategy s,
        rc_extraction_strategy = Markdown_generator\<rparr>)))"

section \<open>Reports\<close>

record token_use =
  tk_step :: string
  tk_input :: nat
  tk_output :: nat

text \<open>\<open>token_usage\<close>: the usage of the schema, and of the strategy when it is one of a language model.\<close>

definition token_usage :: "nat \<times> nat \<Rightarrow> extraction_strategy option \<Rightarrow> (nat \<times> nat) list \<Rightarrow> token_use list" where
  "token_usage schema st usages =
    \<lparr>tk_step = ''schema_generation'', tk_input = fst schema, tk_output = snd schema\<rparr>
    # (case st of
         Some (LLMExtractionStrategy ty chunking) \<Rightarrow>
           map (\<lambda>(i, u). \<lparr>tk_step = ''extraction_'' @ nat_str i, tk_input = fst u, tk_output = snd u\<rparr>) (enumerate 0 usages)
       | _ \<Rightarrow> [])"

datatype doc_type = Html | Pdf

text \<open>An error is a text, or what \<open>str\<close> makes of an exception.\<close>

record 'c crawl_meta =
  me_url :: string
  me_title :: "string option"
  me_source :: "string option"
  me_description :: "string option"
  me_success :: bool
  me_error :: "(string + exn) option"
  me_extracted :: "json list option"
  me_markdown :: "utext option"
  me_chunks :: "'c list"
  me_doc_type :: doc_type

record page =
  pg_url :: string
  pg_success :: bool
  pg_error :: "string option"
  pg_metadata :: "(string, string) dict option"
  pg_markdown :: "utext option"
  pg_extracted :: "string option"
  pg_links :: "(string option list \<times> string option list) option"

text \<open>The size of a document as it is recorded: a number, or a character when a text was unpacked.\<close>

record doc_size =
  dz_size :: "nat + utext"
  dz_url :: string
  dz_doc_type :: doc_type

record ingestion =
  in_documents :: "doc_size list"
  in_instruction :: string

text \<open>
  What the code calls: JSON (\<open>loads\<close> of nothing raises), the models of extracted texts (called with keyword
  arguments) and items, the making of a chunk, the source of a URL, the prompt of a knowledge graph around an
  instruction, and the limits.
\<close>

record 'c crawl_lib =
  cb_loads :: "string option \<Rightarrow> json result"
  cb_texts :: "json \<Rightarrow> json list result"
  cb_chunk :: "nat \<Rightarrow> json \<Rightarrow> 'c result"
  cb_item :: "json \<Rightarrow> bool"
  cb_source :: "string \<Rightarrow> string result"
  cb_prompt :: "string \<Rightarrow> string"
  cb_max :: "doc_type \<Rightarrow> nat"

text \<open>The two names a sliced document is unpacked into.\<close>

definition unpack :: "sliced \<Rightarrow> (utext \<times> (nat + utext)) result" where
  "unpack s =
    (case s of
       Cut r n \<Rightarrow> Inr (r, Inl n)
     | Whole t \<Rightarrow> (case t of [a, b] \<Rightarrow> Inr ([a], Inr [b]) | _ \<Rightarrow> Inl ValueError))"

fun json_items :: "json \<Rightarrow> json list result" where
  "json_items (JList xs) = Inr xs"
| "json_items (JDict d) = Inr (map (\<lambda>(k, v). JStr k) d)"
| "json_items (JStr s) = Inr (map (\<lambda>c. JStr [c]) s)"
| "json_items _ = Inl TypeError"

definition or_text :: "string option \<Rightarrow> string \<Rightarrow> string" where
  "or_text x d = (case x of None \<Rightarrow> d | Some s \<Rightarrow> if s = [] then d else s)"

type_synonym 'c work = "'c crawl_meta \<times> ingestion"

definition record_document :: "doc_type \<Rightarrow> nat + utext \<Rightarrow> 'c work \<Rightarrow> 'c work" where
  "record_document doc n w =
    (let (me, st) = w in (me, st\<lparr>in_documents := in_documents st @ [\<lparr>dz_size = n, dz_url = me_url me, dz_doc_type = doc\<rparr>]\<rparr>))"

text \<open>The chunks of the extracted texts; those made before an error are kept.\<close>

fun add_chunks :: "(nat \<Rightarrow> json \<Rightarrow> 'c result) \<Rightarrow> (nat \<times> json) list \<Rightarrow> 'c list \<Rightarrow> exn option \<times> 'c list" where
  "add_chunks chunk [] cs = (None, cs)"
| "add_chunks chunk ((i, x) # xs) cs = (case chunk i x of Inl e \<Rightarrow> (Some e, cs) | Inr c \<Rightarrow> add_chunks chunk xs (cs @ [c]))"

definition process_texts :: "'c crawl_lib \<Rightarrow> page \<Rightarrow> doc_type \<Rightarrow> nat + utext \<Rightarrow> 'c work \<Rightarrow> exn option \<times> 'c work" where
  "process_texts L p doc n w =
    (case cb_loads L (pg_extracted p) of
       Inl e \<Rightarrow> (Some e, w)
     | Inr j \<Rightarrow>
         if \<not> truthy j then (None, w)
         else (case cb_texts L j of
             Inl e \<Rightarrow> (Some e, w)
           | Inr xs \<Rightarrow>
               (let (me, st) = w; (e, cs) = add_chunks (cb_chunk L) (enumerate 0 xs) (me_chunks me); w' = (me\<lparr>me_chunks := cs\<rparr>, st)
                in case e of Some e \<Rightarrow> (Some e, w') | None \<Rightarrow> (None, record_document doc n w'))))"

definition process_schema :: "'c crawl_lib \<Rightarrow> page \<Rightarrow> doc_type \<Rightarrow> nat + utext \<Rightarrow> 'c work \<Rightarrow> exn option \<times> 'c work" where
  "process_schema L p doc n w =
    (case pg_extracted p of
       None \<Rightarrow> (None, w)
     | Some text0 \<Rightarrow>
         if text0 = [] then (None, w)
         else let (me, st) = w in
           (case cb_loads L (Some text0) of
              Inl e \<Rightarrow> (None, (me\<lparr>me_extracted := Some [], me_success := False, me_error := Some (Inl ''Could not process extract the schema'')\<rparr>, st))
            | Inr j \<Rightarrow>
                (case json_items j of
                   Inl e \<Rightarrow> (Some e, (me\<lparr>me_extracted := Some []\<rparr>, st))
                 | Inr xs \<Rightarrow> (None, record_document doc n (me\<lparr>me_extracted := Some (filter (cb_item L) xs)\<rparr>, st)))))"

definition process_content :: "'c crawl_lib \<Rightarrow> extraction \<Rightarrow> page \<Rightarrow> doc_type \<Rightarrow> 'c work \<Rightarrow> exn option \<times> 'c work" where
  "process_content L config p doc w =
    (case pg_markdown p of
       None \<Rightarrow> (let (me, st) = w in (None, (me\<lparr>me_success := False, me_error := Some (Inl (or_text (pg_error p) ''No markdown content extracted''))\<rparr>, st)))
     | Some markdown \<Rightarrow>
         (case unpack (slice_markdown (cb_max L doc) markdown) of
            Inl e \<Rightarrow> (Some e, w)
          | Inr (content, n) \<Rightarrow>
              (case config of
                 Texts \<Rightarrow> process_texts L p doc n w
               | Schema c \<Rightarrow> process_schema L p doc n w
               | Knowledge \<Rightarrow>
                   (let (me, st) = w
                    in (None, record_document doc n (me\<lparr>me_markdown := Some content\<rparr>, st\<lparr>in_instruction := cb_prompt L (in_instruction st)\<rparr>))))))"

text \<open>
  The loop over the links of a page: \<open>link\<close> is the address already, and asking it for its address raises
  before anything is appended.
\<close>

definition wanted_link :: "doc_type \<Rightarrow> string \<Rightarrow> bool" where
  "wanted_link doc href \<longleftrightarrow> doc = Pdf \<and> href \<noteq> [] \<and> ends_with href ''.pdf'' \<or> doc = Html \<and> href \<noteq> [] \<and> \<not> ends_with href ''.pdf''"

fun follow_links :: "doc_type \<Rightarrow> string option list \<Rightarrow> string list \<Rightarrow> exn option \<times> string list" where
  "follow_links doc [] pdf_links = (None, pdf_links)"
| "follow_links doc (None # ls) pdf_links = follow_links doc ls pdf_links"
| "follow_links doc (Some href # ls) pdf_links =
    (if wanted_link doc href then (Some TypeError, pdf_links) else follow_links doc ls pdf_links)"

definition fail_page :: "exn \<Rightarrow> 'c crawl_meta \<Rightarrow> 'c crawl_meta" where
  "fail_page e me = me\<lparr>me_error := Some (Inr e), me_success := False\<rparr>"

definition new_meta :: "page \<Rightarrow> doc_type \<Rightarrow> 'c crawl_meta" where
  "new_meta p doc = \<lparr>me_url = pg_url p, me_title = None, me_source = None, me_description = None, me_success = pg_success p,
     me_error = None, me_extracted = None, me_markdown = None, me_chunks = [], me_doc_type = doc\<rparr>"

text \<open>The title, the description and the source; what was set before an error stays.\<close>

definition describe :: "'c crawl_lib \<Rightarrow> page \<Rightarrow> 'c crawl_meta \<Rightarrow> exn option \<times> 'c crawl_meta" where
  "describe L p me =
    (case pg_metadata p of
       None \<Rightarrow> (Some (AttributeError ''get''), me)
     | Some d \<Rightarrow>
         (let me = me\<lparr>me_title := Some (case map_of d ''title'' of None \<Rightarrow> pg_url p | Some t \<Rightarrow> t),
            me_description := Some (case map_of d ''description'' of None \<Rightarrow> [] | Some t \<Rightarrow> t)\<rparr>
          in case cb_source L (pg_url p) of Inl e \<Rightarrow> (Some e, me) | Inr s \<Rightarrow> (None, me\<lparr>me_source := Some s\<rparr>)))"

definition process_page ::
  "'c crawl_lib \<Rightarrow> bool \<Rightarrow> extraction \<Rightarrow> string list option \<Rightarrow> page \<Rightarrow> doc_type \<Rightarrow> ingestion
    \<Rightarrow> 'c crawl_meta \<times> string list option \<times> ingestion" where
  "process_page L pdf config pdf_links p doc st =
    (if \<not> pg_success p then ((new_meta p doc)\<lparr>me_error := Some (Inl (or_text (pg_error p) ''Unknown error''))\<rparr>, pdf_links, st)
     else case describe L p (new_meta p doc) of
         (Some e, me) \<Rightarrow> (fail_page e me, pdf_links, st)
       | (None, me) \<Rightarrow>
           (case process_content L config p doc (me, st) of
              (Some e, (me, st)) \<Rightarrow> (fail_page e me, pdf_links, st)
            | (None, (me, st)) \<Rightarrow>
                (case (pdf, pdf_links, pg_links p) of
                   (True, Some found, Some (inner, outer)) \<Rightarrow>
                     (case follow_links doc (inner @ outer) found of
                        (Some e, found) \<Rightarrow> (fail_page e me, Some found, st)
                      | (None, found) \<Rightarrow> (me, Some found, st))
                 | _ \<Rightarrow> (me, pdf_links, st))))"

fun process_all ::
  "'c crawl_lib \<Rightarrow> bool \<Rightarrow> extraction \<Rightarrow> doc_type \<Rightarrow> page list \<Rightarrow> string list option \<times> ingestion
    \<Rightarrow> 'c crawl_meta list \<times> string list option \<times> ingestion" where
  "process_all L pdf config doc [] (pdf_links, st) = ([], pdf_links, st)"
| "process_all L pdf config doc (p # ps) (pdf_links, st) =
    (let (me, pdf_links, st) = process_page L pdf config pdf_links p doc st;
         (mes, rest) = process_all L pdf config doc ps (pdf_links, st)
     in (me # mes, rest))"

text \<open>\<open>crawl\<close>: \<open>pages\<close> and \<open>pdf_pages\<close> are what the crawler yields for the URLs and for the links that were found.\<close>

definition crawl ::
  "'c crawl_lib \<Rightarrow> bool \<Rightarrow> extraction \<Rightarrow> page list \<Rightarrow> (string list \<Rightarrow> page list) \<Rightarrow> ingestion \<Rightarrow> 'c crawl_meta list \<times> ingestion" where
  "crawl L pdf config pages pdf_pages st =
    (let (mes, pdf_links, st) = process_all L pdf config Html pages (Some [], st)
     in case pdf_links of
          None \<Rightarrow> (mes, st)
        | Some [] \<Rightarrow> (mes, st)
        | Some found \<Rightarrow>
            (let (more, _, st) = process_all L pdf config Pdf (pdf_pages (dedupe id found [])) (None, st) in (mes @ more, st)))"

section \<open>Which URLs are crawled\<close>

lemma add_seeded_distinct: "distinct (map se_url us) \<Longrightarrow> distinct (map se_url (fold add_seeded xs us))"
proof (induction xs arbitrary: us)
  case (Cons x xs)
  have "distinct (map se_url (add_seeded x us))" using Cons.prems by (simp add: add_seeded_def)
  then show ?case using Cons.IH by simp
qed simp

lemma seeding_distinct:
  assumes "generate_from_seeding fetch m = Inr us"
  shows "distinct (map se_url us)"
proof -
  obtain all_urls where loop: "rfold (\<lambda>q all_urls. rbind (fetch (if q = [] then None else Some q)) (\<lambda>found.
        Inr (fold add_seeded (concat (map snd found)) all_urls))) (sd_queries m) [] = Inr all_urls"
    and us: "us = (case sd_top m of None \<Rightarrow> sort_key (\<lambda>u. - se_score u) all_urls | Some k \<Rightarrow> py_take k (sort_key (\<lambda>u. - se_score u) all_urls))"
    using assms by (auto simp: generate_from_seeding_def rbind_Inr_iff Let_def)
  have "distinct (map se_url all_urls)"
    using loop by (rule rfold_invariant) (auto simp: rbind_Inr_iff add_seeded_distinct)
  then have "distinct (map se_url (sort_key (\<lambda>u. - se_score u) all_urls))"
    by (simp add: distinct_map)
  then show ?thesis using us by (auto simp: py_take_def take_map [symmetric] split: option.splits)
qed

text \<open>What is crawled is never nothing and no URL twice; a list of URLs is crawled as it is, without repetitions, and
  a request for seeded URLs without a filter on their data is always refused, whatever was found.\<close>

theorem crawl_urls_distinct:
  "case crawl_urls L fetch arg of
     Inr us \<Rightarrow> us \<noteq> [] \<and> distinct us \<and> (case arg of Static l \<Rightarrow> set us = set l | Seeding m \<Rightarrow> sd_jsonld m \<noteq> None | Generator _ _ \<Rightarrow> False)
   | Inl e \<Rightarrow> (case arg of Static l \<Rightarrow> l = [] \<and> e = no_url | _ \<Rightarrow> True)"
proof (cases arg)
  case (Static l)
  moreover have "dedupe id l [] = [] \<longleftrightarrow> l = []" using dedupe_id [of l "[]"] by (metis Diff_empty empty_set set_empty)
  ultimately show ?thesis using dedupe_id [of l "[]"] by (auto simp: crawl_urls_def)
next
  case (Seeding m)
  show ?thesis
  proof (cases "generate_from_seeding fetch m")
    case (Inr us)
    then have "distinct (map se_url (filter P us))" for P
      using seeding_distinct [OF Inr] by (simp add: distinct_map_filter)
    then show ?thesis using Inr Seeding by (auto simp: crawl_urls_def rbind_def split: option.split)
  qed (simp add: crawl_urls_def Seeding)
next
  case (Generator cfg j)
  then show ?thesis by (simp add: crawl_urls_def)
qed

lemma initialize_config_exchanged:
  "initialize_config urls deep st = Inr c \<Longrightarrow>
    deep = None \<and> (\<exists>s. st = Inr s \<and> rc_markdown_generator c = Strategy s) \<and> rc_extraction_strategy c = Markdown_generator"
  by (auto simp: initialize_config_def build_deep_crawl_def called_with_one_def rbind_Inr_iff Let_def split: option.splits)

text \<open>A schema is generated for a page that answers 200 only; what the file holds is used without asking.\<close>

lemma fetched_schema:
  "fetch_schema cached page body css regex c = Inr (s, raw) \<Longrightarrow>
    sx_name c \<noteq> [] \<and> truthy raw \<and> (cached = Some (Inr raw) \<or> (\<exists>html. page = Inr (200, html)))
    \<and> s = (if sx_strategy c = ''regex'' then RegexExtractionStrategy raw else JsonCssExtractionStrategy raw)"
  by (auto simp: fetch_schema_def rbind_Inr_iff split: if_splits option.splits prod.splits)

section \<open>What a crawl reports\<close>

text \<open>The work on a page leaves the state, or records one document and wraps the instruction of a knowledge graph.\<close>

definition worked :: "'c crawl_lib \<Rightarrow> extraction \<Rightarrow> page \<Rightarrow> ingestion \<Rightarrow> ingestion \<Rightarrow> bool" where
  "worked L config p st st' \<longleftrightarrow> st' = st
    \<or> (\<exists>d. dz_url d = pg_url p \<and> in_documents st' = in_documents st @ [d]
        \<and> in_instruction st' = (if config = Knowledge then cb_prompt L (in_instruction st) else in_instruction st))"

lemma describe_url: "me_url (snd (describe L p me)) = me_url me"
  by (auto simp: describe_def Let_def split: option.splits sum.splits)

lemma process_content_works:
  assumes "process_content L config p doc (me, st) = (e, (me', st'))" "me_url me = pg_url p"
  shows "me_url me' = pg_url p \<and> worked L config p st st'"
  using assms
  by (auto simp: process_content_def process_texts_def process_schema_def record_document_def worked_def Let_def
      split: option.splits sum.splits extraction.splits if_splits prod.splits)

lemma follow_links_same: "snd (follow_links doc ls found) = found"
  by (induction doc ls found rule: follow_links.induct) simp_all

lemma process_page_works:
  assumes "process_page L pdf config found p doc st = (me, found', st')"
  shows "me_url me = pg_url p \<and> found' = found \<and> worked L config p st st'"
proof (cases "pg_success p")
  case False
  then show ?thesis using assms by (auto simp: process_page_def new_meta_def worked_def)
next
  case True
  obtain e me1 where d: "describe L p (new_meta p doc) = (e, me1)" by fastforce
  then have url: "me_url me1 = pg_url p" using describe_url [of L p "new_meta p doc"] by (simp add: new_meta_def)
  obtain e2 me2 st2 where c: "process_content L config p doc (me1, st) = (e2, (me2, st2))" by (metis prod.exhaust)
  note works = process_content_works [OF c url]
  have "found'' = f0" if "follow_links doc ls f0 = (e3, found'')" for ls f0 e3 found''
    using follow_links_same [of doc ls f0] that by simp
  then show ?thesis
    using assms True d c works url
    by (cases e; cases e2)
      (auto simp: process_page_def fail_page_def worked_def split: option.splits prod.splits bool.splits)
qed

text \<open>What a sequence of pages leaves: a document for some of them, in their order.\<close>

definition accounted :: "'c crawl_lib \<Rightarrow> extraction \<Rightarrow> string list \<Rightarrow> ingestion \<Rightarrow> ingestion \<Rightarrow> bool" where
  "accounted L config urls st st' \<longleftrightarrow>
    (\<exists>ds. in_documents st' = in_documents st @ ds \<and> subseq (map dz_url ds) urls
      \<and> in_instruction st' = (if config = Knowledge then (cb_prompt L ^^ length ds) (in_instruction st) else in_instruction st))"

lemma accounted_Nil: "accounted L config [] st st"
  by (simp add: accounted_def)

lemma accounted_Cons:
  assumes "worked L config p st st1" "accounted L config urls st1 st2"
  shows "accounted L config (pg_url p # urls) st st2"
proof -
  obtain ds where ds: "in_documents st2 = in_documents st1 @ ds" "subseq (map dz_url ds) urls"
    "in_instruction st2 = (if config = Knowledge then (cb_prompt L ^^ length ds) (in_instruction st1) else in_instruction st1)"
    using assms(2) unfolding accounted_def by blast
  consider (same) "st1 = st"
    | (more) d where "dz_url d = pg_url p" "in_documents st1 = in_documents st @ [d]"
      "in_instruction st1 = (if config = Knowledge then cb_prompt L (in_instruction st) else in_instruction st)"
    using assms(1) unfolding worked_def by blast
  then show ?thesis
  proof cases
    case same
    then show ?thesis using ds unfolding accounted_def by (intro exI [of _ ds]) auto
  next
    case more
    then show ?thesis
      using ds unfolding accounted_def by (intro exI [of _ "d # ds"]) (simp add: funpow_swap1)
  qed
qed

lemma process_all_works:
  "process_all L pdf config doc ps (found, st) = (mes, found', st') \<Longrightarrow>
    map me_url mes = map pg_url ps \<and> found' = found \<and> accounted L config (map pg_url ps) st st'"
proof (induction ps arbitrary: found st mes found' st')
  case Nil
  then show ?case by (simp add: accounted_Nil)
next
  case (Cons p ps)
  obtain me found1 st1 where p: "process_page L pdf config found p doc st = (me, found1, st1)" by (metis prod.exhaust)
  obtain mes1 found2 st2 where ps: "process_all L pdf config doc ps (found1, st1) = (mes1, found2, st2)" by (metis prod.exhaust)
  note one = process_page_works [OF p]
  then have rest: "map me_url mes1 = map pg_url ps \<and> found2 = found \<and> accounted L config (map pg_url ps) st1 st2"
    using Cons.IH [of found1 st1 mes1 found2 st2] ps by simp
  have "mes = me # mes1 \<and> found' = found2 \<and> st' = st2" using Cons.prems p ps by simp
  then show ?case using one rest accounted_Cons [of L config p st st1] by simp
qed

text \<open>A crawl reports every page the crawler yields once and in order, whatever fails on a page, and nothing else: the PDF
  documents its pages link to are never read.  It records a document for some of the pages, in their order, and
  for a knowledge graph each of them wraps the instruction of the ones before once more.\<close>

theorem crawl_reports_each_page:
  "map me_url (fst (crawl L pdf config pages pdf_pages st)) = map pg_url pages
    \<and> accounted L config (map pg_url pages) st (snd (crawl L pdf config pages pdf_pages st))"
proof -
  obtain mes found st' where "process_all L pdf config Html pages (Some [], st) = (mes, found, st')" by (metis prod.exhaust)
  then show ?thesis
    using process_all_works [of L pdf config Html pages "Some []" st mes found st'] by (simp add: crawl_def)
qed

text \<open>A document that fits is refused: what comes back for it has no size to unpack, so its page fails (a text of two
  characters is the exception), nothing is recorded and the instruction stays.\<close>

theorem small_documents_refused:
  assumes "pg_markdown p = Some t" "bytes t \<le> cb_max L doc" "length t \<noteq> 2"
  shows "\<not> me_success (fst (process_page L pdf config found p doc st)) \<and> snd (process_page L pdf config found p doc st) = (found, st)"
proof (cases "pg_success p")
  case False
  then show ?thesis by (simp add: process_page_def new_meta_def)
next
  case True
  have "unpack (slice_markdown (cb_max L doc) t) = Inl ValueError"
    using assms(2,3) by (auto simp: slice_markdown_def unpack_def split: list.split)
  then have "process_content L config p doc w = (Some ValueError, w)" for w :: "'a work"
    using assms(1) by (simp add: process_content_def)
  then show ?thesis
    using True by (auto simp: process_page_def fail_page_def split: prod.split option.split)
qed

definition sample_lib :: "nat crawl_lib" where
  "sample_lib = \<lparr>cb_loads = (\<lambda>x. Inr JNull), cb_texts = (\<lambda>j. Inl TypeError), cb_chunk = (\<lambda>i j. Inr i), cb_item = (\<lambda>j. True),
    cb_source = Inr, cb_prompt = (\<lambda>s. ''focus: '' @ s), cb_max = (\<lambda>d. 100)\<rparr>"

definition sample_page :: page where
  "sample_page = \<lparr>pg_url = ''a.com'', pg_success = True, pg_error = None, pg_metadata = Some [], pg_markdown = Some [72, 101, 108, 108, 111],
    pg_extracted = None, pg_links = None\<rparr>"

theorem small_documents_refused_witness:
  "\<not> me_success (fst (process_page sample_lib False Knowledge None sample_page Html \<lparr>in_documents = [], in_instruction = ''x''\<rparr>))"
  using small_documents_refused [of sample_page "[72, 101, 108, 108, 111]" sample_lib Html False Knowledge None "\<lparr>in_documents = [], in_instruction = ''x''\<rparr>"]
  by (simp add: sample_page_def sample_lib_def utf8_len_def)

end
