(* ===== verification/Email_Message.thy ===== *)
theory Email_Message
  imports Event_Handlers Scheduler_Model Url_Model
begin

text \<open>
  E-mails as they are built, tracked and read back: classes/mail_provider.py, classes/email.py and the tracker of
  depends/class_dep.py.  Messages are their headers and the parts of their body; the MIME library that prints
  and parses them is left out.
\<close>

section \<open>Providers\<close>

definition py_lower :: "string \<Rightarrow> string" where "py_lower s = map lower_char s"

definition py_upper :: "string \<Rightarrow> string" where "py_upper s = map upper_char s"

definition smtp_port :: "string \<Rightarrow> int option" where
  "smtp_port mode =
    (let m = strip is_blank (py_lower mode)
     in if m = ''tls'' then Some 587 else if m = ''ssl'' then Some 465 else if m = ''normal'' then Some 25 else None)"

definition imap_port :: "string \<Rightarrow> int option" where
  "imap_port mode = Some (if strip is_blank (py_lower mode) = ''ssl'' then 993 else 143)"

definition conn_flag :: "string \<Rightarrow> bool" where
  "conn_flag mode \<longleftrightarrow> py_lower mode = ''tls''"

definition SMTP_HOSTS :: "(string, string) dict" where
  "SMTP_HOSTS = [(''GMAIL_RELAY'', ''smtp-relay.gmail.com''), (''GMAIL_RESTRICTED'', ''aspmx.l.google.com''), (''GMAIL'', ''smtp.gmail.com''),
    (''OUTLOOK'', ''smtp.office365.com''), (''YAHOO'', ''smtp.mail.yahoo.com''), (''AOL'', ''smtp.aol.com''), (''ICLOUD'', ''smtp.mail.me.com'')]"

definition IMAP_HOSTS :: "(string, string) dict" where
  "IMAP_HOSTS = [(''GMAIL'', ''imap.gmail.com''), (''YAHOO'', ''imap.mail.yahoo.com''), (''OUTLOOK'', ''outlook.office365.com'')]"

text \<open>A host is a text or a member of the enumeration of hosts, and comes back as it was when it is not known.\<close>

datatype host_arg = Host_text string | Host_member string

definition host_addr :: "(string, string) dict \<Rightarrow> host_arg \<Rightarrow> host_arg" where
  "host_addr hosts host =
    (case map_of hosts (case host of Host_text s \<Rightarrow> strip is_blank (py_upper s) | Host_member v \<Rightarrow> v) of
       Some a \<Rightarrow> Host_text a | None \<Rightarrow> host)"

definition provider_map :: "(string, string) dict" where
  "provider_map = [(''gmail'', ''Google''), (''googlemail'', ''Google''), (''google'', ''Google''),
    (''hotmail'', ''Microsoft''), (''outlook'', ''Microsoft''), (''live'', ''Microsoft''), (''msn'', ''Microsoft''),
    (''yahoo'', ''Yahoo''), (''ymail'', ''Yahoo''), (''rocketmail'', ''Yahoo''),
    (''icloud'', ''Apple''), (''me'', ''Apple''), (''mac'', ''Apple''),
    (''protonmail'', ''ProtonMail''), (''zoho'', ''Zoho''), (''aol'', ''AOL'')]"

definition get_email_provider_name :: "string option \<Rightarrow> string" where
  "get_email_provider_name email =
    (case email of None \<Rightarrow> ''Untracked Provider''
     | Some e \<Rightarrow>
         (case py_split ''@'' e of
            _ # d # _ \<Rightarrow>
              (case map_of provider_map (py_lower (hd (py_split ''.'' d))) of Some p \<Rightarrow> p | None \<Rightarrow> ''Untracked Provider'')
          | _ \<Rightarrow> ''Untracked Provider''))"

datatype smtp_error_code =
  MAILBOX_UNAVAILABLE | USER_UNKNOWN | POLICY_RESTRICTIONS | TEMP_SERVER_ERROR | CONNECTION_TIMEOUT | AUTH_CREDENTIALS_INVALID

definition smtp_error_code_of :: "string \<Rightarrow> smtp_error_code option" where
  "smtp_error_code_of s = map_of [(''550 5.5.0'', MAILBOX_UNAVAILABLE), (''550 5.1.1'', USER_UNKNOWN), (''554 5.7.1'', POLICY_RESTRICTIONS),
     (''451 4.3.0'', TEMP_SERVER_ERROR), (''421 4.4.2'', CONNECTION_TIMEOUT), (''535 5.7.8'', AUTH_CREDENTIALS_INVALID)] s"

fun error_descriptions :: "smtp_error_code \<Rightarrow> string" where
  "error_descriptions MAILBOX_UNAVAILABLE = ''Requested action not taken: mailbox unavailable.''"
| "error_descriptions USER_UNKNOWN = ''Recipient address rejected: User unknown.''"
| "error_descriptions POLICY_RESTRICTIONS = ''Message rejected due to policy restrictions.''"
| "error_descriptions TEMP_SERVER_ERROR = ''Temporary server error. Please try again later.''"
| "error_descriptions CONNECTION_TIMEOUT = ''Connection timed out. Try again later.''"
| "error_descriptions AUTH_CREDENTIALS_INVALID = ''Authentication credentials invalid or not accepted.''"

definition get_error_description :: "smtp_error_code option \<Rightarrow> string" where
  "get_error_description c = (case c of Some x \<Rightarrow> error_descriptions x | None \<Rightarrow> ''Unknown error to our server'')"

fun error_status :: "smtp_error_code \<Rightarrow> email_status" where
  "error_status MAILBOX_UNAVAILABLE = HARD_BOUNCE"
| "error_status USER_UNKNOWN = HARD_BOUNCE"
| "error_status POLICY_RESTRICTIONS = BLOCKED"
| "error_status TEMP_SERVER_ERROR = DEFERRED"
| "error_status CONNECTION_TIMEOUT = DELAYED"
| "error_status AUTH_CREDENTIALS_INVALID = FAILED"

definition map_smtp_error_to_status :: "smtp_error_code option \<Rightarrow> email_status" where
  "map_smtp_error_to_status c = (case c of Some x \<Rightarrow> error_status x | None \<Rightarrow> FAILED)"

section \<open>Building\<close>

datatype mime_type = Mime_html | Mime_plain | Mime_both | Mime_none | Mime_other string

definition parse_mime_content :: "'a \<times> 'b \<Rightarrow> mime_type \<Rightarrow> 'a option \<times> 'b option" where
  "parse_mime_content c t =
    (case t of
       Mime_html \<Rightarrow> (Some (fst c), None)
     | Mime_plain \<Rightarrow> (None, Some (snd c))
     | Mime_none \<Rightarrow> (None, None)
     | _ \<Rightarrow> (Some (fst c), Some (snd c)))"

text \<open>What is written for each recipient is a list, a text (whose characters are its elements), or missing.\<close>

datatype per_recipient = Each "string list" | Whole_text string | Absent

definition value_in :: "per_recipient \<Rightarrow> nat \<Rightarrow> string option" where
  "value_in v i =
    (case v of
       Each xs \<Rightarrow> if i < length xs then Some (xs ! i) else None
     | Whole_text s \<Rightarrow> if i < length s then Some [s ! i] else None
     | Absent \<Rightarrow> None)"

text \<open>The element that is there and not empty.\<close>

definition given_value :: "per_recipient \<Rightarrow> nat \<Rightarrow> string option" where
  "given_value v i = (case value_in v i of Some s \<Rightarrow> if s = [] then None else Some s | None \<Rightarrow> None)"

datatype message_ids = Made "nat \<Rightarrow> string" | Given per_recipient

datatype contents = Single "string option" "string option" | Many "(string option \<times> string option) list"

record email_meta =
  ed_subject :: string
  ed_from :: string
  ed_to :: "string list"
  ed_message_id :: message_ids
  ed_email_id :: per_recipient
  ed_contact :: per_recipient
  ed_disposition :: "string option"
  ed_receipt :: "string option"
  ed_as_individual :: bool

record email_message =
  ms_headers :: "(string, string) dict"
  ms_body :: "(string \<times> string) list"

definition message_id_of :: "message_ids \<Rightarrow> nat \<Rightarrow> string result" where
  "message_id_of m i =
    (case m of Made f \<Rightarrow> Inr (f i)
     | Given v \<Rightarrow> (case v of Absent \<Rightarrow> Inl TypeError | _ \<Rightarrow> (case value_in v i of Some s \<Rightarrow> Inr s | None \<Rightarrow> Inl IndexError)))"

definition content_of :: "contents \<Rightarrow> nat \<Rightarrow> (string option \<times> string option) result" where
  "content_of c i =
    (case c of Single h t \<Rightarrow> Inr (h, t) | Many cs \<Rightarrow> if i < length cs then Inr (cs ! i) else Inl IndexError)"

text \<open>The message of one recipient; a part that is not there or empty is not attached.\<close>

definition opt_header :: "string \<Rightarrow> string option \<Rightarrow> (string, string) dict" where
  "opt_header k v = (case v of None \<Rightarrow> [] | Some s \<Rightarrow> if s = [] then [] else [(k, s)])"

definition recipient_message :: "email_meta \<Rightarrow> contents \<Rightarrow> nat \<Rightarrow> email_message result" where
  "recipient_message md cs i =
    rbind (message_id_of (ed_message_id md) i) (\<lambda>mid. rbind (content_of cs i) (\<lambda>(html, plain).
      Inr \<lparr>ms_headers = [(''From'', ed_from md), (''Subject'', ed_subject md)]
          @ opt_header ''Disposition-Notification-To'' (ed_disposition md) @ opt_header ''Return-Receipt-To'' (ed_receipt md)
          @ [(''Message-ID'', mid)] @ opt_header ''X_Email_ID'' (given_value (ed_email_id md) i)
          @ opt_header ''X_Contact_ID'' (given_value (ed_contact md) i),
        ms_body = opt_header ''plain'' plain @ opt_header ''html'' html\<rparr>))"

section \<open>Tracking\<close>

text \<open>\<open>make_msgid\<close>: the time, a random number and the id of the e-mail, at the domain of the server.\<close>

definition make_msgid :: "string \<Rightarrow> nat \<Rightarrow> nat \<Rightarrow> string option \<Rightarrow> string" where
  "make_msgid domain_name timeval randval email_id =
    ''<'' @ nat_str timeval @ ''.'' @ nat_str randval @ ''.'' @ (case email_id of None \<Rightarrow> [] | Some e \<Rightarrow> e) @ ''@'' @ domain_name @ ''>''"

definition pipe_to :: "bool \<Rightarrow> email_meta \<Rightarrow> bool \<times> email_meta" where
  "pipe_to will_track md =
    (if \<not> ed_as_individual md \<and> length (ed_to md) > 1 \<and> will_track then (False, md)
     else if \<not> ed_as_individual md then (True, md\<lparr>ed_to := [intercalate '','' (ed_to md)]\<rparr>)
     else (True, md))"

record tracking =
  tr_email_id :: string
  tr_message_id :: string
  tr_recipient :: string
  tr_contact_id :: "string option"
  tr_esp_provider :: string
  tr_status :: email_status

text \<open>
  \<open>pipe_email_data\<close>: \<open>uuid\<close>, \<open>timeval\<close> and \<open>randval\<close> are what is drawn for each recipient.  The ids of the e-mail are the
  lists its model starts with.  For an e-mail that may not be tracked None is yielded first, and then the
  recipients all the same.
\<close>

fun extend_each :: "per_recipient \<Rightarrow> string list \<Rightarrow> per_recipient" where
  "extend_each (Each xs) ys = Each (xs @ ys)"
| "extend_each v ys = v"

record track_row =
  tw_email_id :: "string option"
  tw_message_id :: string
  tw_track :: "tracking option"

definition pipe_email_data ::
  "string \<Rightarrow> (nat \<Rightarrow> string) \<Rightarrow> (nat \<Rightarrow> nat) \<Rightarrow> (nat \<Rightarrow> nat) \<Rightarrow> bool \<Rightarrow> string option \<times> string option \<Rightarrow> (nat \<Rightarrow> string option)
    \<Rightarrow> email_meta \<Rightarrow> email_meta \<times> track_row option list" where
  "pipe_email_data domain_name uuid timeval randval will_track receipts contact_ids md =
    (let (ok, md) = pipe_to will_track md;
         rows = [0..<length (ed_to md)];
         mid = (\<lambda>i. make_msgid domain_name (timeval i) (randval i) (Some (uuid i)));
         first_row = (if ok then [] else [None]);
         md = md\<lparr>ed_message_id := (case ed_message_id md of Given v \<Rightarrow> Given (extend_each v (map mid rows)) | m \<Rightarrow> m)\<rparr>
     in if will_track
        then (md\<lparr>ed_email_id := extend_each (ed_email_id md) (map uuid rows),
                ed_disposition := (if rows = [] then ed_disposition md else fst receipts),
                ed_receipt := (if rows = [] then ed_receipt md else snd receipts)\<rparr>,
              first_row @ map (\<lambda>i. Some \<lparr>tw_email_id = Some (uuid i), tw_message_id = mid i,
                tw_track = Some \<lparr>tr_email_id = uuid i, tr_message_id = mid i, tr_recipient = ed_to md ! i, tr_contact_id = contact_ids i,
                  tr_esp_provider = get_email_provider_name (Some (ed_to md ! i)), tr_status = RECEIVED\<rparr>\<rparr>) rows)
        else (md, first_row @ map (\<lambda>i. Some \<lparr>tw_email_id = None, tw_message_id = mid i, tw_track = None\<rparr>) rows))"

section \<open>Reading back\<close>

text \<open>A message that was read, with the message it carries, if any.\<close>

datatype mail = Mail (ml_headers: "(string, string) dict") (ml_from: "string option") (ml_html: "string option") (ml_original: "mail option")

definition Email_ID :: "mail \<Rightarrow> string option" where
  "Email_ID m = map_of (ml_headers m) ''X-EMAIL-ID''"

definition Message_ID :: "mail \<Rightarrow> string option" where
  "Message_ID m = map_of (ml_headers m) ''MESSAGE-ID''"

definition In_Reply_To :: "mail \<Rightarrow> string option" where
  "In_Reply_To m = map_of (ml_headers m) ''In-Reply-To''"

definition References :: "mail \<Rightarrow> string list" where
  "References m = (case map_of (ml_headers m) ''References'' of None \<Rightarrow> [] | Some r \<Rightarrow> if r = [] then [] else py_split '' '' r)"

text \<open>A list of parts is compared with a text, which are never equal.\<close>

definition same_as_text :: "string list \<Rightarrow> string \<Rightarrow> bool" where
  "same_as_text parts t = False"

definition Get_Our_Last_Message_References :: "string \<Rightarrow> mail \<Rightarrow> string list option" where
  "Get_Our_Last_Message_References our_host m =
    (if References m = [] then None
     else List.find (\<lambda>parts. same_as_text parts (our_host @ ''>'')) (map (py_split ''@'') (rev (References m))))"

definition extract_email_id_from_msgid :: "string option \<Rightarrow> string \<Rightarrow> string option" where
  "extract_email_id_from_msgid msgid my_domain =
    (case msgid of None \<Rightarrow> None
     | Some m \<Rightarrow>
         if m = [] \<or> CHR ''@'' \<notin> set m then None
         else (case py_split ''@'' (strip (\<lambda>c. c \<in> {CHR ''<'', CHR ''>''}) m) of
             p # d # _ \<Rightarrow> if d \<noteq> my_domain then None else Some (last (py_split ''.'' p))
           | _ \<Rightarrow> None))"

section \<open>What is read is what was written\<close>

lemma split1_free: "c \<notin> set k \<Longrightarrow> split_go [c] acc k = [rev acc @ k]"
  by (induction k arbitrary: acc) auto

lemma split1_sep: "c \<notin> set k \<Longrightarrow> split_go [c] acc (k @ c # s) = (rev acc @ k) # split_go [c] [] s"
  by (induction k arbitrary: acc) auto

lemma py_split_free: "c \<notin> set k \<Longrightarrow> py_split [c] k = [k]"
  by (simp add: py_split_def split1_free)

lemma py_split_sep: "c \<notin> set k \<Longrightarrow> py_split [c] (k @ c # s) = k # py_split [c] s"
  by (simp add: py_split_def split1_sep)

lemma digit_char_in: "digit_char n \<in> set ''0123456789''"
  unfolding digit_char_def by (rule nth_mem) simp

lemma nat_str_digits: "nat_str n \<noteq> [] \<and> set (nat_str n) \<subseteq> set ''0123456789''"
proof (induction n rule: nat_str.induct)
  case (1 n)
  then show ?case
    using digit_char_in [of n] by (subst (1 2) nat_str.simps) auto
qed

lemma nat_str_free: "c \<notin> set ''0123456789'' \<Longrightarrow> c \<notin> set (nat_str n)"
  using nat_str_digits [of n] by blast

lemma dropWhile_none: "(\<And>x. x \<in> set xs \<Longrightarrow> \<not> P x) \<Longrightarrow> dropWhile P xs = xs"
  by (cases xs) simp_all

lemma strip_wrapped:
  assumes "P a" "P z" "b \<noteq> []" "\<And>x. x \<in> set b \<Longrightarrow> \<not> P x"
  shows "strip P (a # b @ [z]) = b"
proof -
  have "dropWhile P (b @ [z]) = b @ [z]" using assms(3,4) by (cases b) simp_all
  moreover have "dropWhile P (rev b) = rev b" using assms(4) by (intro dropWhile_none) simp
  ultimately show ?thesis using assms(1,2) by (simp add: strip_def)
qed

text \<open>C34: The id of an e-mail survives its message id: what is read back from a message id that was made for our domain is the
  id it was made with, whenever it was made, for every id without dots, at signs and angle brackets, and
  nothing is read for another domain.\<close>

theorem message_id_roundtrip:
  assumes "set eid \<inter> {CHR ''.'', CHR ''@'', CHR ''<'', CHR ''>''} = {}" "set dn \<inter> {CHR ''@'', CHR ''<'', CHR ''>''} = {}"
  shows "extract_email_id_from_msgid (Some (make_msgid dn timeval randval (Some eid))) dn' = (if dn' = dn then Some eid else None)"
proof -
  let ?p = "nat_str timeval @ CHR ''.'' # nat_str randval @ CHR ''.'' # eid"
  have id: "make_msgid dn timeval randval (Some eid) = CHR ''<'' # (?p @ CHR ''@'' # dn) @ [CHR ''>'']"
    by (simp add: make_msgid_def)
  have free: "c \<notin> set (nat_str n)" if "c \<in> {CHR ''.'', CHR ''@'', CHR ''<'', CHR ''>''}" for c n
    using that by (intro nat_str_free) auto
  then have at: "CHR ''@'' \<notin> set ?p" using assms(1) by auto
  have "py_split ''@'' (?p @ CHR ''@'' # dn) = [?p, dn]"
    using py_split_sep [OF at] assms(2) by (simp add: py_split_free)
  moreover have "strip (\<lambda>c. c \<in> {CHR ''<'', CHR ''>''}) (CHR ''<'' # (?p @ CHR ''@'' # dn) @ [CHR ''>'']) = ?p @ CHR ''@'' # dn"
    using free assms by (intro strip_wrapped) auto
  moreover have "py_split ''.'' ?p = [nat_str timeval, nat_str randval, eid]"
    using free assms(1) by (simp add: py_split_sep py_split_free)
  ultimately show ?thesis
    unfolding id extract_email_id_from_msgid_def by simp
qed

theorem message_id_roundtrip_witness:
  "extract_email_id_from_msgid (Some (make_msgid ''notifyr.io'' 1700000000 7 (Some ''5f0e-11ee''))) ''notifyr.io'' = Some ''5f0e-11ee''"
  by (subst message_id_roundtrip) auto

lemma references_never_found: "Get_Our_Last_Message_References host m = None"
  by (simp add: Get_Our_Last_Message_References_def same_as_text_def find_None_iff)

text \<open>The headers of a message of ours are written under other names than they are read under.\<close>

lemma map_of_opt_header: "map_of (opt_header k v @ d) k' = (if k' = k \<and> v \<noteq> None \<and> v \<noteq> Some [] then v else map_of d k')"
  by (auto simp: opt_header_def split: option.split)

lemma own_headers:
  assumes "recipient_message md cs i = Inr m"
  shows "Email_ID (Mail (ms_headers m) from html original) = None \<and> Message_ID (Mail (ms_headers m) from html original) = None
    \<and> map_of (ms_headers m) ''X_Email_ID'' = given_value (ed_email_id md) i
    \<and> message_id_of (ed_message_id md) i = Inr (the (map_of (ms_headers m) ''Message-ID''))"
proof -
  obtain mid html0 plain where "message_id_of (ed_message_id md) i = Inr mid" "content_of cs i = Inr (html0, plain)"
    and m: "ms_headers m = [(''From'', ed_from md), (''Subject'', ed_subject md)]
          @ opt_header ''Disposition-Notification-To'' (ed_disposition md) @ opt_header ''Return-Receipt-To'' (ed_receipt md)
          @ [(''Message-ID'', mid)] @ opt_header ''X_Email_ID'' (given_value (ed_email_id md) i)
          @ opt_header ''X_Contact_ID'' (given_value (ed_contact md) i)"
    using assms by (auto simp: recipient_message_def rbind_Inr_iff)
  moreover have "map_of (opt_header k v) k' = (if k' = k \<and> v \<noteq> None \<and> v \<noteq> Some [] then v else None)" for k v k'
    using map_of_opt_header [of k v "[]" k'] by simp
  moreover have "given_value (ed_email_id md) i \<noteq> Some []"
    by (auto simp: given_value_def split: option.split)
  ultimately show ?thesis
    unfolding Email_ID_def Message_ID_def mail.sel m by (auto simp del: map_of_append simp: map_of_opt_header)
qed

end
