(* ===== verification/Email_Protocol.thy ===== *)
theory Email_Protocol
  imports Email_Message Service_Core Mocked
begin

text \<open>
  services/mini/email/protocol_email_service.py and interface/profile_event.py: sending over SMTP and reading over
  IMAP.  What the server answers is an argument; the state that is kept is that of the service.
\<close>

section \<open>Connecting\<close>

record email_profile =
  ep_conn_method :: string
  ep_email_host :: host_arg
  ep_port :: "int option"
  ep_server :: "string option"

record email_config =
  ec_conn_method :: string
  ec_tls :: bool
  ec_port :: "int option"
  ec_addr :: "host_arg"

definition init_protocol_config :: "bool \<Rightarrow> email_profile \<Rightarrow> email_config result" where
  "init_protocol_config is_smtp p =
    (let method = py_lower (ep_conn_method p); tls = conn_flag method in
     if ep_email_host p = Host_member ''CUSTOM''
     then (case (ep_port p, ep_server p) of
             (Some n, Some a) \<Rightarrow> Inr \<lparr>ec_conn_method = method, ec_tls = tls, ec_port = Some n, ec_addr = Host_text a\<rparr>
           | _ \<Rightarrow> Inl (BuildFailureError (Some ''Missing connection value Port: {self.hostPort}, Addr: {self.hostAddr}'')))
     else Inr \<lparr>ec_conn_method = method, ec_tls = tls,
         ec_port = (case ep_port p of None \<Rightarrow> (if is_smtp then smtp_port method else imap_port method) | Some n \<Rightarrow> Some n),
         ec_addr = host_addr (if is_smtp then SMTP_HOSTS else IMAP_HOSTS) (ep_email_host p)\<rparr>)"

text \<open>What \<open>connect\<close> catches: then nothing is connected, or the build fails.\<close>

fun connect_caught :: "exn \<Rightarrow> bool" where
  "connect_caught (NameError s) = True"
| "connect_caught (UnboundLocalError s) = True"
| "connect_caught (OtherException c) = (c \<in> {''gaierror'', ''ConnectionRefusedError'', ''TimeoutError'', ''SSLError''})"
| "connect_caught e = False"

definition connect :: "bool \<Rightarrow> exn option \<Rightarrow> bool result" where
  "connect build dial =
    (case dial of None \<Rightarrow> Inr True
     | Some e \<Rightarrow> if \<not> connect_caught e then Inl e else if build then Inl (BuildFailureError None) else Inr False)"

text \<open>\<open>authenticate\<close> of SMTP: the class of build error an error of the server is turned into, while building.\<close>

fun smtp_build_error :: "exn \<Rightarrow> exn option" where
  "smtp_build_error (OtherException c) =
    (if c \<in> {''SMTPHeloError'', ''SMTPServerDisconnected''} then Some (BuildWarningError None)
     else if c \<in> {''SMTPNotSupportedError'', ''SMTPAuthenticationError''} then Some (BuildFailureError None) else None)"
| "smtp_build_error e = None"

datatype auth_method = Password | OAuth

record smtp_server =
  sv_ehlo :: "exn option"
  sv_starttls :: "exn option"
  sv_login :: "exn option"

definition first_error :: "exn option list \<Rightarrow> exn option" where
  "first_error es = (case List.find (\<lambda>e. e \<noteq> None) es of None \<Rightarrow> None | Some e \<Rightarrow> e)"

text \<open>\<open>oauth_connect\<close> returns before anything else, so there is no token to log in with.\<close>

definition smtp_authenticate :: "bool \<Rightarrow> bool \<Rightarrow> auth_method \<Rightarrow> smtp_server \<Rightarrow> bool result" where
  "smtp_authenticate build tls method v =
    (case first_error ((if tls then [sv_ehlo v, sv_starttls v, sv_ehlo v] else [])
        @ [case method of Password \<Rightarrow> sv_login v | OAuth \<Rightarrow> Some (AttributeError ''mailOAuth'')]) of
       None \<Rightarrow> Inr True
     | Some e \<Rightarrow>
         (case smtp_build_error e of None \<Rightarrow> Inl e | Some b \<Rightarrow> if build then Inl b else Inr False))"

text \<open>
  \<open>authenticate\<close> of IMAP: \<open>steps\<close> are the errors of the calls in their order.  \<open>abort\<close> and \<open>readonly\<close> are classes below
  \<open>error\<close>, whose clause comes first, and every other exception has a clause too.
\<close>

definition imap_build_error :: "exn \<Rightarrow> exn option" where
  "imap_build_error e = (if is_Exception e then Some (BuildFailureError None) else None)"

definition imap_authenticate :: "bool \<Rightarrow> exn option list \<Rightarrow> bool result" where
  "imap_authenticate build steps =
    (case first_error steps of
       None \<Rightarrow> Inr True
     | Some e \<Rightarrow>
         (case imap_build_error e of None \<Rightarrow> Inl e | Some b \<Rightarrow> if build then Inl b else Inr False))"

text \<open>
  \<open>Lifecycle\<close>: a connection for one call, which may change the service.  The second component says whether the
  connection is left open; nothing is returned when there is none.
\<close>

definition lifecycle :: "bool result \<Rightarrow> bool result \<Rightarrow> ('s \<Rightarrow> 'a result \<times> 's) \<Rightarrow> 's \<Rightarrow> ('a option result \<times> bool) \<times> 's" where
  "lifecycle conn auth call s =
    (case conn of
       Inl e \<Rightarrow> ((Inl e, False), s)
     | Inr False \<Rightarrow> ((Inr None, False), s)
     | Inr True \<Rightarrow>
         (case auth of
            Inl e \<Rightarrow> ((Inl e, True), s)
          | Inr False \<Rightarrow> ((Inr None, True), s)
          | Inr True \<Rightarrow> (case call s of (Inl e, s) \<Rightarrow> ((Inl e, True), s) | (Inr x, s) \<Rightarrow> ((Inr (Some x), False), s))))"

text \<open>\<open>EventWrapper\<close>: the events of a call go to the stream, and what it returned besides is returned.\<close>

definition event_wrapper :: "('a \<times> 'ev list) option result \<Rightarrow> 'a result \<times> 'ev list" where
  "event_wrapper r =
    (case r of
       Inl e \<Rightarrow> (Inl e, [])
     | Inr None \<Rightarrow> (Inl TypeError, [])
     | Inr (Some (x, evs)) \<Rightarrow> (Inr x, evs))"

section \<open>Sending\<close>

text \<open>What the server makes of the message for one recipient; \<open>Accepted\<close> carries its answer.\<close>

datatype smtp_outcome =
    Accepted string | Recipients_refused | Data_error | Sender_refused | Not_supported | Server_disconnected | Raises exn

record email_event =
  ee_description :: string
  ee_email_id :: string
  ee_status :: email_status
  ee_provider :: string

record send_state =
  ss_replies :: "(string \<times> string option) list"
  ss_events :: "email_event list"
  ss_status :: "(email_status \<times> string) option"
  ss_service :: service

definition outcome_status :: "smtp_outcome \<Rightarrow> (email_status \<times> string) option" where
  "outcome_status r =
    (case r of
       Accepted _ \<Rightarrow> Some (SENT, ''Email successfully sent.'')
     | Recipients_refused \<Rightarrow> Some (BLOCKED, ''Email blocked due to recipient refusal.'')
     | Data_error \<Rightarrow> Some (FAILED, ''Email failed due to error in the message'')
     | Sender_refused \<Rightarrow> Some (FAILED, ''Email failed due to sender refusal.'')
     | Server_disconnected \<Rightarrow> Some (FAILED, ''Email failed due to server disconnection.'')
     | _ \<Rightarrow> None)"

definition outcome_service :: "smtp_outcome \<Rightarrow> service \<Rightarrow> service" where
  "outcome_service r s =
    (case r of
       Sender_refused \<Rightarrow> s\<lparr>service_status := Some WORKS_ALMOST_ATT\<rparr>
     | Server_disconnected \<Rightarrow> s\<lparr>builded := False, service_status := Some TEMPORARY_NOT_AVAILABLE\<rparr>
     | _ \<Rightarrow> s)"

definition outcome_error :: "smtp_outcome \<Rightarrow> exn option" where
  "outcome_error r = (case r of Not_supported \<Rightarrow> Some (BuildFailureError None) | Raises e \<Rightarrow> Some e | _ \<Rightarrow> None)"

definition outcome_reply :: "smtp_outcome \<Rightarrow> string option" where
  "outcome_reply r = (case r of Accepted a \<Rightarrow> Some a | _ \<Rightarrow> None)"

text \<open>
  One recipient.  The status and its description are variables of the loop: when the server raises what has no
  clause, the \<open>finally\<close> reads those of the recipient before, and there are none for the first.
\<close>

definition send_one :: "email_meta \<Rightarrow> contents \<Rightarrow> (nat \<Rightarrow> smtp_outcome) \<Rightarrow> nat \<Rightarrow> send_state \<Rightarrow> exn option \<times> send_state" where
  "send_one md cs server i st =
    (case recipient_message md cs i of
       Inl e \<Rightarrow> (Some e, st)
     | Inr m \<Rightarrow>
         (let r = server i;
              st = st\<lparr>ss_service := outcome_service r (ss_service st),
                ss_status := (case outcome_status r of None \<Rightarrow> ss_status st | Some x \<Rightarrow> Some x)\<rparr>;
              reply = (the (map_of (ms_headers m) ''Message-ID''), outcome_reply r)
          in case given_value (ed_email_id md) i of
               None \<Rightarrow> (outcome_error r, st\<lparr>ss_replies := ss_replies st @ [reply]\<rparr>)
             | Some eid \<Rightarrow>
                 (case ss_status st of
                    None \<Rightarrow> (Some (UnboundLocalError ''description''), st)
                  | Some (status, description) \<Rightarrow>
                      (outcome_error r, st\<lparr>ss_replies := ss_replies st @ [reply],
                         ss_events := ss_events st @ [\<lparr>ee_description = description, ee_email_id = eid, ee_status = status,
                           ee_provider = get_email_provider_name (Some (ed_to md ! i))\<rparr>]\<rparr>))))"

fun send_rows :: "email_meta \<Rightarrow> contents \<Rightarrow> (nat \<Rightarrow> smtp_outcome) \<Rightarrow> nat list \<Rightarrow> send_state \<Rightarrow> exn option \<times> send_state" where
  "send_rows md cs server [] st = (None, st)"
| "send_rows md cs server (i # is) st =
    (case send_one md cs server i st of (Some e, st) \<Rightarrow> (Some e, st) | (None, st) \<Rightarrow> send_rows md cs server is st)"

definition send_message ::
  "email_meta \<Rightarrow> contents \<Rightarrow> (nat \<Rightarrow> smtp_outcome) \<Rightarrow> service \<Rightarrow> ((string \<times> string option) list \<times> email_event list) result \<times> service" where
  "send_message md cs server s =
    (case send_rows md cs server [0..<length (ed_to md)] \<lparr>ss_replies = [], ss_events = [], ss_status = None, ss_service = s\<rparr> of
       (Some e, st) \<Rightarrow> (Inl e, ss_service st)
     | (None, st) \<Rightarrow> (Inr (ss_replies st, ss_events st), ss_service st))"

text \<open>
  The bodies of \<open>sendCustomEmail\<close> and \<open>sendTemplateEmail\<close>: the message within a connection, and its events on the
  stream.  Both functions are decorated with \<open>@Mock()\<close> besides: nothing is sent, and the caller gets None.
\<close>

definition send_email_body ::
  "bool result \<Rightarrow> bool result \<Rightarrow> email_meta \<Rightarrow> contents \<Rightarrow> (nat \<Rightarrow> smtp_outcome) \<Rightarrow> service
    \<Rightarrow> ((string \<times> string option) list result \<times> email_event list) \<times> service" where
  "send_email_body conn auth md cs server s =
    (let ((r, left_open), s) = lifecycle conn auth (send_message md cs server) s in (event_wrapper r, s))"

definition send_email ::
  "bool result \<Rightarrow> bool result \<Rightarrow> email_meta \<Rightarrow> contents \<Rightarrow> (nat \<Rightarrow> smtp_outcome) \<Rightarrow> service
    \<Rightarrow> ((string \<times> string option) list result \<times> email_event list) option \<times> service" where
  "send_email conn auth md cs server = mocked (send_email_body conn auth md cs server)"

section \<open>Reading\<close>

record mailbox =
  mb_flags :: "string list"
  mb_delimiters :: string
  mb_name :: string

type_synonym mailboxes = "(string, mailbox) dict"

definition backslash :: char where "backslash = CHR 0x5C"

definition no_select :: "mailbox \<Rightarrow> bool" where
  "no_select b \<longleftrightarrow> (backslash # ''Noselect'') \<in> set (mb_flags b)"

text \<open>\<open>match_line\<close> is the regular expression of a line of the list of mailboxes.\<close>

definition update_mailboxes :: "(string \<Rightarrow> (string list \<times> string \<times> string) option) \<Rightarrow> string list \<Rightarrow> mailboxes" where
  "update_mailboxes match_line lines =
    fold (\<lambda>l bs. case match_line l of None \<Rightarrow> bs
        | Some (flags, delim, nm) \<Rightarrow> AList.update nm \<lparr>mb_flags = flags, mb_delimiters = delim, mb_name = nm\<rparr> bs) lines []"

text \<open>What is sent to the server, in order.\<close>

datatype imap_command =
    Rename string string | Delete_mailbox string | Create_mailbox string
  | Select_mailbox string | Store string string | Uid_store string string | Expunge | Copy string string

definition imap_error :: exn where "imap_error = OtherException ''IMAP4.error''"

definition rename_mailbox :: "bool \<Rightarrow> string \<Rightarrow> mailbox \<Rightarrow> exn option \<times> mailbox \<times> imap_command list" where
  "rename_mailbox ok new_name b =
    (if ok then (None, b\<lparr>mb_name := new_name\<rparr>, [Rename (mb_name b) new_name]) else (Some imap_error, b, [Rename (mb_name b) new_name]))"

definition delete_mailbox :: "bool \<Rightarrow> mailbox \<Rightarrow> exn option \<times> imap_command list" where
  "delete_mailbox ok b = (if ok then None else Some imap_error, [Delete_mailbox (mb_name b)])"

definition create_subfolder :: "bool \<Rightarrow> string \<Rightarrow> mailbox \<Rightarrow> string result \<times> imap_command list" where
  "create_subfolder ok subfolder b =
    (let full = mb_name b @ ''/'' @ subfolder in (if ok then Inr full else Inl imap_error, [Create_mailbox full]))"

definition select_inbox :: "mailboxes \<Rightarrow> string \<Rightarrow> (exn option \<times> imap_command list)" where
  "select_inbox bs inbox =
    (case map_of bs inbox of
       None \<Rightarrow> (Some (KeyError ''Mail box not found''), [])
     | Some b \<Rightarrow> if no_select b then (Some imap_error, []) else (None, [Select_mailbox inbox]))"

definition delete_email :: "string \<Rightarrow> bool \<Rightarrow> imap_command list" where
  "delete_email i hard = [Store i (''+FLAGS '' @ backslash # ''Deleted'')] @ (if hard then [Expunge] else [])"

definition mark_as_un_seen :: "string \<Rightarrow> bool \<Rightarrow> imap_command list" where
  "mark_as_un_seen i seen = [Uid_store i ((if seen then ''+'' else ''-'') @ ''FLAGS ('' @ backslash # ''Seen)'')]"

definition copy_email :: "mailboxes \<Rightarrow> bool \<Rightarrow> string \<Rightarrow> string \<Rightarrow> bool \<Rightarrow> exn option \<times> imap_command list" where
  "copy_email bs copied i target hard =
    (if \<not> dict_has bs target then (Some imap_error, [])
     else (None, Copy i target # (if copied then delete_email i hard else [])))"

definition has_thread_capabilities :: "string list \<Rightarrow> bool" where
  "has_thread_capabilities caps \<longleftrightarrow> ''THREAD=REFERENCES'' \<in> set caps \<or> ''THREAD=ORDEREDSUBJECT'' \<in> set caps"

text \<open>\<open>IMAPCriteriaBuilder\<close>: all criteria are handed over as one text.\<close>

definition criteria :: "string list list \<Rightarrow> string list" where
  "criteria cs = [intercalate '' '' (concat cs)]"

definition quoted :: "string \<Rightarrow> string \<Rightarrow> string list" where
  "quoted k v = [k, CHR 0x22 # v @ [CHR 0x22]]"

text \<open>
  \<open>search_email\<close> and \<open>read_email\<close>: the numbers that were found, up to a maximum, as far as they can be fetched.  The
  fetched messages are paired with the numbers only to be counted.
\<close>

definition search_email :: "(string list \<Rightarrow> string list option) \<Rightarrow> string list \<Rightarrow> string list" where
  "search_email server command = (case server command of None \<Rightarrow> [] | Some ids \<Rightarrow> ids)"

definition read_email :: "(string \<Rightarrow> mail option) \<Rightarrow> nat option \<Rightarrow> string list \<Rightarrow> mail list" where
  "read_email fetch max_count ids = List.map_filter fetch (case max_count of None \<Rightarrow> ids | Some n \<Rightarrow> take n ids)"

text \<open>
  \<open>parse_dns_email\<close>: a notification of failure carries the message it is about.  \<open>last_p\<close> is the text of the last
  paragraph of a body: no body, or a body that may have no paragraph.
\<close>

definition parse_dns_row ::
  "string \<Rightarrow> (string option \<Rightarrow> string option option) \<Rightarrow> mail \<Rightarrow> email_event list \<Rightarrow> email_event list result" where
  "parse_dns_row domain_name last_p m evs =
    (case ml_original m of
       None \<Rightarrow> Inl (AttributeError ''Email_ID'')
     | Some orig \<Rightarrow>
         (case Email_ID orig of
            None \<Rightarrow> Inr evs
          | Some eid \<Rightarrow>
              (case extract_email_id_from_msgid (Message_ID orig) domain_name of
                 None \<Rightarrow> Inr evs
               | Some found \<Rightarrow>
                   if found \<noteq> eid then Inr evs
                   else (case last_p (ml_html m) of
                       None \<Rightarrow> Inr evs
                     | Some None \<Rightarrow> Inl IndexError
                     | Some (Some body) \<Rightarrow>
                         (let code = smtp_error_code_of (take 10 body)
                          in Inr (evs @ [\<lparr>ee_description = get_error_description code, ee_email_id = eid,
                               ee_status = map_smtp_error_to_status code, ee_provider = get_email_provider_name (ml_from orig)\<rparr>]))))))"

definition parse_dns_email ::
  "string \<Rightarrow> (string option \<Rightarrow> string option option) \<Rightarrow> mail list \<Rightarrow> email_event list result" where
  "parse_dns_email domain_name last_p mails = rfold (parse_dns_row domain_name last_p) mails []"

text \<open>
  \<open>forwarded_email\<close>: an answer to, or a copy of, a message of ours.  Without the original, the id is looked for in the
  headers, where a list of parts has no id to extract; what is streamed in the end is the variable of the loop.
\<close>

definition forwarded_row :: "string \<Rightarrow> bool \<Rightarrow> mail \<Rightarrow> email_event option result" where
  "forwarded_row domain_name is_re m =
    (let verb = (if is_re then ''replied'' else ''forwarded'');
         who = (\<lambda>f. case f of None \<Rightarrow> ''None'' | Some s \<Rightarrow> s);
         event = (\<lambda>f gap eid. \<lparr>ee_description = who f @ '' has '' @ verb @ gap, ee_email_id = eid, ee_status = REPLIED,
           ee_provider = get_email_provider_name f\<rparr>)
     in case ml_original m of
          None \<Rightarrow>
            (if is_re then
               (case extract_email_id_from_msgid (In_Reply_To m) domain_name of
                  None \<Rightarrow> Inr None | Some eid \<Rightarrow> Inr (Some (event (ml_from m) '' to  the email'' eid)))
             else (case Get_Our_Last_Message_References domain_name m of
                     None \<Rightarrow> Inr None
                   | Some parts \<Rightarrow> Inr None))
        | Some orig \<Rightarrow>
            (case Email_ID orig of
               None \<Rightarrow> Inr None
             | Some eid \<Rightarrow>
                 if extract_email_id_from_msgid (Message_ID orig) domain_name = Some eid
                 then Inr (Some (event (ml_from orig) '' to the email'' eid)) else Inr None))"

definition forwarded_email :: "string \<Rightarrow> bool \<Rightarrow> mail list \<Rightarrow> email_event result" where
  "forwarded_email domain_name is_re mails =
    rbind (rfold (\<lambda>m last_event. rbind (forwarded_row domain_name is_re m) (\<lambda>e. Inr (case e of None \<Rightarrow> last_event | Some x \<Rightarrow> Some x))) mails None)
      (\<lambda>last_event. case last_event of None \<Rightarrow> Inl (UnboundLocalError ''event'') | Some e \<Rightarrow> Inr e)"

section \<open>What a message leaves behind\<close>

definition expected_event :: "email_meta \<Rightarrow> (nat \<Rightarrow> smtp_outcome) \<Rightarrow> nat \<Rightarrow> email_event option" where
  "expected_event md server i =
    (case (given_value (ed_email_id md) i, outcome_status (server i)) of
       (Some eid, Some (status, description)) \<Rightarrow> Some \<lparr>ee_description = description, ee_email_id = eid, ee_status = status,
          ee_provider = get_email_provider_name (Some (ed_to md ! i))\<rparr>
     | _ \<Rightarrow> None)"

definition expected_reply :: "email_meta \<Rightarrow> (nat \<Rightarrow> smtp_outcome) \<Rightarrow> nat \<Rightarrow> string \<times> string option" where
  "expected_reply md server i = (case message_id_of (ed_message_id md) i of Inl e \<Rightarrow> [] | Inr mid \<Rightarrow> mid, outcome_reply (server i))"

lemma outcome_status_no_error: "outcome_status r \<noteq> None \<Longrightarrow> outcome_error r = None"
  by (cases r) (simp_all add: outcome_status_def outcome_error_def)

lemma outcome_service_builded: "builded (outcome_service r s) \<longleftrightarrow> builded s \<and> r \<noteq> Server_disconnected"
  by (cases r) (simp_all add: outcome_service_def)

lemma send_one_regular:
  assumes "recipient_message md cs i = Inr m" "outcome_status (server i) \<noteq> None"
  shows "\<exists>st'. send_one md cs server i st = (None, st')
    \<and> ss_replies st' = ss_replies st @ [expected_reply md server i]
    \<and> ss_events st' = ss_events st @ (case expected_event md server i of None \<Rightarrow> [] | Some e \<Rightarrow> [e])
    \<and> builded (ss_service st') = (builded (ss_service st) \<and> server i \<noteq> Server_disconnected)"
proof -
  obtain status description where "outcome_status (server i) = Some (status, description)" using assms(2) by auto
  moreover have "message_id_of (ed_message_id md) i = Inr (the (map_of (ms_headers m) ''Message-ID''))"
    using own_headers [OF assms(1)] by blast
  ultimately show ?thesis
    using assms(1) outcome_status_no_error [OF assms(2)]
    by (cases "given_value (ed_email_id md) i")
      (simp_all add: send_one_def Let_def expected_event_def expected_reply_def outcome_service_builded)
qed

lemma send_rows_regular:
  assumes "\<forall>i \<in> set rows. (\<exists>m. recipient_message md cs i = Inr m) \<and> outcome_status (server i) \<noteq> None"
  shows "\<exists>st'. send_rows md cs server rows st = (None, st')
    \<and> ss_replies st' = ss_replies st @ map (expected_reply md server) rows
    \<and> ss_events st' = ss_events st @ List.map_filter (expected_event md server) rows
    \<and> builded (ss_service st') = (builded (ss_service st) \<and> Server_disconnected \<notin> server ` set rows)"
  using assms
proof (induction rows arbitrary: st)
  case (Cons i rows)
  then obtain m where "recipient_message md cs i = Inr m" "outcome_status (server i) \<noteq> None" by auto
  then obtain st1 where one: "send_one md cs server i st = (None, st1)"
    "ss_replies st1 = ss_replies st @ [expected_reply md server i]"
    "ss_events st1 = ss_events st @ (case expected_event md server i of None \<Rightarrow> [] | Some e \<Rightarrow> [e])"
    "builded (ss_service st1) = (builded (ss_service st) \<and> server i \<noteq> Server_disconnected)"
    using send_one_regular by blast
  obtain st2 where "send_rows md cs server rows st1 = (None, st2)"
    "ss_replies st2 = ss_replies st1 @ map (expected_reply md server) rows"
    "ss_events st2 = ss_events st1 @ List.map_filter (expected_event md server) rows"
    "builded (ss_service st2) = (builded (ss_service st1) \<and> Server_disconnected \<notin> server ` set rows)"
    using Cons.IH [of st1] Cons.prems by auto
  with one show ?case
    by (cases "expected_event md server i") (auto simp: List.map_filter_simps)
qed (simp add: List.map_filter_simps)

lemma every_answer:
  assumes "\<forall>i < length (ed_to md). (\<exists>m. recipient_message md cs i = Inr m) \<and> outcome_status (server i) \<noteq> None"
  shows "fst (send_message md cs server s) = Inr (map (expected_reply md server) [0..<length (ed_to md)],
      List.map_filter (expected_event md server) [0..<length (ed_to md)])
    \<and> builded (snd (send_message md cs server s)) = (builded s \<and> (\<forall>i < length (ed_to md). server i \<noteq> Server_disconnected))"
proof -
  let ?st = "\<lparr>ss_replies = [], ss_events = [], ss_status = None, ss_service = s\<rparr>"
  have "\<forall>i \<in> set [0..<length (ed_to md)]. (\<exists>m. recipient_message md cs i = Inr m) \<and> outcome_status (server i) \<noteq> None"
    using assms by simp
  from send_rows_regular [OF this, of ?st] obtain st' where
    "send_rows md cs server [0..<length (ed_to md)] ?st = (None, st')"
    "ss_replies st' = map (expected_reply md server) [0..<length (ed_to md)]"
    "ss_events st' = List.map_filter (expected_event md server) [0..<length (ed_to md)]"
    "builded (ss_service st') = (builded s \<and> Server_disconnected \<notin> server ` {0..<length (ed_to md)})"
    by auto
  moreover have "Server_disconnected \<notin> server ` {0..<length (ed_to md)} \<longleftrightarrow> (\<forall>i < length (ed_to md). server i \<noteq> Server_disconnected)"
    by (metis atLeastLessThan_iff image_iff le0)
  ultimately show ?thesis by (simp add: send_message_def)
qed

text \<open>C17: Every recipient is answered.  When the server answers each message in one of the ways the program knows, sending
  returns one reply for each recipient, in their order, and one event for each that is tracked, with the status
  of its own answer; and the service stays usable unless the server has hung up.\<close>

theorem every_recipient_answered:
  assumes "\<forall>i < length (ed_to md). (\<exists>m. recipient_message md cs i = Inr m) \<and> outcome_status (server i) \<noteq> None"
  shows "fst (send_message md cs server s) = Inr (map (expected_reply md server) [0..<length (ed_to md)],
      List.map_filter (expected_event md server) [0..<length (ed_to md)])
    \<and> builded (snd (send_message md cs server s)) = (builded s \<and> (\<forall>i < length (ed_to md). server i \<noteq> Server_disconnected))"
  using every_answer [OF assms] by blast

definition two_recipients :: email_meta where
  "two_recipients = \<lparr>ed_subject = ''Hi'', ed_from = ''me@a.io'', ed_to = [''x@gmail.com'', ''y@b.org''],
    ed_message_id = Given (Each [''<1.2.e1@a.io>'', ''<1.3.e2@a.io>'']), ed_email_id = Each [''e1'', ''e2''], ed_contact = Absent,
    ed_disposition = None, ed_receipt = None, ed_as_individual = True\<rparr>"

theorem every_recipient_answered_witness:
  "let r = send_message two_recipients (Single None (Some ''Hello'')) (\<lambda>i. if i = 0 then Accepted ''{}'' else Server_disconnected) (new_service ''SMTP'' None)
   in (case fst r of Inl e \<Rightarrow> False
       | Inr (rs, evs) \<Rightarrow> map ee_status evs = [SENT, FAILED] \<and> map fst rs = [''<1.2.e1@a.io>'', ''<1.3.e2@a.io>''])
     \<and> \<not> builded (snd r)"
proof -
  let ?server = "\<lambda>i. if i = 0 then Accepted ''{}'' else Server_disconnected" and ?cs = "Single None (Some ''Hello'')"
  have "\<forall>i < length (ed_to two_recipients).
      (\<exists>m. recipient_message two_recipients ?cs i = Inr m) \<and> outcome_status (?server i) \<noteq> None"
    by (auto simp: two_recipients_def less_Suc_eq recipient_message_def message_id_of_def value_in_def content_of_def outcome_status_def)
  from every_recipient_answered [OF this, of "new_service ''SMTP'' None"] show ?thesis
    by (simp add: two_recipients_def List.map_filter_simps expected_event_def expected_reply_def message_id_of_def value_in_def
        given_value_def outcome_status_def new_service_def Let_def)
qed

section \<open>Messages that come back\<close>

text \<open>C40: A message of ours that comes back is not recognised: the header of the e-mail id is read under another name than it
  is written under.  Where every mail of a mailbox carries as its original a message that was made for a recipient, the
  pass over notifications of failure gives no events, whatever they say, and the pass over answers raises because it
  never found an event.\<close>

theorem own_messages_not_recognised:
  assumes "\<forall>m \<in> set mails. \<exists>md cs i msg sender html orig. recipient_message md cs i = Inr msg
      \<and> ml_original m = Some (Mail (ms_headers msg) sender html orig)"
  shows "parse_dns_email dn last_p mails = Inr [] \<and> forwarded_email dn is_re mails = Inl (UnboundLocalError ''event'')"
proof -
  have no_id: "\<exists>orig. ml_original m = Some orig \<and> Email_ID orig = None" if "m \<in> set mails" for m
    using assms that own_headers by blast
  have "rfold (parse_dns_row dn last_p) ms [] = Inr []" if "set ms \<subseteq> set mails" for ms
    using that no_id by (induction ms) (fastforce simp: parse_dns_row_def)+
  moreover have "rfold (\<lambda>m last_event. rbind (forwarded_row dn is_re m) (\<lambda>e. Inr (case e of None \<Rightarrow> last_event | Some x \<Rightarrow> Some x))) ms None
      = Inr None" if "set ms \<subseteq> set mails" for ms
    using that no_id by (induction ms) (fastforce simp: forwarded_row_def Let_def)+
  ultimately show ?thesis by (simp add: parse_dns_email_def forwarded_email_def)
qed

theorem own_messages_not_recognised_witness:
  "\<exists>msg. recipient_message two_recipients (Single None None) 0 = Inr msg
    \<and> parse_dns_email ''a.io'' (\<lambda>b. Some (Some ''550 5.1.1 unknown'')) [Mail [] None None (Some (Mail (ms_headers msg) None None None))] = Inr []"
proof -
  obtain msg where msg: "recipient_message two_recipients (Single None None) 0 = Inr msg"
    by (simp add: recipient_message_def two_recipients_def message_id_of_def value_in_def content_of_def)
  then have "\<forall>m \<in> set [Mail [] None None (Some (Mail (ms_headers msg) None None None))].
      \<exists>md cs i msg sender html orig. recipient_message md cs i = Inr msg \<and> ml_original m = Some (Mail (ms_headers msg) sender html orig)"
    by auto
  from own_messages_not_recognised [OF this] msg show ?thesis by blast
qed

text \<open>Behind the mock, without a connection there is nothing to take the events of: the caller would get TypeError.\<close>

lemma unconnected_email_raises:
  "conn = Inr False \<or> conn = Inr True \<and> auth = Inr False \<Longrightarrow> send_email_body conn auth md cs server s = ((Inl TypeError, []), s)"
  by (auto simp: send_email_body_def lifecycle_def event_wrapper_def)

text \<open>A message is marked as deleted only after it was copied.\<close>

lemma copied_before_deleted:
  "copy_email bs copied i target hard = (e, cmds) \<Longrightarrow> Store i flags \<in> set cmds \<Longrightarrow>
    copied \<and> dict_has bs target \<and> hd cmds = Copy i target"
  by (auto simp: copy_email_def split: if_splits)

text \<open>A service that is built with OAuth never gets a connection of its own.\<close>

lemma oauth_never_authenticates: "smtp_authenticate build False OAuth v = Inl (AttributeError ''mailOAuth'')"
  by (simp add: smtp_authenticate_def first_error_def)

end
