(* ===== verification/Phone_Protocol.thy ===== *)
theory Phone_Protocol
  imports Email_Protocol Helper_Util Scheduler_Model
begin

text \<open>
  services/ntfr/twilio_service.py, interface/twilio.py, the Twilio tracker of depends/class_dep.py and
  models/otp_model.py: the accounts and the choice of the main one, texts and calls, one-time passwords on the
  phone.  The API of Twilio, the validators of URLs and of phone numbers are parameters.
\<close>

section \<open>Accounts\<close>

datatype profile_state = P_CREATED | P_ACTIVE | P_BLOCKED | P_INACTIVE | P_EXPIRED

text \<open>\<open>getenv\<close> strips a variable and drops its quotes; \<open>config[key]\<close> reads it as it is.\<close>

definition config_getenv :: "string option \<Rightarrow> string option" where
  "config_getenv v = (case v of None \<Rightarrow> None
     | Some s \<Rightarrow> (let t = filter (\<lambda>c. c \<noteq> CHR 0x22) (strip is_blank s) in if t = [] then None else Some t))"

record twilio_env =
  env_mode :: "string option"
  env_test_url :: "string option"

text \<open>The API of an account: its status, its balance, or the exception that asking for it raises.\<close>

record twilio_profile =
  tp_id :: "string option"
  tp_twilio :: bool
  tp_main :: bool
  tp_state :: profile_state
  tp_url :: string
  tp_token :: "string result"
  tp_status :: "string result"
  tp_balance :: "rat result"

text \<open>The URL of an account has no text while it is the Ellipsis of \<open>__init__\<close>, or the None of a missing variable.\<close>

record twilio_account =
  ta_id :: "string option"
  ta_main :: bool
  ta_service :: service
  ta_url :: "string option"

definition account_verify :: "twilio_env \<Rightarrow> profile_state \<Rightarrow> exn option" where
  "account_verify env st =
    (if (case config_getenv (env_mode env) of None \<Rightarrow> ''prod'' | Some m \<Rightarrow> m) \<noteq> ''prod'' \<and> config_getenv (env_test_url env) = None
     then Some (BuildFailureError (Some ''TWILIO_TEST_URL must be set in non-prod mode''))
     else if st \<noteq> P_ACTIVE then Some (BuildFailureError (Some ''Profile is not active'')) else None)"

text \<open>
  The URL the account is built with.  What the API raises is turned into a failure of the build, whose text is left
  out; a negative balance names the class \<open>BuildSkipError\<close> without raising it.
\<close>

definition account_build :: "twilio_env \<Rightarrow> twilio_profile \<Rightarrow> string option result" where
  "account_build env p =
    rbind (tp_token p) (\<lambda>tok.
      (case rbind (tp_status p) (\<lambda>status. if status \<noteq> ''active'' then Inl (BuildFailureError None) else tp_balance p) of
         Inl e \<Rightarrow> Inl (if is_Exception e then BuildFailureError None else e)
       | Inr balance \<Rightarrow> Inr (if env_mode env = Some ''prod'' then Some (tp_url p) else env_test_url env)))"

definition account_builder :: "bool \<Rightarrow> bool \<Rightarrow> bool \<Rightarrow> int \<Rightarrow> twilio_env \<Rightarrow> twilio_profile \<Rightarrow> exn option \<times> twilio_account" where
  "account_builder context_sync scope force build_state env p =
    (case builder context_sync scope (\<lambda>s. (account_verify env (tp_state p), s))
         (\<lambda>_ s. (case account_build env p of Inl e \<Rightarrow> Some e | Inr _ \<Rightarrow> None, s)) force build_state
         (new_service ''TwilioAccountMiniService'' (tp_id p)) of
       (e, s) \<Rightarrow> (e, \<lparr>ta_id = tp_id p, ta_main = tp_main p, ta_service = s,
          ta_url = (if builded s then (case account_build env p of Inr u \<Rightarrow> u | Inl _ \<Rightarrow> None) else None)\<rparr>))"

record twilio_state =
  tw_main :: "twilio_account option"
  tw_main_set :: bool
  tw_first_available :: "twilio_account option"
  tw_counter :: status_counter
  tw_store :: "twilio_account store"

definition is_acceptable :: "twilio_account \<Rightarrow> bool" where
  "is_acceptable a \<longleftrightarrow> service_status (ta_service a) \<in> Some ` set acceptable_states"

definition take_account :: "twilio_account \<Rightarrow> twilio_state \<Rightarrow> exn option \<times> twilio_state" where
  "take_account a s =
    (let s = (if is_acceptable a \<and> tw_first_available s = None then s\<lparr>tw_first_available := Some a\<rparr> else s);
         s = (if ta_main a \<and> is_acceptable a then s\<lparr>tw_main := Some a, tw_main_set := True\<rparr> else s);
         s = s\<lparr>tw_counter := status_count (ta_service a) (tw_counter s)\<rparr>
     in (case store_add (ta_id a) a (tw_store s) of
           Inl e \<Rightarrow> (Some e, s)
         | Inr st \<Rightarrow> (None, s\<lparr>tw_store := st\<rparr>)))"

text \<open>\<open>mk\<close> builds the mini service of a profile, as \<open>account_builder\<close> does.\<close>

fun build_accounts :: "(twilio_profile \<Rightarrow> exn option \<times> twilio_account) \<Rightarrow> twilio_profile list \<Rightarrow> twilio_state \<Rightarrow> exn option \<times> twilio_state" where
  "build_accounts mk [] s = (None, s)"
| "build_accounts mk (p # ps) s =
    (if \<not> tp_twilio p then build_accounts mk ps s
     else if tp_id p = None then (Some MiniServiceCannotBeIdentifiedError, s)
     else case mk p of
         (Some e, a) \<Rightarrow> (Some e, s)
       | (None, a) \<Rightarrow> (case take_account a s of (Some e, s) \<Rightarrow> (Some e, s) | (None, s) \<Rightarrow> build_accounts mk ps s))"

definition twilio_build :: "(twilio_profile \<Rightarrow> exn option \<times> twilio_account) \<Rightarrow> twilio_profile list \<Rightarrow> exn option \<times> twilio_state" where
  "twilio_build mk ps =
    (case build_accounts mk ps \<lparr>tw_main = None, tw_main_set = False, tw_first_available = None,
         tw_counter = new_counter (length (filter tp_twilio ps)), tw_store = []\<rparr> of
       (Some e, s) \<Rightarrow> (Some e, s)
     | (None, s) \<Rightarrow>
         (let s = (if \<not> tw_main_set s \<or> (case tw_main s of None \<Rightarrow> False | Some a \<Rightarrow> \<not> is_acceptable a)
                   then s\<lparr>tw_main := tw_first_available s\<rparr> else s)
          in (case tw_main s of None \<Rightarrow> (Some (BuildFailureError None), s) | Some a \<Rightarrow> (manager_build (tw_counter s) False, s))))"

text \<open>\<open>pingService\<close> returns the coroutine of its superclass, which nothing awaits: what it would do never happens.\<close>

datatype 'a ping_value = Value 'a | Not_awaited "'a result"

definition twilio_ping :: "twilio_account option \<Rightarrow> bool \<Rightarrow> string option \<Rightarrow> (service \<Rightarrow> 'a result) \<Rightarrow> service store \<Rightarrow> 'a option ping_value result" where
  "twilio_ping mn as_manager profile ping st =
    (if mn = None then Inl ServiceNotAvailableError else Inr (Not_awaited (manager_ping as_manager profile ping st)))"

definition verify_twilio_token :: "string option \<Rightarrow> (string \<Rightarrow> bool) \<Rightarrow> exn option" where
  "verify_twilio_token signature validate =
    (case signature of
       None \<Rightarrow> Some (HTTPException 400 ''Twilio Signature not available'')
     | Some sg \<Rightarrow> if sg = [] then Some (HTTPException 400 ''Twilio Signature not available'')
         else if \<not> validate sg then Some (HTTPException 403 ''Invalid Twilio Signature'') else None)"

definition parse_to_phone_format :: "(string \<Rightarrow> bool) \<Rightarrow> string \<Rightarrow> string result" where
  "parse_to_phone_format phone_number_validator n =
    rbind (phone_parser n None) (\<lambda>f. if \<not> phone_number_validator f then Inl (OtherException ''TwilioPhoneNumberParseError'') else Inr f)"

definition parse_phone_and_query :: "(string \<Rightarrow> bool) \<Rightarrow> string \<Rightarrow> bool \<Rightarrow> bool \<Rightarrow> (string \<times> string list) result" where
  "parse_phone_and_query valid n carrier caller_name =
    rbind (parse_to_phone_format valid n) (\<lambda>f.
      Inr (f, (if carrier then [''carrier''] else []) @ (if caller_name then [''caller_name''] else [])))"

definition phone_lookup ::
  "(string \<Rightarrow> bool) \<Rightarrow> (string \<times> string list \<Rightarrow> 'r result) \<Rightarrow> twilio_account option \<Rightarrow> string \<Rightarrow> bool \<Rightarrow> bool \<Rightarrow> 'r result" where
  "phone_lookup valid fetch mn n carrier caller_name =
    (case mn of None \<Rightarrow> Inl (AttributeError ''phone_lookup'')
     | Some a \<Rightarrow> rbind (parse_phone_and_query valid n carrier caller_name) fetch)"

section \<open>Texts and calls\<close>

text \<open>Adding a text to an attribute that may hold something else is a TypeError.\<close>

definition logs_url :: "twilio_account \<Rightarrow> string result" where
  "logs_url a = (case ta_url a of None \<Rightarrow> Inl TypeError | Some u \<Rightarrow> Inr (u @ ''/status/logs''))"

definition partial_results_url :: "twilio_account \<Rightarrow> string result" where
  "partial_results_url a = (case ta_url a of None \<Rightarrow> Inl TypeError | Some u \<Rightarrow> Inr (u @ ''/status/partial-results''))"

definition sms_callback_type :: "string option" where "sms_callback_type = Some ''?type=sms''"

text \<open>\<open>CallService\<close> does not set the type of its callback: it is still an Ellipsis.\<close>

definition call_callback_type :: "string option" where "call_callback_type = None"

definition set_url :: "string option \<Rightarrow> string \<Rightarrow> string option \<Rightarrow> string option \<Rightarrow> string result" where
  "set_url callback_type callback subject_id tracking =
    (case callback_type of
       None \<Rightarrow> Inl TypeError
     | Some ct \<Rightarrow> Inr (callback @ ct @ (case subject_id of None \<Rightarrow> [] | Some i \<Rightarrow> ''&subject_id='' @ i)
         @ (case tracking of None \<Rightarrow> [] | Some t \<Rightarrow> ''twilio_tracking_id='' @ t)))"

text \<open>What Twilio makes of a request, and what the variable \<open>result\<close> holds after it.\<close>

datatype 'm api_answer = Made_by_api 'm | Rest_error string | Other_error

datatype ('m, 'd) api_result = Api_instance 'm | Api_extracted 'd | Api_none

record phone_event =
  pe_status :: string
  pe_description :: string

definition answer_result :: "('m \<Rightarrow> 'd) \<Rightarrow> 'm api_answer \<Rightarrow> ('m, 'd) api_result" where
  "answer_result response_extractor a = (case a of Made_by_api m \<Rightarrow> Api_extracted (response_extractor m) | _ \<Rightarrow> Api_none)"

definition answer_event :: "'m api_answer \<Rightarrow> phone_event" where
  "answer_event a =
    (case a of
       Made_by_api m \<Rightarrow> \<lparr>pe_status = ''SENT'', pe_description = ''Sent request to third-party API''\<rparr>
     | Rest_error msg \<Rightarrow> \<lparr>pe_status = ''FAILED'', pe_description = ''Third Party Api could not process the request message: '' @ msg\<rparr>
     | Other_error \<Rightarrow> \<lparr>pe_status = ''FAILED'', pe_description = ''Failed to send the request''\<rparr>)"

definition is_api_instance :: "('m, 'd) api_result \<Rightarrow> bool" where
  "is_api_instance r \<longleftrightarrow> (case r of Api_instance m \<Rightarrow> True | _ \<Rightarrow> False)"

definition phone_events :: "per_recipient \<Rightarrow> nat \<Rightarrow> ('m, 'd) api_result \<Rightarrow> 'm api_answer \<Rightarrow> phone_event list" where
  "phone_events tracking i r a = (if given_value tracking i \<noteq> None \<and> is_api_instance r then [answer_event a] else [])"

text \<open>
  The requests that reached the API, each with its recipient and its callback, and what the function returns, before
  \<open>EventWrapper\<close>.  The function that sends texts returns from within its loop; that of calls after it.
\<close>

type_synonym ('m, 'd) sent = "(('m, 'd) api_result list \<times> phone_event list) option result \<times> (string \<times> string) list"

fun send_sms_loop ::
  "('m \<Rightarrow> 'd) \<Rightarrow> (string \<Rightarrow> 'm api_answer) \<Rightarrow> twilio_account \<Rightarrow> string option \<Rightarrow> per_recipient \<Rightarrow> (nat \<times> string) list \<Rightarrow> ('m, 'd) sent" where
  "send_sms_loop response_extractor api acct subject_id tracking [] = (Inr None, [])"
| "send_sms_loop response_extractor api acct subject_id tracking ((i, to) # rest) =
    (case rbind (logs_url acct) (\<lambda>l. set_url sms_callback_type l subject_id (value_in tracking i)) of
       Inl e \<Rightarrow> (Inl e, [])
     | Inr url \<Rightarrow> (let r = answer_result response_extractor (api to)
                   in (Inr (Some ([r], phone_events tracking i r (api to))), [(to, url)])))"

fun create_call_loop ::
  "string option \<Rightarrow> ('m \<Rightarrow> 'd) \<Rightarrow> (string \<Rightarrow> 'm api_answer) \<Rightarrow> twilio_account \<Rightarrow> string option \<Rightarrow> per_recipient \<Rightarrow> (nat \<times> string) list
    \<Rightarrow> ('m, 'd) api_result list \<times> phone_event list \<Rightarrow> (string \<times> string) list \<Rightarrow> ('m, 'd) sent" where
  "create_call_loop ct response_extractor api acct subject_id tracking [] acc reqs = (Inr (Some acc), reqs)"
| "create_call_loop ct response_extractor api acct subject_id tracking ((i, to) # rest) acc reqs =
    (case rbind (logs_url acct) (\<lambda>l. set_url ct l subject_id (value_in tracking i)) of
       Inl e \<Rightarrow> (Inl e, reqs)
     | Inr url \<Rightarrow> (let r = answer_result response_extractor (api to)
                   in create_call_loop ct response_extractor api acct subject_id tracking rest
                        (fst acc @ [r], snd acc @ phone_events tracking i r (api to)) (reqs @ [(to, url)])))"

definition send_sms ::
  "twilio_account store \<Rightarrow> ('m \<Rightarrow> 'd) \<Rightarrow> (string \<Rightarrow> 'm api_answer) \<Rightarrow> string list \<Rightarrow> string option \<Rightarrow> per_recipient \<Rightarrow> string option
    \<Rightarrow> (('m, 'd) api_result list result \<times> phone_event list) \<times> (string \<times> string) list" where
  "send_sms st response_extractor api tos subject_id tracking profile =
    (case store_get profile st of
       Inl e \<Rightarrow> (event_wrapper (Inl e), [])
     | Inr a \<Rightarrow> apfst event_wrapper (send_sms_loop response_extractor api a subject_id tracking (enumerate 0 tos)))"

definition create_calls ::
  "string option \<Rightarrow> twilio_account store \<Rightarrow> ('m \<Rightarrow> 'd) \<Rightarrow> (string \<Rightarrow> 'm api_answer) \<Rightarrow> string list \<Rightarrow> string option \<Rightarrow> per_recipient \<Rightarrow> string option
    \<Rightarrow> (('m, 'd) api_result list result \<times> phone_event list) \<times> (string \<times> string) list" where
  "create_calls ct st response_extractor api tos subject_id tracking profile =
    (case store_get profile st of
       Inl e \<Rightarrow> (event_wrapper (Inl e), [])
     | Inr a \<Rightarrow> apfst event_wrapper (create_call_loop ct response_extractor api a subject_id tracking (enumerate 0 tos) ([], []) []))"

text \<open>A one-time password is sent to one recipient, whose text the loop of the calls takes character by character.\<close>

definition otp_message :: "twilio_account store \<Rightarrow> (string \<Rightarrow> 'm api_answer) \<Rightarrow> string \<Rightarrow> string option \<Rightarrow> ('m api_answer \<times> string) result" where
  "otp_message st api to profile =
    rbind (store_get profile st) (\<lambda>a. rbind (logs_url a) (\<lambda>l. rbind (set_url sms_callback_type l None None) (\<lambda>url. Inr (api to, url))))"

definition otp_call ::
  "twilio_account store \<Rightarrow> ('m \<Rightarrow> 'd) \<Rightarrow> (string \<Rightarrow> 'm api_answer) \<Rightarrow> string \<Rightarrow> string option \<Rightarrow> ('m, 'd) api_result result" where
  "otp_call st response_extractor api to profile =
    rbind (store_get profile st) (\<lambda>a.
      (case fst (create_call_loop call_callback_type response_extractor api a None (Each []) (enumerate 0 (map (\<lambda>c. [c]) to)) ([], []) []) of
         Inl e \<Rightarrow> Inl e
       | Inr None \<Rightarrow> Inl TypeError
       | Inr (Some (rs, evs)) \<Rightarrow> (case rs of [] \<Rightarrow> Inl IndexError | r # _ \<Rightarrow> Inr r)))"

text \<open>
  What the routes call: the functions above under \<open>@Mock()\<close>, in a state that holds the requests that have reached
  the API.  Nothing reaches it, and the caller gets None.
\<close>

definition send_custom_sms ::
  "twilio_account store \<Rightarrow> ('m \<Rightarrow> 'd) \<Rightarrow> (string \<Rightarrow> 'm api_answer) \<Rightarrow> string list \<Rightarrow> string option \<Rightarrow> per_recipient \<Rightarrow> string option
    \<Rightarrow> (string \<times> string) list \<Rightarrow> (('m, 'd) api_result list result \<times> phone_event list) option \<times> (string \<times> string) list" where
  "send_custom_sms st response_extractor api tos subject_id tracking profile =
    mocked (\<lambda>reqs. apsnd (\<lambda>rs. reqs @ rs) (send_sms st response_extractor api tos subject_id tracking profile))"

definition send_voice_call ::
  "twilio_account store \<Rightarrow> ('m \<Rightarrow> 'd) \<Rightarrow> (string \<Rightarrow> 'm api_answer) \<Rightarrow> string list \<Rightarrow> string option \<Rightarrow> per_recipient \<Rightarrow> string option
    \<Rightarrow> (string \<times> string) list \<Rightarrow> (('m, 'd) api_result list result \<times> phone_event list) option \<times> (string \<times> string) list" where
  "send_voice_call st response_extractor api tos subject_id tracking profile =
    mocked (\<lambda>reqs. apsnd (\<lambda>rs. reqs @ rs) (create_calls call_callback_type st response_extractor api tos subject_id tracking profile))"

definition send_otp ::
  "twilio_account store \<Rightarrow> (string \<Rightarrow> 'm api_answer) \<Rightarrow> string \<Rightarrow> string option \<Rightarrow> (string \<times> string) list
    \<Rightarrow> 'm api_answer result option \<times> (string \<times> string) list" where
  "send_otp st api to profile =
    mocked (\<lambda>reqs. case otp_message st api to profile of Inl e \<Rightarrow> (Inl e, reqs) | Inr (r, url) \<Rightarrow> (Inr r, reqs @ [(to, url)]))"

definition send_otp_voice_call ::
  "twilio_account store \<Rightarrow> ('m \<Rightarrow> 'd) \<Rightarrow> (string \<Rightarrow> 'm api_answer) \<Rightarrow> string \<Rightarrow> string option \<Rightarrow> (string \<times> string) list
    \<Rightarrow> ('m, 'd) api_result result option \<times> (string \<times> string) list" where
  "send_otp_voice_call st response_extractor api to profile =
    mocked (\<lambda>reqs. (otp_call st response_extractor api to profile, reqs))"

section \<open>Tracking\<close>

record phone_tracking =
  pt_id :: string
  pt_contact :: "string option"
  pt_recipient :: string
  pt_sender :: "string option"
  pt_status :: string

definition phone_track_row ::
  "string \<Rightarrow> string option result \<Rightarrow> (nat \<Rightarrow> string) \<Rightarrow> per_recipient \<Rightarrow> nat \<times> string \<Rightarrow> (string \<times> phone_event \<times> phone_tracking) result" where
  "phone_track_row desc sender new_id contacts = (\<lambda>(i, to).
    rbind sender (\<lambda>from.
      Inr (new_id i, \<lparr>pe_status = ''RECEIVED'', pe_description = desc\<rparr>,
        \<lparr>pt_id = new_id i, pt_contact = value_in contacts i, pt_recipient = to, pt_sender = from, pt_status = ''RECEIVED''\<rparr>)))"

text \<open>The texts have a private \<open>_from\<close>; reading \<open>from_\<close> of them is an AttributeError.\<close>

definition pipe_sms_track_event_data ::
  "bool \<Rightarrow> (nat \<Rightarrow> string) \<Rightarrow> per_recipient \<Rightarrow> string list \<Rightarrow> (string \<times> phone_event \<times> phone_tracking) list result" where
  "pipe_sms_track_event_data will_track new_id contacts tos =
    (if will_track then rmap (phone_track_row ''SMS sent successfully'' (Inl (AttributeError ''from_'')) new_id contacts) (enumerate 0 tos)
     else Inr [])"

definition pipe_call_track_event_data ::
  "bool \<Rightarrow> string option \<Rightarrow> (nat \<Rightarrow> string) \<Rightarrow> per_recipient \<Rightarrow> string list \<Rightarrow> (string \<times> phone_event \<times> phone_tracking) list result" where
  "pipe_call_track_event_data will_track from new_id contacts tos =
    (if will_track then rmap (phone_track_row ''Call initiated successfully'' (Inr from) new_id contacts) (enumerate 0 tos)
     else Inr [])"

section \<open>One-time passwords\<close>

datatype verb_value = Verb_text string | Verb_int int

record verb =
  vb_type :: string
  vb_value :: verb_value

text \<open>\<open>check_value\<close> of a verb: the test on the text of \<open>say\<close> is the wrong way round.\<close>

definition check_value :: "(verb_value \<Rightarrow> bool) \<Rightarrow> verb \<Rightarrow> verb result" where
  "check_value url_validator v =
    (if vb_type v = ''say'' then
       (case vb_value v of
          Verb_text [] \<Rightarrow> Inr (v\<lparr>vb_value := Verb_text []\<rparr>)
        | Verb_int n \<Rightarrow> if n = 0 then Inl TypeError else Inl ValueError
        | _ \<Rightarrow> Inl ValueError)
     else if vb_type v = ''play'' then (if \<not> url_validator (vb_value v) then Inl ValueError else Inr v)
     else if vb_type v = ''pause'' then (case vb_value v of Verb_int n \<Rightarrow> Inr v | _ \<Rightarrow> Inl ValueError)
     else Inl ValueError)"

definition otp_digits :: string where "otp_digits = ''0123456789''"

definition letter_to_number :: "(char, char) dict" where
  "letter_to_number = zip ''ABCDEFGHIJKLMNOPQRSTUVWXYZ'' ''22233344455566677778889999''"

definition otp_char :: "char \<Rightarrow> char result" where
  "otp_char v = (if v \<in> set otp_digits then Inr v else
     case map_of letter_to_number (upper_char v) of None \<Rightarrow> Inl (KeyError [upper_char v]) | Some d \<Rightarrow> Inr d)"

definition check_len_otp :: "nat option \<Rightarrow> string \<Rightarrow> string result" where
  "check_len_otp num_digits otp =
    (case rmap otp_char otp of
       Inl e \<Rightarrow> Inl ValueError
     | Inr otp \<Rightarrow> if Some (length otp) \<noteq> num_digits then Inl ValueError else Inr otp)"

record gather_model =
  gm_otp :: string
  gm_service :: "string option"
  gm_language :: string
  gm_finish_on_key :: string
  gm_num_digits :: "nat option"
  gm_remove_base :: bool
  gm_instructions :: "verb list"
  gm_finish_key_phrase :: bool
  gm_no_input :: "string option"

datatype voice = Say verb_value string | Play verb_value | Pause verb_value | Gather string string "voice list"

definition verb_voice :: "string \<Rightarrow> verb \<Rightarrow> voice list" where
  "verb_voice lang v =
    (if vb_type v = ''say'' then [Say (vb_value v) lang] else if vb_type v = ''play'' then [Play (vb_value v)]
     else if vb_type v = ''pause'' then [Pause (vb_value v)] else [])"

definition add_instruction_when_gather :: "gather_model \<Rightarrow> string \<Rightarrow> string \<Rightarrow> string \<Rightarrow> voice list" where
  "add_instruction_when_gather m srv action input_type =
    (let lang = gm_language m;
         inner = concat (map (verb_voice lang) (gm_instructions m))
           @ (if \<not> gm_remove_base m
              then [Say (Verb_text (''Hi, please '' @ (if input_type = ''speech'' then ''say the phrase provided'' else ''enter the digits of your OTP'')
                     @ '' for the service '' @ srv @ ''.'')) lang] else [])
           @ (if gm_finish_key_phrase m
              then [Say (Verb_text (''Press '' @ gm_finish_on_key m @ '' when finished ''
                     @ (if input_type = ''dtmf'' then ''saying the otp phrase'' else ''entered the digits.''))) lang] else []);
         last_words = (case gm_no_input m of None \<Rightarrow> ''We could not verify the otp at the given please retry later''
           | Some t \<Rightarrow> if t = [] then ''We could not verify the otp at the given please retry later'' else t)
     in [Gather input_type action inner, Say (Verb_text last_words) lang])"

text \<open>\<open>gather_url\<close> is a method, not a property: adding a text to it raises.\<close>

datatype attribute = Bound_method string | Text_attribute string

definition gather_url :: "twilio_account \<Rightarrow> attribute" where
  "gather_url a = Bound_method ''gather_url''"

definition attribute_add :: "attribute \<Rightarrow> string \<Rightarrow> string result" where
  "attribute_add x t = (case x of Bound_method n \<Rightarrow> Inl TypeError | Text_attribute s \<Rightarrow> Inr (s @ t))"

definition gather_service :: "gather_model \<Rightarrow> string" where
  "gather_service m = (case gm_service m of None \<Rightarrow> ''-1'' | Some s \<Rightarrow> if s = [] then ''-1'' else s)"

definition gather_dtmf :: "gather_model \<Rightarrow> string \<Rightarrow> string \<Rightarrow> twilio_account \<Rightarrow> voice list result" where
  "gather_dtmf m subject_id request_id a =
    rbind (attribute_add (gather_url a) ''/dtmf'') (\<lambda>url.
      Inr (add_instruction_when_gather m (gather_service m)
        (url @ ''?otp='' @ gm_otp m @ ''&return_url=-1&subject_id='' @ subject_id @ ''&hangup=true&request_id='' @ request_id
          @ ''&maxDigits='' @ (case gm_num_digits m of None \<Rightarrow> ''None'' | Some n \<Rightarrow> nat_str n)) ''dtmf''))"

text \<open>\<open>gather_speech\<close> leaves out the kind of input of the last call, which is then a TypeError of its own.\<close>

definition gather_speech :: "gather_model \<Rightarrow> string \<Rightarrow> string \<Rightarrow> twilio_account \<Rightarrow> voice list result" where
  "gather_speech m subject_id request_id a =
    rbind (partial_results_url a) (\<lambda>partial. rbind (attribute_add (gather_url a) ''/speech'') (\<lambda>url. Inl TypeError))"

section \<open>The main account\<close>

definition built_accounts :: "(twilio_profile \<Rightarrow> exn option \<times> twilio_account) \<Rightarrow> twilio_profile list \<Rightarrow> twilio_account list" where
  "built_accounts mk ps = map (\<lambda>p. snd (mk p)) (filter tp_twilio ps)"

abbreviation main_ready :: "twilio_account \<Rightarrow> bool" where
  "main_ready a \<equiv> ta_main a \<and> is_acceptable a"

lemma take_account_new:
  assumes "ta_id a \<noteq> None" "ta_id a \<notin> fst ` set (tw_store s)"
  shows "take_account a s = (None, \<lparr>
     tw_main = (if main_ready a then Some a else tw_main s), tw_main_set = (main_ready a \<or> tw_main_set s),
     tw_first_available = (if is_acceptable a \<and> tw_first_available s = None then Some a else tw_first_available s),
     tw_counter = status_count (ta_service a) (tw_counter s), tw_store = tw_store s @ [(ta_id a, a)]\<rparr>)"
  using assms by (cases s) (auto simp: take_account_def store_add_def Let_def dict_has_iff update_new)

definition last_main :: "twilio_account option \<Rightarrow> twilio_account list \<Rightarrow> twilio_account option" where
  "last_main m as = fold (\<lambda>a m. if main_ready a then Some a else m) as m"

definition first_ready :: "twilio_account option \<Rightarrow> twilio_account list \<Rightarrow> twilio_account option" where
  "first_ready f as = fold (\<lambda>a f. if is_acceptable a \<and> f = None then Some a else f) as f"

text \<open>The profiles whose mini services are built without an exception, under ids of their own.\<close>

definition buildable :: "(twilio_profile \<Rightarrow> exn option \<times> twilio_account) \<Rightarrow> twilio_profile list \<Rightarrow> bool" where
  "buildable mk ps \<longleftrightarrow>
    (\<forall>p\<in>set (filter tp_twilio ps). tp_id p \<noteq> None \<and> fst (mk p) = None \<and> ta_id (snd (mk p)) = tp_id p)
    \<and> distinct (map tp_id (filter tp_twilio ps))"

lemma build_accounts_all:
  assumes "buildable mk ps" "tp_id ` set (filter tp_twilio ps) \<inter> fst ` set (tw_store s) = {}"
  shows "build_accounts mk ps s = (None, \<lparr>
     tw_main = last_main (tw_main s) (built_accounts mk ps),
     tw_main_set = (tw_main_set s \<or> list_ex main_ready (built_accounts mk ps)),
     tw_first_available = first_ready (tw_first_available s) (built_accounts mk ps),
     tw_counter = fold status_count (map ta_service (built_accounts mk ps)) (tw_counter s),
     tw_store = tw_store s @ map (\<lambda>a. (ta_id a, a)) (built_accounts mk ps)\<rparr>)"
  using assms
proof (induction ps arbitrary: s)
  case Nil
  then show ?case by (cases s) (simp add: built_accounts_def last_main_def first_ready_def)
next
  case (Cons p ps)
  note rest = built_accounts_def last_main_def first_ready_def
  show ?case
  proof (cases "tp_twilio p")
    case False
    with Cons show ?thesis by (simp add: buildable_def built_accounts_def)
  next
    case True
    obtain a where mk: "mk p = (None, a)" and a: "ta_id a = tp_id p" and id: "tp_id p \<noteq> None"
      using Cons.prems(1) True by (cases "mk p") (auto simp: buildable_def)
    have new: "ta_id a \<notin> fst ` set (tw_store s)" using Cons.prems(2) True a by auto
    define t where "t = snd (take_account a s)"
    have new': "take_account a s = (None, t)" and t: "tw_main t = (if main_ready a then Some a else tw_main s)"
      "tw_main_set t = (main_ready a \<or> tw_main_set s)"
      "tw_first_available t = (if is_acceptable a \<and> tw_first_available s = None then Some a else tw_first_available s)"
      "tw_counter t = status_count (ta_service a) (tw_counter s)" "tw_store t = tw_store s @ [(ta_id a, a)]"
      unfolding t_def by (simp_all add: take_account_new [OF id [folded a] new])
    have ok: "buildable mk ps" using Cons.prems(1) True by (auto simp: buildable_def)
    have fresh: "tp_id ` set (filter tp_twilio ps) \<inter> fst ` set (tw_store t) = {}"
      using Cons.prems True a unfolding t(5) by (auto simp: buildable_def)
    have "build_accounts mk (p # ps) s = build_accounts mk ps t" using True id mk new' by auto
    moreover have "built_accounts mk (p # ps) = a # built_accounts mk ps" using True mk by (simp add: built_accounts_def)
    ultimately show ?thesis
      using Cons.IH [OF ok fresh] by (simp add: t last_main_def first_ready_def disj_commute disj_left_commute)
  qed
qed

lemma last_main_filter:
  "last_main m as = (if filter main_ready as = [] then m else Some (last (filter main_ready as)))"
  unfolding last_main_def by (induction as arbitrary: m) auto

lemma first_ready_Some [simp]: "first_ready (Some a) as = Some a"
  unfolding first_ready_def by (induction as) auto

lemma first_ready_filter:
  "first_ready None as = (if filter is_acceptable as = [] then None else Some (hd (filter is_acceptable as)))"
proof (induction as)
  case Nil
  then show ?case by (simp add: first_ready_def)
next
  case (Cons a as)
  have "first_ready None (a # as) = (if is_acceptable a then first_ready (Some a) as else first_ready None as)"
    by (simp add: first_ready_def)
  with Cons show ?case by simp
qed

text \<open>C19: When the mini services of the Twilio profiles can all be built, the main account of the service is the last of
  those that are marked as main and available, and the first available one when there is none.  The service fails to
  build when no account is available, and otherwise as a manager of these mini services does; every account can then
  be looked up under the id of its profile.\<close>

theorem main_account:
  assumes "buildable mk ps" and "as = built_accounts mk ps" and "twilio_build mk ps = (e, s)"
  shows "tw_main s = (if filter main_ready as \<noteq> [] then Some (last (filter main_ready as))
      else if filter is_acceptable as \<noteq> [] then Some (hd (filter is_acceptable as)) else None)
    \<and> e = (if filter is_acceptable as = [] then Some (BuildFailureError None) else manager_build (count_all (map ta_service as)) False)
    \<and> (\<forall>a\<in>set as. store_get (ta_id a) (tw_store s) = Inr a)"
proof (intro conjI)
  have len: "length (filter tp_twilio ps) = length as" by (simp add: assms(2) built_accounts_def)
  have ids: "map ta_id as = map tp_id (filter tp_twilio ps)"
    using assms(1) unfolding assms(2) built_accounts_def buildable_def by simp
  have acc: "last (filter main_ready as) \<in> set as \<and> is_acceptable (last (filter main_ready as))" if "filter main_ready as \<noteq> []"
    using last_in_set [OF that] by auto
  have none: "filter main_ready as = []" if "filter is_acceptable as = []"
    using that by (auto simp: filter_empty_conv)
  note start = build_accounts_all [OF assms(1), of "\<lparr>tw_main = None, tw_main_set = False,
    tw_first_available = None, tw_counter = new_counter (length as), tw_store = []\<rparr>", simplified, folded assms(2)]
  note res = assms(3) [unfolded twilio_build_def len start, simplified]
  show "tw_main s = (if filter main_ready as \<noteq> [] then Some (last (filter main_ready as))
      else if filter is_acceptable as \<noteq> [] then Some (hd (filter is_acceptable as)) else None)"
    using res acc none
    by (auto simp: Let_def last_main_filter first_ready_filter count_all_def filter_empty_conv list_ex_iff split: if_splits option.splits)
  show "e = (if filter is_acceptable as = [] then Some (BuildFailureError None) else manager_build (count_all (map ta_service as)) False)"
    using res acc none
    by (auto simp: Let_def last_main_filter first_ready_filter count_all_def filter_empty_conv list_ex_iff split: if_splits option.splits)
  have st: "tw_store s = map (\<lambda>a. (ta_id a, a)) as"
    using res by (auto simp: Let_def split: if_splits option.splits)
  have ids': "distinct (map ta_id as)" "None \<notin> set (map ta_id as)"
    using assms(1) unfolding ids by (auto simp: buildable_def)
  have "map_of (tw_store s) (ta_id a) = Some a" if "a \<in> set as" for a
    unfolding st using that ids' by (intro map_of_is_SomeI) (auto simp: comp_def)
  with ids'(2) show "\<forall>a\<in>set as. store_get (ta_id a) (tw_store s) = Inr a"
    by (force simp: store_get_def)
qed

definition sample_profile :: "string \<Rightarrow> bool \<Rightarrow> profile_state \<Rightarrow> twilio_profile" where
  "sample_profile i mn st = \<lparr>tp_id = Some i, tp_twilio = True, tp_main = mn, tp_state = st, tp_url = ''https://t'',
     tp_token = Inr ''tok'', tp_status = Inr ''active'', tp_balance = Inr 10\<rparr>"

definition sample_env :: twilio_env where
  "sample_env = \<lparr>env_mode = Some ''prod'', env_test_url = None\<rparr>"

text \<open>Of two accounts marked as main the one that is not active is passed over.\<close>

theorem main_account_witness:
  "let mk = account_builder True False False 0 sample_env;
       ps = [sample_profile ''a'' False P_ACTIVE, sample_profile ''b'' True P_ACTIVE, sample_profile ''c'' True P_BLOCKED]
   in map_option ta_id (tw_main (snd (twilio_build mk ps))) = Some (Some ''b'')"
proof -
  let ?mk = "account_builder True False False 0 sample_env"
  let ?ps = "[sample_profile ''a'' False P_ACTIVE, sample_profile ''b'' True P_ACTIVE, sample_profile ''c'' True P_BLOCKED]"
  have mk: "?mk (sample_profile i mn st) = (None, \<lparr>ta_id = Some i, ta_main = mn,
      ta_service = (new_service ''TwilioAccountMiniService'' (Some i))\<lparr>builded := st = P_ACTIVE,
        service_status := Some (if st = P_ACTIVE then AVAILABLE else NOT_AVAILABLE)\<rparr>,
      ta_url = (if st = P_ACTIVE then Some ''https://t'' else None)\<rparr>)" for i mn st
    by (simp add: account_builder_def builder_def builder_body_def account_verify_def account_build_def sample_profile_def
        sample_env_def config_getenv_def strip_def is_blank_def new_service_def)
  have "buildable ?mk ?ps" by (simp add: buildable_def mk) (simp add: sample_profile_def)
  from main_account [OF this refl prod.collapse [symmetric], THEN conjunct1]
  show ?thesis by (simp add: built_accounts_def mk is_acceptable_def acceptable_states_def) (simp add: sample_profile_def)
qed

section \<open>Texts and calls\<close>

lemma no_phone_event [simp]: "phone_events tracking i (answer_result f a) a = []"
  by (cases a) (simp_all add: phone_events_def answer_result_def is_api_instance_def)

text \<open>Behind the mock, a text for several recipients would be sent to the first of them only.\<close>

lemma only_first_recipient_texted:
  assumes "store_get profile st = Inr a" and "ta_url a = Some u"
  shows "map fst (snd (send_sms st f api (to # tos) subject_id tracking profile)) = [to]
    \<and> fst (send_sms st f api (to # tos) subject_id tracking profile) = (Inr [answer_result f (api to)], [])"
  using assms by (simp add: send_sms_def logs_url_def set_url_def sms_callback_type_def event_wrapper_def Let_def)

lemma call_loop_types:
  assumes "ta_url a = Some u"
  shows "create_call_loop (Some ct) f api a subject_id tracking tos acc reqs =
    (Inr (Some (fst acc @ map (\<lambda>(i, to). answer_result f (api to)) tos, snd acc)),
     reqs @ map (\<lambda>(i, to). (to, u @ ''/status/logs'' @ ct @ (case subject_id of None \<Rightarrow> [] | Some i \<Rightarrow> ''&subject_id='' @ i)
        @ (case value_in tracking i of None \<Rightarrow> [] | Some t \<Rightarrow> ''twilio_tracking_id='' @ t))) tos)"
  using assms
  by (induction tos arbitrary: acc reqs) (auto simp: logs_url_def set_url_def Let_def)

text \<open>With the type that is missing, every recipient would be called.\<close>

lemma every_recipient_called:
  assumes "store_get profile st = Inr a" "ta_url a = Some u"
  shows "map fst (snd (create_calls (Some ct) st f api tos subject_id tracking profile)) = tos
    \<and> fst (create_calls (Some ct) st f api tos subject_id tracking profile) = (Inr (map (\<lambda>to. answer_result f (api to)) tos), [])"
proof -
  have e: "map fst (map (\<lambda>(i, to). (to, g i to)) (enumerate 0 tos)) = tos"
    "map (\<lambda>(i, to). h to) (enumerate 0 tos) = map h tos" for g :: "nat \<Rightarrow> string \<Rightarrow> string" and h :: "string \<Rightarrow> ('a, 'b) api_result"
    by (simp_all add: comp_def case_prod_beta' flip: map_map [of _ snd, unfolded comp_def])
  show ?thesis
    using assms by (simp add: create_calls_def call_loop_types event_wrapper_def e del: map_map)
qed

text \<open>Behind the mock, no call would be placed: the service of calls leaves the type of its callback unset, so that a
  call to at least one recipient raises a TypeError before any request reaches the API.\<close>

lemma calls_never_placed:
  assumes "tos \<noteq> []" and "store_get profile st = Inr a"
  shows "create_calls call_callback_type st f api tos subject_id tracking profile = ((Inl TypeError, []), [])"
  using assms
  by (cases tos) (auto simp: create_calls_def call_callback_type_def set_url_def logs_url_def event_wrapper_def split: option.splits)

lemma otp_call_raises:
  "to \<noteq> [] \<Longrightarrow> store_get profile st = Inr a \<Longrightarrow> otp_call st f api to profile = Inl TypeError"
  by (cases to) (auto simp: otp_call_def call_callback_type_def set_url_def logs_url_def split: option.splits)

lemma rmap_phone_track_row:
  "rmap (phone_track_row desc (Inr from) new_id contacts) ps = Inr (map (\<lambda>(i, to). (new_id i, \<lparr>pe_status = ''RECEIVED'', pe_description = desc\<rparr>,
     \<lparr>pt_id = new_id i, pt_contact = value_in contacts i, pt_recipient = to, pt_sender = from, pt_status = ''RECEIVED''\<rparr>)) ps)"
  by (induction ps) (auto simp: phone_track_row_def)

text \<open>A tracked call has a row for each recipient, under an id of its own; a tracked text raises.\<close>

lemma tracked_calls:
  "pipe_call_track_event_data True from new_id contacts tos = Inr rows \<Longrightarrow>
     map fst rows = map new_id [0..<length tos] \<and> map (\<lambda>r. pt_recipient (snd (snd r))) rows = tos"
  by (auto simp: pipe_call_track_event_data_def rmap_phone_track_row comp_def case_prod_beta' enumerate_eq_zip
      intro: nth_equalityI)

lemma tracked_texts_raise:
  "tos \<noteq> [] \<Longrightarrow> pipe_sms_track_event_data True new_id contacts tos = Inl (AttributeError ''from_'')"
  by (cases tos) (simp_all add: pipe_sms_track_event_data_def phone_track_row_def)

section \<open>One-time passwords\<close>

lemma otp_char_digit: "otp_char c = Inr d \<Longrightarrow> d \<in> set otp_digits"
  by (auto simp: otp_char_def letter_to_number_def otp_digits_def split: option.splits if_splits dest!: map_of_SomeD)

lemma otp_char_same: "d \<in> set otp_digits \<Longrightarrow> otp_char d = Inr d"
  by (simp add: otp_char_def)

lemma rmap_same: "\<forall>x\<in>set xs. f x = Inr x \<Longrightarrow> rmap f xs = Inr xs"
  by (induction xs) simp_all

text \<open>A one-time password for the keypad is accepted exactly when it has as many characters as digits are asked for,
  each a digit or a letter of the keypad; what is kept has the same length, consists of digits, and is accepted
  unchanged a second time.\<close>

theorem accepted_otp:
  shows "(\<exists>t. check_len_otp n otp = Inr t) \<longleftrightarrow> n = Some (length otp) \<and> (\<forall>c\<in>set otp. c \<in> set otp_digits \<or> upper_char c \<in> set ''ABCDEFGHIJKLMNOPQRSTUVWXYZ'')"
  (is "?l \<longleftrightarrow> ?r")
  and "check_len_otp n otp = Inr t \<Longrightarrow> length t = length otp \<and> set t \<subseteq> set otp_digits \<and> check_len_otp n t = Inr t"
proof -
  have keys: "(\<exists>d. otp_char c = Inr d) \<longleftrightarrow> c \<in> set otp_digits \<or> upper_char c \<in> set ''ABCDEFGHIJKLMNOPQRSTUVWXYZ''" for c
    by (auto simp: otp_char_def letter_to_number_def split: option.splits)
  have all: "(\<exists>t. rmap otp_char xs = Inr t) \<longleftrightarrow> (\<forall>c\<in>set xs. \<exists>d. otp_char c = Inr d)" for xs
    by (induction xs) (auto simp: rbind_Inr_iff)
  have len: "rmap otp_char xs = Inr t \<Longrightarrow> length t = length xs \<and> set t \<subseteq> set otp_digits" for xs t
    by (induction xs arbitrary: t) (auto simp: rbind_Inr_iff dest!: otp_char_digit)
  show "?l \<longleftrightarrow> ?r"
    using all [of otp] len [of otp] unfolding keys check_len_otp_def
    by (cases "rmap otp_char otp") (auto simp: list_all_iff)
  assume t: "check_len_otp n otp = Inr t"
  then have r: "rmap otp_char otp = Inr t" "n = Some (length t)"
    by (auto simp: check_len_otp_def split: sum.splits if_splits)
  with len [OF r(1)] have "rmap otp_char t = Inr t" by (intro rmap_same) (auto intro: otp_char_same)
  with r len [OF r(1)] show "length t = length otp \<and> set t \<subseteq> set otp_digits \<and> check_len_otp n t = Inr t"
    by (simp add: check_len_otp_def)
qed

theorem accepted_otp_witness: "set ''22'' \<subseteq> set otp_digits \<and> check_len_otp (Some 2) ''aB'' = Inr ''22''"
proof -
  have "check_len_otp (Some 2) ''aB'' = Inr ''22''"
    by code_simp
  with accepted_otp(2) [OF this] show ?thesis by simp
qed

text \<open>Gathering a password by phone raises, as does a spoken instruction with a text.\<close>

lemma gather_raises: "gather_dtmf m subject_id request_id a = Inl TypeError" "gather_speech m subject_id request_id a = Inl TypeError"
  by (simp_all add: gather_dtmf_def gather_speech_def gather_url_def attribute_add_def partial_results_url_def split: option.splits)

lemma say_needs_no_text: "vb_type v = ''say'' \<Longrightarrow> check_value valid v = Inr w \<Longrightarrow> vb_value v = Verb_text []"
  by (auto simp: check_value_def split: verb_value.splits list.splits if_splits)

text \<open>An account without a mode is verified as a productive one, and built with the URL for tests.\<close>

lemma unset_mode_takes_test_url:
  "env_mode env = None \<Longrightarrow> tp_state p = P_ACTIVE \<Longrightarrow> account_verify env (tp_state p) = None \<and>
    (account_build env p = Inr u \<longrightarrow> u = env_test_url env)"
  by (auto simp: account_verify_def account_build_def config_getenv_def rbind_Inr_iff split: sum.splits if_splits)

end
