(* ===== verification/Contacts.thy ===== *)
theory Contacts
  imports Request_Guards Helper_Util Auth_Permission
begin

text \<open>
  services/contacts_service.py, models/contacts_model.py and ressources/contacts_ressources.py: contacts with their
  double opt-in, their subscriptions, and the routes that change them.  The database is a record of tables with the
  constraints of the models; an operation returns what it raises or answers, and the tables it leaves.
\<close>

section \<open>The tables\<close>

datatype subs_status = Subs_active | Subs_inactive

record contact_row =
  cr_first_name :: string
  cr_last_name :: string
  cr_email :: "string option"
  cr_phone :: "string option"
  cr_app_registered :: bool
  cr_opt_in_code :: "int option"
  cr_auth_token :: "string option"
  cr_action_code :: "string option"
  cr_status :: contact_status
  cr_lang :: string
  cr_frequency :: string

record content_flags =
  cf_event :: bool
  cf_newsletter :: bool
  cf_promotion :: bool
  cf_other :: bool

text \<open>
  The contacts by their id; for a contact at most one row with the status of its methods (the column is unique); the
  kinds of content it wants; its subscriptions, one for each content.
\<close>

record contact_db =
  cd_contacts :: "(string, contact_row) dict"
  cd_methods :: "(string, subs_status \<times> subs_status) dict"
  cd_types :: "(string \<times> content_flags) list"
  cd_subs :: "(string \<times> string, string \<times> subs_status) dict"

definition MIN_OPT_IN_CODE :: int where "MIN_OPT_IN_CODE = 100000000"

definition MAX_OPT_IN_CODE :: int where "MAX_OPT_IN_CODE = 999999999"

definition unique_error :: exn where "unique_error = OtherException ''IntegrityError''"

text \<open>The unique columns; NULL is no value.\<close>

definition same_value :: "'a option \<Rightarrow> 'a option \<Rightarrow> bool" where
  "same_value x y \<longleftrightarrow> x \<noteq> None \<and> x = y"

definition clashes :: "contact_row \<Rightarrow> contact_row \<Rightarrow> bool" where
  "clashes r q \<longleftrightarrow> same_value (cr_email r) (cr_email q) \<or> same_value (cr_phone r) (cr_phone q)
     \<or> same_value (cr_opt_in_code r) (cr_opt_in_code q)"

text \<open>\<open>save\<close> of a contact, whose row may be new.\<close>

definition save_contact :: "string \<Rightarrow> contact_row \<Rightarrow> contact_db \<Rightarrow> contact_db result" where
  "save_contact i r d =
    (if list_ex (\<lambda>(j, q). j \<noteq> i \<and> clashes r q) (cd_contacts d) then Inl unique_error
     else Inr (d\<lparr>cd_contacts := AList.update i r (cd_contacts d)\<rparr>))"

definition saved :: "string \<Rightarrow> contact_row \<Rightarrow> 'r result \<Rightarrow> contact_db \<Rightarrow> 'r result \<times> contact_db" where
  "saved i r answer d = (case save_contact i r d of Inl e \<Rightarrow> (Inl e, d) | Inr d' \<Rightarrow> (answer, d'))"

section \<open>The models of the requests\<close>

record contact_model =
  cm_first_name :: string
  cm_last_name :: string
  cm_email :: "string option"
  cm_phone :: "string option"
  cm_app_registered :: bool
  cm_lang :: string
  cm_frequency :: string

definition check_email :: "(string \<Rightarrow> bool) \<Rightarrow> string option \<Rightarrow> string option result" where
  "check_email email_validator email =
    (case email of None \<Rightarrow> Inr None | Some e \<Rightarrow> if \<not> email_validator e then Inl ValueError else Inr (Some (map lower_char e)))"

definition check_phone :: "(string \<Rightarrow> bool) \<Rightarrow> string option \<Rightarrow> string option result" where
  "check_phone phone_number_validator phone =
    (case phone of None \<Rightarrow> Inr None
     | Some p \<Rightarrow> rbind (phone_parser p None) (\<lambda>p. if \<not> phone_number_validator p then Inl ValueError else Inr (Some p)))"

definition check_contact :: "(string \<Rightarrow> bool) \<Rightarrow> (string \<Rightarrow> bool) \<Rightarrow> contact_model \<Rightarrow> contact_model result" where
  "check_contact email_ok phone_ok m =
    rbind (check_email email_ok (cm_email m)) (\<lambda>e. rbind (check_phone phone_ok (cm_phone m)) (\<lambda>p.
      if p = None \<and> e = None then Inl ValueError else Inr (m\<lparr>cm_email := e, cm_phone := p\<rparr>)))"

text \<open>The fields of an update; \<open>app_registered\<close> is inherited as a required field.\<close>

record update_model =
  um_first_name :: "string option"
  um_last_name :: "string option"
  um_email :: "string option"
  um_phone :: "string option"
  um_app_registered :: bool
  um_lang :: "string option"
  um_frequency :: "string option"

definition given_text :: "string option \<Rightarrow> bool" where
  "given_text v \<longleftrightarrow> (case v of None \<Rightarrow> False | Some s \<Rightarrow> s \<noteq> [])"

definition check_update :: "(string \<Rightarrow> bool) \<Rightarrow> (string \<Rightarrow> bool) \<Rightarrow> update_model \<Rightarrow> update_model result" where
  "check_update email_ok phone_ok m =
    rbind (check_email email_ok (um_email m)) (\<lambda>e. rbind (check_phone phone_ok (um_phone m)) (\<lambda>p.
      let m = m\<lparr>um_email := e, um_phone := p\<rparr> in
      if \<not> (given_text (um_first_name m) \<and> given_text (um_last_name m) \<and> given_text e \<and> given_text p
            \<and> um_app_registered m \<and> given_text (um_lang m) \<and> um_frequency m \<noteq> None)
      then Inl ValueError else Inr m))"

text \<open>Of the two validators with one name the second replaces the first: the status of e-mails is not checked.\<close>

definition check_subscription_status :: "string option \<Rightarrow> string option \<Rightarrow> (string option \<times> string option) result" where
  "check_subscription_status email_status sms_status =
    (if sms_status \<notin> {None, Some ''Active'', Some ''Inactive''} then Inl ValueError
     else if email_status = None \<and> sms_status = None then Inl ValueError
     else Inr (email_status, sms_status))"

record content_types_model =
  ct_event :: "bool option"
  ct_newsletter :: "bool option"
  ct_promotion :: "bool option"
  ct_other :: "bool option"

definition check_flag :: "content_types_model \<Rightarrow> bool \<Rightarrow> content_types_model result" where
  "check_flag m has_subscription_status =
    (if ct_event m = None \<and> ct_newsletter m = None \<and> ct_promotion m = None \<and> ct_other m = None \<and> \<not> has_subscription_status
     then Inl ValueError else Inr m)"

definition check_security_code :: "int \<Rightarrow> int result" where
  "check_security_code c = (if \<not> (100000 \<le> c \<and> c \<le> 999999) then Inl ValueError else Inr c)"

record content_model =
  cn_name :: "string option"
  cn_description :: "string option"
  cn_type :: "content_type option"
  cn_ttl :: "int option"

definition check_content_model :: "content_model \<Rightarrow> content_model result" where
  "check_content_model m =
    (if \<not> given_text (cn_name m) \<and> \<not> given_text (cn_description m) \<and> cn_type m = None \<and> cn_type m = None
     then Inl ValueError else Inr m)"

section \<open>The services\<close>

datatype contact_answer =
    Contact_made string | Action_code string | Unsubscribed contact_status int nat | Updated update_model
  | Status_code nat | Summary "contact_row option" | Done

text \<open>The JSON of a token: an id that is a UUID has none, its text has.\<close>

datatype contact_ref = Uuid string | Id_text string

definition encode_contact :: "(string \<Rightarrow> string \<Rightarrow> string) \<Rightarrow> contact_ref \<Rightarrow> string \<Rightarrow> string result" where
  "encode_contact encode x scope = (case x of Uuid i \<Rightarrow> Inl TypeError | Id_text i \<Rightarrow> Inr (encode i scope))"

definition contact_already_exists :: exn where
  "contact_already_exists = OtherException ''ContactAlreadyExistsError''"

text \<open>\<open>code\<close> is the random opt-in code and \<open>i\<close> the new id; the column \<open>status\<close> has the default Active.\<close>

definition create_new_contact ::
  "(string \<Rightarrow> string \<Rightarrow> string) \<Rightarrow> string \<Rightarrow> int \<Rightarrow> contact_model \<Rightarrow> contact_db \<Rightarrow> contact_answer result \<times> contact_db" where
  "create_new_contact encode i code m d =
    (let rows = map snd (cd_contacts d);
         user_by_email = list_ex (\<lambda>q. same_value (cm_email m) (cr_email q)) rows;
         user_by_phone = list_ex (\<lambda>q. same_value (cm_phone m) (cr_phone q)) rows
     in if user_by_phone \<or> user_by_email then (Inl contact_already_exists, d)
        else if dict_has (cd_contacts d) i then (Inl unique_error, d)
        else (let r = \<lparr>cr_first_name = cm_first_name m, cr_last_name = cm_last_name m, cr_email = cm_email m, cr_phone = cm_phone m,
                cr_app_registered = cm_app_registered m, cr_opt_in_code = Some code, cr_auth_token = None,
                cr_action_code = None, cr_status = Active, cr_lang = cm_lang m, cr_frequency = cm_frequency m\<rparr>
              in (case saved i r (Inr Done) d of
                    (Inl e, d) \<Rightarrow> (Inl e, d)
                  | (Inr x, d) \<Rightarrow>
                      (case (if cm_app_registered m then map_sum id Some (encode_contact encode (Id_text i) ''create'') else Inr None) of
                         Inl e \<Rightarrow> (Inl e, d)
                       | Inr token \<Rightarrow> saved i (r\<lparr>cr_auth_token := token\<rparr>) (Inr (Contact_made i)) d))))"

definition status_value :: "string option \<Rightarrow> subs_status option" where
  "status_value s = (case s of None \<Rightarrow> None | Some t \<Rightarrow>
     if t = ''Active'' then Some Subs_active else if t = ''Inactive'' then Some Subs_inactive else None)"

text \<open>Both columns of a method's status are enumerations without NULL.\<close>

definition create_methods :: "string \<Rightarrow> string option \<times> string option \<Rightarrow> contact_db \<Rightarrow> contact_db result" where
  "create_methods i st d =
    (case (status_value (fst st), status_value (snd st)) of
       (Some e, Some s) \<Rightarrow>
         if dict_has (cd_methods d) i then Inl unique_error
         else Inr (d\<lparr>cd_methods := AList.update i (e, s) (cd_methods d)\<rparr>)
     | _ \<Rightarrow> Inl (OtherException ''ValidationError''))"

definition default_flags :: content_flags where
  "default_flags = \<lparr>cf_event = False, cf_newsletter = False, cf_promotion = False, cf_other = True\<rparr>"

definition activate_contact ::
  "(string \<Rightarrow> string) \<Rightarrow> string \<Rightarrow> string \<Rightarrow> contact_row \<Rightarrow> int \<Rightarrow> string option \<times> string option \<Rightarrow> contact_db \<Rightarrow> contact_answer result \<times> contact_db" where
  "activate_contact b64_encode new_code i r opt_in_code st d =
    (if cr_opt_in_code r = None then (Inl (OtherException ''ContactDoubleOptInAlreadySetError''), d)
     else if cr_opt_in_code r \<noteq> Some opt_in_code then (Inl (OtherException ''ContactOptInCodeNotMatchError''), d)
     else case create_methods i st d of
         Inl e \<Rightarrow> (Inl e, d)
       | Inr d \<Rightarrow>
           saved i (r\<lparr>cr_status := Active, cr_action_code := Some (b64_encode new_code)\<rparr>) (Inr (Action_code new_code))
             (d\<lparr>cd_types := cd_types d @ [(i, default_flags)]\<rparr>))"

fun delete_first :: "string \<Rightarrow> (string \<times> 'a) list \<Rightarrow> (string \<times> 'a) list" where
  "delete_first i [] = []"
| "delete_first i (p # ps) = (if fst p = i then ps else p # delete_first i ps)"

text \<open>The contents that have notifications or updates, of which nobody is unsubscribed by going back to pending.\<close>

definition always_sent :: "content_type \<Rightarrow> bool" where
  "always_sent kind \<longleftrightarrow> kind = Notification \<or> kind = Update"

text \<open>The SQL function \<open>delete_subscriptions_by_contact\<close>: the contents of its inner query are of one of these kinds and
  are found by a natural join, so that \<open>joined\<close> says whether one of their subscriptions has the times of the content.\<close>

definition delete_subscriptions_by_contact ::
  "(string \<Rightarrow> content_type) \<Rightarrow> (string \<Rightarrow> bool) \<Rightarrow> string \<Rightarrow> (string \<times> string, 'a) dict \<Rightarrow> (string \<times> string, 'a) dict" where
  "delete_subscriptions_by_contact kind joined i subs =
    filter (\<lambda>((j, c), s). \<not> (j = i \<and> \<not> (always_sent (kind c) \<and> joined c))) subs"

text \<open>What the database does when the function is called: the kinds of the contents, the rows of the join, the error it
  raises, if any, and the number of rows it reports.\<close>

record sql_call =
  sq_kind :: "string \<Rightarrow> content_type"
  sq_joined :: "string \<Rightarrow> bool"
  sq_error :: "exn option"
  sq_rows :: nat

text \<open>Only the branch of Pending binds \<open>row_affected\<close>.\<close>

definition unsubscribe_contact ::
  "sql_call \<Rightarrow> int \<Rightarrow> string \<Rightarrow> contact_row \<Rightarrow> contact_status \<Rightarrow> contact_db \<Rightarrow> contact_answer result \<times> contact_db" where
  "unsubscribe_contact sql code i r next_status d =
    (let r = r\<lparr>cr_status := next_status\<rparr> in
     if next_status = Pending then
       (let r = r\<lparr>cr_opt_in_code := Some code\<rparr> in
        if \<not> dict_has (cd_methods d) i then (Inl (AttributeError ''delete''), d)
        else (let d = d\<lparr>cd_methods := AList.delete i (cd_methods d)\<rparr> in
          if map_of (cd_types d) i = None then (Inl (AttributeError ''delete''), d)
          else (let d = d\<lparr>cd_types := delete_first i (cd_types d)\<rparr> in
            case sq_error sql of
              Some e \<Rightarrow> (Inl e, d)
            | None \<Rightarrow>
                (let d = d\<lparr>cd_subs := delete_subscriptions_by_contact (sq_kind sql) (sq_joined sql) i (cd_subs d)\<rparr>
                 in saved i (r\<lparr>cr_action_code := None\<rparr>) (Inr (Unsubscribed next_status code (sq_rows sql))) d))))
     else saved i r (Inl (UnboundLocalError ''row_affected'')) d)"

definition set_flags :: "content_types_model \<Rightarrow> content_flags \<Rightarrow> content_flags" where
  "set_flags m f =
    (let pick = (\<lambda>v old. case v of None \<Rightarrow> old | Some b \<Rightarrow> b) in
     \<lparr>cf_event = pick (ct_event m) (cf_event f), cf_newsletter = pick (ct_newsletter m) (cf_newsletter f),
      cf_promotion = pick (ct_promotion m) (cf_promotion f), cf_other = pick (ct_other m) (cf_other f)\<rparr>)"

fun update_first :: "string \<Rightarrow> ('a \<Rightarrow> 'a) \<Rightarrow> (string \<times> 'a) list \<Rightarrow> (string \<times> 'a) list" where
  "update_first i f [] = []"
| "update_first i f (p # ps) = (if fst p = i then (i, f (snd p)) # ps else p # update_first i f ps)"

definition toggle_content_type_subs_flag :: "string \<Rightarrow> content_types_model \<Rightarrow> contact_db \<Rightarrow> contact_answer result \<times> contact_db" where
  "toggle_content_type_subs_flag i m d =
    (case map_of (cd_types d) i of
       None \<Rightarrow> (Inl (AttributeError ''event''), d)
     | Some f \<Rightarrow> (Inr Done, d\<lparr>cd_types := update_first i (set_flags m) (cd_types d)\<rparr>))"

definition update_contact :: "string \<Rightarrow> contact_row \<Rightarrow> update_model \<Rightarrow> contact_db \<Rightarrow> contact_answer result \<times> contact_db" where
  "update_contact i r m d =
    (let pick = (\<lambda>v old. case v of None \<Rightarrow> old | Some b \<Rightarrow> b); pick' = (\<lambda>v old. case v of None \<Rightarrow> old | Some b \<Rightarrow> Some b) in
     saved i (r\<lparr>cr_first_name := pick (um_first_name m) (cr_first_name r), cr_last_name := pick (um_last_name m) (cr_last_name r),
         cr_email := pick' (um_email m) (cr_email r), cr_phone := pick' (um_phone m) (cr_phone r),
         cr_app_registered := um_app_registered m, cr_lang := pick (um_lang m) (cr_lang r),
         cr_frequency := pick (um_frequency m) (cr_frequency r)\<rparr>) (Inr (Updated m)) d)"

definition update_security :: "(string \<Rightarrow> string \<Rightarrow> string) \<Rightarrow> string \<Rightarrow> contact_row \<Rightarrow> string \<Rightarrow> contact_db \<Rightarrow> contact_answer result \<times> contact_db" where
  "update_security encode i r scope d =
    (case encode_contact encode (Uuid i) scope of
       Inl e \<Rightarrow> (Inl e, d)
     | Inr token \<Rightarrow> saved i (r\<lparr>cr_auth_token := Some token\<rparr>) (Inr (Contact_made token)) d)"

text \<open>The services of subscriptions put the row of the database into a JSON answer, which cannot be made, after the row
  was stored.\<close>

definition subscribe_user :: "string \<Rightarrow> string \<Rightarrow> string \<Rightarrow> contact_db \<Rightarrow> contact_answer result \<times> contact_db" where
  "subscribe_user i content relay d =
    (if dict_has (cd_subs d) (i, content) then (Inl unique_error, d)
     else (Inl TypeError, d\<lparr>cd_subs := AList.update (i, content) (relay, Subs_active) (cd_subs d)\<rparr>))"

definition unsubscribe_user :: "string \<Rightarrow> string \<Rightarrow> contact_db \<Rightarrow> contact_answer result \<times> contact_db" where
  "unsubscribe_user i content d =
    (if \<not> dict_has (cd_subs d) (i, content) then (Inr (Status_code 404), d)
     else (Inr (Status_code 200), d\<lparr>cd_subs := AList.delete (i, content) (cd_subs d)\<rparr>))"

definition update_subscription :: "string \<Rightarrow> string \<Rightarrow> string \<Rightarrow> subs_status \<Rightarrow> contact_db \<Rightarrow> contact_answer result \<times> contact_db" where
  "update_subscription i content relay next_status d =
    (if \<not> dict_has (cd_subs d) (i, content) then (Inr (Status_code 404), d)
     else (Inl TypeError, d\<lparr>cd_subs := AList.update (i, content) (relay, next_status) (cd_subs d)\<rparr>))"

section \<open>The routes\<close>

text \<open>\<open>get_contacts\<close> reads the contact from the database by its id, its phone or its e-mail.\<close>

definition get_contacts :: "string \<Rightarrow> string \<Rightarrow> contact_db \<Rightarrow> (string \<times> contact_row) result" where
  "get_contacts idtype v d =
    (let found = (\<lambda>p. case filter p (cd_contacts d) of [] \<Rightarrow> Inl (HTTPException 404 ''user does not exists'') | q # _ \<Rightarrow> Inr q) in
     if idtype = ''id'' then found (\<lambda>(j, q). j = v)
     else if idtype = ''phone'' then found (\<lambda>(j, q). cr_phone q = Some v)
     else if idtype = ''email'' then found (\<lambda>(j, q). cr_email q = Some v)
     else Inl (HTTPException 400 ''idtype not not properly specified''))"

text \<open>\<open>get_subs_content\<close> checks the role of the request and looks its content up, and returns nothing.\<close>

definition get_subs_content :: "role list \<Rightarrow> string \<Rightarrow> bool \<Rightarrow> content_type option result" where
  "get_subs_content roles content_idtype found =
    (if SUBSCRIPTION \<notin> set roles then Inl (HTTPException 403 ''Role not allowed'')
     else if content_idtype = ''name'' then Inl (OtherException ''FieldError'')
     else if content_idtype \<noteq> ''id'' then Inl (HTTPException 400 ''idtype not not properly specified'')
     else if \<not> found then Inl (HTTPException 404 ''Subscription Content does not exists with those information'')
     else Inr None)"

definition guard_view :: "contact_row \<Rightarrow> contact" where
  "guard_view r = \<lparr>co_app_registered = cr_app_registered r, co_status = cr_status r, co_action_code = cr_action_code r\<rparr>"

text \<open>A guard that does not let a request through, or raises, ends it.\<close>

fun guarded_route :: "verdict result list \<Rightarrow> ('r result \<times> contact_db) \<Rightarrow> contact_db \<Rightarrow> 'r result \<times> contact_db" where
  "guarded_route [] run d = run"
| "guarded_route (g # gs) run d =
    (case g of
       Inl e \<Rightarrow> (Inl e, d)
     | Inr (Verdict True m) \<Rightarrow> guarded_route gs run d
     | Inr (Verdict False m) \<Rightarrow> (Inl (HTTPException 401 m), d)
     | Inr Malformed \<Rightarrow> (Inl (HTTPException 501 ''''), d)
     | Inr No_pair \<Rightarrow> (Inl TypeError, d))"

definition unsubscribe_route ::
  "(string \<Rightarrow> string) \<Rightarrow> sql_call \<Rightarrow> int \<Rightarrow> string \<Rightarrow> contact_row \<Rightarrow> string \<Rightarrow> contact_status \<Rightarrow> contact_db \<Rightarrow> contact_answer result \<times> contact_db" where
  "unsubscribe_route b64 sql code i r action_code next_status d =
    guarded_route [contact_action_code_guard b64 False action_code (guard_view r) None,
             active_contact_guard (map_option (\<lambda>(e, s). (e = Subs_active, s = Subs_active)) (map_of (cd_methods d) i)) (guard_view r) None None]
      (if next_status = Active then (Inl (HTTPException 400 ''Next status cannot be set to Active when unsubscribing the contact''), d)
       else unsubscribe_contact sql code i r next_status d) d"

definition resubscribe_contact :: "string \<Rightarrow> contact_row \<Rightarrow> contact_db \<Rightarrow> contact_answer result \<times> contact_db" where
  "resubscribe_contact i r d =
    (if cr_status r = Active then (Inr (Status_code 202), d)
     else if cr_status r \<in> {Inactive, Blacklist} then saved i (r\<lparr>cr_status := Active\<rparr>) (Inr (Status_code 200)) d
     else (Inr (Status_code 423), d))"

definition resubscribe_route ::
  "(string \<Rightarrow> string) \<Rightarrow> string \<Rightarrow> contact_row \<Rightarrow> string \<Rightarrow> contact_db \<Rightarrow> contact_answer result \<times> contact_db" where
  "resubscribe_route b64 i r action_code d =
    guarded_route [contact_action_code_guard b64 False action_code (guard_view r) None] (resubscribe_contact i r d) d"

text \<open>A call without the last argument is a TypeError; the route of activation leaves it out.\<close>

definition call_activate_contact ::
  "(string \<Rightarrow> string) \<Rightarrow> string \<Rightarrow> string \<Rightarrow> contact_row \<Rightarrow> int \<Rightarrow> (string option \<times> string option) option \<Rightarrow> contact_db \<Rightarrow> contact_answer result \<times> contact_db" where
  "call_activate_contact b64 new_code i r opt subscription_status d =
    (case subscription_status of None \<Rightarrow> (Inl TypeError, d) | Some st \<Rightarrow> activate_contact b64 new_code i r opt st d)"

definition activate_route :: "(string \<Rightarrow> string) \<Rightarrow> string \<Rightarrow> string \<Rightarrow> contact_row \<Rightarrow> int \<Rightarrow> contact_db \<Rightarrow> contact_answer result \<times> contact_db" where
  "activate_route b64 new_code i r opt d =
    (if \<not> (MIN_OPT_IN_CODE \<le> opt \<and> opt \<le> MAX_OPT_IN_CODE) then (Inl (HTTPException 422 ''opt''), d)
     else call_activate_contact b64 new_code i r opt None d)"

definition content_subscribe_route ::
  "role list \<Rightarrow> string \<Rightarrow> contact_row \<Rightarrow> string \<Rightarrow> string \<Rightarrow> bool \<Rightarrow> string \<Rightarrow> contact_db \<Rightarrow> contact_answer result \<times> contact_db" where
  "content_subscribe_route roles i r idtype content found relay d =
    (case get_subs_content roles idtype found of
       Inl e \<Rightarrow> (Inl e, d)
     | Inr c \<Rightarrow> guarded_route [active_contact_guard (map_option (\<lambda>(e, s). (e = Subs_active, s = Subs_active)) (map_of (cd_methods d) i)) (guard_view r) c (Some relay)]
         (subscribe_user i content relay d) d)"

definition set_app_registered :: "string \<Rightarrow> contact_row \<Rightarrow> bool \<Rightarrow> contact_db \<Rightarrow> contact_answer result \<times> contact_db" where
  "set_app_registered i r b d = saved i (r\<lparr>cr_app_registered := b\<rparr>) (Inr Done) d"

text \<open>Deleting a contact deletes the rows that refer to it.\<close>

definition delete_contact :: "string \<Rightarrow> contact_db \<Rightarrow> contact_answer result \<times> contact_db" where
  "delete_contact i d = (Inr Done, \<lparr>cd_contacts = AList.delete i (cd_contacts d), cd_methods = AList.delete i (cd_methods d),
     cd_types = filter (\<lambda>(j, f). j \<noteq> i) (cd_types d), cd_subs = filter (\<lambda>((j, c), s). j \<noteq> i) (cd_subs d)\<rparr>)"

section \<open>What the tables always satisfy\<close>

declare map_of_eq_Some_iff [simp del]

definition code_ok :: "contact_row \<Rightarrow> bool" where
  "code_ok r \<longleftrightarrow> (\<exists>c. cr_opt_in_code r = Some c \<and> MIN_OPT_IN_CODE \<le> c \<and> c \<le> MAX_OPT_IN_CODE)"

definition pending_ok :: "(string \<Rightarrow> content_type) \<Rightarrow> string \<Rightarrow> contact_row \<Rightarrow> contact_db \<Rightarrow> bool" where
  "pending_ok kind i r d \<longleftrightarrow> (cr_status r = Pending \<longrightarrow>
     cr_action_code r = None \<and> map_of (cd_methods d) i = None
       \<and> (\<forall>c. map_of (cd_subs d) (i, c) \<noteq> None \<longrightarrow> always_sent (kind c)))"

definition contacts_inv :: "(string \<Rightarrow> content_type) \<Rightarrow> contact_db \<Rightarrow> bool" where
  "contacts_inv kind d \<longleftrightarrow>
    distinct (map fst (cd_contacts d)) \<and> distinct (map fst (cd_types d)) \<and>
    (\<forall>i r. map_of (cd_contacts d) i = Some r \<longrightarrow> code_ok r \<and> pending_ok kind i r d
       \<and> (\<forall>j q. map_of (cd_contacts d) j = Some q \<longrightarrow> i \<noteq> j \<longrightarrow> \<not> clashes r q)) \<and>
    (\<forall>i. map_of (cd_types d) i = None \<longleftrightarrow> map_of (cd_methods d) i = None) \<and>
    (\<forall>i. map_of (cd_methods d) i \<noteq> None \<longrightarrow> map_of (cd_contacts d) i \<noteq> None) \<and>
    (\<forall>i c. map_of (cd_subs d) (i, c) \<noteq> None \<longrightarrow> map_of (cd_contacts d) i \<noteq> None)"

lemma same_value_sym: "same_value x y \<longleftrightarrow> same_value y x"
  by (auto simp: same_value_def)

lemma clashes_sym: "clashes r q \<longleftrightarrow> clashes q r"
  by (simp add: clashes_def same_value_sym [of _ "cr_email q"] same_value_sym [of _ "cr_phone q"] same_value_sym [of _ "cr_opt_in_code q"])

lemma map_of_drop_subs: "map_of (filter (\<lambda>((j, c), s). j \<noteq> i) l) (k, c) = (if k = i then None else map_of l (k, c))"
  by (induction l) auto

lemma map_of_drop_types: "map_of (filter (\<lambda>(j, f). j \<noteq> i) l) k = (if k = i then None else map_of l k)"
  by (induction l) auto

lemma map_of_delete_first: "distinct (map fst l) \<Longrightarrow> map_of (delete_first i l) k = (if k = i then None else map_of l k)"
  by (induction l) (auto simp: map_of_eq_None_iff [THEN iffD2])

lemma keys_delete_first: "distinct (map fst l) \<Longrightarrow> distinct (map fst (delete_first i l)) \<and> fst ` set (delete_first i l) \<subseteq> fst ` set l"
  by (induction l) auto

lemma update_first_keys: "map fst (update_first i f l) = map fst l"
  by (induction l) auto

lemma map_of_update_first: "map_of (update_first i f l) k = None \<longleftrightarrow> map_of l k = None"
  by (simp add: map_of_eq_None_iff update_first_keys flip: set_map)

lemma save_contact_inv:
  assumes "contacts_inv kind d" "save_contact i r d = Inr d'" "code_ok r" "pending_ok kind i r d"
  shows "contacts_inv kind d'"
proof -
  have d': "d' = d\<lparr>cd_contacts := AList.update i r (cd_contacts d)\<rparr>"
    and nc: "\<And>j q. map_of (cd_contacts d) j = Some q \<Longrightarrow> j \<noteq> i \<Longrightarrow> \<not> clashes r q"
    using assms(2) by (auto simp: save_contact_def list_ex_iff split: if_splits dest!: map_of_SomeD)
  show ?thesis
    using assms(1,3,4) nc unfolding d' contacts_inv_def pending_ok_def
    by (auto simp: update_conv' distinct_update clashes_sym [of _ r])
qed

lemma saved_inv:
  assumes "contacts_inv kind d" "code_ok r" "pending_ok kind i r d"
  shows "contacts_inv kind (snd (saved i r a d))"
  using assms save_contact_inv by (auto simp: saved_def split: sum.splits)

lemma inv_no_clash:
  assumes "contacts_inv kind d" "map_of (cd_contacts d) i = Some r" "(j, q) \<in> set (cd_contacts d)" "j \<noteq> i"
  shows "\<not> clashes r q"
proof -
  have "map_of (cd_contacts d) j = Some q" using assms(1,3) by (intro map_of_is_SomeI) (simp_all add: contacts_inv_def)
  with assms show ?thesis unfolding contacts_inv_def by metis
qed

lemma contacts_invD:
  assumes "contacts_inv kind d" "map_of (cd_contacts d) i = Some r"
  shows "code_ok r" "pending_ok kind i r d"
  using assms by (auto simp: contacts_inv_def)

text \<open>The operations, with the kinds of the contents, which no operation changes.  The guard of the routes lets contacts
  subscribe that are active, and pending ones to notifications and updates.\<close>

inductive contact_step :: "(string \<Rightarrow> content_type) \<Rightarrow> contact_db \<Rightarrow> contact_db \<Rightarrow> bool" where
  made: "MIN_OPT_IN_CODE \<le> code \<Longrightarrow> code \<le> MAX_OPT_IN_CODE \<Longrightarrow> contact_step kind d (snd (create_new_contact encode i code m d))"
| activated: "map_of (cd_contacts d) i = Some r \<Longrightarrow> contact_step kind d (snd (activate_contact b64 new_code i r opt st d))"
| unsubscribed: "map_of (cd_contacts d) i = Some r \<Longrightarrow> MIN_OPT_IN_CODE \<le> code \<Longrightarrow> code \<le> MAX_OPT_IN_CODE \<Longrightarrow>
    sq_kind sql = kind \<Longrightarrow> contact_step kind d (snd (unsubscribe_contact sql code i r next_status d))"
| resubscribed: "map_of (cd_contacts d) i = Some r \<Longrightarrow> contact_step kind d (snd (resubscribe_contact i r d))"
| toggled: "contact_step kind d (snd (toggle_content_type_subs_flag i flags d))"
| updated: "map_of (cd_contacts d) i = Some r \<Longrightarrow> contact_step kind d (snd (update_contact i r um d))"
| registered: "map_of (cd_contacts d) i = Some r \<Longrightarrow> contact_step kind d (snd (set_app_registered i r b d))"
| subscribed: "map_of (cd_contacts d) i = Some r \<Longrightarrow> cr_status r = Active \<or> always_sent (kind content) \<Longrightarrow> contact_step kind d (snd (subscribe_user i content relay d))"
| left: "contact_step kind d (snd (unsubscribe_user i content d))"
| resettled: "contact_step kind d (snd (update_subscription i content relay sst d))"
| removed: "contact_step kind d (snd (delete_contact i d))"

inductive contacts_reach :: "(string \<Rightarrow> content_type) \<Rightarrow> contact_db \<Rightarrow> bool" where
  no_contacts: "contacts_reach kind \<lparr>cd_contacts = [], cd_methods = [], cd_types = [], cd_subs = []\<rparr>"
| one_more: "contacts_reach kind d \<Longrightarrow> contact_step kind d d' \<Longrightarrow> contacts_reach kind d'"

lemma create_inv:
  assumes "contacts_inv kind d" "MIN_OPT_IN_CODE \<le> code" "code \<le> MAX_OPT_IN_CODE"
  shows "contacts_inv kind (snd (create_new_contact encode i code m d))"
proof -
  have *: "contacts_inv kind (snd (saved i r a d'))" if "contacts_inv kind d'" "cr_opt_in_code r = Some code" "cr_status r = Active" for r a d'
    using saved_inv [OF that(1), of r i a] that assms by (auto simp: code_ok_def pending_ok_def)
  have **: "contacts_inv kind d''" if "saved i r a d' = (x, d'')" "contacts_inv kind d'" "cr_opt_in_code r = Some code" "cr_status r = Active" for r a d' x d''
    using * [OF that(2-4), of a] that(1) by simp
  show ?thesis
    using assms(1) unfolding create_new_contact_def Let_def encode_contact_def
    by (auto split: prod.splits sum.splits intro!: * dest!: ** simp: assms(1))
qed

lemma activate_inv:
  assumes "contacts_inv kind d" "map_of (cd_contacts d) i = Some r"
  shows "contacts_inv kind (snd (activate_contact b64 new_code i r opt st d))"
proof (cases "cr_opt_in_code r = Some opt \<and> (\<exists>d1. create_methods i st d = Inr d1)")
  case True
  then obtain d1 where d1: "create_methods i st d = Inr d1" by blast
  let ?d2 = "d1\<lparr>cd_types := cd_types d1 @ [(i, default_flags)]\<rparr>"
  obtain e s where e: "d1 = d\<lparr>cd_methods := AList.update i (e, s) (cd_methods d)\<rparr>" "map_of (cd_methods d) i = None"
    using d1 by (auto simp: create_methods_def dict_has_iff map_of_eq_None_iff split: option.splits if_splits)
  let ?r = "r\<lparr>cr_status := Active, cr_action_code := Some (b64 new_code)\<rparr>"
  have ok: "code_ok ?r" using contacts_invD [OF assms] by (simp add: code_ok_def)
  show ?thesis
  proof (cases "save_contact i ?r ?d2")
    case (Inl x)
    have "\<not> list_ex (\<lambda>(j, q). j \<noteq> i \<and> clashes ?r q) (cd_contacts d)"
      using inv_no_clash [OF assms] by (auto simp: list_ex_iff clashes_def)
    with Inl show ?thesis by (simp add: save_contact_def e)
  next
    case (Inr d3)
    then have d3: "d3 = ?d2\<lparr>cd_contacts := AList.update i ?r (cd_contacts d)\<rparr>"
      by (auto simp: save_contact_def e split: if_splits)
    have types: "map_of (cd_types d) i = None" using assms(1) e(2) by (simp add: contacts_inv_def)
    have fresh: "i \<notin> fst ` set (cd_types d)" using types by (simp add: map_of_eq_None_iff)
    have mo: "map_of (cd_types d @ [(i, default_flags)]) k = (if k = i then Some default_flags else map_of (cd_types d) k)" for k
      using types by (simp add: map_add_def split: option.splits)
    have "contacts_inv kind d3"
      using assms ok fresh e(2) unfolding d3 e contacts_inv_def pending_ok_def
      by (auto simp: update_conv' distinct_update mo clashes_def simp del: map_of_append map_of_eq_Some_iff)
    with True d1 Inr show ?thesis by (simp add: activate_contact_def saved_def)
  qed
next
  case False
  then show ?thesis using assms(1) by (auto simp: activate_contact_def split: sum.splits)
qed

text \<open>Subscriptions may go, and come for contacts that are not pending, or to contents that are always sent.\<close>

lemma subs_change_inv:
  assumes "contacts_inv kind d"
    and "\<And>j c. map_of s (j, c) \<noteq> None \<Longrightarrow> map_of (cd_subs d) (j, c) \<noteq> None
      \<or> (\<exists>r. map_of (cd_contacts d) j = Some r \<and> (cr_status r \<noteq> Pending \<or> always_sent (kind c)))"
  shows "contacts_inv kind (d\<lparr>cd_subs := s\<rparr>)"
proof -
  have "pending_ok kind i r (d\<lparr>cd_subs := s\<rparr>)" if "map_of (cd_contacts d) i = Some r" for i r
    using contacts_invD(2) [OF assms(1) that] assms(2) [of i] that unfolding pending_ok_def by fastforce
  moreover have "map_of (cd_contacts d) i \<noteq> None" if "map_of s (i, c) \<noteq> None" for i c
    using assms(1) assms(2) [OF that] unfolding contacts_inv_def by blast
  ultimately show ?thesis using assms(1) unfolding contacts_inv_def by simp
qed

lemma map_of_delete_subscriptions:
  "map_of (delete_subscriptions_by_contact kind joined i l) (k, c) =
    (if k = i \<and> \<not> (always_sent (kind c) \<and> joined c) then None else map_of l (k, c))"
  unfolding delete_subscriptions_by_contact_def by (induction l) auto

lemma unsubscribe_inv:
  assumes "contacts_inv kind d" "map_of (cd_contacts d) i = Some r" "MIN_OPT_IN_CODE \<le> code" "code \<le> MAX_OPT_IN_CODE"
    and "sq_kind sql = kind"
  shows "contacts_inv kind (snd (unsubscribe_contact sql code i r next_status d))"
proof (cases "next_status = Pending")
  case False
  have "code_ok (r\<lparr>cr_status := next_status\<rparr>)" "pending_ok kind i (r\<lparr>cr_status := next_status\<rparr>) d"
    using contacts_invD [OF assms(1,2)] False by (simp_all add: code_ok_def pending_ok_def)
  from saved_inv [OF assms(1) this] False show ?thesis by (simp add: unsubscribe_contact_def Let_def)
next
  case True
  let ?d1 = "d\<lparr>cd_methods := AList.delete i (cd_methods d), cd_types := delete_first i (cd_types d)\<rparr>"
  let ?d2 = "?d1\<lparr>cd_subs := delete_subscriptions_by_contact kind (sq_joined sql) i (cd_subs d)\<rparr>"
  have types: "distinct (map fst (cd_types d))" using assms(1) by (simp add: contacts_inv_def)
  have d1: "contacts_inv kind ?d1"
    using assms(1) unfolding contacts_inv_def pending_ok_def
    by (auto simp: map_of_delete_first [OF types] keys_delete_first [OF types] delete_conv' split: if_splits)
  then have "contacts_inv kind (?d1\<lparr>cd_subs := delete_subscriptions_by_contact kind (sq_joined sql) i (cd_subs d)\<rparr>)"
    by (rule subs_change_inv) (simp add: map_of_delete_subscriptions split: if_splits)
  then have d2: "contacts_inv kind ?d2" by simp
  let ?r = "r\<lparr>cr_status := Pending, cr_opt_in_code := Some code, cr_action_code := None\<rparr>"
  have "code_ok ?r" "pending_ok kind i ?r ?d2"
    using assms(3,4) by (auto simp: code_ok_def pending_ok_def delete_conv' map_of_delete_subscriptions split: if_splits)
  with d2 have "contacts_inv kind (snd (saved i ?r a ?d2))" for a by (rule saved_inv)
  moreover have "map_of (cd_types d) i \<noteq> None" if "map_of (cd_methods d) i \<noteq> None"
    using assms(1) that by (simp add: contacts_inv_def)
  ultimately show ?thesis
    using assms(1,5) True d1
    by (auto simp: unsubscribe_contact_def Let_def dict_has_iff map_of_eq_None_iff image_iff split: option.splits)
qed

lemma contact_step_inv: "contact_step kind d d' \<Longrightarrow> contacts_inv kind d \<Longrightarrow> contacts_inv kind d'"
proof (induction rule: contact_step.induct)
  case made
  then show ?case by (simp add: create_inv)
next
  case activated
  then show ?case by (simp add: activate_inv)
next
  case unsubscribed
  then show ?case by (simp add: unsubscribe_inv)
next
  case (resubscribed d i r)
  with contacts_invD [OF resubscribed.prems resubscribed.hyps] show ?case
    by (auto simp: resubscribe_contact_def code_ok_def pending_ok_def intro!: saved_inv)
next
  case (toggled i flags d)
  then show ?case
    by (auto simp: toggle_content_type_subs_flag_def contacts_inv_def pending_ok_def update_first_keys map_of_update_first
        split: option.splits)
next
  case (updated d i r um)
  with contacts_invD [OF updated.prems updated.hyps] show ?case
    by (auto simp: update_contact_def code_ok_def pending_ok_def intro!: saved_inv)
next
  case (registered d i r b)
  with contacts_invD [OF registered.prems registered.hyps] show ?case
    by (auto simp: set_app_registered_def code_ok_def pending_ok_def intro!: saved_inv)
next
  case (subscribed d i r content relay)
  then show ?case
    by (auto simp: subscribe_user_def update_conv' intro!: subs_change_inv split: if_splits)
next
  case (left i content d)
  then show ?case
    by (auto simp: unsubscribe_user_def delete_conv' intro!: subs_change_inv split: if_splits)
next
  case (resettled i content relay sst d)
  then show ?case
    by (auto simp: update_subscription_def update_conv' dict_has_iff map_of_eq_None_iff intro!: subs_change_inv split: if_splits
       )
next
  case (removed i d)
  then show ?case
    by (auto simp: delete_contact_def contacts_inv_def pending_ok_def delete_conv' map_of_drop_subs map_of_drop_types distinct_delete
        distinct_map_filter split: if_splits)
qed

lemma contacts_reach_inv: "contacts_reach kind d \<Longrightarrow> contacts_inv kind d"
proof (induction rule: contacts_reach.induct)
  case no_contacts
  then show ?case by (simp add: contacts_inv_def)
next
  case one_more
  then show ?case using contact_step_inv by blast
qed


definition sample_contact :: contact_model where
  "sample_contact = \<lparr>cm_first_name = ''A'', cm_last_name = ''B'', cm_email = Some ''a@b.c'', cm_phone = None,
     cm_app_registered = False, cm_lang = ''en'', cm_frequency = ''always''\<rparr>"

text \<open>A contact that was made, activated, subscribed to two contents and sent back to pending.\<close>

definition no_tables :: contact_db where
  "no_tables = \<lparr>cd_contacts = [], cd_methods = [], cd_types = [], cd_subs = []\<rparr>"

definition sample_kind :: "string \<Rightarrow> content_type" where
  "sample_kind c = (if c = ''news'' then Newsletter else Notification)"

definition sample_sql :: sql_call where
  "sample_sql = \<lparr>sq_kind = sample_kind, sq_joined = (\<lambda>c. True), sq_error = None, sq_rows = 1\<rparr>"

definition contact_one :: "contact_db \<Rightarrow> contact_row" where
  "contact_one d = the (map_of (cd_contacts d) ''1'')"

definition active_tables :: contact_db where
  "active_tables =
    (let d = snd (create_new_contact (\<lambda>i s. s) ''1'' 123456789 sample_contact no_tables);
         d = snd (activate_contact (\<lambda>c. c) ''code'' ''1'' (contact_one d) 123456789 (Some ''Active'', Some ''Inactive'') d)
     in snd (subscribe_user ''1'' ''alert'' ''email'' (snd (subscribe_user ''1'' ''news'' ''email'' d))))"

definition pending_tables :: contact_db where
  "pending_tables = snd (unsubscribe_contact sample_sql 987654321 ''1'' (contact_one active_tables) Pending active_tables)"

lemma pending_tables_reachable: "contacts_reach sample_kind pending_tables"
proof -
  let ?d1 = "snd (create_new_contact (\<lambda>i s. s) ''1'' 123456789 sample_contact no_tables)"
  let ?d2 = "snd (activate_contact (\<lambda>c. c) ''code'' ''1'' (contact_one ?d1) 123456789 (Some ''Active'', Some ''Inactive'') ?d1)"
  let ?d3 = "snd (subscribe_user ''1'' ''news'' ''email'' ?d2)"
  have active: "map_option cr_status (map_of (cd_contacts ?d1) ''1'') = Some Active"
    "map_option cr_status (map_of (cd_contacts ?d2) ''1'') = Some Active"
    "map_option cr_status (map_of (cd_contacts ?d3) ''1'') = Some Active"
    "map_option cr_status (map_of (cd_contacts active_tables) ''1'') = Some Active"
    by code_simp+
  then have m: "map_of (cd_contacts d) ''1'' = Some (contact_one d)" "cr_status (contact_one d) = Active"
    if "d \<in> {?d1, ?d2, ?d3, active_tables}" for d
    using that by (auto simp: contact_one_def)
  have codes: "MIN_OPT_IN_CODE \<le> 123456789" "123456789 \<le> MAX_OPT_IN_CODE" "MIN_OPT_IN_CODE \<le> 987654321" "987654321 \<le> MAX_OPT_IN_CODE"
    by (simp_all add: MIN_OPT_IN_CODE_def MAX_OPT_IN_CODE_def)
  have "contacts_reach sample_kind ?d1" using one_more [OF no_contacts made [OF codes(1,2)]] by (simp only: no_tables_def)
  then have "contacts_reach sample_kind ?d2" by (rule one_more [OF _ activated [OF m(1)]]) simp
  then have "contacts_reach sample_kind ?d3" by (rule one_more [OF _ subscribed [OF m(1) disjI1 [OF m(2)]]]) simp_all
  then have "contacts_reach sample_kind (snd (subscribe_user ''1'' ''alert'' ''email'' ?d3))"
    by (rule one_more [OF _ subscribed [OF m(1) disjI1 [OF m(2)]]]) simp_all
  then have "contacts_reach sample_kind active_tables" by (simp only: active_tables_def Let_def)
  then show ?thesis unfolding pending_tables_def
    by (rule one_more [OF _ unsubscribed [OF m(1) codes(3,4)]]) (simp_all add: sample_sql_def)
qed


section \<open>What the routes can do\<close>

lemma guard_without_content: "active_contact_guard subscription c None relay = Inl (AttributeError ''content_type'')"
  by (simp add: active_contact_guard_def)

lemma no_content_found: "get_subs_content roles idtype found \<noteq> Inr (Some c)"
  by (simp add: get_subs_content_def)

text \<open>C22: Consent never changes over HTTP: whatever the request and the state of the database, unsubscribing a contact,
  activating one and subscribing one to a content raise an exception and leave every table as it was.\<close>

theorem consent_never_changes:
  "(\<exists>e. unsubscribe_route b64 sql code i r action_code next_status d = (Inl e, d))
    \<and> (\<exists>e. activate_route b64 new_code i r opt d = (Inl e, d))
    \<and> (\<exists>e. content_subscribe_route roles i r idtype content found relay d = (Inl e, d))"
proof -
  have "\<exists>e. guarded_route [g, active_contact_guard s c None rel] run d = (Inl e, d)" for g s c rel and run :: "contact_answer result \<times> contact_db"
    by (simp add: guard_without_content split: sum.split verdict.split bool.split)
  then have "\<exists>e. unsubscribe_route b64 sql code i r action_code next_status d = (Inl e, d)"
    unfolding unsubscribe_route_def .
  moreover have "\<exists>e. activate_route b64 new_code i r opt d = (Inl e, d)" by (simp add: activate_route_def call_activate_contact_def)
  moreover have "\<exists>e. content_subscribe_route roles i r idtype content found relay d = (Inl e, d)"
    by (simp add: content_subscribe_route_def get_subs_content_def guard_without_content)
  ultimately show ?thesis by blast
qed

text \<open>Unsubscribing to another status than Pending changes the contact, and then raises.\<close>

lemma failed_unsubscription_persists:
  "next_status \<noteq> Pending \<Longrightarrow> save_contact i (r\<lparr>cr_status := next_status\<rparr>) d = Inr d' \<Longrightarrow>
    unsubscribe_contact sql code i r next_status d = (Inl (UnboundLocalError ''row_affected''), d')"
  by (simp add: unsubscribe_contact_def saved_def Let_def)

text \<open>A contact that is pending can be activated again with its new code.\<close>

lemma reactivated:
  assumes "contacts_reach kind d" "map_of (cd_contacts d) i = Some r" "cr_status r = Pending" "cr_opt_in_code r = Some opt" "s \<in> {''Active'', ''Inactive''}"
  shows "\<exists>d'. activate_contact b64 nc i r opt (Some ''Active'', Some s) d = (Inr (Action_code nc), d')
      \<and> map_of (cd_contacts d') i = Some (r\<lparr>cr_status := Active, cr_action_code := Some (b64 nc)\<rparr>)"
proof -
  note inv = contacts_reach_inv [OF assms(1)]
  have "map_of (cd_methods d) i = None" using contacts_invD(2) [OF inv assms(2)] assms(3) by (simp add: pending_ok_def)
  then have "i \<notin> fst ` set (cd_methods d)" by (simp add: map_of_eq_None_iff)
  moreover have "\<not> list_ex (\<lambda>(j, q). j \<noteq> i \<and> clashes (r\<lparr>cr_status := Active, cr_action_code := Some (b64 nc)\<rparr>) q) (cd_contacts d)"
    using inv_no_clash [OF inv assms(2)] by (auto simp: list_ex_iff clashes_def)
  ultimately show ?thesis
    using assms(4,5) by (auto simp: activate_contact_def create_methods_def status_value_def saved_def save_contact_def update_conv')
qed

text \<open>An update of a contact is only accepted when it gives a name, an e-mail, a phone, a language, a frequency and the
  flag of registration, which has to be set: every accepted update leaves the contact registered in the application, with
  the e-mail and the phone of the update.\<close>

theorem update_registers:
  assumes "check_update email_ok phone_ok m = Inr m'" and "update_contact i r m' d = (Inr a, d')"
  shows "\<exists>q. map_of (cd_contacts d') i = Some q \<and> cr_app_registered q \<and> cr_email q = um_email m' \<and> cr_phone q = um_phone m'
    \<and> cr_email q \<noteq> None \<and> cr_phone q \<noteq> None"
proof -
  have m': "um_app_registered m'" "um_email m' \<noteq> None" "um_phone m' \<noteq> None"
    using assms(1) by (auto simp: check_update_def rbind_Inr_iff given_text_def Let_def split: if_splits option.splits)
  with assms(2) show ?thesis
    by (auto simp: update_contact_def saved_def save_contact_def update_conv' Let_def split: if_splits)
qed

definition sample_update :: update_model where
  "sample_update = \<lparr>um_first_name = Some ''A'', um_last_name = Some ''B'', um_email = Some ''a@b.c'', um_phone = Some ''+1'',
     um_app_registered = True, um_lang = Some ''en'', um_frequency = Some ''always''\<rparr>"

theorem update_registers_witness:
  "check_update (\<lambda>e. True) (\<lambda>p. True) sample_update = Inr (sample_update\<lparr>um_phone := Some ''++1''\<rparr>)
    \<and> (\<exists>q. map_of (cd_contacts (snd (update_contact ''1'' (the (map_of (cd_contacts pending_tables) ''1''))
          (sample_update\<lparr>um_phone := Some ''++1''\<rparr>) \<lparr>cd_contacts = [], cd_methods = [], cd_types = [], cd_subs = []\<rparr>))) ''1'' = Some q
        \<and> cr_app_registered q)"
proof -
  let ?d = "\<lparr>cd_contacts = [], cd_methods = [], cd_types = [], cd_subs = []\<rparr>"
  let ?m = "sample_update\<lparr>um_phone := Some ''++1''\<rparr>"
  have 1: "check_update (\<lambda>e. True) (\<lambda>p. True) sample_update = Inr ?m" by code_simp
  have "fst (update_contact i r ?m ?d) = Inr (Updated ?m)" for i r
    by (simp add: update_contact_def saved_def save_contact_def Let_def)
  then have 2: "update_contact i r ?m ?d = (Inr (Updated ?m), snd (update_contact i r ?m ?d))" for i r
    by (metis prod.collapse)
  from update_registers [OF 1 2] 1 show ?thesis by blast
qed

text \<open>A contact that registers itself gets a token, and the status of e-mails may be any text.\<close>

lemma created_active:
  "create_new_contact encode i code m d = (Inr (Contact_made j), d') \<Longrightarrow>
    j = i \<and> (\<exists>q. map_of (cd_contacts d') i = Some q \<and> cr_status q = Active \<and> cr_opt_in_code q = Some code \<and> cr_action_code q = None
      \<and> cr_auth_token q = (if cm_app_registered m then Some (encode i ''create'') else None))"
  by (auto simp: create_new_contact_def encode_contact_def saved_def save_contact_def update_conv' Let_def split: if_splits sum.splits prod.splits)

lemma email_status_unchecked: "check_subscription_status (Some e) None = Inr (Some e, None)"
  by (simp add: check_subscription_status_def)

end
