(* ===== verification/Links.thy ===== *)
theory Links
  imports Event_Handlers Email_Message File_Utils Mocked
begin

text \<open>
  services/link_service.py, the query of a link in depends/class_dep.py, models/link_model.py and
  ressources/link_ressource.py: rewriting the links of a message so that they can be tracked, reading the query of a
  tracked link back, and what following a link or loading the pixel asks of the broker.  Parsing and
  encoding URLs is a parameter, the pattern of a URL is not.
\<close>

section \<open>Rewriting links\<close>

text \<open>\<open>https?://[^\s"<>()]+\<close>: the length of the match at the start of a text.\<close>

definition link_space :: "char \<Rightarrow> bool" where
  "link_space c \<longleftrightarrow> (let n = of_char c :: nat in 9 \<le> n \<and> n \<le> 13 \<or> 28 \<le> n \<and> n \<le> 32 \<or> n = 133 \<or> n = 160)"

definition link_char :: "char \<Rightarrow> bool" where
  "link_char c \<longleftrightarrow> \<not> link_space c \<and> c \<noteq> CHR 0x22 \<and> c \<notin> set ''<>()''"

definition link_match :: "string \<Rightarrow> nat option" where
  "link_match s =
    (let k = (if starts_with s ''http://'' then 7 else if starts_with s ''https://'' then 8 else 0);
         rest = takeWhile link_char (drop k s)
     in if k = 0 \<or> rest = [] then None else Some (k + length rest))"

datatype link_piece = Plain_char char | Found_link string

function link_pieces :: "string \<Rightarrow> link_piece list" where
  "link_pieces [] = []"
| "link_pieces (c # s) =
    (case link_match (c # s) of
       None \<Rightarrow> Plain_char c # link_pieces s
     | Some n \<Rightarrow> Found_link (take n (c # s)) # link_pieces (drop n (c # s)))"
  by pat_completeness auto
termination
  by (relation "measure length") (auto simp: link_match_def Let_def split: if_splits)

definition sub_links :: "(string \<Rightarrow> string) \<Rightarrow> string \<Rightarrow> string" where
  "sub_links f s = concat (map (\<lambda>p. case p of Plain_char c \<Rightarrow> [c] | Found_link u \<Rightarrow> f u) (link_pieces s))"

text \<open>\<open>urlparse\<close> and \<open>urlencode\<close>; \<open>local\<close> keeps the path, its parameters and the query.\<close>

record url_lib =
  ul_netloc :: "string \<Rightarrow> string"
  ul_local :: "string \<Rightarrow> string"
  ul_encode :: "(string, string) dict \<Rightarrow> string"
  ul_valid :: "string \<Rightarrow> bool"

definition truthy_text :: "string option \<Rightarrow> bool" where
  "truthy_text v \<longleftrightarrow> (case v of None \<Rightarrow> False | Some s \<Rightarrow> s \<noteq> [])"

definition tracking_params :: "url_lib \<Rightarrow> string \<Rightarrow> string \<Rightarrow> string option \<Rightarrow> (string, string) dict \<Rightarrow> string \<Rightarrow> (string, string) dict" where
  "tracking_params lib base message_id contact_id add_params u =
    (let r = (if ul_netloc lib u = ul_netloc lib base then ul_local lib u else u);
         q = (if truthy_text contact_id then [(''contact_id'', the contact_id)] else []);
         q = fold (\<lambda>(k, v). AList.update k v) add_params q
     in AList.update ''r'' r (AList.update ''message_id'' message_id q))"

definition replace_link :: "url_lib \<Rightarrow> string \<Rightarrow> string \<Rightarrow> string option \<Rightarrow> (string, string) dict \<Rightarrow> string \<Rightarrow> string" where
  "replace_link lib base message_id contact_id add_params u =
    base @ ''/link/t/?'' @ ul_encode lib (tracking_params lib base message_id contact_id add_params u)"

definition create_link_re :: "url_lib \<Rightarrow> string \<Rightarrow> string \<Rightarrow> string option \<Rightarrow> (string, string) dict \<Rightarrow> string option \<Rightarrow> string option" where
  "create_link_re lib base message_id contact_id add_params content =
    map_option (sub_links (replace_link lib base message_id contact_id add_params)) content"

definition create_tracking_pixel :: "string \<Rightarrow> string \<Rightarrow> string option \<Rightarrow> string option \<Rightarrow> string" where
  "create_tracking_pixel base email_id contact_id esp =
    base @ ''/link/p/p.png/?message_id='' @ email_id
      @ (if truthy_text contact_id then ''&contact_id='' @ the contact_id else [])
      @ (if truthy_text esp then ''&esp='' @ the esp else ''Untracked Provider'')"

section \<open>The query of a link\<close>

definition server_scoped_params :: "string list" where
  "server_scoped_params = [''client_id'', ''group_id'', ''contact_id'', ''session_id'', ''message_id'', ''link_id'', ''subject_id'', ''r'', ''esp'']"

definition ids_type :: "string list" where
  "ids_type = [''cid'', ''gid'', ''lid'', ''ctid'', ''sid_type'']"

text \<open>The query of a request has each key once.\<close>

record link_query =
  lq_query :: "(string, string) dict"
  lq_link_params :: "(string, string) dict"
  lq_server_scoped :: "(string, string) dict"
  lq_ids_type :: "(string, string) dict"

definition filter_param :: "string \<times> string \<Rightarrow> link_query \<Rightarrow> link_query" where
  "filter_param = (\<lambda>(k, v) q.
    if k \<in> set ids_type then q\<lparr>lq_ids_type := AList.update k v (lq_ids_type q)\<rparr>
    else if k \<in> set server_scoped_params then q\<lparr>lq_server_scoped := AList.update k v (lq_server_scoped q)\<rparr>
    else q\<lparr>lq_link_params := AList.update k v (lq_link_params q)\<rparr>)"

definition filter_params :: "(string, string) dict \<Rightarrow> link_query" where
  "filter_params qs = fold filter_param qs \<lparr>lq_query = qs, lq_link_params = [], lq_server_scoped = [], lq_ids_type = []\<rparr>"

definition raw_params :: "(string, string) dict \<Rightarrow> string" where
  "raw_params d = (case map (\<lambda>(k, v). k @ ''='' @ v) d of [] \<Rightarrow> [] | x # xs \<Rightarrow> x @ concat (map (\<lambda>y. ''&'' @ y) xs))"

definition raw_filtered_out_params :: "(string, string) dict \<Rightarrow> string list \<Rightarrow> string" where
  "raw_filtered_out_params d include = raw_params (filter (\<lambda>(k, v). k \<in> set include) d)"

text \<open>What a link is made from: the address of the request, the address of a stored link, or a text.\<close>

definition create_link :: "link_query \<Rightarrow> string \<Rightarrow> string \<Rightarrow> string list \<Rightarrow> string list \<Rightarrow> string" where
  "create_link q url path include_scoped include_ids =
    (if ends_with url ''/'' then url else url @ ''/'')
      @ (if starts_with path ''/'' then drop 1 path else path) @ ''?''
      @ raw_params (lq_link_params q) @ raw_filtered_out_params (lq_server_scoped q) include_scoped
      @ raw_filtered_out_params (lq_ids_type q) include_ids"

definition subject_key :: "string \<Rightarrow> string" where
  "subject_key sid_type =
    (if sid_type = ''message'' then ''message_id'' else if sid_type = ''contact'' then ''contact_id''
     else if sid_type = ''session'' then ''session_id'' else ''subject_id'')"

definition subject_id :: "link_query \<Rightarrow> string \<times> string option" where
  "subject_id q =
    (let st = (case map_of (lq_ids_type q) ''sid_type'' of None \<Rightarrow> ''plain'' | Some t \<Rightarrow> t)
     in (st, map_of (lq_server_scoped q) (subject_key st)))"

definition server_file_error :: exn where "server_file_error = OtherException ''ServerFileError''"

text \<open>A redirection that is no URL is answered with a page; the base URL is compared with a host.\<close>

definition redirect_url :: "url_lib \<Rightarrow> (string \<Rightarrow> string \<Rightarrow> string) \<Rightarrow> string \<Rightarrow> link_query \<Rightarrow> string result" where
  "redirect_url lib remove base q =
    (case map_of (lq_query q) ''r'' of
       None \<Rightarrow> Inl server_file_error
     | Some r \<Rightarrow> if \<not> ul_valid lib r then Inl server_file_error
         else if ul_netloc lib r = base then Inr (remove base r) else Inr r)"

definition is_same_redirect_url :: "url_lib \<Rightarrow> string \<Rightarrow> link_query \<Rightarrow> bool" where
  "is_same_redirect_url lib base q \<longleftrightarrow> (case map_of (lq_query q) ''r'' of None \<Rightarrow> False | Some r \<Rightarrow> ul_netloc lib r = base)"

section \<open>Visits\<close>

text \<open>\<open>parse_info\<close>: what is known of the place of a visitor; \<open>conv_float\<close> reads a number.\<close>

definition geo_of :: "(string \<Rightarrow> rat result) \<Rightarrow> string option \<Rightarrow> (rat option \<times> rat option) result" where
  "geo_of conv_float place =
    (case place of
       None \<Rightarrow> Inr (None, None)
     | Some l \<Rightarrow>
         (case py_split '','' l of
            [a, b] \<Rightarrow> rbind (conv_float a) (\<lambda>lat. rbind (conv_float b) (\<lambda>long. Inr (Some lat, Some long)))
          | _ \<Rightarrow> Inl ValueError))"

record visit_info =
  vi_link_id :: string
  vi_path :: "string option"
  vi_email_id :: "string option"
  vi_contact_id :: "string option"
  vi_geo :: "(rat option \<times> rat option) option"
  vi_place :: "(string, string option) dict"

definition parse_info ::
  "(string \<Rightarrow> rat result) \<Rightarrow> (string, string) dict option \<Rightarrow> string option \<Rightarrow> string \<Rightarrow> string \<Rightarrow> link_query \<Rightarrow> visit_info result" where
  "parse_info conv_float ip_lookup referrer link_id path q =
    (let base = \<lparr>vi_link_id = link_id, vi_path = (if path = [] then None else Some path),
           vi_email_id = map_of (lq_server_scoped q) ''message_id'', vi_contact_id = map_of (lq_server_scoped q) ''contact_id'',
           vi_geo = None, vi_place = []\<rparr>
     in (case ip_lookup of
           None \<Rightarrow> Inr base
         | Some d \<Rightarrow> rbind (geo_of conv_float (map_of d ''loc'')) (\<lambda>g.
             Inr (base\<lparr>vi_geo := Some g, vi_place := map (\<lambda>k. (k, map_of d k)) [''country'', ''region'', ''city'', ''timezone'']
               @ [(''referrer'', referrer)]\<rparr>))))"

section \<open>The routes\<close>

datatype broker_call = Publish string string "string option" fields | Stream_entry string fields

text \<open>
  \<open>publish\<close> and \<open>stream\<close> of the broker are decorated with \<open>@Mock()\<close>: of the calls the routes make, none becomes
  a background task.
\<close>

definition broker_run :: "broker_call \<Rightarrow> broker_call list \<Rightarrow> unit option \<times> broker_call list" where
  "broker_run c = mocked (\<lambda>tasks. ((), tasks @ [c]))"

definition background_tasks :: "broker_call list \<Rightarrow> broker_call list" where
  "background_tasks calls = fold (\<lambda>c tasks. snd (broker_run c tasks)) calls []"

fun event_value :: "email_status \<Rightarrow> string" where
  "event_value RECEIVED = ''RECEIVED''"
| "event_value SENT = ''SENT''"
| "event_value DELIVERED = ''DELIVERED''"
| "event_value SOFT_BOUNCE = ''SOFT-BOUNCE''"
| "event_value HARD_BOUNCE = ''HARD-BOUNCE''"
| "event_value MAILBOX_FULL = ''MAILBOX-FULL''"
| "event_value OPENED = ''OPENED''"
| "event_value LINK_CLICKED = ''LINK-CLICKED''"
| "event_value FAILED = ''FAILED''"
| "event_value BLOCKED = ''BLOCKED''"
| "event_value COMPLAINT = ''COMPLAINT''"
| "event_value DEFERRED = ''DEFERRED''"
| "event_value DELAYED = ''DELAYED''"
| "event_value REPLIED = ''REPLIED''"
| "event_value REJECTED = ''REJECTED''"

text \<open>The event that says the e-mail was delivered misspells the name of its date.\<close>

definition opening_event :: "string \<Rightarrow> string \<Rightarrow> string \<Rightarrow> email_status \<Rightarrow> string \<Rightarrow> string \<Rightarrow> fields" where
  "opening_event now message_id event_id ev esp date_key =
    [(''event_id'', Some event_id), (''email_id'', Some message_id), (''current_event'', Some (event_value ev)),
     (date_key, Some now), (''esp_provider'', Some esp),
     (''description'', Some (if ev = DELIVERED then ''The email has been successfully delivered in the recipient mailbox'' else ''''))]"

definition send_email_event :: "string \<Rightarrow> string \<Rightarrow> string \<Rightarrow> link_query \<Rightarrow> email_status \<Rightarrow> broker_call list" where
  "send_email_event now id1 id2 q ev =
    (case map_of (lq_query q) ''contact_id'' of
       Some c \<Rightarrow> if c \<noteq> [] then [Publish ''contact-event'' ''contact'' (Some c) []] else []
     | None \<Rightarrow> [])
    @ (case map_of (lq_query q) ''message_id'' of
         Some m \<Rightarrow>
           if m = [] then []
           else (let esp = (case map_of (lq_query q) ''esp'' of None \<Rightarrow> ''Untracked Provider'' | Some e \<Rightarrow> e);
                     data = opening_event now m id1 ev esp ''date_event_received''
                 in [Publish ''email-event'' ''message'' (Some m) data, Stream_entry ''email-event'' data,
                     Stream_entry ''email-event'' (opening_event now m id2 DELIVERED esp ''ate_event_received'')])
       | None \<Rightarrow> [])"

definition Image_Ext :: "string list" where
  "Image_Ext = [''.png'', ''.jpg'', ''.jpeg'', ''.gif'', ''.bmp'', ''.webp'', ''.svg'']"

definition track_email_links ::
  "url_lib \<Rightarrow> (string \<Rightarrow> string \<Rightarrow> string) \<Rightarrow> string \<Rightarrow> string \<Rightarrow> string \<Rightarrow> string \<Rightarrow> link_query \<Rightarrow> (string \<times> broker_call list) result" where
  "track_email_links lib remove base now id1 id2 q =
    rbind (redirect_url lib remove base q) (\<lambda>u.
      let is_image = list_ex (ends_with (hd (py_split ''?'' u))) Image_Ext;
          calls = send_email_event now id1 id2 q (if is_image then OPENED else LINK_CLICKED);
          target = (if is_same_redirect_url lib base q then create_link q u [] [] []
                    else create_link q u [] [''contact_id'', ''message_id''] [''cid''])
      in Inr (target, calls))"

definition track_pixel :: "string \<Rightarrow> string \<Rightarrow> string \<Rightarrow> link_query \<Rightarrow> broker_call list" where
  "track_pixel now id1 id2 q = send_email_event now id1 id2 q OPENED"

text \<open>A visit: the text \<open>session_id\<close> is given where a tuple of names is meant.\<close>

definition within_text :: "string \<Rightarrow> string \<Rightarrow> bool" where
  "within_text k s \<longleftrightarrow> list_ex (\<lambda>i. starts_with (drop i s) k) [0..<Suc (length s)]"

definition track_visit_url ::
  "(string \<Rightarrow> rat result) \<Rightarrow> (string, string) dict option \<Rightarrow> string option \<Rightarrow> string \<Rightarrow> string \<Rightarrow> string \<Rightarrow> link_query
    \<Rightarrow> (string \<times> (string \<times> string option) \<times> visit_info) result" where
  "track_visit_url conv_float ip_lookup referrer link_id link_url path q =
    (let target = create_link q link_url path (filter (\<lambda>k. within_text k ''session_id'') server_scoped_params) []
     in rbind (parse_info conv_float ip_lookup referrer link_id path q) (\<lambda>info. Inr (target, subject_id q, info)))"

section \<open>The models\<close>

datatype link_expiration = At_date int | In_seconds rat

definition check_link_name :: "string \<Rightarrow> string result" where
  "check_link_name n = (if n = [] then Inl ValueError else if 200 \<le> length n then Inl ValueError else Inr n)"

definition check_expiration :: "link_expiration option \<Rightarrow> link_expiration option result" where
  "check_expiration e =
    (case e of Some (In_seconds r) \<Rightarrow> if r < 0 then Inl ValueError else if r = 0 then Inr None else Inr e | _ \<Rightarrow> Inr e)"

definition check_url :: "url_lib \<Rightarrow> string \<Rightarrow> string result" where
  "check_url lib u = (if \<not> ul_valid lib u then Inl ValueError else Inr u)"

record link_update =
  lu_archived :: "bool option"
  lu_expiration :: "link_expiration option"
  lu_name :: "string option"

definition check_link_update :: "link_update \<Rightarrow> link_update result" where
  "check_link_update m =
    rbind (case lu_name m of None \<Rightarrow> Inr None | Some n \<Rightarrow> map_sum id Some (check_link_name n)) (\<lambda>n.
    rbind (case lu_expiration m of None \<Rightarrow> Inr None | Some e \<Rightarrow> check_expiration (Some e)) (\<lambda>e.
      if e = None \<and> n = None \<and> lu_archived m = None then Inl ValueError
      else Inr (m\<lparr>lu_name := n, lu_expiration := e\<rparr>)))"

record stored_link =
  lr_name :: string
  lr_short_id :: string
  lr_url :: string
  lr_expiration :: "link_expiration option"
  lr_archived :: bool

definition update_link :: "link_update \<Rightarrow> stored_link \<Rightarrow> stored_link" where
  "update_link m l =
    l\<lparr>lr_archived := (case lu_archived m of None \<Rightarrow> lr_archived l | Some b \<Rightarrow> b),
      lr_expiration := (case lu_expiration m of None \<Rightarrow> lr_expiration l | Some e \<Rightarrow> Some e),
      lr_name := (case lu_name m of None \<Rightarrow> lr_name l | Some n \<Rightarrow> if n = [] then lr_name l else n)\<rparr>"

section \<open>What rewriting does\<close>

definition piece_text :: "link_piece \<Rightarrow> string" where
  "piece_text p = (case p of Plain_char c \<Rightarrow> [c] | Found_link u \<Rightarrow> u)"

lemma piece_text_simps [simp]: "piece_text (Plain_char c) = [c]" "piece_text (Found_link u) = u"
  by (simp_all add: piece_text_def)

lemma link_pieces_text: "concat (map piece_text (link_pieces s)) = s"
  by (induction s rule: link_pieces.induct) (auto split: option.splits)

lemma starts_with_take: "length p \<le> n \<Longrightarrow> starts_with (take n s) p \<longleftrightarrow> starts_with s p"
  by (simp add: starts_with_def min_def)

lemma link_match_bounds:
  assumes "link_match s = Some n"
  shows "n \<le> length s" "8 \<le> n"
proof -
  have k: "starts_with s p \<Longrightarrow> length p \<le> length s" for p
    by (metis starts_with_def length_take min.cobounded1)
  show "n \<le> length s" "8 \<le> n"
    using assms k [of "''http://''"] k [of "''https://''"] length_takeWhile_le [of link_char "drop 7 s"] length_takeWhile_le [of link_char "drop 8 s"]
    by (auto simp: link_match_def Let_def Suc_le_eq split: if_splits)
qed

text \<open>The pattern \<open>https?://[^\s"<>()]+\<close> as a set of texts.\<close>

definition is_link :: "string \<Rightarrow> bool" where
  "is_link u \<longleftrightarrow> (\<exists>p rest. (p = ''http://'' \<or> p = ''https://'') \<and> u = p @ rest \<and> rest \<noteq> [] \<and> (\<forall>c\<in>set rest. link_char c))"

definition pieces_text :: "link_piece list \<Rightarrow> string" where
  "pieces_text ps = concat (map piece_text ps)"

text \<open>A link ends where the text ends or a character comes that links do not have.\<close>

definition link_ends :: "string \<Rightarrow> bool" where
  "link_ends s \<longleftrightarrow> (case s of [] \<Rightarrow> True | c # _ \<Rightarrow> \<not> link_char c)"

lemma starts_with_append: "starts_with s p \<longleftrightarrow> (\<exists>r. s = p @ r)"
  by (metis append_eq_conv_conj append_take_drop_id starts_with_def)

lemma link_match_Some:
  assumes "link_match s = Some n"
  shows "is_link (take n s) \<and> link_ends (drop n s)"
proof -
  consider "starts_with s ''http://''" | "\<not> starts_with s ''http://''" "starts_with s ''https://''"
    using assms by (auto simp: link_match_def split: if_splits)
  then obtain p r where p: "p = ''http://'' \<or> p = ''https://''" "s = p @ r" "takeWhile link_char r \<noteq> []"
    "n = length p + length (takeWhile link_char r)"
  proof cases
    case 1
    then obtain r where "s = ''http://'' @ r" unfolding starts_with_append by blast
    with 1 assms show thesis using that [of "''http://''" r] by (simp add: link_match_def Let_def split: if_splits)
  next
    case 2
    then obtain r where "s = ''https://'' @ r" unfolding starts_with_append by blast
    with 2 assms show thesis using that [of "''https://''" r] by (simp add: link_match_def Let_def split: if_splits)
  qed
  have "take n s = p @ takeWhile link_char r" "drop n s = dropWhile link_char r"
    unfolding p(2,4) by (simp_all add: takeWhile_eq_take [symmetric] dropWhile_eq_drop [symmetric])
  moreover have "link_ends (dropWhile link_char r)"
    by (induction r) (simp_all add: link_ends_def)
  ultimately show ?thesis
    using p(1,3) set_takeWhileD [of _ link_char r] unfolding is_link_def by metis
qed

lemma link_match_None: "link_match (u @ v) = None \<Longrightarrow> \<not> is_link u"
proof
  assume none: "link_match (u @ v) = None" and "is_link u"
  then obtain p c r where "p = ''http://'' \<or> p = ''https://''" "u = p @ c # r" "link_char c"
    unfolding is_link_def by (metis list.exhaust list.set_intros(1))
  then show False using none by (auto simp: link_match_def Let_def starts_with_append)
qed

lemma link_pieces_cut:
  assumes "link_pieces s = qs @ p # rs"
  shows "case p of Found_link u \<Rightarrow> is_link u \<and> link_ends (pieces_text rs)
    | Plain_char c \<Rightarrow> \<forall>u v. c # pieces_text rs = u @ v \<longrightarrow> \<not> is_link u"
  using assms
proof (induction s arbitrary: qs rule: link_pieces.induct)
  case (2 d s)
  show ?case
  proof (cases "link_match (d # s)")
    case None
    show ?thesis
    proof (cases qs)
      case Nil
      with 2(3) None have "p = Plain_char d" "pieces_text rs = s"
        using link_pieces_text [of s] by (auto simp: pieces_text_def)
      with None show ?thesis using link_match_None by auto
    qed (use 2(1) [OF None] 2(3) None in auto)
  next
    case (Some n)
    show ?thesis
    proof (cases qs)
      case Nil
      with 2(3) Some have "p = Found_link (take n (d # s))" "pieces_text rs = drop n (d # s)"
        using link_pieces_text [of "drop n (d # s)"] by (auto simp: pieces_text_def)
      with link_match_Some [OF Some] show ?thesis by simp
    qed (use 2(2) [OF Some] 2(3) Some in auto)
  qed
qed simp

text \<open>C21: Rewriting a message replaces each of its links, and nothing else. The message is cut into pieces: links, which
  have the form of the pattern and end only where the text ends or a character comes that no link has, so
  that they are as long as they can be; and single characters, at none of which a link starts. The result
  is the same sequence with every link replaced and every other character kept.\<close>

theorem only_links_rewritten:
  "\<exists>ps. pieces_text ps = s
    \<and> sub_links f s = concat (map (\<lambda>p. case p of Plain_char c \<Rightarrow> [c] | Found_link u \<Rightarrow> f u) ps)
    \<and> (\<forall>qs u rs. ps = qs @ Found_link u # rs \<longrightarrow> is_link u \<and> link_ends (pieces_text rs))
    \<and> (\<forall>qs c rs u v. ps = qs @ Plain_char c # rs \<and> c # pieces_text rs = u @ v \<longrightarrow> \<not> is_link u)"
  by (rule exI [of _ "link_pieces s"])
    (use link_pieces_cut [of s] link_pieces_text [of s] in \<open>force simp: sub_links_def pieces_text_def\<close>)

theorem only_links_rewritten_witness:
  "sub_links (\<lambda>u. ''X'') ''a http://b.c d'' = ''a X d''
    \<and> (\<exists>ps. pieces_text ps = ''a http://b.c d'' \<and> concat (map (\<lambda>p. case p of Plain_char c \<Rightarrow> [c] | Found_link u \<Rightarrow> ''X'') ps) = ''a X d'')"
proof -
  have "sub_links (\<lambda>u. ''X'') ''a http://b.c d'' = ''a X d''" by code_simp
  with only_links_rewritten [of "''a http://b.c d''" "\<lambda>u. ''X''"] show ?thesis by metis
qed

section \<open>Reading a tracked link back\<close>

lemma filter_param_lookup:
  "map_of (lq_ids_type (filter_param p q)) k = (if k = fst p \<and> k \<in> set ids_type then Some (snd p) else map_of (lq_ids_type q) k)"
  "map_of (lq_server_scoped (filter_param p q)) k =
    (if k = fst p \<and> k \<notin> set ids_type \<and> k \<in> set server_scoped_params then Some (snd p) else map_of (lq_server_scoped q) k)"
  "map_of (lq_link_params (filter_param p q)) k =
    (if k = fst p \<and> k \<notin> set ids_type \<and> k \<notin> set server_scoped_params then Some (snd p) else map_of (lq_link_params q) k)"
  by (auto simp: filter_param_def update_conv' split: prod.split)

lemma fold_lookup:
  assumes "\<And>p q. map_of (g (filter_param p q)) k = (if k = fst p \<and> P then Some (snd p) else map_of (g q) k)" "distinct (map fst qs)"
  shows "map_of (g (fold filter_param qs q)) k = (if P \<and> k \<in> fst ` set qs then map_of qs k else map_of (g q) k)"
  using assms(2)
proof (induction qs arbitrary: q)
  case (Cons p qs)
  then have new: "map_of qs (fst p) = None" by (simp add: map_of_eq_None_iff)
  have step: "map_of (g (fold filter_param (p # qs) q)) k = (if P \<and> k \<in> fst ` set qs then map_of qs k else map_of (g (filter_param p q)) k)"
    using Cons.IH [of "filter_param p q"] Cons.prems by simp
  then show ?case unfolding step assms(1) using new by (cases p) (auto simp: map_of_eq_None_iff)
qed simp

lemmas filter_fold_lookup = fold_lookup [of lq_ids_type, OF filter_param_lookup(1)]
  fold_lookup [of lq_server_scoped, OF filter_param_lookup(2)] fold_lookup [of lq_link_params, OF filter_param_lookup(3)]

text \<open>Every parameter of the query is kept in exactly one of the three groups.\<close>

lemma filter_params_groups:
  assumes "distinct (map fst qs)" "k \<in> fst ` set qs"
  shows "map_of (lq_ids_type (filter_params qs)) k = (if k \<in> set ids_type then map_of qs k else None)
    \<and> map_of (lq_server_scoped (filter_params qs)) k = (if k \<notin> set ids_type \<and> k \<in> set server_scoped_params then map_of qs k else None)
    \<and> map_of (lq_link_params (filter_params qs)) k = (if k \<notin> set ids_type \<and> k \<notin> set server_scoped_params then map_of qs k else None)"
  using assms by (simp add: filter_params_def filter_fold_lookup)

definition esp_params :: "string option \<Rightarrow> (string, string) dict" where
  "esp_params esp = (case esp of None \<Rightarrow> [] | Some e \<Rightarrow> [(''esp'', e)])"

lemma tracking_params_list:
  "tracking_params lib base m contact_id (esp_params esp) u =
    (if truthy_text contact_id then [(''contact_id'', the contact_id)] else []) @ esp_params esp
      @ [(''message_id'', m), (''r'', if ul_netloc lib u = ul_netloc lib base then ul_local lib u else u)]"
  by (simp add: tracking_params_def esp_params_def Let_def split: option.split)

definition tracked_query :: "url_lib \<Rightarrow> string \<Rightarrow> string \<Rightarrow> string option \<Rightarrow> string option \<Rightarrow> string \<Rightarrow> link_query" where
  "tracked_query lib base m contact_id esp u = filter_params (tracking_params lib base m contact_id (esp_params esp) u)"

lemma tracked_query_parts:
  "lq_query (tracked_query lib base m contact_id esp u) = tracking_params lib base m contact_id (esp_params esp) u"
  "lq_link_params (tracked_query lib base m contact_id esp u) = []"
  "lq_ids_type (tracked_query lib base m contact_id esp u) = []"
  "lq_server_scoped (tracked_query lib base m contact_id esp u) = tracking_params lib base m contact_id (esp_params esp) u"
  unfolding tracked_query_def tracking_params_list filter_params_def
  by (simp_all add: esp_params_def filter_param_def ids_type_def server_scoped_params_def split: option.split)

lemma tracked_lookup:
  "map_of (tracking_params lib base m contact_id (esp_params esp) u) ''r'' =
    Some (if ul_netloc lib u = ul_netloc lib base then ul_local lib u else u)"
  "map_of (tracking_params lib base m contact_id (esp_params esp) u) ''message_id'' = Some m"
  "map_of (tracking_params lib base m contact_id (esp_params esp) u) ''contact_id'' = (if truthy_text contact_id then contact_id else None)"
  "map_of (tracking_params lib base m contact_id (esp_params esp) u) ''esp'' = esp"
  unfolding tracking_params_list by (auto simp: esp_params_def truthy_text_def split: option.split)

definition followed_target :: "string \<Rightarrow> string option \<Rightarrow> string \<Rightarrow> string" where
  "followed_target u contact_id m =
    (if ends_with u ''/'' then u else u @ ''/'') @ ''?''
      @ (if truthy_text contact_id then ''contact_id='' @ the contact_id @ ''&'' else []) @ ''message_id='' @ m"

definition opening_calls :: "string \<Rightarrow> string \<Rightarrow> string \<Rightarrow> string \<Rightarrow> string option \<Rightarrow> string option \<Rightarrow> email_status \<Rightarrow> broker_call list" where
  "opening_calls now id1 id2 m contact_id esp ev =
    (let provider = (case esp of None \<Rightarrow> ''Untracked Provider'' | Some e \<Rightarrow> e);
         data = opening_event now m id1 ev provider ''date_event_received''
     in (if truthy_text contact_id then [Publish ''contact-event'' ''contact'' contact_id []] else [])
        @ [Publish ''email-event'' ''message'' (Some m) data, Stream_entry ''email-event'' data,
           Stream_entry ''email-event'' (opening_event now m id2 DELIVERED provider ''ate_event_received'')])"

lemma tracked_target:
  "create_link (tracked_query lib base m contact_id esp u) u [] [''contact_id'', ''message_id''] [''cid''] = followed_target u contact_id m"
proof -
  have scoped: "raw_filtered_out_params (tracking_params lib base m contact_id (esp_params esp) u) [''contact_id'', ''message_id''] =
      (if truthy_text contact_id then ''contact_id='' @ the contact_id @ ''&'' else []) @ ''message_id='' @ m"
    unfolding tracking_params_list
    by (simp add: raw_filtered_out_params_def raw_params_def esp_params_def split: option.split)
  show ?thesis
    unfolding create_link_def tracked_query_parts scoped followed_target_def
    by (simp add: raw_params_def raw_filtered_out_params_def starts_with_def)
qed

lemma tracked_link_calls:
  "m \<noteq> [] \<Longrightarrow> send_email_event now id1 id2 (tracked_query lib base m contact_id esp u) ev = opening_calls now id1 id2 m contact_id esp ev"
  unfolding send_email_event_def tracked_query_parts tracked_lookup
  by (auto simp: opening_calls_def truthy_text_def Let_def split: option.split)

lemma no_background_tasks [simp]: "background_tasks calls = []"
  unfolding background_tasks_def broker_run_def by (induction calls) simp_all

lemma followed_target_longer: "followed_target u contact_id m \<noteq> u"
proof -
  have "length u < length (followed_target u contact_id m)" by (simp add: followed_target_def)
  then show ?thesis by (metis less_irrefl)
qed

text \<open>C20: A tracked link does not lead back to where it led, and following it leaves no trace. The query of the
  tracked link is read back as it was encoded. For a link of another site that is valid as a URL, the
  answer is a redirection to the link with a slash, unless it ends in one, a question mark and the ids of
  the contact and the message appended, also after a query of its own: never the link itself. For a link
  of the server's own site whose path and query are no URL by themselves, the answer is the page of an
  error. The calls that are made to the broker, a mock, leave no background task.\<close>

theorem tracked_link_altered:
  assumes "q = tracked_query lib base m contact_id esp u" and "m \<noteq> []"
  shows "(ul_netloc lib u \<noteq> ul_netloc lib base \<and> ul_netloc lib u \<noteq> base \<and> ul_valid lib u \<longrightarrow>
     (\<exists>calls. track_email_links lib remove base now id1 id2 q = Inr (followed_target u contact_id m, calls)
        \<and> background_tasks calls = []) \<and> followed_target u contact_id m \<noteq> u)
    \<and> (ul_netloc lib u = ul_netloc lib base \<and> \<not> ul_valid lib (ul_local lib u) \<longrightarrow>
      track_email_links lib remove base now id1 id2 q = Inl server_file_error)"
proof (intro conjI impI)
  assume "ul_netloc lib u = ul_netloc lib base \<and> \<not> ul_valid lib (ul_local lib u)"
  then show "track_email_links lib remove base now id1 id2 q = Inl server_file_error"
    unfolding assms(1) track_email_links_def redirect_url_def tracked_query_parts tracked_lookup by simp
next
  assume "ul_netloc lib u \<noteq> ul_netloc lib base \<and> ul_netloc lib u \<noteq> base \<and> ul_valid lib u"
  then have "redirect_url lib remove base q = Inr u" "\<not> is_same_redirect_url lib base q"
    unfolding assms(1) redirect_url_def is_same_redirect_url_def tracked_query_parts tracked_lookup by simp_all
  then show "\<exists>calls. track_email_links lib remove base now id1 id2 q = Inr (followed_target u contact_id m, calls)
      \<and> background_tasks calls = []"
    by (simp add: track_email_links_def Let_def assms(1) tracked_target tracked_link_calls [OF assms(2)])
qed (rule followed_target_longer)

definition link_sample_lib :: url_lib where
  "link_sample_lib = \<lparr>ul_netloc = (\<lambda>u. takeWhile (\<lambda>c. c \<noteq> CHR ''/'') (drop 8 u)), ul_local = (\<lambda>u. dropWhile (\<lambda>c. c \<noteq> CHR ''/'') (drop 8 u)),
     ul_encode = raw_params, ul_valid = (\<lambda>u. starts_with u ''https://'')\<rparr>"

theorem tracked_link_altered_witness:
  "map_sum id fst (track_email_links link_sample_lib (\<lambda>b u. u) ''https://n.io'' ''now'' ''1'' ''2''
      (tracked_query link_sample_lib ''https://n.io'' ''m'' None None ''https://x.y/a?b=1'')) = Inr ''https://x.y/a?b=1/?message_id=m''
    \<and> track_email_links link_sample_lib (\<lambda>b u. u) ''https://n.io'' ''now'' ''1'' ''2''
      (tracked_query link_sample_lib ''https://n.io'' ''m'' None None ''https://n.io/a'') = Inl server_file_error"
proof -
  have 1: "ul_netloc link_sample_lib ''https://x.y/a?b=1'' \<noteq> ul_netloc link_sample_lib ''https://n.io''"
    "ul_netloc link_sample_lib ''https://x.y/a?b=1'' \<noteq> ''https://n.io''" "ul_valid link_sample_lib ''https://x.y/a?b=1''" by code_simp+
  have 2: "ul_netloc link_sample_lib ''https://n.io/a'' = ul_netloc link_sample_lib ''https://n.io''"
    "\<not> ul_valid link_sample_lib (ul_local link_sample_lib ''https://n.io/a'')" by code_simp+
  have m: "''m'' \<noteq> []" by simp
  have t: "followed_target ''https://x.y/a?b=1'' None ''m'' = ''https://x.y/a?b=1/?message_id=m''" by code_simp
  obtain calls where "track_email_links link_sample_lib (\<lambda>b u. u) ''https://n.io'' ''now'' ''1'' ''2''
      (tracked_query link_sample_lib ''https://n.io'' ''m'' None None ''https://x.y/a?b=1'')
      = Inr (followed_target ''https://x.y/a?b=1'' None ''m'', calls)"
    using tracked_link_altered [OF refl m, of link_sample_lib "''https://x.y/a?b=1''" "''https://n.io''"] 1 by blast
  moreover have "track_email_links link_sample_lib (\<lambda>b u. u) ''https://n.io'' ''now'' ''1'' ''2''
      (tracked_query link_sample_lib ''https://n.io'' ''m'' None None ''https://n.io/a'') = Inl server_file_error"
    using tracked_link_altered [OF refl m, of link_sample_lib "''https://n.io/a''" "''https://n.io''"] 2 by blast
  ultimately show ?thesis by (simp add: t)
qed

text \<open>The pixel of a message to an unknown provider names another message.\<close>

lemma pixel_without_esp:
  "create_tracking_pixel base m None None = base @ ''/link/p/p.png/?message_id='' @ m @ ''Untracked Provider''"
  by (simp add: create_tracking_pixel_def truthy_text_def)

lemma update_needs_a_value:
  "check_link_update m = Inr m' \<Longrightarrow> lu_expiration m' \<noteq> None \<or> lu_name m' \<noteq> None \<or> lu_archived m' \<noteq> None"
  by (auto simp: check_link_update_def rbind_Inr_iff split: if_splits)

end
