(* ===== verification/Web_Sockets.thy ===== *)
theory Web_Sockets
  imports Security_Tokens
begin

text \<open>
  definition/_ws.py: the connections of a path, the check of a client that connects, and the loop of an endpoint, which
  receives a message, lets the ressource answer it and sends the answer.  What the client sends is a list of events; the
  ressource is a function of the message.
\<close>

section \<open>Connections\<close>

record 'c ws_manager =
  wm_rooms :: "(string, 'c list) dict"
  wm_active :: "'c list"

definition create_room :: "string \<Rightarrow> 'c ws_manager \<Rightarrow> string \<times> 'c ws_manager" where
  "create_room room_id m = (room_id, m\<lparr>wm_rooms := AList.update room_id [] (wm_rooms m)\<rparr>)"

text \<open>A connection that cannot be accepted is passed over.\<close>

definition ws_connect :: "bool \<Rightarrow> 'c \<Rightarrow> 'c ws_manager \<Rightarrow> 'c ws_manager" where
  "ws_connect accepts c m = (if accepts then m\<lparr>wm_active := wm_active m @ [c]\<rparr> else m)"

definition runtime_error :: exn where "runtime_error = OtherException ''RuntimeError''"

text \<open>What closing a connection raises: a RuntimeError is passed over, another exception ends the operation.\<close>

definition ws_disconnect :: "exn option \<Rightarrow> 'c \<Rightarrow> 'c ws_manager \<Rightarrow> exn option \<times> 'c ws_manager" where
  "ws_disconnect close c m =
    (if close \<notin> {None, Some runtime_error} then (close, m)
     else if c \<notin> set (wm_active m) then (Some ValueError, m)
     else (None, m\<lparr>wm_active := remove1 c (wm_active m)\<rparr>))"

fun close_each :: "('c \<Rightarrow> exn option) \<Rightarrow> 'c list \<Rightarrow> exn option \<times> 'c list" where
  "close_each close [] = (None, [])"
| "close_each close (c # cs) =
    (if close c \<notin> {None, Some runtime_error} then (close c, [])
     else apsnd ((#) c) (close_each close cs))"

definition disconnect_all :: "('c \<Rightarrow> exn option) \<Rightarrow> 'c ws_manager \<Rightarrow> (exn option \<times> 'c list) \<times> 'c ws_manager" where
  "disconnect_all close m = (close_each close (wm_active m), m)"

fun broadcast :: "('c \<Rightarrow> exn option) \<Rightarrow> 'c list \<Rightarrow> exn option \<times> 'c list" where
  "broadcast send [] = (None, [])"
| "broadcast send (c # cs) = (case send c of Some e \<Rightarrow> (Some e, []) | None \<Rightarrow> apsnd ((#) c) (broadcast send cs))"

section \<open>Connecting\<close>

text \<open>Without a token the check returns a bare False, which cannot be unpacked.\<close>

datatype connect_answer = Flag_and_reason bool string | Bare_false

definition on_connect ::
  "bool \<Rightarrow> (string \<Rightarrow> 't \<Rightarrow> payload option) \<Rightarrow> string \<Rightarrow> string \<Rightarrow> string \<Rightarrow> rat \<Rightarrow> 't option \<Rightarrow> connect_answer result" where
  "on_connect bypass_auth unseal jwt_key run_id operation_id now token =
    (if bypass_auth then Inr (Flag_and_reason True '''')
     else case token of
         None \<Rightarrow> Inr Bare_false
       | Some t \<Rightarrow>
           (case decode_token unseal jwt_key (Some ''WS_JWT_SECRET_KEY'') t of
              Inl (HTTPException c d) \<Rightarrow> Inr (Flag_and_reason False ''Token Invalid'')
            | Inl e \<Rightarrow> Inl e
            | Inr p \<Rightarrow>
                rbind (need p ''run_id'') (\<lambda>r. if r \<noteq> PStr run_id then Inr (Flag_and_reason False ''Invalid token issuer'')
                  else rbind (need p ''operation_id'') (\<lambda>oid. if oid \<noteq> PStr operation_id then Inr (Flag_and_reason False ''Invalid token route'')
                    else rbind (need_num p ''expired_at'') (\<lambda>x. if x < now then Inr (Flag_and_reason False ''Token expired'')
                      else Inr (Flag_and_reason True ''''))))))"

section \<open>The loop of an endpoint\<close>

text \<open>The kinds of message an endpoint is declared with; a class that is none of these is \<open>Other_kind\<close>.\<close>

datatype message_kind = Text_kind | Bytes_kind | Dict_kind | Base_model | Base_protocol | Other_kind

datatype 'm ws_event = Received 'm | Receiving_ends

text \<open>What the ressource is given: the message, the JSON of a model, the note of an error, or no message at all.\<close>

datatype 'm ws_input = Message 'm | Empty_model | Error_note | No_message

text \<open>How the loop ends: with an exception, which is always caught; waiting for the client; or never, without waiting.\<close>

datatype loop_end = Ends | Waits | Spins

fun serve ::
  "message_kind \<Rightarrow> ('m \<Rightarrow> bool) \<Rightarrow> ('m ws_input \<Rightarrow> 'a result) \<Rightarrow> 'a option \<Rightarrow> 'm ws_event list \<Rightarrow> 'a list \<times> loop_end" where
  "serve Other_kind fits func prev es = ([], case func No_message of Inl e \<Rightarrow> Ends | Inr a \<Rightarrow> Spins)"
| "serve kind fits func prev [] = ([], Waits)"
| "serve kind fits func prev (Receiving_ends # es) = ([], Ends)"
| "serve Base_protocol fits func prev (Received m # es) =
    (if fits m then ([], Ends)
     else case prev of None \<Rightarrow> ([], Ends) | Some a \<Rightarrow> apfst ((#) a) (serve Base_protocol fits func prev es))"
| "serve Base_model fits func prev (Received m # es) =
    (case func (if fits m then Empty_model else Error_note) of
       Inl e \<Rightarrow> ([], Ends) | Inr a \<Rightarrow> apfst ((#) a) (serve Base_model fits func (Some a) es))"
| "serve kind fits func prev (Received m # es) =
    (case func (Message m) of Inl e \<Rightarrow> ([], Ends) | Inr a \<Rightarrow> apfst ((#) a) (serve kind fits func (Some a) es))"

datatype ws_result = Refused string | Raised exn | Open_still | Over

definition ws_endpoint ::
  "connect_answer result \<Rightarrow> bool \<Rightarrow> exn option \<Rightarrow> message_kind \<Rightarrow> ('m \<Rightarrow> bool) \<Rightarrow> ('m ws_input \<Rightarrow> 'a result) \<Rightarrow> 'm ws_event list \<Rightarrow> 'c
    \<Rightarrow> 'c ws_manager \<Rightarrow> ws_result \<times> 'a list \<times> 'c ws_manager" where
  "ws_endpoint check accepts close kind fits func es c m =
    (case check of
       Inl e \<Rightarrow> (Raised e, [], m)
     | Inr Bare_false \<Rightarrow> (Raised TypeError, [], m)
     | Inr (Flag_and_reason False reason) \<Rightarrow> (Refused reason, [], m)
     | Inr (Flag_and_reason True reason) \<Rightarrow>
         (let m = ws_connect accepts c m; (answers, fin) = serve kind fits func None es in
          if fin \<noteq> Ends then (Open_still, answers, m)
          else (case ws_disconnect close c m of
                  (Some e, m) \<Rightarrow> (Raised e, answers, m)
                | (None, m) \<Rightarrow> (Over, answers, m))))"

section \<open>The registry of a ressource\<close>

record ws_meta =
  me_path :: "string option"
  me_protocol :: "string option"

definition build_operation_id :: "string \<Rightarrow> string" where
  "build_operation_id path = map (\<lambda>c. if c = CHR ''/'' then CHR ''_'' else c) path"

record 'c ws_registry =
  rg_protocol :: "(string, string) dict"
  rg_endpoints :: "string list"
  rg_managers :: "(string, 'c ws_manager) dict"

definition register_method :: "string \<times> ws_meta \<Rightarrow> 'c ws_registry \<Rightarrow> 'c ws_registry" where
  "register_method = (\<lambda>(n, me) r.
    (let r = (case me_protocol me of None \<Rightarrow> r | Some p \<Rightarrow> r\<lparr>rg_protocol := AList.update p n (rg_protocol r)\<rparr>)
     in (case me_path me of None \<Rightarrow> r
         | Some path \<Rightarrow> r\<lparr>rg_endpoints := rg_endpoints r @ [n],
             rg_managers := AList.update path \<lparr>wm_rooms = [], wm_active = []\<rparr> (rg_managers r)\<rparr>)))"

definition register_protocol :: "(string \<times> ws_meta) list \<Rightarrow> 'c ws_registry" where
  "register_protocol ms = fold register_method ms \<lparr>rg_protocol = [], rg_endpoints = [], rg_managers = []\<rparr>"

section \<open>What an endpoint does\<close>

text \<open>C24: A client is never let in by a token: an endpoint that checks its clients refuses every token with the same reason, also
  one that was just made for it, and raises a TypeError when there is none, so that no message is ever served and
  the connections stay as they were.\<close>

theorem websockets_refused:
  "\<exists>r. ws_endpoint (on_connect False unseal jwt_key run_id operation_id now token) accepts close kind fits func es c m
      = (r, [], m) \<and> r = (case token of None \<Rightarrow> Raised TypeError | Some t \<Rightarrow> Refused ''Token Invalid'')"
  by (simp add: ws_endpoint_def on_connect_def decode_token_def invalid_token_def split: option.split)

text \<open>When the loop of an endpoint that let its client in is over, the connections of its path are again those of the other
  clients; while it serves, the client is one of them.  An exception of the ressource or of the client never gets
  out, but a client that could not be accepted makes the end of the loop raise.\<close>

theorem connections_restored:
  assumes "ws_endpoint (Inr (Flag_and_reason True reason)) accepts None kind fits func es c m = (r, answers, m')"
    and "c \<notin> set (wm_active m)"
  shows "r = Over \<Longrightarrow> accepts \<and> m' = m"
    and "r = Open_still \<Longrightarrow> wm_active m' = (if accepts then wm_active m @ [c] else wm_active m)"
    and "r = Raised e \<Longrightarrow> \<not> accepts \<and> e = ValueError \<and> m' = m"
    and "r \<noteq> Refused reason'"
proof -
  obtain an fin where s: "serve kind fits func None es = (an, fin)" by (rule prod.exhaust)
  have rm: "wm_active m @ [c] = xs \<Longrightarrow> remove1 c xs = wm_active m" for xs using assms(2) by (auto simp: remove1_append)
  show "r = Over \<Longrightarrow> accepts \<and> m' = m" "r = Open_still \<Longrightarrow> wm_active m' = (if accepts then wm_active m @ [c] else wm_active m)"
    "r = Raised e \<Longrightarrow> \<not> accepts \<and> e = ValueError \<and> m' = m" "r \<noteq> Refused reason'"
    using assms by (auto simp: ws_endpoint_def s ws_connect_def ws_disconnect_def rm Let_def split: if_splits)
qed

theorem connections_restored_witness:
  "snd (snd (ws_endpoint (Inr (Flag_and_reason True '''')) True None Text_kind (\<lambda>m. True) (\<lambda>i. Inr i)
     [Received ''hi'', Receiving_ends] (7::nat) \<lparr>wm_rooms = [], wm_active = [1, 2]\<rparr>)) = \<lparr>wm_rooms = [], wm_active = [1, 2]\<rparr>"
proof -
  let ?m = "\<lparr>wm_rooms = [], wm_active = [1, 2::nat]\<rparr>"
  have run: "ws_endpoint (Inr (Flag_and_reason True '''')) True None Text_kind (\<lambda>m. True) (\<lambda>i. Inr i) [Received ''hi'', Receiving_ends] 7 ?m
      = (Over, [Message ''hi''], ?m)"
    by (simp add: ws_endpoint_def ws_connect_def ws_disconnect_def Let_def)
  from connections_restored(1) [OF run] show ?thesis using run by simp
qed

text \<open>Each message but a protocol's is answered once, in order, until the first that the ressource fails on.\<close>

lemma plain_messages_answered:
  assumes "kind \<in> {Text_kind, Bytes_kind, Dict_kind}" "\<And>m. m \<in> set ms \<Longrightarrow> func (Message m) = Inr (ans m)"
  shows "serve kind fits func prev (map Received ms) = (map ans ms, Waits)"
  using assms by (induction ms arbitrary: prev) auto

text \<open>A message of a protocol that is right ends the connection; a wrong one is answered with what was answered before, that is,
  also by the end of the connection.\<close>

lemma protocol_never_answers: "serve Base_protocol fits func None es = (an, fin) \<Longrightarrow> an = [] \<and> (es \<noteq> [] \<longrightarrow> fin = Ends)"
  by (cases es; cases "hd es") (auto split: if_splits)

end
