(* ===== verification/Arq_Jobs.thy ===== *)
theory Arq_Jobs
  imports Helper_Util
begin

text \<open>
  services/worker/arq_service.py and classes/step.py: the jobs of the ingestion as the queue keeps them, looking one up,
  changing its arguments, and the steps of a job, which are meant to be run once even when the job is tried again.
\<close>

section \<open>Jobs\<close>

record arq_job =
  aj_id :: string
  aj_kwargs :: "(string, string) dict"
  aj_success :: bool

datatype job_status = Job_deferred | Job_queued | Job_in_progress | Job_complete | Job_not_found

definition enqueue_task :: "(string, string) dict \<Rightarrow> string \<Rightarrow> string result" where
  "enqueue_task task_registry task_name = (case map_of task_registry task_name of None \<Rightarrow> Inl (KeyError task_name) | Some t \<Rightarrow> Inr t)"

definition get_jobs_results :: "bool option \<Rightarrow> arq_job list option \<Rightarrow> arq_job list" where
  "get_jobs_results success results =
    (case results of None \<Rightarrow> [] | Some rs \<Rightarrow> (case success of None \<Rightarrow> rs | Some b \<Rightarrow> filter (\<lambda>r. aj_success r = b) rs))"

datatype search_mode = Single | Match

datatype search_answer = One_job arq_job | Job_list "arq_job list" | No_job

definition job_exists_error :: exn where "job_exists_error = OtherException ''JobAlreadyExistsError''"

definition job_missing_error :: exn where "job_missing_error = OtherException ''JobDoesNotExistsError''"

text \<open>The two tests of the filter, each of which passes a job over.\<close>

definition filtered_out :: "string list option \<Rightarrow> bool \<Rightarrow> arq_job \<Rightarrow> bool" where
  "filtered_out flt incl j =
    (case flt of
       None \<Rightarrow> False
     | Some ids \<Rightarrow> (aj_id j \<in> set ids) = incl \<or> (aj_id j \<notin> set ids) = (\<not> incl))"

text \<open>The loop over the parameters of a job: in the mode \<open>single\<close> the first that agrees ends the search, in the mode
  \<open>match\<close> each that agrees adds the job.\<close>

fun search_params :: "search_mode \<Rightarrow> bool option \<Rightarrow> arq_job \<Rightarrow> (string, string) dict \<Rightarrow> arq_job list \<Rightarrow> search_answer result + arq_job list" where
  "search_params mode raise j [] jobs = Inr jobs"
| "search_params mode raise j ((k, v) # ps) jobs =
    (if map_of (aj_kwargs j) k = Some v then
       (case mode of
          Single \<Rightarrow> Inl (if raise = Some True then Inl job_exists_error else Inr (One_job j))
        | Match \<Rightarrow> search_params mode raise j ps (jobs @ [j]))
     else search_params mode raise j ps jobs)"

fun search_jobs :: "string \<Rightarrow> (string, string) dict \<Rightarrow> bool option \<Rightarrow> search_mode \<Rightarrow> string list option \<Rightarrow> bool \<Rightarrow> arq_job list \<Rightarrow> arq_job list
    \<Rightarrow> search_answer result" where
  "search_jobs task params raise mode flt incl [] jobs =
    (if jobs \<noteq> [] then Inr (Job_list jobs)
     else if raise = Some False then Inl job_missing_error
     else Inr (case mode of Single \<Rightarrow> No_job | Match \<Rightarrow> Job_list []))"
| "search_jobs task params raise mode flt incl (j # js) jobs =
    (if map_of (aj_kwargs j) ''_nickname'' \<noteq> Some task then search_jobs task params raise mode flt incl js jobs
     else if filtered_out flt incl j then search_jobs task params raise mode flt incl js jobs
     else (case search_params mode raise j params jobs of
             Inl answer \<Rightarrow> answer
           | Inr jobs \<Rightarrow> search_jobs task params raise mode flt incl js jobs))"

definition arq_search :: "arq_job list \<Rightarrow> arq_job list option \<Rightarrow> string \<Rightarrow> (string, string) dict \<Rightarrow> bool option \<Rightarrow> search_mode
    \<Rightarrow> string list option \<Rightarrow> bool \<Rightarrow> search_answer result" where
  "arq_search queued results task params raise mode flt incl =
    search_jobs task params raise mode flt incl (queued @ get_jobs_results (Some True) results) []"

text \<open>\<open>exists\<close>: what it raises, and whether it deletes the job; \<open>result_ok\<close> is the result of a job that is complete.\<close>

definition arq_exists :: "job_status \<Rightarrow> bool option \<Rightarrow> bool \<Rightarrow> bool \<Rightarrow> exn option \<times> bool" where
  "arq_exists status result_ok raise_on_exist delete_on_error =
    (case status of
       Job_not_found \<Rightarrow> (if \<not> raise_on_exist then Some job_missing_error else None, False)
     | Job_complete \<Rightarrow>
         (let deleted = (delete_on_error \<and> result_ok = Some False)
          in (if raise_on_exist \<and> \<not> deleted then Some job_exists_error else None, deleted))
     | _ \<Rightarrow> (if raise_on_exist then Some job_exists_error else None, False))"

section \<open>Changing the arguments of a job\<close>

datatype update_mode = Update_mode | Set_mode | Exclude_mode | Include_mode | Unknown_mode

datatype update_data = Data_dict "(string, string option) dict" | Data_names "string list"

text \<open>\<open>store\<close> of the Redis service needs an expiry, which this call leaves out.\<close>

definition store_without_expiry :: "exn option" where "store_without_expiry = Some TypeError"

definition changed_kwargs :: "update_mode \<Rightarrow> update_data \<Rightarrow> (string, string option) dict \<Rightarrow> (string, string option) dict option" where
  "changed_kwargs mode data kwargs =
    (case (mode, data) of
       (Update_mode, Data_dict d) \<Rightarrow> Some (fold (\<lambda>(k, v). AList.update k v) d kwargs)
     | (Set_mode, Data_dict d) \<Rightarrow> Some kwargs
     | (Exclude_mode, Data_names ns) \<Rightarrow> Some kwargs
     | (Include_mode, Data_names ns) \<Rightarrow> Some kwargs
     | _ \<Rightarrow> None)"

text \<open>\<open>conflicts\<close> tells for each attempt whether the key was changed meanwhile.\<close>

fun update_job_kwargs ::
  "exn option \<Rightarrow> nat \<Rightarrow> bool list \<Rightarrow> (string, string option) dict option \<Rightarrow> update_mode \<Rightarrow> update_data
    \<Rightarrow> (string, string option) dict option result" where
  "update_job_kwargs store 0 conflicts kwargs mode data = Inl (OtherException ''WatchError'')"
| "update_job_kwargs store (Suc n) conflicts kwargs mode data =
    (case kwargs of
       None \<Rightarrow> Inr None
     | Some kw \<Rightarrow>
         (case changed_kwargs mode data kw of
            None \<Rightarrow> Inr None
          | Some kw' \<Rightarrow>
              (case store of
                 Some e \<Rightarrow> Inl e
               | None \<Rightarrow> if conflicts \<noteq> [] \<and> hd conflicts then update_job_kwargs store n (tl conflicts) kwargs mode data
                         else Inr (Some kw'))))"

text \<open>\<open>abort\<close> and \<open>delete\<close> with a configuration first take it out of the arguments, and go on when none is left.\<close>

definition without_config :: "exn option \<Rightarrow> bool list \<Rightarrow> (string, string option) dict option \<Rightarrow> string \<Rightarrow> bool result" where
  "without_config store conflicts kwargs config =
    rbind (update_job_kwargs store 3 conflicts kwargs Update_mode (Data_dict [(config, None)])) (\<lambda>r.
      (case r of
         None \<Rightarrow> Inl (AttributeError ''get'')
       | Some kw \<Rightarrow>
           (let truthy = (\<lambda>k. case map_of kw k of Some (Some s) \<Rightarrow> s \<noteq> [] | _ \<Rightarrow> False)
            in Inr (\<not> truthy ''vector_config'' \<and> \<not> truthy ''graph_config''))))"

definition abort_job :: "exn option \<Rightarrow> bool list \<Rightarrow> (string, string option) dict option \<Rightarrow> string option \<Rightarrow> bool option \<Rightarrow> bool result" where
  "abort_job store conflicts kwargs config aborted =
    rbind (case config of None \<Rightarrow> Inr True | Some c \<Rightarrow> without_config store conflicts kwargs c) (\<lambda>go_on.
      Inr (go_on \<and> (case aborted of None \<Rightarrow> False | Some b \<Rightarrow> b)))"

text \<open>What is deleted of a job: its arguments and its result.\<close>

definition delete_job :: "exn option \<Rightarrow> bool list \<Rightarrow> (string, string option) dict option \<Rightarrow> string option \<Rightarrow> string \<Rightarrow> string list result" where
  "delete_job store conflicts kwargs config job_id =
    rbind (case config of None \<Rightarrow> Inr True | Some c \<Rightarrow> without_config store conflicts kwargs c) (\<lambda>go_on.
      Inr (if go_on then [''arq:job:'' @ job_id, ''arq:result:'' @ job_id] else []))"

section \<open>Steps\<close>

record 'p step_state =
  ss_current :: int
  ss_steps :: "(int, bool) dict"
  ss_params :: "'p option"

text \<open>Entering a step: whether it is to be skipped.\<close>

definition step_enter :: "int \<Rightarrow> 'p option \<Rightarrow> 'p step_state \<Rightarrow> bool \<times> 'p step_state" where
  "step_enter i params s =
    (let s = (if params \<noteq> None then s\<lparr>ss_params := params\<rparr> else s)
     in (i \<in> fst ` set (ss_steps s) \<or> i \<le> ss_current s, s))"

datatype step_exc = No_exc | Skip_exc | Other_exc exn

text \<open>A variable of a function that has no value yet cannot be read.\<close>

definition read_local :: "string \<Rightarrow> 'v option \<Rightarrow> 'v result" where
  "read_local name v = (case v of None \<Rightarrow> Inl (UnboundLocalError name) | Some x \<Rightarrow> Inr x)"

text \<open>Leaving a step.  The date of its record is read from \<open>now\<close>, which only a later line assigns.\<close>

definition step_exit :: "int \<Rightarrow> step_exc \<Rightarrow> 'p step_state \<Rightarrow> bool result \<times> 'p step_state" where
  "step_exit i ex s =
    (let now = (None :: string option) in
     case read_local ''now'' now of
       Inl e \<Rightarrow> (Inl e, s)
     | Inr date \<Rightarrow>
         (case ex of
            No_exc \<Rightarrow> (Inr True, s\<lparr>ss_steps := AList.update i True (ss_steps s), ss_current := i\<rparr>)
          | Skip_exc \<Rightarrow> (Inr True, s\<lparr>ss_steps := AList.update i True (ss_steps s)\<rparr>)
          | Other_exc e \<Rightarrow> (Inr False, s\<lparr>ss_steps := AList.update i False (ss_steps s)\<rparr>)))"

text \<open>A step around a body that begins with \<open>skip()\<close>: what it raises, whether the body ran, and the states.\<close>

definition run_step :: "int \<Rightarrow> ('w \<Rightarrow> step_exc \<times> 'w) \<Rightarrow> 'p step_state \<times> 'w \<Rightarrow> exn option \<times> 'p step_state \<times> 'w" where
  "run_step i body sw =
    (let (skip, s) = step_enter i None (fst sw);
         (ex, w) = (if skip then (Skip_exc, snd sw) else body (snd sw));
         (r, s) = step_exit i ex s
     in (case r of
           Inl e \<Rightarrow> (Some e, s, w)
         | Inr suppressed \<Rightarrow> (case ex of Other_exc e \<Rightarrow> if suppressed then (None, s, w) else (Some e, s, w) | _ \<Rightarrow> (None, s, w))))"

section \<open>What a search finds\<close>

definition agreeing :: "(string, string) dict \<Rightarrow> arq_job \<Rightarrow> nat" where
  "agreeing params j = length (filter (\<lambda>(k, v). map_of (aj_kwargs j) k = Some v) params)"

lemma search_params_match: "search_params Match raise j ps jobs = Inr (jobs @ replicate (agreeing ps j) j)"
  by (induction ps arbitrary: jobs) (auto simp: agreeing_def replicate_app_Cons_same)

lemma search_params_single:
  "search_params Single raise j ps jobs =
    (if agreeing ps j = 0 then Inr jobs else Inl (if raise = Some True then Inl job_exists_error else Inr (One_job j)))"
  by (induction ps arbitrary: jobs) (auto simp: agreeing_def)

definition candidates :: "string \<Rightarrow> string list option \<Rightarrow> bool \<Rightarrow> arq_job list \<Rightarrow> arq_job list" where
  "candidates task flt incl js = filter (\<lambda>j. map_of (aj_kwargs j) ''_nickname'' = Some task \<and>
     (case flt of None \<Rightarrow> True | Some ids \<Rightarrow> if incl then aj_id j \<notin> set ids else aj_id j \<in> set ids)) js"

lemma filtered_out_inverted:
  "filtered_out flt incl j \<longleftrightarrow> (case flt of None \<Rightarrow> False | Some ids \<Rightarrow> if incl then aj_id j \<in> set ids else aj_id j \<notin> set ids)"
  by (auto simp: filtered_out_def split: option.split)

lemma candidates_Cons:
  "candidates task flt incl (j # js) =
    (if map_of (aj_kwargs j) ''_nickname'' = Some task \<and> \<not> filtered_out flt incl j then j # candidates task flt incl js
     else candidates task flt incl js)"
  unfolding candidates_def filtered_out_inverted by (cases flt) auto

abbreviation candidate :: "string \<Rightarrow> string list option \<Rightarrow> bool \<Rightarrow> arq_job \<Rightarrow> bool" where
  "candidate task flt incl j \<equiv> map_of (aj_kwargs j) ''_nickname'' = Some task \<and> \<not> filtered_out flt incl j"

lemma candidates_Nil: "candidates task flt incl [] = []"
  by (simp add: candidates_def)

lemma search_jobs_Cons:
  "search_jobs task params raise mode flt incl (j # js) jobs =
    (if candidate task flt incl j
     then (case search_params mode raise j params jobs of Inl answer \<Rightarrow> answer | Inr jobs \<Rightarrow> search_jobs task params raise mode flt incl js jobs)
     else search_jobs task params raise mode flt incl js jobs)"
  by simp

lemma search_jobs_match:
  "search_jobs task params raise Match flt incl js jobs =
    (let all = jobs @ concat (map (\<lambda>j. replicate (agreeing params j) j) (filter (\<lambda>j. agreeing params j \<noteq> 0) (candidates task flt incl js)))
     in if all \<noteq> [] then Inr (Job_list all) else if raise = Some False then Inl job_missing_error else Inr (Job_list []))"
proof (induction js arbitrary: jobs)
  case Nil
  then show ?case by (simp add: candidates_Nil)
next
  case (Cons j js)
  show ?case
  proof (cases "candidate task flt incl j")
    case True
    then show ?thesis
      unfolding search_jobs_Cons candidates_Cons search_params_match by (cases "agreeing params j = 0") (simp_all add: Cons.IH)
  next
    case False
    then show ?thesis unfolding search_jobs_Cons candidates_Cons by (simp only: Cons.IH if_False)
  qed
qed

lemma search_jobs_single:
  "search_jobs task params raise Single flt incl js [] =
    (let found = filter (\<lambda>j. agreeing params j \<noteq> 0) (candidates task flt incl js)
     in if found = [] then (if raise = Some False then Inl job_missing_error else Inr No_job)
        else if raise = Some True then Inl job_exists_error else Inr (One_job (hd found)))"
proof (induction js)
  case Nil
  then show ?case by (simp add: candidates_Nil)
next
  case (Cons j js)
  show ?case
  proof (cases "candidate task flt incl j")
    case True
    then show ?thesis
      unfolding search_jobs_Cons candidates_Cons search_params_single by (cases "agreeing params j = 0") (simp_all add: Cons.IH)
  next
    case False
    then show ?thesis unfolding search_jobs_Cons candidates_Cons by (simp only: Cons.IH if_False)
  qed
qed

text \<open>C25: A search among the queued and the successful jobs considers those of its task that a filter leaves; a filter to include
  leaves the jobs it does not name, and one to exclude those it names.  In the mode match the answer has each of them as
  often as parameters agree with it; in the mode single it is the first with any that agrees.\<close>

theorem search_answers:
  "arq_search queued results task params raise mode flt incl =
    (let found = filter (\<lambda>j. agreeing params j \<noteq> 0) (candidates task flt incl (queued @ get_jobs_results (Some True) results))
     in if found = [] then (if raise = Some False then Inl job_missing_error else Inr (case mode of Single \<Rightarrow> No_job | Match \<Rightarrow> Job_list []))
        else (case mode of
                Single \<Rightarrow> if raise = Some True then Inl job_exists_error else Inr (One_job (hd found))
              | Match \<Rightarrow> Inr (Job_list (concat (map (\<lambda>j. replicate (agreeing params j) j) found)))))"
proof (cases mode)
  case Single
  then show ?thesis by (simp add: arq_search_def search_jobs_single Let_def)
next
  case Match
  then show ?thesis by (auto simp: arq_search_def search_jobs_match Let_def filter_empty_conv)
qed

section \<open>Steps are meant to run once\<close>

text \<open>Every step raises when it is left, whether its body ran or was skipped, and nothing is noted of it.\<close>

lemma step_never_completes:
  "run_step i body (s, w) =
     (Some (UnboundLocalError ''now''), s, if i \<in> fst ` set (ss_steps s) \<or> i \<le> ss_current s then w else snd (body w))"
  by (simp add: run_step_def step_enter_def step_exit_def read_local_def split: prod.split)

text \<open>Aborting or deleting a job with a configuration raises, whatever its arguments are.\<close>

lemma config_raises:
  "abort_job store_without_expiry conflicts kwargs (Some c) aborted = Inl (if kwargs = None then AttributeError ''get'' else TypeError)"
  "delete_job store_without_expiry conflicts kwargs (Some c) job_id = Inl (if kwargs = None then AttributeError ''get'' else TypeError)"
  by (auto simp: abort_job_def delete_job_def without_config_def changed_kwargs_def store_without_expiry_def numeral_3_eq_3 split: option.split)

text \<open>Changing the arguments tries three times, and gives up with the error of the last conflict.\<close>

lemma update_retries:
  "update_job_kwargs None n conflicts (Some kw) Update_mode (Data_dict d) =
    (if n \<le> length (takeWhile id conflicts) then Inl (OtherException ''WatchError'')
     else Inr (Some (fold (\<lambda>(k, v). AList.update k v) d kw)))"
proof (induction n arbitrary: conflicts)
  case (Suc n)
  then show ?case by (cases conflicts) (auto simp: changed_kwargs_def)
qed simp

lemma exists_spec:
  "arq_exists st ok raise del = (None, False) \<longleftrightarrow>
    (if raise then st = Job_not_found else st \<noteq> Job_not_found \<and> \<not> (st = Job_complete \<and> del \<and> ok = Some False))"
  by (auto simp: arq_exists_def split: job_status.split)

end
