(* ===== verification/Timers.thy ===== *)
theory Timers
  imports Helper_Util "HOL-Library.Sublist"
begin

text \<open>
  interface/timers.py: the scheduler that services share to run an action once or again and again, and the interval timer that
  calls the callback of a service.  The library that fires the jobs is not modelled: a job is what it is given.
\<close>

section \<open>Where a job is stored and runs\<close>

record sched =
  sd_jobstores :: "string list"
  sd_executors :: "string list"
  sd_jobstore :: string
  sd_executor :: string
  sd_running :: bool

definition default_sched :: "string \<Rightarrow> sched" where
  "default_sched executor = \<lparr>sd_jobstores = [''default''], sd_executors = [''asyncio-executor'', ''asyncio'', ''thread''],
     sd_jobstore = ''default'', sd_executor = executor, sd_running = False\<rparr>"

definition named :: "string option \<Rightarrow> bool" where "named x = (case x of None \<Rightarrow> False | Some s \<Rightarrow> s \<noteq> [])"

text \<open>\<open>update_verify_store\<close>.  The executor is looked for in the text of the name of the current one, not in the executors.\<close>

definition verify_jobstore :: "string option \<Rightarrow> bool \<Rightarrow> sched \<Rightarrow> string result \<times> sched" where
  "verify_jobstore js verify_only s =
    (if \<not> named js then (Inr (sd_jobstore s), s)
     else if the js \<notin> set (sd_jobstores s) then (Inl (ValueError), s)
     else (Inr (the js), if verify_only then s else s\<lparr>sd_jobstore := the js\<rparr>))"

definition verify_executor :: "string option \<Rightarrow> bool \<Rightarrow> sched \<Rightarrow> string result \<times> sched" where
  "verify_executor ex verify_only s =
    (if \<not> named ex then (Inr (sd_executor s), s)
     else if \<not> sublist (the ex) (sd_executor s) then (Inl (ValueError), s)
     else (Inr (the ex), if verify_only then s else s\<lparr>sd_executor := the ex\<rparr>))"

definition update_verify_store :: "string option \<Rightarrow> string option \<Rightarrow> bool \<Rightarrow> sched \<Rightarrow> (string \<times> string) result \<times> sched" where
  "update_verify_store js ex verify_only s =
    (case verify_jobstore js verify_only s of
       (Inl e, s) \<Rightarrow> (Inl e, s)
     | (Inr j, s) \<Rightarrow> (case verify_executor ex verify_only s of (Inl e, s) \<Rightarrow> (Inl e, s) | (Inr x, s) \<Rightarrow> (Inr (j, x), s)))"

section \<open>Jobs\<close>

datatype 't trigger = At_time rat | Every 't | Cron 't

record ('a, 't) added_job =
  ad_action :: 'a
  ad_args :: "'a list"
  ad_trigger :: "'t trigger"
  ad_id :: "string option"
  ad_name :: "string option"
  ad_jobstore :: string
  ad_executor :: "string option"
  ad_pooled :: bool

text \<open>A plain action runs in a thread pool, and is given itself before its arguments; a coroutine loses its name.  The
  executor that was asked for is verified and not used.\<close>

definition schedule_job :: "('a \<Rightarrow> bool) \<Rightarrow> sched \<Rightarrow> 'a \<Rightarrow> 'a list \<Rightarrow> 't trigger \<Rightarrow> string option \<Rightarrow> string option \<Rightarrow> string option \<Rightarrow> string option
    \<Rightarrow> ('a, 't) added_job result" where
  "schedule_job is_coroutine s action args trig jid name js ex =
    rbind (fst (update_verify_store js ex True s)) (\<lambda>(j, x).
      Inr (if is_coroutine action
           then \<lparr>ad_action = action, ad_args = args, ad_trigger = trig, ad_id = jid, ad_name = None, ad_jobstore = j,
                 ad_executor = Some (sd_executor s), ad_pooled = False\<rparr>
           else \<lparr>ad_action = action, ad_args = action # args, ad_trigger = trig, ad_id = jid, ad_name = name, ad_jobstore = j,
                 ad_executor = None, ad_pooled = True\<rparr>))"

text \<open>\<open>call\<close> is the application of a Python value to arguments.\<close>

definition fire_job :: "('a \<Rightarrow> 'a list \<Rightarrow> 'b result) \<Rightarrow> ('a, 't) added_job \<Rightarrow> 'b result" where
  "fire_job call j = call (ad_action j) (ad_args j)"

text \<open>The four ways to schedule: what is added and what the caller gets.  A delay that is no number is drawn at random.\<close>

definition now_schedule where
  "now_schedule is_coroutine s now random delay action args jid name js ex =
    map_sum id Some (schedule_job is_coroutine s action args
      (At_time (now + (case delay of Some d \<Rightarrow> d | None \<Rightarrow> random * 10))) jid name js ex)"

definition interval_schedule where
  "interval_schedule is_coroutine build s given action args jid name js ex =
    rbind (case given of Inl trig \<Rightarrow> Inr trig | Inr params \<Rightarrow> build params) (\<lambda>trig.
      rbind (schedule_job is_coroutine s action args (Every trig) jid name js ex) (\<lambda>j. Inr (j, None)))"

definition cron_schedule where
  "cron_schedule is_coroutine build s given action args jid name js ex =
    rbind (case given of Inl trig \<Rightarrow> Inr trig | Inr params \<Rightarrow> build params) (\<lambda>trig.
      rbind (schedule_job is_coroutine s action args (Cron trig) jid name js ex) (\<lambda>j. Inr (j, Some j)))"

definition date_schedule where
  "date_schedule is_coroutine s date action args jid name js ex =
    map_sum id Some (schedule_job is_coroutine s action args (At_time date) jid name js ex)"

definition sched_start :: "sched \<Rightarrow> sched" where "sched_start s = (if sd_running s then s else s\<lparr>sd_running := True\<rparr>)"

definition sched_shutdown :: "sched \<Rightarrow> sched" where "sched_shutdown s = (if \<not> sd_running s then s else s\<lparr>sd_running := False\<rparr>)"

section \<open>Interval timers\<close>

datatype interval_value = No_interval | Seconds rat | Not_a_number

text \<open>\<open>iv_live\<close> holds the tasks that were created and not cancelled; \<open>iv_next\<close> numbers them.\<close>

record timer =
  iv_task :: "nat option"
  iv_interval :: interval_value
  iv_start_now :: bool
  iv_active :: bool
  iv_live :: "nat list"
  iv_next :: nat

definition new_timer :: "bool \<Rightarrow> interval_value \<Rightarrow> timer" where
  "new_timer start_now d = \<lparr>iv_task = None, iv_interval = d, iv_start_now = start_now, iv_active = True, iv_live = [], iv_next = 0\<rparr>"

definition stop_interval :: "timer \<Rightarrow> timer" where
  "stop_interval s = (case iv_task s of
       None \<Rightarrow> s\<lparr>iv_active := False\<rparr>
     | Some t \<Rightarrow> s\<lparr>iv_live := removeAll t (iv_live s), iv_task := None, iv_active := False\<rparr>)"

definition good_interval :: "interval_value \<Rightarrow> bool" where
  "good_interval d = (case d of Seconds x \<Rightarrow> 0 \<le> x | _ \<Rightarrow> False)"

definition start_interval :: "interval_value \<Rightarrow> bool option \<Rightarrow> timer \<Rightarrow> exn option \<times> timer" where
  "start_interval d start_now s =
    (let s = (stop_interval s)\<lparr>iv_active := True\<rparr>;
         s = (if d \<noteq> No_interval then s\<lparr>iv_interval := d\<rparr> else s);
         s = (case start_now of None \<Rightarrow> s | Some b \<Rightarrow> s\<lparr>iv_start_now := b\<rparr>)
     in if \<not> good_interval (iv_interval s) then (Some (OtherException ''IntervalError''), s)
        else (None, s\<lparr>iv_task := Some (iv_next s), iv_live := iv_live s @ [iv_next s], iv_next := Suc (iv_next s)\<rparr>))"

definition timer_is_running :: "(nat \<Rightarrow> bool) \<Rightarrow> timer \<Rightarrow> bool" where
  "timer_is_running finished s = (case iv_task s of None \<Rightarrow> False | Some t \<Rightarrow> \<not> finished t)"

text \<open>The loop of a task: each entry of the list is a round, with the answer of the flag \<open>active\<close> before it and what the callback
  raises in it.  The events are what the task did.\<close>

datatype timer_event = Slept rat | Called

fun run_interval :: "bool \<Rightarrow> rat \<Rightarrow> (bool \<times> exn option) list \<Rightarrow> exn option \<times> timer_event list" where
  "run_interval start_now d [] = (None, [])"
| "run_interval start_now d ((active, ex) # rs) =
    (if \<not> active then (None, [])
     else (case ex of
             Some e \<Rightarrow> (Some e, if start_now then [Called] else [Slept d, Called])
           | None \<Rightarrow> (case run_interval start_now d rs of (r, es) \<Rightarrow> (r, (if start_now then [Called, Slept d] else [Slept d, Called]) @ es))))"

text \<open>The times of the calls, when only sleeping takes time.\<close>

fun call_times :: "rat \<Rightarrow> timer_event list \<Rightarrow> rat list" where
  "call_times t [] = []"
| "call_times t (Slept d # es) = call_times (t + d) es"
| "call_times t (Called # es) = t # call_times t es"

section \<open>Properties of the scheduler\<close>

lemma named_Some [simp]: "named (Some x) = (x \<noteq> [])" "\<not> named None"
  by (simp_all add: named_def)

lemma update_verify_store_kept: "snd (update_verify_store js ex True s) = s"
  by (auto simp: update_verify_store_def verify_jobstore_def verify_executor_def)

text \<open>A plain action that is scheduled is called with itself as its first argument, before the arguments it was scheduled
  with, and a coroutine with exactly those; neither is scheduled unless the job store is one of the scheduler's and the
  executor asked for is a piece of the name of the current one.\<close>

lemma fired_action:
  "rbind (schedule_job is_coroutine s action args trig jid name js ex) (fire_job call) =
    (if named js \<and> the js \<notin> set (sd_jobstores s) \<or> named ex \<and> \<not> sublist (the ex) (sd_executor s) then Inl (ValueError)
     else call action (if is_coroutine action then args else action # args))"
  by (auto simp: schedule_job_def update_verify_store_def verify_jobstore_def verify_executor_def fire_job_def)

text \<open>A scheduler made for one executor accepts no other of its executors, and no job runs on the one asked for: a coroutine runs
  on the scheduler's own.\<close>

lemma executor_fixed:
  "schedule_job is_coroutine (default_sched ''thread'') action args trig jid name None (Some ''asyncio'') = Inl (ValueError)"
  "schedule_job (\<lambda>_. True) (default_sched ''asyncio-executor'') action args trig jid name None (Some ''asyncio'') =
    Inr \<lparr>ad_action = action, ad_args = args, ad_trigger = trig, ad_id = jid, ad_name = None, ad_jobstore = ''default'',
         ad_executor = Some ''asyncio-executor'', ad_pooled = False\<rparr>"
  by (simp_all add: schedule_job_def update_verify_store_def verify_jobstore_def verify_executor_def default_sched_def sublist_code)

lemma start_shutdown: "sd_running (sched_start s)" "\<not> sd_running (sched_shutdown s)" "sched_start (sched_start s) = sched_start s"
  by (simp_all add: sched_start_def sched_shutdown_def)

section \<open>Properties of interval timers\<close>

datatype timer_op = Start interval_value "bool option" | Stop

fun timer_step :: "timer_op \<Rightarrow> timer \<Rightarrow> timer" where
  "timer_step (Start d b) s = snd (start_interval d b s)"
| "timer_step Stop s = stop_interval s"

definition timer_inv :: "timer \<Rightarrow> bool" where
  "timer_inv s \<longleftrightarrow> iv_live s = (case iv_task s of None \<Rightarrow> [] | Some t \<Rightarrow> [t])
     \<and> (iv_task s \<noteq> None \<longrightarrow> iv_active s \<and> good_interval (iv_interval s))"

lemma timer_inv_stop: "timer_inv s \<Longrightarrow> timer_inv (stop_interval s)" "timer_inv s \<Longrightarrow> iv_live (stop_interval s) = []"
  "iv_task (stop_interval s) = None" "\<not> iv_active (stop_interval s)"
  by (auto simp: timer_inv_def stop_interval_def split: option.splits)

lemma timer_inv_start: assumes "timer_inv s" shows "timer_inv (snd (start_interval d b s))"
  using timer_inv_stop(2)[OF assms]
  by (auto simp: start_interval_def Let_def timer_inv_def timer_inv_stop split: option.splits)

lemma timer_inv_step: "timer_inv s \<Longrightarrow> timer_inv (timer_step op s)"
  by (cases op) (simp_all add: timer_inv_stop timer_inv_start)

text \<open>C27: However a timer is started and stopped, it never has more than one task that is not cancelled, and that is the task it
  knows; a task runs only while the timer is active and with an interval that is not negative.\<close>

theorem one_task:
  "timer_inv (fold timer_step ops (new_timer start_now d))"
proof -
  have "timer_inv (new_timer start_now d)" by (simp add: timer_inv_def new_timer_def)
  moreover have "timer_inv s \<Longrightarrow> timer_inv (fold timer_step ops s)" for s
    by (induction ops arbitrary: s) (simp_all add: timer_inv_step)
  ultimately show ?thesis by blast
qed

text \<open>A start that fails leaves the timer active with no task, and any task it had cancelled.\<close>

lemma failed_start:
  "fst (start_interval d b s) \<noteq> None \<Longrightarrow> iv_active (snd (start_interval d b s)) \<and> iv_task (snd (start_interval d b s)) = None"
  by (auto simp: start_interval_def Let_def timer_inv_stop split: option.splits if_splits)

text \<open>While the timer stays active and its callback does not raise, the callback is called once a round, one interval apart:
  at once when it starts with a call, one interval later when it does not.\<close>

theorem called_every_interval:
  "call_times t (snd (run_interval start_now d (replicate n (True, None)))) =
    map (\<lambda>k. t + of_nat (if start_now then k else Suc k) * d) [0..<n]"
proof (induction n arbitrary: t)
  case (Suc n)
  have "[0..<Suc n] = 0 # map Suc [0..<n]" by (simp add: upt_conv_Cons map_Suc_upt del: upt_Suc)
  with Suc show ?case by (auto simp: split_beta algebra_simps simp del: upt_Suc)
qed simp

lemma raising_callback_ends:
  "run_interval start_now d (replicate n (True, None) @ (True, Some e) # rs) = (Some e, snd (run_interval start_now d (replicate n (True, None))) @
    (if start_now then [Called] else [Slept d, Called]))"
  by (induction n) (auto simp: split_beta)

end
