(* ===== verification/Spec2Isabelle.thy ===== *)
theory Spec2Isabelle
  imports Handlers Ressource_Pipeline Container Task_Services Url_Model Scheduler_Model Request_Pipes Event_Handlers Cache_Model
    Service_Network Reactive_Streams Crawl_Ingestion Email_Protocol Phone_Protocol
    Contacts Links Web_Sockets Arq_Jobs Timers
begin

text \<open>
  Notifyr is a notification server written in Python with FastAPI: clients send e-mails, SMS, calls and
  files through HTTP ressources, pay for them from a plan of credits, and have long work done by Celery
  workers or a scheduler.  This library models the core of src/app, the logic the ressources share, and
  leaves the ressources themselves, the drivers of databases, and everything that only calls a library.

  How the program hangs together.  A container (container.py) builds services (definition/_service.py) in
  the order of their dependencies; a service that is not built or not available refuses its methods.  A
  request passes the authentication middleware (server/middleware.py), which reads a token
  (services/security_service.py), loads the client and its policies (depends/funcs_dep.py) and attaches a
  permission.  The endpoint it reaches is wrapped by the decorators of definition/_ressource.py in the order of
  their priorities: limits and throttles outermost, then permissions (decorators/permissions.py), then handlers
  that turn exceptions into HTTP errors (decorators/handlers.py), pipes, guards and interceptors.  The interceptors of decorators/interceptors.py
  price the request (cost/, definition/_cost.py) and take the credits from Redis (services/cost_service.py), which a
  failed request does not get back;
  the task manager (manager/task_manager.py) chooses where the work runs.  What happened to a message comes
  back through Redis streams, whose handlers (callback/event_stream.py) write it to the database in batches;
  rows and answers are kept in caches (depends/orm_cache.py, depends/res_cache.py).

  Theories, from the leaves up.
   Prelude: exceptions (errors/service_error.py decides which are caught by \<open>except Exception\<close>), results as
    sums, dictionaries as insertion ordered association lists, the interface \<open>kv_store\<close> of everything that
    is looked up by a key, numbers as Python prints them.
   Mocked: the decorator \<open>Mock\<close> of utils/tools.py, which stands around the sending of e-mails, texts and calls and the
    broker's messages: what is decorated is modelled by its body and by the call that never runs it.
   Helper_Dict, Helper_Util: utils/helper.py; nested dictionaries flattened and back, keys built from parts,
    path filters, the integrity cache (an instance of \<open>kv_store\<close>).
   File_Utils: utils/fileIO.py and the path functions of services/file/file_service.py.
   Service_Core: definition/_service.py; status, guard, build and destroy, mini services and their manager,
    with the life cycle as the step relation \<open>life\<close> and an abstract trace it refines.
   Container: container.py; loading, ordering and injecting, with the binding order as its property.
   Cost_Model, Cost_File, Cost_Service: definition/_cost.py, cost/, services/cost_service.py and the cost
    interceptors.  A cost object is a record; \<open>ledger\<close> is the interface of purchase and refund.  Concurrent
    deductions are the step relation \<open>credit_step\<close> over Redis transactions; a refund of credits reads the balance
    from a pipeline and raises.
   Security_Tokens: services/security_service.py; a token is sealed and unsealed by parameters.
   Auth_Permission: classes/auth_permission.py, decorators/permissions.py, the asset checks, clients, policies
    and the authentication middleware.
   Ressource_Pipeline: definition/_ressource.py and definition/_utils_decorator.py; endpoints as functions of
    keyword arguments and the state of the rest of the program, decorators as functions on endpoints.
   Handlers: decorators/handlers.py; a handler is the list of its except clauses.
   Request_Guards, Request_Pipes: decorators/guards.py and decorators/pipes.py; a guard returns its verdict, a
    pipe the arguments or the result it hands on, with \<open>PointerIterator\<close> over objects as dictionaries.
   Scheduler_Model: classes/scheduler.py and utils/validation.py; dates with their calendar, ordered as a
    \<open>linorder\<close>, intervals in microseconds, recurrence rules, ports and hosts.
   Url_Model: classes/url.py; filter rules on JSON-LD, ranges with exclusions, generated and compared URLs.
   Event_Streams, Event_Handlers: the consumer of services/database/redis_service.py, depends/lock.py and the
    handlers of callback/.  \<open>stream_step\<close> adds entries or lets the consumer take its turn in any state of the
    database; \<open>batch_handler\<close> is the interface of a handler (it answers with ids of its batch), interpreted on
    four handlers of the program.
   Cache_Model: depends/orm_cache.py, depends/res_cache.py and the operations of Redis and Memcached they use, an
    instance of \<open>kv_store\<close>; a row is stored as its primitive fields or its \<open>to_json\<close>, and rebuilt from them on a hit.
   Env_Selector, Task_Manager, Task_Services: classes/env_selector.py, classes/celery.py,
    manager/task_manager.py, services/worker; \<open>env_selector\<close> is the interface of a strategy, interpreted on
    the four of the program, and the leader election is the step relation \<open>elect\<close>.

   Service_Network: callback/status_sub.py, manager/broker_manager.py and the links of definition/_service.py; a
    change of state is applied to a service and walks over the services that use it.
   Reactive_Streams: classes/stream_data_parser.py, services/reactive_service.py, manager/keep_alive_manager.py
    and classes/broker.py; the wait of a request for its events is the step relation \<open>wait_step\<close>.

   Crawl_Model, Markdown_Slice, Crawl_Ingestion: models/crawal4ai_model.py and ingestion/crawl_ingestion.py; the
    request of a crawl, the slicing of a document of code points, and what is made of each page that was crawled.
   Email_Message, Email_Protocol: classes/mail_provider.py, classes/email.py, the tracker of depends/class_dep.py,
    interface/profile_event.py and services/mini/email/protocol_email_service.py; a message of headers and parts,
    what a server answers as \<open>smtp_outcome\<close>, the loop over the recipients as a fold that may raise.
   Phone_Protocol: services/ntfr/twilio_service.py, interface/twilio.py, models/otp_model.py; the accounts and the
    main one, texts and calls with the requests that reach the API, one-time passwords.
   Contacts: services/contacts_service.py, models/contacts_model.py, ressources/contacts_ressources.py; the tables as
    a record with their constraints, the SQL function that deletes subscriptions with what the database makes of it as a
    parameter, the operations as the step relation \<open>contact_step\<close>, the routes with their guards.
   Links: services/link_service.py, the query of a link in depends/class_dep.py, ressources/link_ressource.py; the
    pattern of a URL as a scan of the text, what a tracked link leads to, and the tasks a request leaves behind.
   Web_Sockets: definition/_ws.py; the check of a client and the loop over what it sends, as a list of events.
   Arq_Jobs: services/worker/arq_service.py and classes/step.py; the search among the jobs of the ingestion, the change
    of their arguments under conflicts (by the attempts left), and the steps of a job with what they do to its state.
   Timers: interface/timers.py; what a scheduled action is called with, and an interval timer as a sequence of starts and
    stops with the tasks it leaves alive.

  Conventions.  Floats are rationals.  A Python int is \<open>int\<close> (or \<open>nat\<close> for counters), never a machine word.  An
  operation that may raise returns \<open>exn + 'a\<close>, or \<open>exn option\<close> with the state the object is left in.  Printing,
  logging and the mocked reports are left out.  Libraries, services, the clock, random numbers and keys are
  parameters; what is relied on is a hypothesis of the theorem that needs it.  Definitions follow the code also
  where it fails: many theorems state what the code does where it does not do what it means to.

  Termination and fuel.  Retry loops recurse on the attempts left (Cost_Service).  The building of the
  container shrinks the set of classes left, and fails when it cannot; the loop of the task manager counts
  the environments still to be tried (\<open>offload_rank\<close>, at most three); \<open>retry_from\<close> counts the attempts left.  All
  are total functions, so what they return is proved without fuel.  The loop of the stream consumer never
  ends: it is the step relation, and its properties are about every reachable state.  The walk over dependent
  services recurses as deep as Python lets it: the limit is \<open>sy_limit\<close>, running into it is the error
  RecursionError, and a limit above the length of the longest chain of users is proved to be enough.

  Not modelled: the ressources and routers, the ORM models (their columns are records where they are used),
  the connections of databases, vault, object store and message brokers, the model providers and agents,
  the jobs of the ingestion (data_ingest_tasks.py does not compile), templates,
  OAuth, the balancer and the dashboard, and
  the start-up scripts.
\<close>

end
